(* ===== verification/Prelude.thy ===== *)
theory Prelude
  imports Main "HOL-Library.Sublist" "HOL-Library.List_Lexorder" "HOL-Library.Char_ord"
begin

text \<open>
  What every component shares: the representation of Python's \<open>bytes\<close> and \<open>str\<close>, the
  fact collections of the development and generic lemmas on lists.
  \<^item> \<open>bytes\<close> is a \<open>char list\<close>: HOL's \<open>char\<close> is exactly an 8-bit byte, so a literal
    such as \<open>''.git''\<close> is Python's \<open>b".git"\<close>; the lexicographic order of
    \<open>List_Lexorder\<close> over \<open>Char_ord\<close> is Python's order on \<open>bytes\<close>.
  \<^item> \<open>ustr\<close> is the list of the code points of a Python \<open>str\<close> (lone surrogates included);
    its lexicographic order is Python's order on \<open>str\<close>. \<open>U ''abc''\<close> is the \<open>str\<close>
    literal \<open>"abc"\<close>.
\<close>

type_synonym bytes = "char list"
type_synonym ustr = "nat list"

named_theorems canon_simps \<open>canonical encodings\<close>
named_theorems path_simps \<open>subject paths and their components\<close>
named_theorems result_simps \<open>results that may raise\<close>

abbreviation ord :: "char \<Rightarrow> nat" where
  "ord c \<equiv> of_char c"

lemma ord_less [simp]: "ord c < 256"
  by (metis of_char_mod_256 mod_less_divisor zero_less_numeral)

definition U :: "string \<Rightarrow> ustr" where
  "U s = map of_char s"

lemma U_inject [simp]: "U x = U y \<longleftrightarrow> x = y"
  by (simp add: U_def inj_map_eq_map inj_on_def)

lemma length_U [simp]: "length (U s) = length s"
  by (simp add: U_def)

lemma U_Nil [simp]: "U [] = []"
  by (simp add: U_def)

lemma U_eq_Nil [simp]: "U s = [] \<longleftrightarrow> s = []"
  by (simp add: U_def)

lemma U_Cons: "U (c # s) = of_char c # U s"
  by (simp add: U_def)

lemma U_append: "U (s @ t) = U s @ U t"
  by (simp add: U_def)

lemma set_U_less: "x \<in> set (U s) \<Longrightarrow> x < 256"
  by (auto simp: U_def)

section \<open>Searching, splitting and joining\<close>

text \<open>Python's \<open>p in s\<close> on byte strings and strings.\<close>

fun contains :: "'a list \<Rightarrow> 'a list \<Rightarrow> bool" where
  "contains p [] = (p = [])"
| "contains p (x # xs) = (prefix p (x # xs) \<or> contains p xs)"

lemma contains_iff_sublist: "contains p s \<longleftrightarrow> sublist p s"
  by (induction p s rule: contains.induct) (auto simp: sublist_Cons_right)

lemma contains_append: "contains p s \<longleftrightarrow> (\<exists>a b. s = a @ p @ b)"
  by (simp add: contains_iff_sublist sublist_def)

lemma contains_map: "contains p s \<Longrightarrow> contains (map f p) (map f s)"
  by (simp add: contains_iff_sublist map_mono_sublist)

text \<open>\<open>s.split(sep)\<close> for a one-byte separator, and \<open>sep.join(parts)\<close>.\<close>

fun split_on :: "'a \<Rightarrow> 'a list \<Rightarrow> 'a list list" where
  "split_on c [] = [[]]"
| "split_on c (x # xs) =
     (if x = c then [] # split_on c xs
      else (case split_on c xs of [] \<Rightarrow> [[x]] | w # ws \<Rightarrow> (x # w) # ws))"

fun join_with :: "'a list \<Rightarrow> 'a list list \<Rightarrow> 'a list" where
  "join_with sep [] = []"
| "join_with sep [w] = w"
| "join_with sep (w # v # ws) = w @ sep @ join_with sep (v # ws)"

lemma split_on_not_Nil [simp]: "split_on c s \<noteq> []"
  by (induction c s rule: split_on.induct) (auto split: list.splits)

lemma join_split_on [path_simps]: "join_with [c] (split_on c s) = s"
proof (induction c s rule: split_on.induct)
  case (2 c x xs)
  then show ?case
    by (cases "split_on c xs") (auto, metis join_with.simps append_Cons list.exhaust)
qed simp

lemma split_on_inject: "split_on c s = split_on c t \<longleftrightarrow> s = t"
  by (metis join_split_on)

lemma split_on_no_sep: "w \<in> set (split_on c s) \<Longrightarrow> c \<notin> set w"
  by (induction c s arbitrary: w rule: split_on.induct) (auto split: list.splits if_splits)

lemma split_on_append: "c \<notin> set w \<Longrightarrow> split_on c (w @ c # s) = w # split_on c s"
  by (induction w) auto

lemma split_on_single: "c \<notin> set w \<Longrightarrow> split_on c w = [w]"
  by (induction w) auto

lemma split_join [path_simps]:
  "ws \<noteq> [] \<Longrightarrow> \<forall>w \<in> set ws. c \<notin> set w \<Longrightarrow> split_on c (join_with [c] ws) = ws"
  by (induction "[c]" ws rule: join_with.induct) (auto simp: split_on_single split_on_append)

lemma split_on_suffix: "split_on c (a @ c # w) = split_on c a @ split_on c w"
  by (induction a) (auto split: list.splits)

text \<open>The part between two separators, or between one and an end, is a component.\<close>

lemma split_on_mid:
  assumes "c \<notin> set w"
  shows "w \<in> set (split_on c (a @ c # w @ c # b))" and "w \<in> set (split_on c (a @ c # w))"
    and "w \<in> set (split_on c (w @ c # b))"
  using assms by (auto simp: split_on_suffix split_on_append split_on_single)

lemma join_with_append:
  "xs \<noteq> [] \<Longrightarrow> ys \<noteq> [] \<Longrightarrow> join_with sep (xs @ ys) = join_with sep xs @ sep @ join_with sep ys"
proof (induction sep xs rule: join_with.induct)
  case (2 sep w)
  then show ?case by (cases ys) auto
qed auto

lemma join_with_middle:
  "join_with sep (xs @ w # ys) = (if xs = [] then [] else join_with sep xs @ sep) @ w @
     (if ys = [] then [] else sep @ join_with sep ys)"
  using join_with_append [of "[w]" ys sep] join_with_append [of xs "w # ys" sep]
  by (cases ys) auto

section \<open>Association lists, sorting and duplicates\<close>

text \<open>\<open>dict.fromkeys(xs)\<close> as a list: the elements in order of first occurrence.\<close>

definition dedup :: "'a list \<Rightarrow> 'a list" where
  "dedup xs = rev (remdups (rev xs))"

lemma set_dedup [simp]: "set (dedup xs) = set xs"
  by (simp add: dedup_def)

lemma distinct_dedup [simp]: "distinct (dedup xs)"
  by (simp add: dedup_def)

lemma sorted_wrt_less_distinct: "sorted_wrt (<) (xs :: 'a :: linorder list) \<longleftrightarrow> sorted xs \<and> distinct xs"
  by (simp add: strict_sorted_iff)

lemma sort_key_id_if_sorted: "sorted (map f xs) \<Longrightarrow> sort_key f xs = xs"
  by (induction xs) (auto simp: insort_is_Cons)

lemma sorted_map_filter: "sorted (map f xs) \<Longrightarrow> sorted (map f (filter P xs))"
  by (simp add: sorted_filter)

lemma map_of_distinct_eqI:
  assumes "distinct (map f xs)" and "x \<in> set xs"
  shows "map_of (map (\<lambda>e. (f e, e)) xs) (f x) = Some x"
  using assms by (intro map_of_is_SomeI) (auto simp: o_def)

lemma map_of_key_SomeD: "map_of (map (\<lambda>e. (f e, e)) xs) k = Some x \<Longrightarrow> x \<in> set xs \<and> f x = k"
  by (induction xs) (auto split: if_splits)

lemma map_of_key_None: "map_of (map (\<lambda>e. (f e, e)) xs) k = None \<longleftrightarrow> k \<notin> f ` set xs"
  by (induction xs) auto

section \<open>Prefix codes\<close>

text \<open>
  An encoding whose code words can be read off the front of any text: a sequence of code words
  then determines the sequence of values. The display form of a path and the length-prefixed
  encoding of a manifest are of this kind.
\<close>

locale prefix_code =
  fixes enc :: "'a \<Rightarrow> 'c list" and ok :: "'a \<Rightarrow> bool"
  assumes enc_split: "ok a \<Longrightarrow> ok b \<Longrightarrow> enc a @ s = enc b @ t \<Longrightarrow> a = b \<and> s = t"
    and enc_not_Nil: "ok a \<Longrightarrow> enc a \<noteq> []"
begin

lemma enc_inject: "ok a \<Longrightarrow> ok b \<Longrightarrow> enc a = enc b \<longleftrightarrow> a = b"
  using enc_split [of a b "[]" "[]"] by auto

lemma concat_enc_inject:
  assumes "list_all ok xs" and "list_all ok ys" and "concat (map enc xs) = concat (map enc ys)"
  shows "xs = ys"
  using assms
proof (induction xs arbitrary: ys)
  case Nil
  then show ?case by (cases ys) (auto simp: enc_not_Nil)
next
  case (Cons x xs)
  then obtain y zs where ys: "ys = y # zs" by (cases ys) (auto simp: enc_not_Nil)
  have "x = y \<and> concat (map enc xs) = concat (map enc zs)"
    using Cons.prems by (intro enc_split) (auto simp: ys)
  then show ?case using Cons ys by auto
qed

lemma concat_enc_iff:
  "list_all ok xs \<Longrightarrow> list_all ok ys \<Longrightarrow> concat (map enc xs) = concat (map enc ys) \<longleftrightarrow> xs = ys"
  using concat_enc_inject by auto

end

end
