(* ===== verification/Errors.thy ===== *)
theory Errors
  imports Prelude
begin

text \<open>
  \<open>src/src/agent_loop/errors.py\<close>: the exit codes, the stop reasons with their external
  names, the table from reasons to exit codes, and the exceptions of the program. An operation
  that can raise returns \<open>exn + 'a\<close>: \<open>Inl\<close> is the exception.
\<close>

datatype exit_code =
  SUCCESS | ROUND_CAP | EXIT_STALLED | TIMEOUT | INTERRUPTED | INVALID_CRITIC
| EXIT_CRITIC_BLOCKED | PROCESS_FAILURE | INTEGRITY_FAILURE | INTERNAL_ERROR

fun exit_code_value :: "exit_code \<Rightarrow> int" where
  "exit_code_value SUCCESS = 0"
| "exit_code_value ROUND_CAP = 10"
| "exit_code_value EXIT_STALLED = 11"
| "exit_code_value TIMEOUT = 12"
| "exit_code_value INTERRUPTED = 13"
| "exit_code_value INVALID_CRITIC = 14"
| "exit_code_value EXIT_CRITIC_BLOCKED = 15"
| "exit_code_value PROCESS_FAILURE = 16"
| "exit_code_value INTEGRITY_FAILURE = 17"
| "exit_code_value INTERNAL_ERROR = 18"

datatype stop_reason =
  CONVERGED | ROUND_CAP_REACHED | STALLED | AUTHOR_TIMEOUT | CRITIC_TIMEOUT
| VALIDATION_TIMEOUT | WALL_CLOCK_DEADLINE_EXCEEDED | USER_INTERRUPT
| INVALID_STRUCTURED_OUTPUT | CRITIC_LGTM_WITH_FAILED_VALIDATION | CRITIC_BLOCKED
| AUTHOR_PROCESS_FAILURE | CRITIC_PROCESS_FAILURE | VALIDATION_PROCESS_FAILURE
| CRITIC_MAX_TURNS_EXHAUSTED | AGENT_OUTPUT_LIMIT | STRUCTURED_OUTPUT_RETRIES
| REVIEW_BUNDLE_TOO_LARGE | REVIEW_CONTENT_WITHHELD | REVIEW_EVIDENCE_WITHHELD
| UNSAFE_OR_AMBIGUOUS_PATH | UNSAFE_FILE_TYPE_OR_HARD_LINK
| PROTECTED_SUBJECT_PATH_CHANGED | VALIDATION_MUTATED_SUBJECT | OUT_OF_BAND_CHANGE
| SANDBOX_SETUP_FAILURE | BASELINE_INFRASTRUCTURE_FAILURE | GIT_POLICY_OR_OUTPUT_FAILURE
| AUTHOR_SERVICE_NOT_EMPTY | BWRAP_PACKAGE_OR_MODE_UNSAFE | REPOSITORY_SHAPE_UNSUPPORTED
| PROJECT_INSTRUCTION_ISOLATION | GITLESS_INVOCATION_PROBE_FAILED
| CREDENTIAL_STATE_CONFLICT | CREDENTIAL_REFRESH_FAILURE | DIAGNOSTIC_PATCH_FAILURE
| SERVICE_LIFECYCLE_MISMATCH | RUNNER_INTERNAL_ERROR

fun reason_value :: "stop_reason \<Rightarrow> string" where
  "reason_value CONVERGED = ''converged''"
| "reason_value ROUND_CAP_REACHED = ''round_cap_reached''"
| "reason_value STALLED = ''stalled''"
| "reason_value AUTHOR_TIMEOUT = ''author_timeout''"
| "reason_value CRITIC_TIMEOUT = ''critic_timeout''"
| "reason_value VALIDATION_TIMEOUT = ''validation_timeout''"
| "reason_value WALL_CLOCK_DEADLINE_EXCEEDED = ''wall_clock_deadline_exceeded''"
| "reason_value USER_INTERRUPT = ''user_interrupt''"
| "reason_value INVALID_STRUCTURED_OUTPUT = ''invalid_structured_output''"
| "reason_value CRITIC_LGTM_WITH_FAILED_VALIDATION = ''critic_lgtm_with_failed_validation''"
| "reason_value CRITIC_BLOCKED = ''critic_blocked''"
| "reason_value AUTHOR_PROCESS_FAILURE = ''author_process_failure''"
| "reason_value CRITIC_PROCESS_FAILURE = ''critic_process_failure''"
| "reason_value VALIDATION_PROCESS_FAILURE = ''validation_process_failure''"
| "reason_value CRITIC_MAX_TURNS_EXHAUSTED = ''critic_max_turns_exhausted''"
| "reason_value AGENT_OUTPUT_LIMIT = ''agent_output_limit''"
| "reason_value STRUCTURED_OUTPUT_RETRIES = ''structured_output_retries''"
| "reason_value REVIEW_BUNDLE_TOO_LARGE = ''review_bundle_too_large''"
| "reason_value REVIEW_CONTENT_WITHHELD = ''review_content_withheld''"
| "reason_value REVIEW_EVIDENCE_WITHHELD = ''review_evidence_withheld''"
| "reason_value UNSAFE_OR_AMBIGUOUS_PATH = ''unsafe_or_ambiguous_path''"
| "reason_value UNSAFE_FILE_TYPE_OR_HARD_LINK = ''unsafe_file_type_or_hard_link''"
| "reason_value PROTECTED_SUBJECT_PATH_CHANGED = ''protected_subject_path_changed''"
| "reason_value VALIDATION_MUTATED_SUBJECT = ''validation_mutated_subject''"
| "reason_value OUT_OF_BAND_CHANGE = ''out_of_band_change''"
| "reason_value SANDBOX_SETUP_FAILURE = ''sandbox_setup_failure''"
| "reason_value BASELINE_INFRASTRUCTURE_FAILURE = ''baseline_infrastructure_failure''"
| "reason_value GIT_POLICY_OR_OUTPUT_FAILURE = ''git_policy_or_output_failure''"
| "reason_value AUTHOR_SERVICE_NOT_EMPTY = ''author_service_not_empty''"
| "reason_value BWRAP_PACKAGE_OR_MODE_UNSAFE = ''bwrap_package_or_mode_unsafe''"
| "reason_value REPOSITORY_SHAPE_UNSUPPORTED = ''repository_shape_unsupported''"
| "reason_value PROJECT_INSTRUCTION_ISOLATION = ''project_instruction_isolation''"
| "reason_value GITLESS_INVOCATION_PROBE_FAILED = ''gitless_invocation_probe_failed''"
| "reason_value CREDENTIAL_STATE_CONFLICT = ''credential_state_conflict''"
| "reason_value CREDENTIAL_REFRESH_FAILURE = ''credential_refresh_failure''"
| "reason_value DIAGNOSTIC_PATCH_FAILURE = ''diagnostic_patch_failure''"
| "reason_value SERVICE_LIFECYCLE_MISMATCH = ''service_lifecycle_mismatch''"
| "reason_value RUNNER_INTERNAL_ERROR = ''runner_internal_error''"

fun exit_code_for :: "stop_reason \<Rightarrow> exit_code" where
  "exit_code_for CONVERGED = SUCCESS"
| "exit_code_for ROUND_CAP_REACHED = ROUND_CAP"
| "exit_code_for STALLED = EXIT_STALLED"
| "exit_code_for AUTHOR_TIMEOUT = TIMEOUT"
| "exit_code_for CRITIC_TIMEOUT = TIMEOUT"
| "exit_code_for VALIDATION_TIMEOUT = TIMEOUT"
| "exit_code_for WALL_CLOCK_DEADLINE_EXCEEDED = TIMEOUT"
| "exit_code_for USER_INTERRUPT = INTERRUPTED"
| "exit_code_for INVALID_STRUCTURED_OUTPUT = INVALID_CRITIC"
| "exit_code_for CRITIC_LGTM_WITH_FAILED_VALIDATION = INVALID_CRITIC"
| "exit_code_for CRITIC_BLOCKED = EXIT_CRITIC_BLOCKED"
| "exit_code_for AUTHOR_PROCESS_FAILURE = PROCESS_FAILURE"
| "exit_code_for CRITIC_PROCESS_FAILURE = PROCESS_FAILURE"
| "exit_code_for VALIDATION_PROCESS_FAILURE = PROCESS_FAILURE"
| "exit_code_for CRITIC_MAX_TURNS_EXHAUSTED = PROCESS_FAILURE"
| "exit_code_for AGENT_OUTPUT_LIMIT = PROCESS_FAILURE"
| "exit_code_for STRUCTURED_OUTPUT_RETRIES = PROCESS_FAILURE"
| "exit_code_for REVIEW_BUNDLE_TOO_LARGE = INTEGRITY_FAILURE"
| "exit_code_for REVIEW_CONTENT_WITHHELD = INTEGRITY_FAILURE"
| "exit_code_for REVIEW_EVIDENCE_WITHHELD = INTEGRITY_FAILURE"
| "exit_code_for UNSAFE_OR_AMBIGUOUS_PATH = INTEGRITY_FAILURE"
| "exit_code_for UNSAFE_FILE_TYPE_OR_HARD_LINK = INTEGRITY_FAILURE"
| "exit_code_for PROTECTED_SUBJECT_PATH_CHANGED = INTEGRITY_FAILURE"
| "exit_code_for VALIDATION_MUTATED_SUBJECT = INTEGRITY_FAILURE"
| "exit_code_for OUT_OF_BAND_CHANGE = INTEGRITY_FAILURE"
| "exit_code_for SANDBOX_SETUP_FAILURE = INTEGRITY_FAILURE"
| "exit_code_for BASELINE_INFRASTRUCTURE_FAILURE = INTEGRITY_FAILURE"
| "exit_code_for GIT_POLICY_OR_OUTPUT_FAILURE = INTEGRITY_FAILURE"
| "exit_code_for AUTHOR_SERVICE_NOT_EMPTY = INTEGRITY_FAILURE"
| "exit_code_for BWRAP_PACKAGE_OR_MODE_UNSAFE = INTEGRITY_FAILURE"
| "exit_code_for REPOSITORY_SHAPE_UNSUPPORTED = INTEGRITY_FAILURE"
| "exit_code_for PROJECT_INSTRUCTION_ISOLATION = INTEGRITY_FAILURE"
| "exit_code_for GITLESS_INVOCATION_PROBE_FAILED = INTEGRITY_FAILURE"
| "exit_code_for CREDENTIAL_STATE_CONFLICT = INTEGRITY_FAILURE"
| "exit_code_for CREDENTIAL_REFRESH_FAILURE = INTEGRITY_FAILURE"
| "exit_code_for DIAGNOSTIC_PATCH_FAILURE = INTEGRITY_FAILURE"
| "exit_code_for SERVICE_LIFECYCLE_MISMATCH = INTEGRITY_FAILURE"
| "exit_code_for RUNNER_INTERNAL_ERROR = INTERNAL_ERROR"

text \<open>
  The exceptions that the modelled code raises or catches. \<open>AgentLoopError\<close> carries its stop
  reason and its detail; the built-in exceptions carry their message.
\<close>

datatype exn =
  AgentLoopError stop_reason ustr
| ValueError ustr
| TypeError ustr
| KeyError ustr
| OSError ustr
| RuntimeError ustr
| AssertionError ustr
| UnicodeEncodeError
| KeyboardInterrupt
| OverflowError ustr

definition fail :: "stop_reason \<Rightarrow> string \<Rightarrow> exn" where
  "fail r detail = AgentLoopError r (U detail)"

text \<open>The property \<open>AgentLoopError.exit_code\<close> and \<open>AgentLoopError.__str__\<close>.\<close>

definition error_exit_code :: "stop_reason \<Rightarrow> ustr \<Rightarrow> exit_code" where
  "error_exit_code r detail = exit_code_for r"

definition error_str :: "stop_reason \<Rightarrow> ustr \<Rightarrow> ustr" where
  "error_str r detail = U (reason_value r) @ U '': '' @ detail"

text \<open>\<open>type(exc).__name__\<close> and \<open>str(exc)\<close>.\<close>

fun exn_name :: "exn \<Rightarrow> string" where
  "exn_name (AgentLoopError r d) = ''AgentLoopError''"
| "exn_name (ValueError m) = ''ValueError''"
| "exn_name (TypeError m) = ''TypeError''"
| "exn_name (KeyError m) = ''KeyError''"
| "exn_name (OSError m) = ''OSError''"
| "exn_name (RuntimeError m) = ''RuntimeError''"
| "exn_name (AssertionError m) = ''AssertionError''"
| "exn_name UnicodeEncodeError = ''UnicodeEncodeError''"
| "exn_name KeyboardInterrupt = ''KeyboardInterrupt''"
| "exn_name (OverflowError m) = ''OverflowError''"

section \<open>Results that may raise\<close>

definition rbind :: "exn + 'a \<Rightarrow> ('a \<Rightarrow> exn + 'b) \<Rightarrow> exn + 'b" where
  "rbind m f = (case m of Inl e \<Rightarrow> Inl e | Inr x \<Rightarrow> f x)"

text \<open>\<open>[f(x) for x in xs]\<close> where \<open>f\<close> may raise.\<close>

fun rmap :: "('a \<Rightarrow> exn + 'b) \<Rightarrow> 'a list \<Rightarrow> exn + 'b list" where
  "rmap f [] = Inr []"
| "rmap f (x # xs) = rbind (f x) (\<lambda>y. rbind (rmap f xs) (\<lambda>ys. Inr (y # ys)))"

lemma rbind_simps [simp, result_simps]:
  "rbind (Inl e) f = Inl e"
  "rbind (Inr x) f = f x"
  by (simp_all add: rbind_def)

lemma rbind_Inr_iff: "rbind m f = Inr y \<longleftrightarrow> (\<exists>x. m = Inr x \<and> f x = Inr y)"
  by (auto simp: rbind_def split: sum.splits)

lemma rbind_Inl_iff: "rbind m f = Inl e \<longleftrightarrow> m = Inl e \<or> (\<exists>x. m = Inr x \<and> f x = Inl e)"
  by (auto simp: rbind_def split: sum.splits)

lemma rmap_Inr_iff: "rmap f xs = Inr ys \<longleftrightarrow> list_all2 (\<lambda>x y. f x = Inr y) xs ys"
proof (induction xs arbitrary: ys)
  case (Cons x xs)
  then show ?case by (cases ys) (auto simp: rbind_Inr_iff)
qed auto

lemma rmap_Inr_map: "(\<And>x. x \<in> set xs \<Longrightarrow> f x = Inr (g x)) \<Longrightarrow> rmap f xs = Inr (map g xs)"
  by (induction xs) auto

lemma rmap_Inl_ex: "rmap f xs = Inl e \<Longrightarrow> \<exists>x \<in> set xs. f x = Inl e"
  by (induction xs) (auto simp: rbind_Inl_iff)

section \<open>The public exit contract\<close>

lemma exit_code_value_inject: "exit_code_value a = exit_code_value b \<longleftrightarrow> a = b"
  by (cases a; cases b) simp_all

lemma exit_code_for_SUCCESS_iff: "exit_code_for r = SUCCESS \<longleftrightarrow> r = CONVERGED"
  by (cases r) simp_all

lemma reason_value_not_Nil: "reason_value r \<noteq> []"
  by (cases r) simp_all

end
