(* ===== verification/PyText.thy ===== *)
theory PyText
  imports Errors
begin

text \<open>
  The operations of Python's \<open>str\<close> and \<open>bytes\<close> that the program uses: decimal, octal and
  hexadecimal text, UTF-8, ASCII case folding, whitespace and base64, each with the round trip
  the canonical formats rely on. \<open>repr_str\<close> is Python's \<open>repr\<close> of a string: exact on ASCII;
  code points above 127 are rendered as they are (Python escapes the unprintable ones).
\<close>

section \<open>Digits\<close>

definition digit :: "nat \<Rightarrow> char" where
  "digit d = char_of (if d < 10 then 48 + d else 87 + d)"

definition is_dec_digit :: "nat \<Rightarrow> bool" where
  "is_dec_digit c \<longleftrightarrow> 48 \<le> c \<and> c \<le> 57"

definition hex_value :: "nat \<Rightarrow> nat option" where
  "hex_value c =
     (if 48 \<le> c \<and> c \<le> 57 then Some (c - 48)
      else if 97 \<le> c \<and> c \<le> 102 then Some (c - 87)
      else if 65 \<le> c \<and> c \<le> 70 then Some (c - 55)
      else None)"

lemma of_char_digit: "d < 36 \<Longrightarrow> of_char (digit d) = (if d < 10 then 48 + d else 87 + d)"
  by (simp add: digit_def)

lemma hex_value_digit [simp]: "d < 16 \<Longrightarrow> hex_value (of_char (digit d)) = Some d"
  by (auto simp: of_char_digit hex_value_def)

text \<open>The digits of a number in a base, most significant first; \<open>str(n)\<close> for \<open>base = 10\<close>.\<close>

function digits_of :: "nat \<Rightarrow> nat \<Rightarrow> nat list" where
  "digits_of b n = (if n < b \<or> b < 2 then [n] else digits_of b (n div b) @ [n mod b])"
  by pat_completeness auto
termination
  by (relation "measure snd") auto

declare digits_of.simps [simp del]

fun value_of :: "nat \<Rightarrow> nat list \<Rightarrow> nat" where
  "value_of b [] = 0"
| "value_of b (d # ds) = d * b ^ length ds + value_of b ds"

lemma value_of_append: "value_of b (xs @ ys) = value_of b xs * b ^ length ys + value_of b ys"
  by (induction xs) (auto simp: algebra_simps power_add)

lemma digits_of_less: "2 \<le> b \<Longrightarrow> d \<in> set (digits_of b n) \<Longrightarrow> d < b"
proof (induction b n arbitrary: d rule: digits_of.induct)
  case (1 b n)
  then show ?case by (cases "n < b") (auto simp: digits_of.simps [of b n])
qed

lemma value_digits_of: "2 \<le> b \<Longrightarrow> value_of b (digits_of b n) = n"
proof (induction b n rule: digits_of.induct)
  case (1 b n)
  show ?case
  proof (cases "n < b")
    case True
    then show ?thesis by (simp add: digits_of.simps [of b n])
  next
    case False
    with 1 show ?thesis by (simp add: digits_of.simps [of b n] value_of_append)
  qed
qed

lemma digits_of_not_Nil [simp]: "digits_of b n \<noteq> []"
  by (subst digits_of.simps) simp

lemma hd_digits_of: "2 \<le> b \<Longrightarrow> hd (digits_of b n) = 0 \<Longrightarrow> n = 0"
proof (induction b n rule: digits_of.induct)
  case (1 b n)
  show ?case
  proof (cases "n < b")
    case True
    with 1 show ?thesis by (simp add: digits_of.simps [of b n])
  next
    case False
    with 1 have "n div b = 0" by (simp add: digits_of.simps [of b n])
    with False 1 show ?thesis by (simp add: div_eq_0_iff)
  qed
qed

lemma digits_of_inject: "2 \<le> b \<Longrightarrow> digits_of b m = digits_of b n \<longleftrightarrow> m = n"
  by (metis value_digits_of)

definition dec_nat :: "nat \<Rightarrow> bytes" where
  "dec_nat n = map digit (digits_of 10 n)"

text \<open>\<open>str(i)\<close> of an integer.\<close>

definition dec_int :: "int \<Rightarrow> bytes" where
  "dec_int i = (if i < 0 then ''-'' @ dec_nat (nat (- i)) else dec_nat (nat i))"

lemma inj_on_digit: "inj_on digit {d. d < 36}"
proof (rule inj_onI)
  fix x y :: nat
  assume "x \<in> {d. d < 36}" and "y \<in> {d. d < 36}" and "digit x = digit y"
  then have "(if x < 10 then 48 + x else 87 + x) = (if y < 10 then 48 + y else 87 + y)"
    using of_char_digit [of x] of_char_digit [of y] by simp
  with \<open>x \<in> _\<close> \<open>y \<in> _\<close> show "x = y" by (auto split: if_splits)
qed

lemma dec_nat_inject [simp]: "dec_nat m = dec_nat n \<longleftrightarrow> m = n"
proof
  assume "dec_nat m = dec_nat n"
  moreover have "set (digits_of 10 m) \<union> set (digits_of 10 n) \<subseteq> {d. d < 36}"
    using digits_of_less [of 10] by fastforce
  ultimately have "digits_of 10 m = digits_of 10 n"
    unfolding dec_nat_def by (metis inj_on_digit inj_on_map_eq_map inj_on_subset)
  then show "m = n" by (simp add: digits_of_inject)
qed simp

lemma dec_nat_digits:
  assumes "c \<in> set (dec_nat n)"
  shows "is_dec_digit (of_char c)"
proof -
  from assms obtain d where "d \<in> set (digits_of 10 n)" and c: "c = digit d"
    by (auto simp: dec_nat_def)
  then have "d < 10" using digits_of_less [of 10 d n] by simp
  then show ?thesis by (simp add: c of_char_digit is_dec_digit_def)
qed

lemma dec_nat_not_Nil [simp]: "dec_nat n \<noteq> []"
  by (simp add: dec_nat_def)

lemma dec_int_inject [simp]: "dec_int i = dec_int j \<longleftrightarrow> i = j"
proof -
  have "hd (dec_nat n) \<noteq> CHR ''-''" for n
    using dec_nat_digits [of "hd (dec_nat n)" n] by (auto simp: is_dec_digit_def)
  then have "''-'' @ dec_nat n \<noteq> dec_nat m" for m n
    by (metis append_Cons list.sel(1))
  from this [symmetric] this show ?thesis
    by (auto simp: dec_int_def)
qed

section \<open>Hexadecimal text and the six-digit octal mode\<close>

definition hex_bytes :: "bytes \<Rightarrow> bytes" where
  "hex_bytes bs = concat (map (\<lambda>c. [digit (of_char c div 16), digit (of_char c mod 16)]) bs)"

lemma length_hex_bytes [simp]: "length (hex_bytes bs) = 2 * length bs"
  by (induction bs) (auto simp: hex_bytes_def)

lemma hex_bytes_Cons:
  "hex_bytes (c # bs) = digit (of_char c div 16) # digit (of_char c mod 16) # hex_bytes bs"
  by (simp add: hex_bytes_def)

lemma hex_bytes_Nil [simp]: "hex_bytes [] = []"
  by (simp add: hex_bytes_def)

text \<open>\<open>bytes.fromhex\<close> on pairs of hexadecimal digits.\<close>

fun from_hex :: "bytes \<Rightarrow> bytes option" where
  "from_hex [] = Some []"
| "from_hex [c] = None"
| "from_hex (c # d # s) =
     (case (hex_value (of_char c), hex_value (of_char d), from_hex s) of
        (Some x, Some y, Some bs) \<Rightarrow> Some (char_of (16 * x + y) # bs)
      | _ \<Rightarrow> None)"

lemma char_div_mod_16 [simp]: "ord c div 16 < 16" "ord c mod 16 < 16"
  by (simp_all add: div_less_iff_less_mult)

lemma from_hex_bytes [simp]: "from_hex (hex_bytes bs) = Some bs"
proof (induction bs)
  case (Cons c bs)
  have "16 * (of_char c div 16) + of_char c mod 16 = ord c" by simp
  with Cons show ?case by (simp add: hex_bytes_Cons char_div_mod_16)
qed simp

lemma hex_bytes_inject [simp]: "hex_bytes x = hex_bytes y \<longleftrightarrow> x = y"
  by (metis from_hex_bytes option.inject)

definition is_hex_lower :: "nat \<Rightarrow> bool" where
  "is_hex_lower c \<longleftrightarrow> (48 \<le> c \<and> c \<le> 57) \<or> (97 \<le> c \<and> c \<le> 102)"

lemma is_hex_lower_digit: "d < 16 \<Longrightarrow> is_hex_lower (ord (digit d))"
  by (auto simp: of_char_digit is_hex_lower_def)

lemma hex_bytes_lower: "c \<in> set (hex_bytes bs) \<Longrightarrow> is_hex_lower (ord c)"
  by (induction bs) (auto simp: hex_bytes_Cons is_hex_lower_digit)

text \<open>\<open>f"{mode:06o}"\<close>.\<close>

definition oct6 :: "int \<Rightarrow> bytes" where
  "oct6 m =
     (let ds = map digit (digits_of 8 (nat \<bar>m\<bar>))
      in if m < 0 then CHR ''-'' # replicate (5 - length ds) CHR ''0'' @ ds
         else replicate (6 - length ds) CHR ''0'' @ ds)"

section \<open>Whitespace and case\<close>

text \<open>The code points that \<open>str.strip\<close> removes, and those that \<open>bytes.split\<close> splits on.\<close>

definition is_space :: "nat \<Rightarrow> bool" where
  "is_space c \<longleftrightarrow> (9 \<le> c \<and> c \<le> 13) \<or> (28 \<le> c \<and> c \<le> 32) \<or> c = 133 \<or> c = 160 \<or> c = 5760
     \<or> (8192 \<le> c \<and> c \<le> 8202) \<or> c = 8232 \<or> c = 8233 \<or> c = 8239 \<or> c = 8287 \<or> c = 12288"

definition strip :: "ustr \<Rightarrow> ustr" where
  "strip s = rev (dropWhile is_space (rev (dropWhile is_space s)))"

definition is_ws_byte :: "char \<Rightarrow> bool" where
  "is_ws_byte c \<longleftrightarrow> (9 \<le> ord c \<and> ord c \<le> 13) \<or> ord c = 32"

text \<open>\<open>s.split()\<close> on bytes: the maximal runs of non-whitespace.\<close>

fun split_ws :: "bytes \<Rightarrow> bytes list" where
  "split_ws [] = []"
| "split_ws (c # s) =
     (if is_ws_byte c then split_ws s
      else (case s of
              [] \<Rightarrow> [[c]]
            | d # _ \<Rightarrow> if is_ws_byte d then [c] # split_ws s
                      else (case split_ws s of [] \<Rightarrow> [[c]] | w # ws \<Rightarrow> (c # w) # ws)))"

text \<open>\<open>b"".join(s.split())\<close>.\<close>

definition compact :: "bytes \<Rightarrow> bytes" where
  "compact s = concat (split_ws s)"

lemma split_ws_concat: "concat (split_ws s) = filter (\<lambda>c. \<not> is_ws_byte c) s"
proof (induction s)
  case (Cons c s)
  show ?case
  proof (cases s)
    case (Cons d s')
    show ?thesis
      using Cons.IH Cons
      by (cases "split_ws s") (auto simp del: split_ws.simps(2) simp: split_ws.simps(2) [of c "d # s'"])
  qed simp
qed simp

lemma compact_filter: "compact s = filter (\<lambda>c. \<not> is_ws_byte c) s"
  by (simp add: compact_def split_ws_concat)

definition lower_byte :: "char \<Rightarrow> char" where
  "lower_byte c = (if 65 \<le> ord c \<and> ord c \<le> 90
     then char_of (ord c + 32) else c)"

definition upper_byte :: "char \<Rightarrow> char" where
  "upper_byte c = (if 97 \<le> ord c \<and> ord c \<le> 122
     then char_of (ord c - 32) else c)"

definition lower :: "bytes \<Rightarrow> bytes" where
  "lower s = map lower_byte s"

definition upper :: "bytes \<Rightarrow> bytes" where
  "upper s = map upper_byte s"

lemma contains_filter: "contains p s \<Longrightarrow> contains (filter P p) (filter P s)"
  by (auto simp: contains_append) blast

lemma contains_lower: "contains p s \<Longrightarrow> contains (lower p) (lower s)"
  by (simp add: lower_def contains_map)

lemma contains_compact: "contains p s \<Longrightarrow> contains (compact p) (compact s)"
  by (simp add: compact_filter contains_filter)

text \<open>\<open>int(s, 8)\<close>: surrounding whitespace, a sign, the prefix \<open>0o\<close> and single underscores
  between digits are accepted, as Python does (for ASCII digits); None is ValueError.\<close>

definition oct_digits :: "ustr \<Rightarrow> nat option" where
  "oct_digits s =
     (let ws = split_on 95 s
      in if list_all (\<lambda>w. w \<noteq> [] \<and> list_all (\<lambda>c. 48 \<le> c \<and> c \<le> 55) w) ws
         then Some (value_of 8 (map (\<lambda>c. c - 48) (concat ws))) else None)"

definition oct_body :: "ustr \<Rightarrow> nat option" where
  "oct_body s =
     (case s of
        z # o' # r \<Rightarrow>
          if z = 48 \<and> (o' = 111 \<or> o' = 79)
          then oct_digits (case r of [] \<Rightarrow> [] | u # r' \<Rightarrow> if u = 95 then r' else r)
          else oct_digits s
      | _ \<Rightarrow> oct_digits s)"

definition int_base8 :: "ustr \<Rightarrow> int option" where
  "int_base8 s =
     (case strip s of
        [] \<Rightarrow> None
      | c # r \<Rightarrow>
          if c = 45 then map_option (\<lambda>n. - int n) (oct_body r)
          else if c = 43 then map_option int (oct_body r)
          else map_option int (oct_body (c # r)))"

section \<open>\<open>repr\<close>\<close>

text \<open>\<open>repr\<close> of a string. Below 128 it is exact; above, the control characters, the soft hyphen
  and the surrogates are escaped and every other character is written as it is.\<close>

definition repr_char :: "nat \<Rightarrow> nat \<Rightarrow> ustr" where
  "repr_char quote c =
     (if c = quote \<or> c = 92 then [92, c]
      else if c = 9 then U [CHR 0x5C, CHR ''t'']
      else if c = 10 then U [CHR 0x5C, CHR ''n'']
      else if c = 13 then U [CHR 0x5C, CHR ''r'']
      else if c < 32 \<or> (127 \<le> c \<and> c \<le> 160) \<or> c = 173
      then U (CHR 0x5C # CHR ''x'' # hex_bytes [char_of c])
      else if 55296 \<le> c \<and> c \<le> 57343
      then U (CHR 0x5C # CHR ''u'' # hex_bytes [char_of (c div 256), char_of (c mod 256)])
      else [c])"

definition repr_str :: "ustr \<Rightarrow> ustr" where
  "repr_str s =
     (let q = (if 39 \<in> set s \<and> 34 \<notin> set s then 34 else 39)
      in [q] @ concat (map (repr_char q) s) @ [q])"

definition repr_list :: "ustr list \<Rightarrow> ustr" where
  "repr_list xs = U ''['' @ join_with (U '', '') (map repr_str xs) @ U '']''"

text \<open>\<open>data.splitlines()\<close> on \<open>bytes\<close>: a line ends at LF, CR or CR LF, and an empty rest is no line.\<close>

fun splitlines :: "bytes \<Rightarrow> bytes list" where
  "splitlines [] = []"
| "splitlines (c # s) =
     (if c = CHR 0x0A then [] # splitlines s
      else if c = CHR 0x0D
      then [] # (case s of [] \<Rightarrow> [] | d # r \<Rightarrow> if d = CHR 0x0A then splitlines r else splitlines s)
      else (case splitlines s of [] \<Rightarrow> [[c]] | w # ws \<Rightarrow> (c # w) # ws))"

end
