(* ===== verification/Codecs.thy ===== *)
theory Codecs
  imports PyText
begin

text \<open>
  The codecs of Python's standard library that the canonical formats use: UTF-8 (strict),
  base64 in the standard and URL-safe alphabets, and \<open>repr\<close> of a string. The round trips proved
  here are what the manifest, validation-batch and JSON round trips rest on.
\<close>

section \<open>UTF-8\<close>

definition is_surrogate :: "nat \<Rightarrow> bool" where
  "is_surrogate c \<longleftrightarrow> 55296 \<le> c \<and> c \<le> 57343"

definition scalar :: "nat \<Rightarrow> bool" where
  "scalar c \<longleftrightarrow> c < 1114112 \<and> \<not> is_surrogate c"

definition utf8_char :: "nat \<Rightarrow> nat list option" where
  "utf8_char c =
     (if c < 128 then Some [c]
      else if c < 2048 then Some [192 + c div 64, 128 + c mod 64]
      else if is_surrogate c then None
      else if c < 65536 then Some [224 + c div 4096, 128 + c div 64 mod 64, 128 + c mod 64]
      else if c < 1114112
        then Some [240 + c div 262144, 128 + c div 4096 mod 64, 128 + c div 64 mod 64, 128 + c mod 64]
      else None)"

fun utf8_nats :: "ustr \<Rightarrow> nat list option" where
  "utf8_nats [] = Some []"
| "utf8_nats (c # s) =
     (case utf8_char c of
        None \<Rightarrow> None
      | Some bs \<Rightarrow> (case utf8_nats s of None \<Rightarrow> None | Some r \<Rightarrow> Some (bs @ r)))"

text \<open>\<open>s.encode("utf-8")\<close>; None is UnicodeEncodeError.\<close>

definition utf8_encode :: "ustr \<Rightarrow> bytes option" where
  "utf8_encode s = map_option (map char_of) (utf8_nats s)"

definition cont :: "nat \<Rightarrow> bool" where
  "cont b \<longleftrightarrow> 128 \<le> b \<and> b < 192"

fun utf8_scan :: "nat list \<Rightarrow> ustr option" where
  "utf8_scan [] = Some []"
| "utf8_scan (a # s) =
     (if a < 128 then map_option ((#) a) (utf8_scan s)
      else if 194 \<le> a \<and> a < 224 then
        (case s of
           b # r \<Rightarrow> if cont b then map_option ((#) ((a - 192) * 64 + (b - 128))) (utf8_scan r) else None
         | _ \<Rightarrow> None)
      else if 224 \<le> a \<and> a < 240 then
        (case s of
           b # c # r \<Rightarrow>
             let v = (a - 224) * 4096 + (b - 128) * 64 + (c - 128)
             in if cont b \<and> cont c \<and> 2048 \<le> v \<and> \<not> is_surrogate v
                then map_option ((#) v) (utf8_scan r) else None
         | _ \<Rightarrow> None)
      else if 240 \<le> a \<and> a < 245 then
        (case s of
           b # c # d # r \<Rightarrow>
             let v = (a - 240) * 262144 + (b - 128) * 4096 + (c - 128) * 64 + (d - 128)
             in if cont b \<and> cont c \<and> cont d \<and> 65536 \<le> v \<and> v < 1114112
                then map_option ((#) v) (utf8_scan r) else None
         | _ \<Rightarrow> None)
      else None)"

text \<open>\<open>data.decode("utf-8", "strict")\<close>; None is UnicodeDecodeError.\<close>

definition utf8_decode :: "bytes \<Rightarrow> ustr option" where
  "utf8_decode bs = utf8_scan (map of_char bs)"

declare utf8_scan.simps(2) [simp del]

lemma base64_split:
  fixes c :: nat
  shows "c div 64 * 64 + c mod 64 = c"
    and "c div 4096 * 4096 + c div 64 mod 64 * 64 + c mod 64 = c"
    and "c div 262144 * 262144 + c div 4096 mod 64 * 4096 + c div 64 mod 64 * 64 + c mod 64 = c"
proof -
  let ?q = "c div 64" and ?r = "c div 64 div 64"
  have q: "c div 4096 = ?r" and r: "c div 262144 = ?r div 64"
    by (simp_all add: div_mult2_eq [symmetric])
  have e1: "?q * 64 + c mod 64 = c" and e2: "?r * 64 + ?q mod 64 = ?q"
    and e3: "?r div 64 * 64 + ?r mod 64 = ?r" by simp_all
  show "c div 64 * 64 + c mod 64 = c" by (rule e1)
  show "c div 4096 * 4096 + c div 64 mod 64 * 64 + c mod 64 = c"
    unfolding q using e1 e2 by linarith
  show "c div 262144 * 262144 + c div 4096 mod 64 * 4096 + c div 64 mod 64 * 64 + c mod 64 = c"
    unfolding q r using e1 e2 e3 by linarith
qed

lemma cont_mod [simp]: "cont (128 + x mod 64)"
  by (simp add: cont_def)

lemma utf8_scan_char:
  assumes "utf8_char c = Some bs"
  shows "utf8_scan (bs @ r) = map_option ((#) c) (utf8_scan r)"
proof -
  consider (1) "c < 128" | (2) "128 \<le> c" "c < 2048"
    | (3) "2048 \<le> c" "c < 65536" "\<not> is_surrogate c" | (4) "65536 \<le> c" "c < 1114112"
    using assms by (fastforce simp: utf8_char_def split: if_splits)
  then show ?thesis
  proof cases
    case 1
    with assms show ?thesis by (auto simp: utf8_char_def utf8_scan.simps)
  next
    case 2
    then have "2 \<le> c div 64" "c div 64 < 32" by auto
    with 2 assms show ?thesis
      by (auto simp: utf8_char_def utf8_scan.simps base64_split(1))
  next
    case 3
    then have "c div 4096 < 16" by auto
    with 3 assms show ?thesis
      by (auto simp: utf8_char_def utf8_scan.simps base64_split(2) Let_def)
  next
    case 4
    then have "c div 262144 < 5" by auto
    moreover from 4 have "\<not> is_surrogate c" by (simp add: is_surrogate_def)
    ultimately show ?thesis using 4 assms
      by (auto simp: utf8_char_def utf8_scan.simps base64_split(3) Let_def)
  qed
qed

lemma utf8_scan_nats: "utf8_nats s = Some bs \<Longrightarrow> utf8_scan bs = Some s"
proof (induction s arbitrary: bs)
  case (Cons c s)
  then show ?case by (auto split: option.splits simp: utf8_scan_char)
qed simp

lemma utf8_char_bytes: "utf8_char c = Some bs \<Longrightarrow> b \<in> set bs \<Longrightarrow> b < 256"
proof -
  assume c: "utf8_char c = Some bs" and b: "b \<in> set bs"
  have m: "x mod 64 < 64" for x :: nat by simp
  from m [of c] m [of "c div 64"] m [of "c div 4096"]
  have "128 + c mod 64 < 256" "128 + c div 64 mod 64 < 256" "128 + c div 4096 mod 64 < 256"
    by linarith+
  moreover have "c < 2048 \<Longrightarrow> c div 64 < 64" "c < 65536 \<Longrightarrow> c div 4096 < 32"
    "c < 1114112 \<Longrightarrow> c div 262144 < 16" by auto
  ultimately show ?thesis
    using c b by (auto simp: utf8_char_def split: if_splits)
qed

lemma utf8_nats_bytes: "utf8_nats s = Some bs \<Longrightarrow> b \<in> set bs \<Longrightarrow> b < 256"
  by (induction s arbitrary: bs) (auto split: option.splits dest: utf8_char_bytes)

lemma utf8_roundtrip: "utf8_encode s = Some bs \<Longrightarrow> utf8_decode bs = Some s"
proof -
  assume "utf8_encode s = Some bs"
  then obtain ns where ns: "utf8_nats s = Some ns" and bs: "bs = map char_of ns"
    by (auto simp: utf8_encode_def)
  from utf8_nats_bytes [OF ns] have "map of_char bs = ns"
    by (auto simp: bs o_def map_idI)
  with utf8_scan_nats [OF ns] show ?thesis by (simp add: utf8_decode_def)
qed

lemma utf8_encode_None_iff: "utf8_encode s = None \<longleftrightarrow> (\<exists>c \<in> set s. \<not> scalar c)"
proof -
  have "utf8_char c = None \<longleftrightarrow> \<not> scalar c" for c
    by (auto simp: utf8_char_def scalar_def is_surrogate_def)
  note c = this
  have "utf8_nats s = None \<longleftrightarrow> (\<exists>c \<in> set s. \<not> scalar c)"
    by (induction s) (auto split: option.splits simp: c [symmetric])
  then show ?thesis by (simp add: utf8_encode_def)
qed

lemma utf8_encode_ascii: "list_all (\<lambda>c. ord c < 128) s \<Longrightarrow> utf8_encode (U s) = Some s"
proof -
  assume "list_all (\<lambda>c. ord c < 128) s"
  then have "utf8_nats (U s) = Some (map of_char s)"
    by (induction s) (auto simp: U_Cons utf8_char_def)
  then show ?thesis by (simp add: utf8_encode_def o_def)
qed

lemma utf8_decode_ascii: "list_all (\<lambda>c. ord c < 128) s \<Longrightarrow> utf8_decode s = Some (U s)"
  by (rule utf8_roundtrip [OF utf8_encode_ascii])

section \<open>Strict UTF-8 text determines its bytes\<close>

lemma base64_join:
  assumes "(y :: nat) < 64"
  shows "(x * 64 + y) div 64 = x" and "(x * 64 + y) mod 64 = y"
  using assms by simp_all

lemma utf8_scan_inverse: "utf8_scan ns = Some s \<Longrightarrow> utf8_nats s = Some ns"
proof (induction ns arbitrary: s rule: utf8_scan.induct)
  case (2 a r)
  consider (1) "a < 128" | (2) "194 \<le> a" "a < 224" | (3) "224 \<le> a" "a < 240" | (4) "240 \<le> a" "a < 245"
    using "2.prems" by (auto simp: utf8_scan.simps(2) split: if_splits)
  then show ?case
  proof cases
    case 1
    with 2 show ?thesis by (auto simp: utf8_scan.simps(2) utf8_char_def)
  next
    case a: 2
    then obtain b r' t where r: "r = b # r'" "cont b" "utf8_scan r' = Some t"
      and s: "s = ((a - 192) * 64 + (b - 128)) # t"
      using "2.prems" by (auto simp: utf8_scan.simps(2) split: list.splits if_splits)
    have IH: "utf8_nats t = Some r'" using "2.IH"(2) a r by simp
    let ?v = "(a - 192) * 64 + (b - 128)"
    have y: "b - 128 < 64" using r(2) by (auto simp: cont_def)
    have v: "?v div 64 = a - 192" "?v mod 64 = b - 128" by (rule base64_join [OF y])+
    have "128 \<le> ?v" "?v < 2048" using a r(2) by (auto simp: cont_def)
    then have "utf8_char ?v = Some [192 + ?v div 64, 128 + ?v mod 64]" by (simp add: utf8_char_def)
    then have "utf8_char ?v = Some [a, b]" unfolding v using a r(2) by (simp add: cont_def)
    with IH show ?thesis by (simp add: s r(1))
  next
    case a: 3
    then obtain b c r' t where r: "r = b # c # r'" "cont b" "cont c" "utf8_scan r' = Some t"
      and s: "s = ((a - 224) * 4096 + (b - 128) * 64 + (c - 128)) # t"
      and w: "2048 \<le> (a - 224) * 4096 + (b - 128) * 64 + (c - 128)"
        "\<not> is_surrogate ((a - 224) * 4096 + (b - 128) * 64 + (c - 128))"
      using "2.prems" by (auto simp: utf8_scan.simps(2) Let_def split: list.splits if_splits)
    have IH: "utf8_nats t = Some r'" using "2.IH"(3) a r w by simp
    let ?v = "(a - 224) * 4096 + (b - 128) * 64 + (c - 128)"
    have e: "?v = ((a - 224) * 64 + (b - 128)) * 64 + (c - 128)" by simp
    have y: "b - 128 < 64" "c - 128 < 64" using r(2,3) by (auto simp: cont_def)
    have d: "?v div 64 = (a - 224) * 64 + (b - 128)" "?v mod 64 = c - 128"
      unfolding e by (rule base64_join [OF y(2)])+
    have "?v div 64 div 64 = a - 224" "?v div 64 mod 64 = b - 128" unfolding d by (rule base64_join [OF y(1)])+
    then have v: "?v div 4096 = a - 224" "?v div 64 mod 64 = b - 128" by (simp_all add: div_mult2_eq [symmetric])
    have "?v < 65536" using a r(2,3) by (auto simp: cont_def)
    then have "utf8_char ?v = Some [224 + ?v div 4096, 128 + ?v div 64 mod 64, 128 + ?v mod 64]"
      using w by (simp add: utf8_char_def)
    then have "utf8_char ?v = Some [a, b, c]" unfolding v d(2) using a r(2,3) by (simp add: cont_def)
    with IH show ?thesis by (simp add: s r(1))
  next
    case a: 4
    then obtain b c d r' t where r: "r = b # c # d # r'" "cont b" "cont c" "cont d" "utf8_scan r' = Some t"
      and s: "s = ((a - 240) * 262144 + (b - 128) * 4096 + (c - 128) * 64 + (d - 128)) # t"
      and w: "65536 \<le> (a - 240) * 262144 + (b - 128) * 4096 + (c - 128) * 64 + (d - 128)"
        "(a - 240) * 262144 + (b - 128) * 4096 + (c - 128) * 64 + (d - 128) < 1114112"
      using "2.prems" by (auto simp: utf8_scan.simps(2) Let_def split: list.splits if_splits)
    have IH: "utf8_nats t = Some r'" using "2.IH"(4) a r w by simp
    let ?v = "(a - 240) * 262144 + (b - 128) * 4096 + (c - 128) * 64 + (d - 128)"
    have e: "?v = ((a - 240) * 4096 + (b - 128) * 64 + (c - 128)) * 64 + (d - 128)"
      "(a - 240) * 4096 + (b - 128) * 64 + (c - 128) = ((a - 240) * 64 + (b - 128)) * 64 + (c - 128)" by simp_all
    have y: "b - 128 < 64" "c - 128 < 64" "d - 128 < 64" using r(2-4) by (auto simp: cont_def)
    have d: "?v div 64 = (a - 240) * 4096 + (b - 128) * 64 + (c - 128)" "?v mod 64 = d - 128"
      unfolding e(1) by (rule base64_join [OF y(3)])+
    have d2: "?v div 64 div 64 = (a - 240) * 64 + (b - 128)" "?v div 64 mod 64 = c - 128"
      unfolding d(1) e(2) by (rule base64_join [OF y(2)])+
    have "?v div 64 div 64 div 64 = a - 240" "?v div 64 div 64 mod 64 = b - 128"
      unfolding d2(1) by (rule base64_join [OF y(1)])+
    then have v: "?v div 262144 = a - 240" "?v div 4096 mod 64 = b - 128" by (simp_all add: div_mult2_eq [symmetric])
    have "\<not> is_surrogate ?v" using w(1) by (simp add: is_surrogate_def)
    then have "utf8_char ?v = Some [240 + ?v div 262144, 128 + ?v div 4096 mod 64, 128 + ?v div 64 mod 64, 128 + ?v mod 64]"
      using w by (simp add: utf8_char_def)
    then have "utf8_char ?v = Some [a, b, c, d]" unfolding v d(2) d2(2) using a r(2-4) by (simp add: cont_def)
    with IH show ?thesis by (simp add: s r(1))
  qed
qed simp

lemma utf8_decode_inverse: "utf8_decode bs = Some s \<Longrightarrow> utf8_encode s = Some bs"
  using utf8_scan_inverse [of "map of_char bs" s] by (auto simp: utf8_decode_def utf8_encode_def o_def)

section \<open>ASCII\<close>

text \<open>\<open>s.encode("ascii")\<close>; None is UnicodeEncodeError.\<close>

definition ascii_encode :: "ustr \<Rightarrow> bytes option" where
  "ascii_encode s = (if list_all (\<lambda>c. c < 128) s then Some (map char_of s) else None)"

lemma ascii_encode_U: "list_all (\<lambda>c. ord c < 128) s \<Longrightarrow> ascii_encode (U s) = Some s"
  by (auto simp: ascii_encode_def U_def list_all_iff o_def)

lemma ascii_encode_Some: "ascii_encode s = Some b \<Longrightarrow> U b = s"
  by (auto simp: ascii_encode_def U_def list_all_iff o_def intro!: map_idI split: if_splits) fastforce

section \<open>Base64\<close>

definition b64_char :: "bool \<Rightarrow> nat \<Rightarrow> nat" where
  "b64_char urlsafe i =
     (if i < 26 then 65 + i
      else if i < 52 then 71 + i
      else if i < 62 then i - 4
      else if i = 62 then (if urlsafe then 45 else 43)
      else (if urlsafe then 95 else 47))"

definition b64_value :: "nat \<Rightarrow> nat option" where
  "b64_value c =
     (if 65 \<le> c \<and> c \<le> 90 then Some (c - 65)
      else if 97 \<le> c \<and> c \<le> 122 then Some (c - 71)
      else if 48 \<le> c \<and> c \<le> 57 then Some (c + 4)
      else if c = 43 then Some 62
      else if c = 47 then Some 63
      else None)"

fun b64_groups :: "bool \<Rightarrow> nat list \<Rightarrow> nat list" where
  "b64_groups u [] = []"
| "b64_groups u [a] = [b64_char u (a div 4), b64_char u (a mod 4 * 16), 61, 61]"
| "b64_groups u [a, b] =
     [b64_char u (a div 4), b64_char u (a mod 4 * 16 + b div 16), b64_char u (b mod 16 * 4), 61]"
| "b64_groups u (a # b # c # r) =
     b64_char u (a div 4) # b64_char u (a mod 4 * 16 + b div 16)
     # b64_char u (b mod 16 * 4 + c div 64) # b64_char u (c mod 64) # b64_groups u r"

text \<open>\<open>base64.b64encode\<close> and \<open>base64.urlsafe_b64encode\<close>.\<close>

definition b64encode :: "bytes \<Rightarrow> bytes" where
  "b64encode bs = map char_of (b64_groups False (map of_char bs))"

definition urlsafe_b64encode :: "bytes \<Rightarrow> bytes" where
  "urlsafe_b64encode bs = map char_of (b64_groups True (map of_char bs))"

text \<open>
  \<open>base64.b64decode(s, validate=True)\<close>: groups of four alphabet characters, padding only at the
  end; None is \<open>binascii.Error\<close>, a ValueError.
\<close>

fun b64_scan :: "nat list \<Rightarrow> nat list option" where
  "b64_scan [] = Some []"
| "b64_scan (p # q # r # t # s) =
     (case (b64_value p, b64_value q) of
        (Some x, Some y) \<Rightarrow>
          (case (b64_value r, b64_value t) of
             (Some z, Some w) \<Rightarrow>
               map_option (\<lambda>bs. (x * 4 + y div 16) # (y mod 16 * 16 + z div 4) # (z mod 4 * 64 + w) # bs)
                 (b64_scan s)
           | (Some z, None) \<Rightarrow>
               if t = 61 \<and> s = [] then Some [x * 4 + y div 16, y mod 16 * 16 + z div 4] else None
           | (None, _) \<Rightarrow>
               if r = 61 \<and> t = 61 \<and> s = [] then Some [x * 4 + y div 16] else None)
      | _ \<Rightarrow> None)"
| "b64_scan _ = None"

definition b64decode :: "bytes \<Rightarrow> bytes option" where
  "b64decode s = map_option (map char_of) (b64_scan (map of_char s))"

lemma b64_value_char [simp]: "i < 64 \<Longrightarrow> b64_value (b64_char False i) = Some i"
  by (auto simp: b64_value_def b64_char_def)

lemma b64_value_pad [simp]: "b64_value 61 = None"
  by (simp add: b64_value_def)

lemma b64_char_ascii: "i < 64 \<Longrightarrow> b64_char u i < 128"
  by (auto simp: b64_char_def)

lemma b64_scan_groups:
  "\<forall>x \<in> set bs. x < 256 \<Longrightarrow> b64_scan (b64_groups False bs) = Some bs"
proof (induction "False" bs rule: b64_groups.induct)
  case (2 a)
  then have "a div 4 < 64" "a mod 4 * 16 < 64" "a mod 4 * 16 div 16 = a mod 4"
    by (simp_all add: less_mult_imp_div_less)
  then show ?case by simp
next
  case (3 a b)
  then have "a div 4 < 64" "a mod 4 * 16 + b div 16 < 64" "b mod 16 * 4 < 64" by auto
  moreover from 3 have "(a mod 4 * 16 + b div 16) div 16 = a mod 4"
    "(a mod 4 * 16 + b div 16) mod 16 = b div 16" by auto
  ultimately show ?case by simp
next
  case (4 a b c r)
  then have "a div 4 < 64" "a mod 4 * 16 + b div 16 < 64" "b mod 16 * 4 + c div 64 < 64" by auto
  moreover from 4 have "(a mod 4 * 16 + b div 16) div 16 = a mod 4"
    "(a mod 4 * 16 + b div 16) mod 16 = b div 16"
    "(b mod 16 * 4 + c div 64) div 4 = b mod 16" "(b mod 16 * 4 + c div 64) mod 4 = c div 64" by auto
  ultimately show ?case using 4 by simp
qed simp

lemma b64_groups_ascii:
  "\<forall>x \<in> set bs. x < 256 \<Longrightarrow> \<forall>x \<in> set (b64_groups u bs). x < 128"
proof (induction u bs rule: b64_groups.induct)
  case (2 u a)
  then have "a div 4 < 64" "a mod 4 * 16 < 64" by auto
  then show ?case by (simp add: b64_char_ascii)
next
  case (3 u a b)
  then have "a div 4 < 64" "a mod 4 * 16 + b div 16 < 64" "b mod 16 * 4 < 64" by auto
  then show ?case by (simp add: b64_char_ascii)
next
  case (4 u a b c r)
  then have "a div 4 < 64" "a mod 4 * 16 + b div 16 < 64" "b mod 16 * 4 + c div 64 < 64" by auto
  with 4 show ?case by (simp add: b64_char_ascii)
qed simp

lemma b64_roundtrip [simp]: "b64decode (b64encode bs) = Some bs"
proof -
  have "\<forall>x \<in> set (map of_char bs :: nat list). x < 256" by auto
  note b64_scan_groups [OF this] b64_groups_ascii [OF this, of False]
  then have "map of_char (b64encode bs) = b64_groups False (map of_char bs)"
    unfolding b64encode_def by (auto simp: o_def intro!: map_idI)
  with b64_scan_groups [of "map of_char bs"] show ?thesis
    by (auto simp: b64decode_def o_def)
qed

lemma b64encode_inject [simp]: "b64encode x = b64encode y \<longleftrightarrow> x = y"
  by (metis b64_roundtrip option.inject)

lemma b64encode_ascii: "c \<in> set (b64encode bs) \<Longrightarrow> ord c < 128"
proof -
  assume "c \<in> set (b64encode bs)"
  then obtain x where "x \<in> set (b64_groups False (map of_char bs))" and c: "c = char_of x"
    by (auto simp: b64encode_def)
  then have "x < 128" using b64_groups_ascii [of "map of_char bs" False] by auto
  then show ?thesis by (simp add: c)
qed

end
