(* ===== verification/Sha256.thy ===== *)
theory Sha256
  imports Codecs "HOL-Library.Word"
begin

unbundle bit_operations_syntax

text \<open>
  SHA-256 as \<open>hashlib.sha256\<close> computes it (FIPS 180-4): padding, the message schedule and
  the compression function on 32-bit words. The program uses it for every content identity and
  fingerprint; \<open>sha256_hex\<close> of \<open>models.py\<close> is its lowercase hexadecimal digest. No theorem of
  the development assumes that it has no collisions: where a result depends on that, the
  theorem says so for the two inputs at hand.
\<close>

type_synonym u32 = "32 word"

definition sha_k :: "u32 list" where
  "sha_k =
    [1116352408, 1899447441, 3049323471, 3921009573, 961987163, 1508970993, 2453635748, 2870763221,
     3624381080, 310598401, 607225278, 1426881987, 1925078388, 2162078206, 2614888103, 3248222580,
     3835390401, 4022224774, 264347078, 604807628, 770255983, 1249150122, 1555081692, 1996064986,
     2554220882, 2821834349, 2952996808, 3210313671, 3336571891, 3584528711, 113926993, 338241895,
     666307205, 773529912, 1294757372, 1396182291, 1695183700, 1986661051, 2177026350, 2456956037,
     2730485921, 2820302411, 3259730800, 3345764771, 3516065817, 3600352804, 4094571909, 275423344,
     430227734, 506948616, 659060556, 883997877, 958139571, 1322822218, 1537002063, 1747873779,
     1955562222, 2024104815, 2227730452, 2361852424, 2428436474, 2756734187, 3204031479,
     3329325298]"

datatype sha_state = Sha u32 u32 u32 u32 u32 u32 u32 u32

definition sha_init :: sha_state where
  "sha_init = Sha 1779033703 3144134277 1013904242 2773480762 1359893119 2600822924 528734635
     1541459225"

definition rotr32 :: "nat \<Rightarrow> u32 \<Rightarrow> u32" where
  "rotr32 n x = drop_bit n x OR push_bit (32 - n) x"

definition small_sigma0 :: "u32 \<Rightarrow> u32" where
  "small_sigma0 x = rotr32 7 x XOR rotr32 18 x XOR drop_bit 3 x"

definition small_sigma1 :: "u32 \<Rightarrow> u32" where
  "small_sigma1 x = rotr32 17 x XOR rotr32 19 x XOR drop_bit 10 x"

definition big_sigma0 :: "u32 \<Rightarrow> u32" where
  "big_sigma0 x = rotr32 2 x XOR rotr32 13 x XOR rotr32 22 x"

definition big_sigma1 :: "u32 \<Rightarrow> u32" where
  "big_sigma1 x = rotr32 6 x XOR rotr32 11 x XOR rotr32 25 x"

definition sha_ch :: "u32 \<Rightarrow> u32 \<Rightarrow> u32 \<Rightarrow> u32" where
  "sha_ch x y z = (x AND y) XOR (NOT x AND z)"

definition sha_maj :: "u32 \<Rightarrow> u32 \<Rightarrow> u32 \<Rightarrow> u32" where
  "sha_maj x y z = (x AND y) XOR (x AND z) XOR (y AND z)"

text \<open>The schedule, newest word first: \<open>w ! 1\<close> is W[t-2], \<open>w ! 15\<close> is W[t-16].\<close>

fun sha_extend :: "nat \<Rightarrow> u32 list \<Rightarrow> u32 list" where
  "sha_extend 0 w = w"
| "sha_extend (Suc n) w =
     sha_extend n ((small_sigma1 (w ! 1) + w ! 6 + small_sigma0 (w ! 14) + w ! 15) # w)"

fun sha_round :: "sha_state \<Rightarrow> u32 \<times> u32 \<Rightarrow> sha_state" where
  "sha_round (Sha a b c d e f g h) (k, w) =
     (let t1 = h + big_sigma1 e + sha_ch e f g + k + w;
          t2 = big_sigma0 a + sha_maj a b c
      in Sha (t1 + t2) a b c (d + t1) e f g)"

fun sha_add :: "sha_state \<Rightarrow> sha_state \<Rightarrow> sha_state" where
  "sha_add (Sha a b c d e f g h) (Sha a' b' c' d' e' f' g' h') =
     Sha (a + a') (b + b') (c + c') (d + d') (e + e') (f + f') (g + g') (h + h')"

definition sha_block :: "sha_state \<Rightarrow> u32 list \<Rightarrow> sha_state" where
  "sha_block s ws = sha_add s (foldl sha_round s (zip sha_k (rev (sha_extend 48 (rev ws)))))"

fun be_words :: "int list \<Rightarrow> u32 list" where
  "be_words (a # b # c # d # r) =
     word_of_int (a * 16777216 + b * 65536 + c * 256 + d) # be_words r"
| "be_words _ = []"

text \<open>Big-endian bytes of a number, as \<open>int.to_bytes(width, "big")\<close>.\<close>

fun be_bytes :: "nat \<Rightarrow> int \<Rightarrow> int list" where
  "be_bytes 0 n = []"
| "be_bytes (Suc k) n = be_bytes k (n div 256) @ [n mod 256]"

definition sha_pad :: "int list \<Rightarrow> int list" where
  "sha_pad m = m @ [128] @ replicate ((119 - length m mod 64) mod 64) 0
     @ be_bytes 8 (8 * int (length m))"

function sha_blocks :: "sha_state \<Rightarrow> u32 list \<Rightarrow> sha_state" where
  "sha_blocks s ws = (if ws = [] then s else sha_blocks (sha_block s (take 16 ws)) (drop 16 ws))"
  by pat_completeness auto
termination
  by (relation "measure (\<lambda>(s, ws). length ws)") auto

declare sha_blocks.simps [simp del]

definition word_bytes :: "u32 \<Rightarrow> bytes" where
  "word_bytes w = map char_of (be_bytes 4 (uint w))"

fun sha_digest :: "sha_state \<Rightarrow> bytes" where
  "sha_digest (Sha a b c d e f g h) = concat (map word_bytes [a, b, c, d, e, f, g, h])"

text \<open>\<open>hashlib.sha256(data).digest()\<close>.\<close>

definition sha256 :: "bytes \<Rightarrow> bytes" where
  "sha256 data = sha_digest (sha_blocks sha_init (be_words (sha_pad (map of_char data))))"

text \<open>\<open>sha256_hex\<close> of \<open>models.py\<close>: \<open>hashlib.sha256(data).hexdigest()\<close>.\<close>

definition sha256_hex :: "bytes \<Rightarrow> bytes" where
  "sha256_hex data = hex_bytes (sha256 data)"

lemma length_be_bytes [simp]: "length (be_bytes k n) = k"
  by (induction k arbitrary: n) auto

lemma be_bytes_range: "x \<in> set (be_bytes k n) \<Longrightarrow> 0 \<le> x \<and> x < 256"
  by (induction k arbitrary: n) auto

lemma be_bytes_inject:
  "0 \<le> m \<Longrightarrow> m < 256 ^ k \<Longrightarrow> 0 \<le> n \<Longrightarrow> n < 256 ^ k \<Longrightarrow> be_bytes k m = be_bytes k n \<Longrightarrow> m = n"
proof (induction k arbitrary: m n)
  case (Suc k)
  have "m div 256 = n div 256"
  proof (rule Suc.IH)
    have "x div 256 < 256 ^ k" if "x < 256 ^ Suc k" for x :: int
      using that by simp
    with Suc.prems show "m div 256 < 256 ^ k" "n div 256 < 256 ^ k" by blast+
  qed (use Suc.prems in \<open>auto simp: pos_imp_zdiv_nonneg_iff\<close>)
  moreover from Suc.prems have "m mod 256 = n mod 256" by simp
  ultimately show ?case by (metis div_mult_mod_eq)
qed simp

lemma length_sha256 [simp]: "length (sha256 data) = 32"
  unfolding sha256_def by (cases "sha_blocks sha_init (be_words (sha_pad (map of_char data)))")
    (simp add: word_bytes_def)

lemma length_sha256_hex [simp]: "length (sha256_hex data) = 64"
  by (simp add: sha256_hex_def)

lemma sha256_hex_lower: "c \<in> set (sha256_hex data) \<Longrightarrow> is_hex_lower (ord c)"
  by (simp add: sha256_hex_def hex_bytes_lower)

lemma sha256_hex_ascii: "c \<in> set (sha256_hex data) \<Longrightarrow> ord c < 128"
  using sha256_hex_lower [of c data] by (auto simp: is_hex_lower_def)

lemma sha256_hex_eq_iff: "sha256_hex x = sha256_hex y \<longleftrightarrow> sha256 x = sha256 y"
  by (simp add: sha256_hex_def)

end
