(* ===== verification/Constants.thy ===== *)
theory Constants
  imports Errors
begin

text \<open>
  \<open>src/src/agent_loop/constants.py\<close>: the reviewed default limits and the checked constructor
  of \<open>Limits\<close>. Every numeric field is a Python \<open>int\<close>; the \<open>isinstance\<close> part of the check in
  \<open>Limits.__post_init__\<close> is the type of the field here.
\<close>

text \<open>The octal modes 0100644, 0100755 and 0120000 of the code, written in hexadecimal.\<close>

definition REGULAR_MODE :: int where "REGULAR_MODE = 0x81A4"
definition EXECUTABLE_MODE :: int where "EXECUTABLE_MODE = 0x81ED"
definition SYMLINK_MODE :: int where "SYMLINK_MODE = 0xA000"

definition MAX_BUNDLE_BYTES :: int where "MAX_BUNDLE_BYTES = 8 * 1024 * 1024"
definition DEFAULT_MAX_ESTIMATED_INPUT_TOKENS :: int where "DEFAULT_MAX_ESTIMATED_INPUT_TOKENS = 64000"
definition DEFAULT_RESERVED_OUTPUT_TOKENS :: int where "DEFAULT_RESERVED_OUTPUT_TOKENS = 8192"
definition DEFAULT_REVIEW_CONTEXT_TOKENS :: int where
  "DEFAULT_REVIEW_CONTEXT_TOKENS = DEFAULT_MAX_ESTIMATED_INPUT_TOKENS + DEFAULT_RESERVED_OUTPUT_TOKENS"

definition DEFAULT_PROTECTED_PATTERNS :: "bytes list" where
  "DEFAULT_PROTECTED_PATTERNS =
     [''.git'', ''.git/**'', ''**/.git'', ''**/.git/**'', ''.codex'', ''.codex/**'',
      ''AGENTS.md'', ''AGENTS.override.md'', ''**/AGENTS.md'', ''**/AGENTS.override.md'',
      ''.agent-loop.toml'']"

record limits =
  max_files :: int
  max_file_bytes :: int
  max_total_subject_bytes :: int
  max_path_bytes :: int
  max_path_depth :: int
  max_bundle_bytes :: int
  max_estimated_input_tokens :: int
  reserved_output_tokens :: int
  max_findings :: int
  max_field_bytes :: int
  max_agent_output_bytes :: int
  max_raw_log_bytes :: int
  workspace_bytes :: int
  memory_max_bytes :: int
  tasks_max :: int
  limit_fsize_bytes :: int
  limit_nofile :: int

definition default_limits :: limits where
  "default_limits =
     \<lparr>max_files = 20000,
      max_file_bytes = 4 * 1024 * 1024,
      max_total_subject_bytes = 256 * 1024 * 1024,
      max_path_bytes = 4096,
      max_path_depth = 128,
      max_bundle_bytes = MAX_BUNDLE_BYTES,
      max_estimated_input_tokens = DEFAULT_MAX_ESTIMATED_INPUT_TOKENS,
      reserved_output_tokens = DEFAULT_RESERVED_OUTPUT_TOKENS,
      max_findings = 128,
      max_field_bytes = 32 * 1024,
      max_agent_output_bytes = 16 * 1024 * 1024,
      max_raw_log_bytes = 32 * 1024 * 1024,
      workspace_bytes = 512 * 1024 * 1024,
      memory_max_bytes = 1024 * 1024 * 1024,
      tasks_max = 256,
      limit_fsize_bytes = 64 * 1024 * 1024,
      limit_nofile = 1024\<rparr>"

text \<open>The fields in the order of the declaration, the one in which they are checked.\<close>

definition limit_fields :: "limits \<Rightarrow> (string \<times> int) list" where
  "limit_fields l =
     [(''max_files'', max_files l), (''max_file_bytes'', max_file_bytes l),
      (''max_total_subject_bytes'', max_total_subject_bytes l),
      (''max_path_bytes'', max_path_bytes l), (''max_path_depth'', max_path_depth l),
      (''max_bundle_bytes'', max_bundle_bytes l),
      (''max_estimated_input_tokens'', max_estimated_input_tokens l),
      (''reserved_output_tokens'', reserved_output_tokens l),
      (''max_findings'', max_findings l), (''max_field_bytes'', max_field_bytes l),
      (''max_agent_output_bytes'', max_agent_output_bytes l),
      (''max_raw_log_bytes'', max_raw_log_bytes l), (''workspace_bytes'', workspace_bytes l),
      (''memory_max_bytes'', memory_max_bytes l), (''tasks_max'', tasks_max l),
      (''limit_fsize_bytes'', limit_fsize_bytes l), (''limit_nofile'', limit_nofile l)]"

definition check_limits :: "limits \<Rightarrow> exn + limits" where
  "check_limits l =
     (case find (\<lambda>(name, v). v \<le> 0) (limit_fields l) of
        Some (name, v) \<Rightarrow> Inl (ValueError (U (name @ '' must be a positive integer'')))
      | None \<Rightarrow>
          if max_bundle_bytes l > MAX_BUNDLE_BYTES
          then Inl (ValueError (U ''max_bundle_bytes exceeds the frozen 8 MiB ceiling''))
          else if max_estimated_input_tokens l + reserved_output_tokens l
                    > DEFAULT_REVIEW_CONTEXT_TOKENS
          then Inl (ValueError (U ''review input and reserved output exceed the context budget''))
          else Inr l)"

lemma check_limits_Inr:
  "check_limits l = Inr k \<longleftrightarrow>
     k = l \<and> list_all (\<lambda>(name, v). 0 < v) (limit_fields l) \<and> max_bundle_bytes l \<le> MAX_BUNDLE_BYTES \<and>
     max_estimated_input_tokens l + reserved_output_tokens l \<le> DEFAULT_REVIEW_CONTEXT_TOKENS"
proof -
  have "find (\<lambda>(name, v). v \<le> 0) (limit_fields l) = None \<longleftrightarrow> list_all (\<lambda>(name, v). 0 < v) (limit_fields l)"
    by (auto simp: find_None_iff list_all_iff not_le)
  then show ?thesis by (auto simp: check_limits_def not_less split: option.splits)
qed

lemma check_limits_positive:
  assumes "check_limits l = Inr k"
  shows "0 < max_files l" "0 < max_file_bytes l" "0 < max_total_subject_bytes l"
    "0 < max_path_bytes l" "0 < max_path_depth l" "0 < max_bundle_bytes l"
    "0 < max_findings l" "0 < max_field_bytes l"
  using assms by (auto simp: check_limits_Inr limit_fields_def)

end
