(* ===== verification/Fnmatch.thy ===== *)
theory Fnmatch
  imports Prelude
begin

text \<open>
  \<open>fnmatch.fnmatchcase\<close> of the Python 3.14 standard library on byte strings, as
  \<open>_component_glob_match\<close> of \<open>models.py\<close> uses it: the pattern is translated into tokens by
  the algorithm of \<open>fnmatch.translate\<close> (bracket expressions with the splitting at hyphens, the
  removal of empty ranges and the two degenerate sets), and the tokens are matched against the
  whole name. The characters of a bracket expression are read the way \<open>re\<close> reads the set that
  \<open>translate\<close> writes: an escaped character stands for itself, an unescaped hyphen between two
  characters is a range.
\<close>

datatype set_item = SetChar char | SetDash

datatype pat_tok =
  AnyRun | AnyChar | Literal char | Never | CharSet bool "(char \<times> char) list"

text \<open>The position of the closing bracket: \<open>s\<close> is the pattern after the opening one; a leading
  exclamation mark and then a leading closing bracket belong to the set.\<close>

fun until_bracket :: "bytes \<Rightarrow> (bytes \<times> bytes) option" where
  "until_bracket [] = None"
| "until_bracket (c # s) =
     (if c = CHR '']'' then Some ([], s)
      else map_option (\<lambda>(a, b). (c # a, b)) (until_bracket s))"

definition bracket_split :: "bytes \<Rightarrow> (bytes \<times> bytes) option" where
  "bracket_split s =
     (let neg = takeWhile (\<lambda>c. c = CHR ''!'') (take 1 s);
          s1 = drop (length neg) s;
          close = takeWhile (\<lambda>c. c = CHR '']'') (take 1 s1)
      in map_option (\<lambda>(a, b). (neg @ close @ a, b)) (until_bracket (drop (length close) s1)))"

text \<open>The chunks between the hyphens that build ranges: the search for the next hyphen starts
  \<open>skip\<close> characters after the start of the chunk.\<close>

fun find_dash :: "nat \<Rightarrow> bytes \<Rightarrow> (bytes \<times> bytes) option" where
  "find_dash n [] = None"
| "find_dash (Suc n) (c # s) = map_option (\<lambda>(a, b). (c # a, b)) (find_dash n s)"
| "find_dash 0 (c # s) =
     (if c = CHR ''-'' then Some ([], s) else map_option (\<lambda>(a, b). (c # a, b)) (find_dash 0 s))"

lemma find_dash_length: "find_dash n s = Some (a, b) \<Longrightarrow> length b < length s"
  by (induction n s arbitrary: a rule: find_dash.induct)
    (fastforce split: if_splits)+

function chunks_from :: "nat \<Rightarrow> bytes \<Rightarrow> bytes list" where
  "chunks_from skip s =
     (case find_dash skip s of
        None \<Rightarrow> [s]
      | Some (a, b) \<Rightarrow> a # chunks_from 2 b)"
  by pat_completeness auto
termination
  by (relation "measure (length \<circ> snd)") (auto dest: find_dash_length)

declare chunks_from.simps [simp del]

text \<open>An empty last chunk becomes a literal hyphen at the end of the chunk before it.\<close>

definition close_chunks :: "bytes list \<Rightarrow> bytes list" where
  "close_chunks cs =
     (if last cs = [] \<and> 2 \<le> length cs
      then butlast (butlast cs) @ [last (butlast cs) @ ''-''] else cs)"

text \<open>The removal of empty ranges, from the last pair of chunks to the first.\<close>

fun drop_empty_ranges :: "bytes list \<Rightarrow> bytes list" where
  "drop_empty_ranges [] = []"
| "drop_empty_ranges (c # cs) =
     (case drop_empty_ranges cs of
        [] \<Rightarrow> [c]
      | d # ds \<Rightarrow> if last c > hd d then (butlast c @ tl d) # ds else c # d # ds)"

definition set_items :: "bytes \<Rightarrow> set_item list" where
  "set_items stuff =
     (if CHR ''-'' \<notin> set stuff then map SetChar stuff
      else join_with [SetDash] (map (map SetChar)
             (drop_empty_ranges (close_chunks
               (chunks_from (if take 1 stuff = ''!'' then 2 else 1) stuff)))))"

text \<open>How \<open>re\<close> reads the items of a set.\<close>

fun item_char :: "set_item \<Rightarrow> char" where
  "item_char (SetChar c) = c"
| "item_char SetDash = CHR ''-''"

fun read_set :: "set_item list \<Rightarrow> (char \<times> char) list" where
  "read_set (x # SetDash # y # r) = (item_char x, item_char y) # read_set r"
| "read_set (x # r) = (item_char x, item_char x) # read_set r"
| "read_set [] = []"

definition set_token :: "bytes \<Rightarrow> pat_tok" where
  "set_token stuff =
     (case set_items stuff of
        [] \<Rightarrow> Never
      | x # r \<Rightarrow>
          if x = SetChar CHR ''!'' then (if r = [] then AnyChar else CharSet True (read_set r))
          else CharSet False (read_set (x # r)))"

function fn_translate :: "bytes \<Rightarrow> pat_tok list" where
  "fn_translate [] = []"
| "fn_translate (c # s) =
     (if c = CHR ''*'' then AnyRun # fn_translate (dropWhile (\<lambda>d. d = CHR ''*'') s)
      else if c = CHR ''?'' then AnyChar # fn_translate s
      else if c = CHR ''['' then
        (case bracket_split s of
           None \<Rightarrow> Literal c # fn_translate s
         | Some (stuff, rest) \<Rightarrow>
             if length rest < length s then set_token stuff # fn_translate rest else [])
      else Literal c # fn_translate s)"
  by pat_completeness auto
termination
  by (relation "measure length") (auto simp: length_dropWhile_le le_imp_less_Suc)

declare fn_translate.simps(2) [simp del]

lemma until_bracket_length: "until_bracket s = Some (a, b) \<Longrightarrow> length b < length s"
  by (induction s arbitrary: a) (fastforce split: if_splits)+

text \<open>The guard in the bracket case always holds: the rest is shorter.\<close>

lemma bracket_split_length: "bracket_split s = Some (a, b) \<Longrightarrow> length b < length s"
  by (auto simp: bracket_split_def Let_def dest!: until_bracket_length)

fun tok_char :: "pat_tok \<Rightarrow> char \<Rightarrow> bool" where
  "tok_char AnyChar x = True"
| "tok_char (Literal c) x = (x = c)"
| "tok_char (CharSet neg rs) x = (list_ex (\<lambda>(lo, hi). lo \<le> x \<and> x \<le> hi) rs \<noteq> neg)"
| "tok_char Never x = False"
| "tok_char AnyRun x = False"

fun match_toks :: "pat_tok list \<Rightarrow> bytes \<Rightarrow> bool" where
  "match_toks [] s = (s = [])"
| "match_toks (AnyRun # ts) [] = match_toks ts []"
| "match_toks (AnyRun # ts) (x # s) = (match_toks ts (x # s) \<or> match_toks (AnyRun # ts) s)"
| "match_toks (t # ts) [] = False"
| "match_toks (t # ts) (x # s) = (tok_char t x \<and> match_toks ts s)"

definition fnmatchcase :: "bytes \<Rightarrow> bytes \<Rightarrow> bool" where
  "fnmatchcase name pat = match_toks (fn_translate pat) name"

text \<open>A pattern without special characters matches only itself; \<open>*\<close> matches a run.\<close>

lemma match_toks_literals: "match_toks (map Literal p) s \<longleftrightarrow> s = p"
proof (induction p arbitrary: s)
  case (Cons c p)
  then show ?case by (cases s) auto
qed simp

lemma fn_translate_plain: "set p \<inter> set ''*?['' = {} \<Longrightarrow> fn_translate p = map Literal p"
  by (induction p) (auto simp: fn_translate.simps(2))

lemma fnmatchcase_plain: "set p \<inter> set ''*?['' = {} \<Longrightarrow> fnmatchcase s p \<longleftrightarrow> s = p"
  by (simp add: fnmatchcase_def fn_translate_plain match_toks_literals)

lemma match_toks_AnyRun: "match_toks (AnyRun # ts) s \<longleftrightarrow> (\<exists>a b. s = a @ b \<and> match_toks ts b)"
proof (induction s)
  case (Cons x s)
  show ?case
  proof
    assume "match_toks (AnyRun # ts) (x # s)"
    then consider "match_toks ts (x # s)" | "match_toks (AnyRun # ts) s" by auto
    then show "\<exists>a b. x # s = a @ b \<and> match_toks ts b"
    proof cases
      case 1
      then show ?thesis by (intro exI [of _ "[]"] exI [of _ "x # s"]) simp
    next
      case 2
      then obtain a b where "s = a @ b" "match_toks ts b" using Cons by auto
      then show ?thesis by (intro exI [of _ "x # a"] exI [of _ b]) simp
    qed
  next
    assume "\<exists>a b. x # s = a @ b \<and> match_toks ts b"
    then obtain a b where ab: "x # s = a @ b" "match_toks ts b" by auto
    show "match_toks (AnyRun # ts) (x # s)"
    proof (cases a)
      case (Cons y a')
      then have "s = a' @ b" using ab by simp
      then have "match_toks (AnyRun # ts) s" using Cons.IH ab(2) by blast
      then show ?thesis by simp
    next
      case Nil
      with ab have "match_toks ts (x # s)" by simp
      then show ?thesis by simp
    qed
  qed
qed auto

lemma match_toks_empty: "match_toks ts [] \<longleftrightarrow> set ts \<subseteq> {AnyRun}"
proof (induction ts)
  case (Cons t ts)
  then show ?case by (cases t) auto
qed simp

end
