(* ===== verification/Paths.thy ===== *)
theory Paths
  imports Codecs Sha256 Constants Fnmatch
begin

text \<open>
  The path functions of \<open>src/src/agent_loop/models.py\<close>: the canonical base64 form, the display
  form, the validation of a subject path, and the component-aware glob matcher that the path
  policy is built on, with the inductive specification it is proved equivalent to.
\<close>

section \<open>Representations of a raw path\<close>

definition path_to_b64 :: "bytes \<Rightarrow> ustr" where
  "path_to_b64 p = U (b64encode p)"

definition path_from_b64 :: "ustr \<Rightarrow> exn + bytes" where
  "path_from_b64 s =
     (case ascii_encode s of
        None \<Rightarrow> Inl (ValueError (U ''path_b64 is not valid canonical base64''))
      | Some raw \<Rightarrow>
          (case b64decode raw of
             None \<Rightarrow> Inl (ValueError (U ''path_b64 is not valid canonical base64''))
           | Some p \<Rightarrow>
               if b64encode p \<noteq> raw
               then Inl (ValueError (U ''path_b64 is not canonical base64''))
               else Inr p))"

definition display_char :: "char \<Rightarrow> bytes" where
  "display_char c =
     (if ord c = 0x5C then [CHR 0x5C, CHR 0x5C]
      else if ord c = 0x0A then [CHR 0x5C, CHR ''n'']
      else if ord c = 0x0D then [CHR 0x5C, CHR ''r'']
      else if ord c = 0x09 then [CHR 0x5C, CHR ''t'']
      else if 0x20 \<le> ord c \<and> ord c \<le> 0x7E then [c]
      else CHR 0x5C # CHR ''x'' # hex_bytes [c])"

definition display_path :: "bytes \<Rightarrow> ustr" where
  "display_path p = U (concat (map display_char p))"

lemma path_from_b64_Inr: "path_from_b64 s = Inr p \<longleftrightarrow> s = path_to_b64 p"
proof
  assume "path_from_b64 s = Inr p"
  then show "s = path_to_b64 p"
    by (auto simp: path_from_b64_def path_to_b64_def ascii_encode_Some
        split: option.splits if_splits)
next
  assume s: "s = path_to_b64 p"
  have "ascii_encode (U (b64encode p)) = Some (b64encode p)"
    by (rule ascii_encode_U) (auto simp: list_all_iff b64encode_ascii)
  then show "path_from_b64 s = Inr p" by (simp add: s path_from_b64_def path_to_b64_def)
qed

lemma path_from_to_b64 [simp]: "path_from_b64 (path_to_b64 p) = Inr p"
  by (simp add: path_from_b64_Inr)

lemma path_to_b64_inject [simp]: "path_to_b64 p = path_to_b64 q \<longleftrightarrow> p = q"
  by (simp add: path_to_b64_def)

lemma path_to_b64_ascii: "c \<in> set (path_to_b64 p) \<Longrightarrow> c < 128"
  by (auto simp: path_to_b64_def U_def dest: b64encode_ascii)

interpretation display: prefix_code display_char "\<lambda>_. True"
proof
  fix a b :: char and s t :: bytes
  assume e: "display_char a @ s = display_char b @ t"
  have inj: "ord x = ord y \<Longrightarrow> x = y" for x y :: char by simp
  have hex: "digit (ord a div 16) = digit (ord b div 16) \<Longrightarrow>
      digit (ord a mod 16) = digit (ord b mod 16) \<Longrightarrow> a = b"
    using hex_bytes_inject [of "[a]" "[b]"] by (simp add: hex_bytes_Cons)
  have bs: "x = CHR 0x5C \<longleftrightarrow> ord x = 92" for x :: char
    using inj [of x "CHR 0x5C"] by auto
  show "a = b \<and> s = t"
    using e hex by (auto simp: display_char_def bs hex_bytes_Cons split: if_splits intro!: inj)
next
  show "display_char a \<noteq> []" for a by (simp add: display_char_def)
qed

lemma display_path_inject: "display_path p = display_path q \<longleftrightarrow> p = q"
  using display.concat_enc_iff [of p q] by (simp add: display_path_def list_all_iff)

lemma display_char_printable: "c \<in> set (display_char x) \<Longrightarrow> 0x20 \<le> ord c \<and> ord c \<le> 0x7E"
  using is_hex_lower_digit [of "ord x div 16"] is_hex_lower_digit [of "ord x mod 16"]
  by (auto simp: display_char_def hex_bytes_Cons is_hex_lower_def split: if_splits)

lemma display_path_printable: "c \<in> set (display_path p) \<Longrightarrow> 0x20 \<le> c \<and> c \<le> 0x7E"
  by (auto simp: display_path_def U_def dest: display_char_printable)

section \<open>Valid subject paths\<close>

definition has_bad_component :: "bytes \<Rightarrow> bool" where
  "has_bad_component p \<longleftrightarrow> list_ex (\<lambda>c. c \<in> {[], ''.'', ''..''}) (split_on CHR ''/'' p)"

definition validate_subject_path :: "bytes \<Rightarrow> exn + unit" where
  "validate_subject_path p =
     (if p = [] then Inl (ValueError (U ''subject path must not be empty''))
      else if prefix ''/'' p then Inl (ValueError (U ''subject path must be relative''))
      else if contains [CHR 0x00] p then Inl (ValueError (U ''subject path must not contain NUL''))
      else if has_bad_component p
      then Inl (ValueError (U ''subject path contains an empty, dot, or dot-dot component''))
      else Inr ())"

definition valid_path :: "bytes \<Rightarrow> bool" where
  "valid_path p \<longleftrightarrow> validate_subject_path p = Inr ()"

lemma contains_single [simp]: "contains [c] p \<longleftrightarrow> c \<in> set p"
  by (auto simp: contains_append in_set_conv_decomp)

text \<open>A path is valid exactly when it is a slash-separated, non-empty sequence of ordinary
  components; the separate tests for the empty path and the leading slash only choose messages.\<close>

lemma valid_path_iff [path_simps]:
  "valid_path p \<longleftrightarrow> CHR 0x00 \<notin> set p \<and>
     (\<forall>c \<in> set (split_on CHR ''/'' p). c \<noteq> [] \<and> c \<noteq> ''.'' \<and> c \<noteq> ''..'')"
  by (cases p) (auto simp: valid_path_def validate_subject_path_def has_bad_component_def list_ex_iff)

lemma validate_subject_path_cases:
  "validate_subject_path p = Inr () \<longleftrightarrow> valid_path p"
  "(\<exists>e. validate_subject_path p = Inl e) \<longleftrightarrow> \<not> valid_path p"
  by (cases "validate_subject_path p", simp_all add: valid_path_def)+

lemma valid_path_not_Nil: "valid_path p \<Longrightarrow> p \<noteq> []"
  by (auto simp: valid_path_def validate_subject_path_def)

section \<open>Component-aware patterns\<close>

definition DEFAULT_MAX_PATH_BYTES :: nat where "DEFAULT_MAX_PATH_BYTES = 4096"
definition DEFAULT_MAX_PATH_DEPTH :: nat where "DEFAULT_MAX_PATH_DEPTH = 128"

definition validate_pattern :: "bytes \<Rightarrow> exn + unit" where
  "validate_pattern p =
     (if p = [] \<or> prefix ''/'' p \<or> contains [CHR 0x00] p
      then Inl (ValueError (U ''path pattern must be non-empty, relative, and NUL-free''))
      else if has_bad_component p
      then Inl (ValueError (U ''path pattern contains an empty, dot, or dot-dot component''))
      else if length p > DEFAULT_MAX_PATH_BYTES
           \<or> length (split_on CHR ''/'' p) > DEFAULT_MAX_PATH_DEPTH
      then Inl (ValueError (U ''path pattern exceeds the frozen path bounds''))
      else Inr ())"

text \<open>The closure \<open>match\<close> of \<open>_component_glob_match\<close>, on the remaining path and pattern
  components instead of two indices (the cache does not change the result).\<close>

function glob_parts :: "bytes list \<Rightarrow> bytes list \<Rightarrow> bool" where
  "glob_parts ps [] = (ps = [])"
| "glob_parts ps (q # qs) =
     (if q = ''**'' then
        (case dropWhile (\<lambda>x. x = ''**'') qs of
           [] \<Rightarrow> True
         | q' # qs' \<Rightarrow> list_ex (\<lambda>n. glob_parts (drop n ps) (q' # qs')) [0..<length ps + 1])
      else
        (case ps of
           [] \<Rightarrow> False
         | p # ps' \<Rightarrow> if \<not> fnmatchcase p q then False else glob_parts ps' qs))"
  by pat_completeness auto
termination
proof (relation "measure (length \<circ> snd)")
  fix ps qs qs' :: "bytes list" and q q' and n :: nat
  assume "dropWhile (\<lambda>x. x = ''**'') qs = q' # qs'"
  then show "((drop n ps, q' # qs'), ps, q # qs) \<in> measure (length \<circ> snd)"
    using length_dropWhile_le [of "\<lambda>x. x = ''**''" qs] by simp
qed auto

declare glob_parts.simps(2) [simp del]

definition component_glob_match :: "bytes \<Rightarrow> bytes \<Rightarrow> bool" where
  "component_glob_match path pattern =
     glob_parts (split_on CHR ''/'' path) (split_on CHR ''/'' pattern)"

definition path_matches_pattern :: "bytes \<Rightarrow> bytes \<Rightarrow> exn + bool" where
  "path_matches_pattern path pattern =
     rbind (validate_subject_path path) (\<lambda>_.
     rbind (validate_pattern pattern) (\<lambda>_.
     Inr (component_glob_match path pattern)))"

text \<open>The meaning of a pattern: \<open>**\<close> stands for any number of components, any other component
  for one component that \<open>fnmatch\<close> accepts.\<close>

inductive glob :: "bytes list \<Rightarrow> bytes list \<Rightarrow> bool" where
  glob_Nil: "glob [] []"
| glob_run: "glob ps qs \<Longrightarrow> glob (xs @ ps) (''**'' # qs)"
| glob_one: "q \<noteq> ''**'' \<Longrightarrow> fnmatchcase p q \<Longrightarrow> glob ps qs \<Longrightarrow> glob (p # ps) (q # qs)"

inductive_cases glob_NilE: "glob ps []"
inductive_cases glob_ConsE: "glob ps (q # qs)"

lemma glob_run_iff: "glob ps (''**'' # qs) \<longleftrightarrow> (\<exists>n \<le> length ps. glob (drop n ps) qs)"
proof
  assume "glob ps (''**'' # qs)"
  then obtain xs rs where "ps = xs @ rs" "glob rs qs" by (auto elim: glob_ConsE)
  then show "\<exists>n \<le> length ps. glob (drop n ps) qs" by (intro exI [of _ "length xs"]) simp
next
  assume "\<exists>n \<le> length ps. glob (drop n ps) qs"
  then obtain n where "glob (drop n ps) qs" by auto
  then have "glob (take n ps @ drop n ps) (''**'' # qs)" by (rule glob_run)
  then show "glob ps (''**'' # qs)" by simp
qed

lemma glob_one_iff:
  "q \<noteq> ''**'' \<Longrightarrow> glob ps (q # qs) \<longleftrightarrow> (\<exists>p ps'. ps = p # ps' \<and> fnmatchcase p q \<and> glob ps' qs)"
  by (auto intro: glob_one elim: glob_ConsE)

lemma glob_Nil_iff: "glob ps [] \<longleftrightarrow> ps = []"
  by (auto intro: glob_Nil elim: glob_NilE)

text \<open>A run of \<open>**\<close> is one \<open>**\<close>.\<close>

lemma glob_run_run: "glob ps (''**'' # ''**'' # qs) \<longleftrightarrow> glob ps (''**'' # qs)"
proof
  assume "glob ps (''**'' # ''**'' # qs)"
  then obtain m n where "glob (drop n (drop m ps)) qs" by (auto simp: glob_run_iff)
  then have "glob (take (n + m) ps @ drop (n + m) ps) (''**'' # qs)" by (intro glob_run) simp
  then show "glob ps (''**'' # qs)" by simp
next
  assume "glob ps (''**'' # qs)"
  then have "glob ([] @ ps) (''**'' # ''**'' # qs)" by (rule glob_run)
  then show "glob ps (''**'' # ''**'' # qs)" by simp
qed

lemma glob_skip_runs: "glob ps (''**'' # dropWhile (\<lambda>x. x = ''**'') qs) \<longleftrightarrow> glob ps (''**'' # qs)"
  by (induction qs) (auto simp: glob_run_run)

lemma glob_parts_iff_glob: "glob_parts ps qs \<longleftrightarrow> glob ps qs"
proof (induction ps qs rule: glob_parts.induct)
  case (2 ps q qs)
  show ?case
  proof (cases "q = ''**''")
    case run: True
    show ?thesis
    proof (cases "dropWhile (\<lambda>x. x = ''**'') qs")
      case Nil
      have "glob ps (''**'' # [])" using glob_run [OF glob_Nil, of ps] by simp
      then have "glob ps (''**'' # qs)" using glob_skip_runs [of ps qs] Nil by simp
      then show ?thesis by (simp add: run Nil glob_parts.simps(2))
    next
      case (Cons q' qs')
      have "glob_parts ps (q # qs) \<longleftrightarrow> (\<exists>n \<le> length ps. glob (drop n ps) (q' # qs'))"
      proof -
        have "glob_parts (drop n ps) (q' # qs') \<longleftrightarrow> glob (drop n ps) (q' # qs')" if "n \<le> length ps" for n
          using 2(1) [OF run Cons, of n] that by (auto simp: le_eq_less_or_eq)
        then show ?thesis
          unfolding glob_parts.simps(2) [of ps q qs]
          by (simp only: run Cons list_ex_iff if_True list.case set_upt Bex_def atLeastLessThan_iff)
            (metis Suc_eq_plus1 less_Suc_eq_le zero_le)
      qed
      also have "\<dots> \<longleftrightarrow> glob ps (''**'' # q' # qs')" by (simp add: glob_run_iff)
      also have "\<dots> \<longleftrightarrow> glob ps (q # qs)" using glob_skip_runs [of ps qs] by (simp add: run Cons)
      finally show ?thesis .
    qed
  next
    case one: False
    show ?thesis
      using 2(2) [OF one] by (cases ps) (auto simp: one glob_parts.simps(2) glob_one_iff)
  qed
qed (simp add: glob_Nil_iff)

lemmas glob_iff = glob_parts_iff_glob glob_run_iff glob_one_iff glob_Nil_iff

text \<open>A pattern whose components have no special characters matches exactly itself.\<close>

lemma glob_plain:
  "\<forall>q \<in> set qs. set q \<inter> set ''*?['' = {} \<Longrightarrow> glob ps qs \<longleftrightarrow> ps = qs"
proof (induction qs arbitrary: ps)
  case (Cons q qs)
  then have "q \<noteq> ''**''" by auto
  with Cons show ?case by (auto simp: glob_one_iff fnmatchcase_plain)
qed (simp add: glob_Nil_iff)

end
