(* ===== verification/Entries.thy ===== *)
theory Entries
  imports Paths
begin

text \<open>
  The data of \<open>src/src/agent_loop/models.py\<close>: manifest entries, scan records and changes between
  manifests, each with its checked constructor (\<open>__post_init__\<close>), and its properties. A digest
  is a Python \<open>str\<close>, so its 64 lowercase hexadecimal characters are checked and not assumed. The
  \<open>isinstance\<close> tests on fields whose type is fixed here are the types of the fields.
\<close>

definition validate_sha256 :: "ustr \<Rightarrow> string \<Rightarrow> exn + unit" where
  "validate_sha256 v name =
     (if length v \<noteq> 64 \<or> list_ex (\<lambda>c. \<not> is_hex_lower c) v
      then Inl (ValueError (U (name @ '' must be a lowercase SHA-256 digest'')))
      else Inr ())"

lemma validate_sha256_Inr: "validate_sha256 v n = Inr x \<longleftrightarrow> length v = 64 \<and> (\<forall>c \<in> set v. is_hex_lower c)"
  by (auto simp: validate_sha256_def list_ex_iff)

lemma validate_sha256_hex [simp]: "validate_sha256 (U (sha256_hex d)) n = Inr ()"
  by (auto simp: validate_sha256_Inr U_def sha256_hex_lower)

section \<open>Manifest entries\<close>

datatype entry_kind = REGULAR | SYMLINK

fun entry_kind_value :: "entry_kind \<Rightarrow> string" where
  "entry_kind_value REGULAR = ''regular''"
| "entry_kind_value SYMLINK = ''symlink''"

record manifest_entry =
  entry_path :: bytes
  entry_kind :: entry_kind
  entry_mode :: int
  entry_size :: "int option"
  blob_sha256 :: "ustr option"
  symlink_target :: "bytes option"
  target_sha256 :: "ustr option"

definition check_regular :: "manifest_entry \<Rightarrow> exn + manifest_entry" where
  "check_regular e =
     (if entry_mode e \<notin> {REGULAR_MODE, EXECUTABLE_MODE}
      then Inl (ValueError (U ''regular entry mode must be 100644 or 100755''))
      else if (case entry_size e of None \<Rightarrow> True | Some n \<Rightarrow> n < 0)
      then Inl (ValueError (U ''regular entry size must be a non-negative integer''))
      else
        (case blob_sha256 e of
           None \<Rightarrow> Inl (ValueError (U ''regular entry requires blob_sha256''))
         | Some h \<Rightarrow>
             rbind (validate_sha256 h ''blob_sha256'') (\<lambda>_.
             if symlink_target e \<noteq> None \<or> target_sha256 e \<noteq> None
             then Inl (ValueError (U ''regular entry cannot contain symlink fields''))
             else Inr e)))"

definition check_symlink :: "manifest_entry \<Rightarrow> exn + manifest_entry" where
  "check_symlink e =
     (if entry_mode e \<noteq> SYMLINK_MODE
      then Inl (ValueError (U ''symlink entry mode must be 120000''))
      else if entry_size e \<noteq> None \<or> blob_sha256 e \<noteq> None
      then Inl (ValueError (U ''symlink entry cannot contain regular-file fields''))
      else
        (case symlink_target e of
           None \<Rightarrow> Inl (TypeError (U ''symlink_target must be bytes''))
         | Some t \<Rightarrow>
             if t = [] then Inl (ValueError (U ''symlink target must not be empty''))
             else if contains [CHR 0x00] t
             then Inl (ValueError (U ''symlink target must not contain NUL''))
             else
               (case target_sha256 e of
                  None \<Rightarrow> Inl (ValueError (U ''symlink entry requires target_sha256''))
                | Some h \<Rightarrow>
                    rbind (validate_sha256 h ''target_sha256'') (\<lambda>_.
                    if U (sha256_hex t) \<noteq> h
                    then Inl (ValueError (U ''target_sha256 does not match literal symlink target''))
                    else Inr e))))"

definition check_entry :: "manifest_entry \<Rightarrow> exn + manifest_entry" where
  "check_entry e =
     rbind (validate_subject_path (entry_path e)) (\<lambda>_.
     (case entry_kind e of REGULAR \<Rightarrow> check_regular e | SYMLINK \<Rightarrow> check_symlink e))"

definition regular_entry :: "bytes \<Rightarrow> int \<Rightarrow> ustr \<Rightarrow> bool \<Rightarrow> exn + manifest_entry" where
  "regular_entry path n sha executable =
     check_entry \<lparr>entry_path = path, entry_kind = REGULAR,
       entry_mode = (if executable then EXECUTABLE_MODE else REGULAR_MODE),
       entry_size = Some n, blob_sha256 = Some sha, symlink_target = None, target_sha256 = None\<rparr>"

definition symlink_entry :: "bytes \<Rightarrow> bytes \<Rightarrow> exn + manifest_entry" where
  "symlink_entry path target =
     check_entry \<lparr>entry_path = path, entry_kind = SYMLINK, entry_mode = SYMLINK_MODE,
       entry_size = None, blob_sha256 = None, symlink_target = Some target,
       target_sha256 = Some (U (sha256_hex target))\<rparr>"

definition executable :: "manifest_entry \<Rightarrow> bool" where
  "executable e \<longleftrightarrow> entry_kind e = REGULAR \<and> entry_mode e = EXECUTABLE_MODE"

definition content_sha256 :: "manifest_entry \<Rightarrow> exn + ustr" where
  "content_sha256 e =
     (case (case entry_kind e of REGULAR \<Rightarrow> blob_sha256 e | SYMLINK \<Rightarrow> target_sha256 e) of
        None \<Rightarrow> Inl (AssertionError [])
      | Some h \<Rightarrow> Inr h)"

definition identity_without_path ::
  "manifest_entry \<Rightarrow> string \<times> int \<times> int option \<times> ustr option \<times> bytes option \<times> ustr option" where
  "identity_without_path e =
     (entry_kind_value (entry_kind e), entry_mode e, entry_size e, blob_sha256 e,
      symlink_target e, target_sha256 e)"

text \<open>What \<open>__post_init__\<close> accepts, as a predicate.\<close>

definition wf_entry :: "manifest_entry \<Rightarrow> bool" where
  "wf_entry e \<longleftrightarrow> check_entry e = Inr e"

definition digest :: "ustr \<Rightarrow> bool" where
  "digest v \<longleftrightarrow> length v = 64 \<and> (\<forall>c \<in> set v. is_hex_lower c)"

lemma digest_hex [simp]: "digest (U (sha256_hex d))"
  by (auto simp: digest_def U_def sha256_hex_lower)

lemma digest_ascii: "digest v \<Longrightarrow> c \<in> set v \<Longrightarrow> c < 128"
  by (auto simp: digest_def is_hex_lower_def)

lemma validate_subject_path_Inr [simp]: "validate_subject_path p = Inr x \<longleftrightarrow> valid_path p"
  by (simp add: valid_path_def)

lemma validate_ok: "valid_path p \<Longrightarrow> validate_subject_path p = Inr ()"
  unfolding valid_path_def .

lemma check_entry_Inr: "check_entry e = Inr e' \<longleftrightarrow> e' = e \<and> wf_entry e"
  by (auto simp: wf_entry_def check_entry_def check_regular_def check_symlink_def rbind_Inr_iff
      split: entry_kind.splits option.splits if_splits)

lemma wf_entry_cases:
  "wf_entry e \<longleftrightarrow> valid_path (entry_path e) \<and>
     (case entry_kind e of
        REGULAR \<Rightarrow> entry_mode e \<in> {REGULAR_MODE, EXECUTABLE_MODE} \<and>
          (\<exists>n h. entry_size e = Some n \<and> 0 \<le> n \<and> blob_sha256 e = Some h \<and> digest h) \<and>
          symlink_target e = None \<and> target_sha256 e = None
      | SYMLINK \<Rightarrow> entry_mode e = SYMLINK_MODE \<and> entry_size e = None \<and> blob_sha256 e = None \<and>
          (\<exists>t. symlink_target e = Some t \<and> t \<noteq> [] \<and> CHR 0x00 \<notin> set t \<and>
               target_sha256 e = Some (U (sha256_hex t))))"
proof (cases "entry_kind e")
  case REGULAR
  then show ?thesis
    by (auto simp: wf_entry_def check_entry_def check_regular_def rbind_Inr_iff digest_def
        validate_sha256_Inr split: option.splits if_splits)
next
  case SYMLINK
  then show ?thesis
    by (auto simp: wf_entry_def check_entry_def check_symlink_def rbind_Inr_iff
        split: option.splits if_splits)
qed

lemma wf_entry_path: "wf_entry e \<Longrightarrow> valid_path (entry_path e)"
  by (simp add: wf_entry_cases)

lemma wf_entry_content: "wf_entry e \<Longrightarrow> \<exists>h. content_sha256 e = Inr h \<and> digest h"
  by (auto simp: wf_entry_cases content_sha256_def split: entry_kind.splits)

lemma regular_entry_Inr:
  "regular_entry p n h x = Inr e \<longleftrightarrow> valid_path p \<and> 0 \<le> n \<and> digest h \<and>
     e = \<lparr>entry_path = p, entry_kind = REGULAR,
       entry_mode = (if x then EXECUTABLE_MODE else REGULAR_MODE),
       entry_size = Some n, blob_sha256 = Some h, symlink_target = None, target_sha256 = None\<rparr>"
  by (auto simp: regular_entry_def check_entry_Inr wf_entry_cases)

lemma symlink_entry_Inr:
  "symlink_entry p t = Inr e \<longleftrightarrow> valid_path p \<and> t \<noteq> [] \<and> CHR 0x00 \<notin> set t \<and>
     e = \<lparr>entry_path = p, entry_kind = SYMLINK, entry_mode = SYMLINK_MODE,
       entry_size = None, blob_sha256 = None, symlink_target = Some t,
       target_sha256 = Some (U (sha256_hex t))\<rparr>"
  by (auto simp: symlink_entry_def check_entry_Inr wf_entry_cases)

lemma entry_kind_value_inject: "entry_kind_value a = entry_kind_value b \<longleftrightarrow> a = b"
  by (cases a; cases b) simp_all

text \<open>An entry is its path and its identity without the path.\<close>

lemma entry_eq_iff:
  fixes e f :: manifest_entry
  shows "e = f \<longleftrightarrow> entry_path e = entry_path f \<and> identity_without_path e = identity_without_path f"
  by (cases e; cases f) (auto simp: identity_without_path_def entry_kind_value_inject)

section \<open>Scan records\<close>

record scan_record =
  scan_path :: bytes
  scan_kind :: entry_kind
  scan_mode :: int
  scan_payload :: bytes

definition check_scan_record :: "scan_record \<Rightarrow> exn + scan_record" where
  "check_scan_record r =
     rbind (validate_subject_path (scan_path r)) (\<lambda>_.
     (case scan_kind r of
        REGULAR \<Rightarrow>
          if scan_mode r \<notin> {REGULAR_MODE, EXECUTABLE_MODE}
          then Inl (ValueError (U ''scanned regular mode must be 100644 or 100755''))
          else Inr r
      | SYMLINK \<Rightarrow>
          if scan_mode r \<noteq> SYMLINK_MODE
          then Inl (ValueError (U ''scanned symlink mode must be 120000''))
          else Inr r))"

definition wf_scan_record :: "scan_record \<Rightarrow> bool" where
  "wf_scan_record r \<longleftrightarrow> check_scan_record r = Inr r"

lemma wf_scan_record_cases:
  "wf_scan_record r \<longleftrightarrow> valid_path (scan_path r) \<and>
     (case scan_kind r of
        REGULAR \<Rightarrow> scan_mode r \<in> {REGULAR_MODE, EXECUTABLE_MODE}
      | SYMLINK \<Rightarrow> scan_mode r = SYMLINK_MODE)"
  by (auto simp: wf_scan_record_def check_scan_record_def rbind_Inr_iff split: entry_kind.splits)

section \<open>Changes between manifests\<close>

datatype change_kind = CREATE | DELETE | MODIFY | RENAME

fun change_kind_value :: "change_kind \<Rightarrow> string" where
  "change_kind_value CREATE = ''create''"
| "change_kind_value DELETE = ''delete''"
| "change_kind_value MODIFY = ''modify''"
| "change_kind_value RENAME = ''rename-equivalent''"

record manifest_change =
  change_kind :: change_kind
  before :: "manifest_entry option"
  after :: "manifest_entry option"

definition check_change :: "manifest_change \<Rightarrow> exn + manifest_change" where
  "check_change c =
     (case change_kind c of
        CREATE \<Rightarrow>
          if before c \<noteq> None \<or> after c = None
          then Inl (ValueError (U ''create requires only an after entry'')) else Inr c
      | DELETE \<Rightarrow>
          if before c = None \<or> after c \<noteq> None
          then Inl (ValueError (U ''delete requires only a before entry'')) else Inr c
      | MODIFY \<Rightarrow>
          (case (before c, after c) of
             (Some b, Some a) \<Rightarrow>
               if entry_path b \<noteq> entry_path a \<or> b = a
               then Inl (ValueError (U ''modify requires different entries at one path''))
               else Inr c
           | _ \<Rightarrow> Inl (ValueError (U ''modify requires before and after entries'')))
      | RENAME \<Rightarrow>
          (case (before c, after c) of
             (Some b, Some a) \<Rightarrow>
               if entry_path b = entry_path a
               then Inl (ValueError (U ''rename requires distinct paths''))
               else if identity_without_path b \<noteq> identity_without_path a
               then Inl (ValueError (U ''rename entries must be exactly equivalent except for path''))
               else Inr c
           | _ \<Rightarrow> Inl (ValueError (U ''rename requires before and after entries''))))"

definition old_path :: "manifest_change \<Rightarrow> bytes option" where
  "old_path c = map_option entry_path (before c)"

definition new_path :: "manifest_change \<Rightarrow> bytes option" where
  "new_path c = map_option entry_path (after c)"

definition change_paths :: "manifest_change \<Rightarrow> exn + bytes list" where
  "change_paths c =
     (case before c of
        None \<Rightarrow> (case after c of None \<Rightarrow> Inl (AssertionError []) | Some a \<Rightarrow> Inr [entry_path a])
      | Some b \<Rightarrow>
          (case after c of
             None \<Rightarrow> Inr [entry_path b]
           | Some a \<Rightarrow> if entry_path b = entry_path a then Inr [entry_path b]
                       else Inr [entry_path b, entry_path a]))"

definition wf_change :: "manifest_change \<Rightarrow> bool" where
  "wf_change c \<longleftrightarrow> check_change c = Inr c"

definition mk_change ::
  "change_kind \<Rightarrow> manifest_entry option \<Rightarrow> manifest_entry option \<Rightarrow> exn + manifest_change" where
  "mk_change k b a = check_change \<lparr>change_kind = k, before = b, after = a\<rparr>"

lemma check_change_Inr: "check_change c = Inr d \<longleftrightarrow> d = c \<and> wf_change c"
  by (auto simp: wf_change_def check_change_def split: change_kind.splits option.splits if_splits)

lemma wf_change_cases:
  "wf_change c \<longleftrightarrow>
     (case change_kind c of
        CREATE \<Rightarrow> before c = None \<and> after c \<noteq> None
      | DELETE \<Rightarrow> before c \<noteq> None \<and> after c = None
      | MODIFY \<Rightarrow> (\<exists>b a. before c = Some b \<and> after c = Some a \<and> entry_path b = entry_path a \<and> b \<noteq> a)
      | RENAME \<Rightarrow> (\<exists>b a. before c = Some b \<and> after c = Some a \<and> entry_path b \<noteq> entry_path a \<and>
                    identity_without_path b = identity_without_path a))"
  by (auto simp: wf_change_def check_change_def split: change_kind.splits option.splits if_splits)

lemma mk_change_simps [simp]:
  "mk_change CREATE None (Some a) = Inr \<lparr>change_kind = CREATE, before = None, after = Some a\<rparr>"
  "mk_change DELETE (Some b) None = Inr \<lparr>change_kind = DELETE, before = Some b, after = None\<rparr>"
  "entry_path b = entry_path a \<Longrightarrow> b \<noteq> a \<Longrightarrow>
    mk_change MODIFY (Some b) (Some a) = Inr \<lparr>change_kind = MODIFY, before = Some b, after = Some a\<rparr>"
  "entry_path b \<noteq> entry_path a \<Longrightarrow> identity_without_path b = identity_without_path a \<Longrightarrow>
    mk_change RENAME (Some b) (Some a) = Inr \<lparr>change_kind = RENAME, before = Some b, after = Some a\<rparr>"
  by (simp_all add: mk_change_def check_change_def)

lemma change_paths_wf:
  assumes "wf_change c"
  obtains ps where "change_paths c = Inr ps" and "ps \<noteq> []"
    and "set ps = set_option (old_path c) \<union> set_option (new_path c)"
  using assms
  by (auto simp: wf_change_cases change_paths_def old_path_def new_path_def insert_commute
      split: change_kind.splits)

end
