(* ===== verification/Policy.thy ===== *)
theory Policy
  imports Entries
begin

text \<open>
  \<open>PathPolicy\<close> of \<open>src/src/agent_loop/models.py\<close>: the frozen pattern collections and their
  checks, the classification of a path (protection first, and the Git control plane always) and
  of a change (a change is discard-only or opaque only when every path it touches is).
\<close>

definition MAX_PATH_POLICY_PATTERNS :: nat where "MAX_PATH_POLICY_PATTERNS = 256"

datatype path_disposition = PROTECTED | DISCARD_ONLY | OPAQUE_NONSEMANTIC | SEMANTIC

record path_policy =
  protected_patterns :: "bytes list"
  discard_only_patterns :: "bytes list"
  opaque_nonsemantic_patterns :: "bytes list"
  protected_opt_in_patterns :: "bytes list"

definition check_patterns :: "bytes list \<Rightarrow> exn + unit" where
  "check_patterns ps =
     (if length ps > MAX_PATH_POLICY_PATTERNS
      then Inl (ValueError (U ''path policy pattern collection exceeds its bound''))
      else rbind (rmap validate_pattern ps) (\<lambda>_.
           if \<not> distinct ps
           then Inl (ValueError (U ''path policy patterns must not contain duplicates''))
           else Inr ()))"

definition check_policy :: "path_policy \<Rightarrow> exn + path_policy" where
  "check_policy pol =
     rbind (check_patterns (protected_patterns pol)) (\<lambda>_.
     rbind (check_patterns (discard_only_patterns pol)) (\<lambda>_.
     rbind (check_patterns (opaque_nonsemantic_patterns pol)) (\<lambda>_.
     rbind (check_patterns (protected_opt_in_patterns pol)) (\<lambda>_.
     Inr pol))))"

definition encode_patterns :: "ustr list \<Rightarrow> exn + bytes list" where
  "encode_patterns vs =
     rmap (\<lambda>v. case utf8_encode v of None \<Rightarrow> Inl UnicodeEncodeError | Some b \<Rightarrow> Inr b) vs"

definition policy_from_strings ::
  "ustr list \<Rightarrow> ustr list \<Rightarrow> ustr list \<Rightarrow> ustr list \<Rightarrow> exn + path_policy" where
  "policy_from_strings prot disc opaque optin =
     rbind (encode_patterns prot) (\<lambda>p.
     rbind (encode_patterns disc) (\<lambda>d.
     rbind (encode_patterns opaque) (\<lambda>q.
     rbind (encode_patterns optin) (\<lambda>i.
     check_policy \<lparr>protected_patterns = p, discard_only_patterns = d,
       opaque_nonsemantic_patterns = q, protected_opt_in_patterns = i\<rparr>))))"

definition default_policy :: path_policy where
  "default_policy = \<lparr>protected_patterns = DEFAULT_PROTECTED_PATTERNS, discard_only_patterns = [],
     opaque_nonsemantic_patterns = [], protected_opt_in_patterns = []\<rparr>"

definition policy_matches :: "bytes \<Rightarrow> bytes list \<Rightarrow> exn + bool" where
  "policy_matches path patterns =
     rbind (validate_subject_path path) (\<lambda>_.
     Inr (list_ex (\<lambda>p. component_glob_match path p) patterns))"

definition is_git_path :: "bytes \<Rightarrow> bool" where
  "is_git_path path \<longleftrightarrow>
     path = ''.git'' \<or> prefix ''.git/'' path \<or> suffix ''/.git'' path \<or> contains ''/.git/'' path"

definition classify :: "path_policy \<Rightarrow> bytes \<Rightarrow> exn + path_disposition" where
  "classify pol path =
     rbind (validate_subject_path path) (\<lambda>_.
     if is_git_path path then Inr PROTECTED
     else
       rbind (policy_matches path (protected_opt_in_patterns pol)) (\<lambda>opted_in.
       rbind (policy_matches path (protected_patterns pol)) (\<lambda>prot.
       if prot \<and> \<not> opted_in then Inr PROTECTED
       else
         rbind (policy_matches path (discard_only_patterns pol)) (\<lambda>disc.
         if disc then Inr DISCARD_ONLY
         else
           rbind (policy_matches path (opaque_nonsemantic_patterns pol)) (\<lambda>opaque.
           if opaque then Inr OPAQUE_NONSEMANTIC else Inr SEMANTIC)))))"

definition classify_change :: "path_policy \<Rightarrow> manifest_change \<Rightarrow> exn + path_disposition" where
  "classify_change pol c =
     rbind (change_paths c) (\<lambda>paths.
     rbind (rmap (classify pol) paths) (\<lambda>ds.
     Inr (if PROTECTED \<in> set ds then PROTECTED
          else if set ds = {DISCARD_ONLY} then DISCARD_ONLY
          else if set ds = {OPAQUE_NONSEMANTIC} then OPAQUE_NONSEMANTIC
          else SEMANTIC)))"

section \<open>The Git control plane\<close>

text \<open>The four byte tests of \<open>classify\<close> say that some component of the path is \<open>.git\<close>.\<close>

lemma is_git_path_iff: "is_git_path path \<longleftrightarrow> ''.git'' \<in> set (split_on CHR ''/'' path)"
proof
  assume "is_git_path path"
  then consider "path = ''.git''" | b where "path = ''.git'' @ CHR ''/'' # b"
    | a where "path = a @ CHR ''/'' # ''.git''" | a b where "path = a @ CHR ''/'' # ''.git'' @ CHR ''/'' # b"
    by (auto simp: is_git_path_def prefix_def suffix_def contains_append)
  then show "''.git'' \<in> set (split_on CHR ''/'' path)"
    using split_on_mid [of "CHR ''/''" "''.git''"] by cases (simp_all del: append.simps)
next
  assume "''.git'' \<in> set (split_on CHR ''/'' path)"
  then obtain xs ys where s: "split_on CHR ''/'' path = xs @ ''.git'' # ys"
    by (auto simp: in_set_conv_decomp)
  have "path = join_with ''/'' (xs @ ''.git'' # ys)"
    using join_split_on [of "CHR ''/''" path] by (simp add: s)
  also have "\<dots> = (if xs = [] then [] else join_with ''/'' xs @ ''/'') @ ''.git'' @
      (if ys = [] then [] else ''/'' @ join_with ''/'' ys)"
    by (rule join_with_middle)
  finally show "is_git_path path"
    by (auto simp: is_git_path_def prefix_def suffix_def contains_append split: if_splits)
qed

section \<open>Classification\<close>

text \<open>The disposition of a valid path, without the error plumbing.\<close>

definition matches_any :: "bytes list \<Rightarrow> bytes \<Rightarrow> bool" where
  "matches_any patterns path \<longleftrightarrow>
     (\<exists>p \<in> set patterns. glob (split_on CHR ''/'' path) (split_on CHR ''/'' p))"

definition disposition :: "path_policy \<Rightarrow> bytes \<Rightarrow> path_disposition" where
  "disposition pol path =
     (if ''.git'' \<in> set (split_on CHR ''/'' path) \<or>
         matches_any (protected_patterns pol) path \<and> \<not> matches_any (protected_opt_in_patterns pol) path
      then PROTECTED
      else if matches_any (discard_only_patterns pol) path then DISCARD_ONLY
      else if matches_any (opaque_nonsemantic_patterns pol) path then OPAQUE_NONSEMANTIC
      else SEMANTIC)"

lemma policy_matches_valid: "valid_path path \<Longrightarrow> policy_matches path ps = Inr (matches_any ps path)"
  by (simp add: policy_matches_def validate_ok matches_any_def component_glob_match_def
      glob_parts_iff_glob list_ex_iff)

lemma classify_valid:
  assumes "valid_path path"
  shows "classify pol path = Inr (disposition pol path)"
  unfolding classify_def policy_matches_valid [OF assms] validate_ok [OF assms] rbind_simps
    is_git_path_iff disposition_def
  by (cases "matches_any (protected_patterns pol) path";
      cases "matches_any (protected_opt_in_patterns pol) path") simp_all

lemma classify_Inr: "classify pol path = Inr d \<longleftrightarrow> valid_path path \<and> d = disposition pol path"
proof (cases "valid_path path")
  case False
  then show ?thesis by (auto simp: classify_def rbind_Inr_iff)
qed (auto simp: classify_valid)

definition combine :: "path_disposition set \<Rightarrow> path_disposition" where
  "combine D = (if PROTECTED \<in> D then PROTECTED
     else if D = {DISCARD_ONLY} then DISCARD_ONLY
     else if D = {OPAQUE_NONSEMANTIC} then OPAQUE_NONSEMANTIC else SEMANTIC)"

definition change_path_set :: "manifest_change \<Rightarrow> bytes set" where
  "change_path_set c = set_option (old_path c) \<union> set_option (new_path c)"

definition change_disposition :: "path_policy \<Rightarrow> manifest_change \<Rightarrow> path_disposition" where
  "change_disposition pol c = combine (disposition pol ` change_path_set c)"

lemma classify_change_wf:
  assumes "wf_change c" and "\<forall>p \<in> change_path_set c. valid_path p"
  shows "classify_change pol c = Inr (change_disposition pol c)"
proof -
  obtain ps where ps: "change_paths c = Inr ps" "set ps = change_path_set c"
    using change_paths_wf [OF assms(1)] unfolding change_path_set_def by metis
  have "rmap (classify pol) ps = Inr (map (disposition pol) ps)"
    using assms(2) ps(2) by (intro rmap_Inr_map) (auto simp: classify_valid)
  then show ?thesis
    by (simp add: classify_change_def ps change_disposition_def combine_def)
qed

text \<open>A change leaves the semantic class only when all of its paths do.\<close>

lemma change_disposition_iff:
  assumes "change_path_set c \<noteq> {}"
  shows "change_disposition pol c = PROTECTED \<longleftrightarrow> (\<exists>p \<in> change_path_set c. disposition pol p = PROTECTED)"
    and "change_disposition pol c = DISCARD_ONLY \<longleftrightarrow> (\<forall>p \<in> change_path_set c. disposition pol p = DISCARD_ONLY)"
    and "change_disposition pol c = OPAQUE_NONSEMANTIC \<longleftrightarrow>
      (\<forall>p \<in> change_path_set c. disposition pol p = OPAQUE_NONSEMANTIC)"
proof -
  have c: "combine D = PROTECTED \<longleftrightarrow> PROTECTED \<in> D"
    "D \<noteq> {} \<Longrightarrow> combine D = DISCARD_ONLY \<longleftrightarrow> (\<forall>d \<in> D. d = DISCARD_ONLY)"
    "D \<noteq> {} \<Longrightarrow> combine D = OPAQUE_NONSEMANTIC \<longleftrightarrow> (\<forall>d \<in> D. d = OPAQUE_NONSEMANTIC)" for D
    by (auto simp: combine_def split: if_splits)
  show "change_disposition pol c = PROTECTED \<longleftrightarrow> (\<exists>p \<in> change_path_set c. disposition pol p = PROTECTED)"
    unfolding change_disposition_def c(1) by force
qed (use assms in \<open>auto simp: change_disposition_def combine_def split: if_splits\<close>)

lemma wf_change_paths: "wf_change c \<Longrightarrow> change_path_set c \<noteq> {}"
  by (auto simp: wf_change_cases change_path_set_def old_path_def new_path_def split: change_kind.splits)

end
