(* ===== verification/Manifests.thy ===== *)
theory Manifests
  imports Entries
begin

text \<open>
  \<open>SubjectManifest\<close> of \<open>src/src/agent_loop/manifests.py\<close>: its checked constructor, its limits
  and its canonical encoding. A byte string longer than 64 bits can count and an assertion on a
  field are errors, as in the code; a manifest whose entries passed their own constructor meets
  no assertion. The lemmas show what the constructor accepts and that the canonical bytes
  determine the manifest.
\<close>

section \<open>The canonical encoding\<close>

definition U64_MAX :: int where "U64_MAX = 2 ^ 64 - 1"

definition CANONICAL_DOMAIN :: bytes where "CANONICAL_DOMAIN = ''agent-loop/subject-manifest''"

definition length_prefix :: "bytes \<Rightarrow> exn + bytes" where
  "length_prefix v =
     (if int (length v) > U64_MAX then Inl (ValueError (U ''canonical value is too large''))
      else Inr (map char_of (be_bytes 8 (int (length v))) @ v))"

definition encode_atoms :: "bytes list \<Rightarrow> exn + bytes" where
  "encode_atoms atoms = rbind (rmap length_prefix atoms) (\<lambda>parts. Inr (concat parts))"

definition fromhex :: "ustr \<Rightarrow> exn + bytes" where
  "fromhex s =
     (case ascii_encode s of
        None \<Rightarrow> Inl (ValueError (U ''non-hexadecimal number found in fromhex() arg''))
      | Some h \<Rightarrow>
          (case from_hex (filter (\<lambda>c. \<not> is_ws_byte c) h) of
             None \<Rightarrow> Inl (ValueError (U ''non-hexadecimal number found in fromhex() arg''))
           | Some b \<Rightarrow> Inr b))"

definition common_atoms :: "manifest_entry \<Rightarrow> bytes list" where
  "common_atoms e =
     [''entry'', entry_path e, entry_kind_value (entry_kind e), oct6 (entry_mode e)]"

definition canonical_entry :: "manifest_entry \<Rightarrow> exn + bytes" where
  "canonical_entry e =
     (case entry_kind e of
        REGULAR \<Rightarrow>
          (case (entry_size e, blob_sha256 e) of
             (Some n, Some h) \<Rightarrow>
               rbind (fromhex h) (\<lambda>raw. encode_atoms (common_atoms e @ [dec_int n, raw]))
           | _ \<Rightarrow> Inl (AssertionError []))
      | SYMLINK \<Rightarrow>
          (case (symlink_target e, target_sha256 e) of
             (Some t, Some h) \<Rightarrow>
               rbind (fromhex h) (\<lambda>raw. encode_atoms (common_atoms e @ [t, raw]))
           | _ \<Rightarrow> Inl (AssertionError [])))"

section \<open>The manifest\<close>

definition SUBJECT_SCHEMA_VERSION :: int where "SUBJECT_SCHEMA_VERSION = 1"

record subject_manifest =
  entries :: "manifest_entry list"
  schema_version :: int

text \<open>The loop over the sorted paths: a path one of whose proper ancestors was seen is refused.\<close>

definition proper_ancestors :: "bytes \<Rightarrow> bytes list" where
  "proper_ancestors path =
     (let parts = split_on CHR ''/'' path
      in map (\<lambda>n. join_with ''/'' (take n parts)) [1..<length parts])"

fun containment_loop :: "bytes list \<Rightarrow> bytes list \<Rightarrow> bool" where
  "containment_loop seen [] = False"
| "containment_loop seen (p # ps) =
     (list_ex (\<lambda>a. a \<in> set seen) (proper_ancestors p) \<or> containment_loop (p # seen) ps)"

definition manifest_paths :: "subject_manifest \<Rightarrow> bytes list" where
  "manifest_paths m = map entry_path (entries m)"

definition check_manifest :: "subject_manifest \<Rightarrow> exn + subject_manifest" where
  "check_manifest m =
     (if schema_version m \<noteq> SUBJECT_SCHEMA_VERSION
      then Inl (ValueError (U ''unsupported subject schema_version''))
      else if manifest_paths m \<noteq> sort (manifest_paths m)
      then Inl (ValueError (U ''manifest entries must be sorted by raw path bytes''))
      else if length (manifest_paths m) \<noteq> length (remdups (manifest_paths m))
      then Inl (ValueError (U ''manifest paths must be unique''))
      else if containment_loop [] (manifest_paths m)
      then Inl (ValueError (U ''a manifest file or symlink cannot contain another entry''))
      else Inr m)"

definition entry_limit_error :: "string \<Rightarrow> manifest_entry \<Rightarrow> exn" where
  "entry_limit_error msg e = ValueError (U (msg @ '': '') @ display_path (entry_path e))"

fun limits_loop :: "limits \<Rightarrow> int \<Rightarrow> manifest_entry list \<Rightarrow> exn + unit" where
  "limits_loop l acc [] = Inr ()"
| "limits_loop l acc (e # es) =
     (if int (length (entry_path e)) > max_path_bytes l
      then Inl (entry_limit_error ''manifest path exceeds max_path_bytes'' e)
      else if int (length (split_on CHR ''/'' (entry_path e))) > max_path_depth l
      then Inl (entry_limit_error ''manifest path exceeds max_path_depth'' e)
      else
        rbind
          (case entry_kind e of
             REGULAR \<Rightarrow>
               (case entry_size e of
                  None \<Rightarrow> Inl (AssertionError [])
                | Some n \<Rightarrow>
                    if n > max_file_bytes l
                    then Inl (entry_limit_error ''regular file exceeds max_file_bytes'' e)
                    else Inr (acc + n))
           | SYMLINK \<Rightarrow>
               (case symlink_target e of
                  None \<Rightarrow> Inl (AssertionError [])
                | Some t \<Rightarrow>
                    if int (length t) > max_path_bytes l
                    then Inl (entry_limit_error ''symlink target exceeds max_path_bytes'' e)
                    else Inr (acc + int (length t))))
          (\<lambda>acc'.
             if acc' > max_total_subject_bytes l
             then Inl (ValueError (U ''manifest exceeds max_total_subject_bytes''))
             else limits_loop l acc' es))"

definition validate_limits :: "limits \<Rightarrow> subject_manifest \<Rightarrow> exn + unit" where
  "validate_limits l m =
     (if int (length (entries m)) > max_files l
      then Inl (ValueError (U ''manifest exceeds max_files''))
      else limits_loop l 0 (entries m))"

definition empty_manifest :: "exn + subject_manifest" where
  "empty_manifest = check_manifest \<lparr>entries = [], schema_version = SUBJECT_SCHEMA_VERSION\<rparr>"

definition build_manifest :: "limits \<Rightarrow> manifest_entry list \<Rightarrow> exn + subject_manifest" where
  "build_manifest l es =
     rbind (check_manifest \<lparr>entries = sort_key entry_path es, schema_version = SUBJECT_SCHEMA_VERSION\<rparr>)
       (\<lambda>m. rbind (validate_limits l m) (\<lambda>_. Inr m))"

definition canonical_bytes :: "subject_manifest \<Rightarrow> exn + bytes" where
  "canonical_bytes m =
     rbind (encode_atoms [CANONICAL_DOMAIN, dec_int (schema_version m),
              dec_int (int (length (entries m)))]) (\<lambda>header.
     rbind (rmap canonical_entry (entries m)) (\<lambda>body.
     Inr (header @ concat body)))"

definition fingerprint :: "subject_manifest \<Rightarrow> exn + ustr" where
  "fingerprint m = rbind (canonical_bytes m) (\<lambda>b. Inr (U (sha256_hex b)))"

section \<open>What the constructor accepts\<close>

definition wf_manifest :: "subject_manifest \<Rightarrow> bool" where
  "wf_manifest m \<longleftrightarrow> check_manifest m = Inr m \<and> list_all wf_entry (entries m)"

text \<open>\<open>inside p q\<close>: the file \<open>q\<close> would lie inside the file \<open>p\<close>.\<close>

definition inside :: "bytes \<Rightarrow> bytes \<Rightarrow> bool" where
  "inside p q \<longleftrightarrow> (\<exists>r. q = p @ CHR ''/'' # r)"

lemma proper_ancestors_iff: "a \<in> set (proper_ancestors p) \<longleftrightarrow> inside a p"
proof
  assume "a \<in> set (proper_ancestors p)"
  then obtain n where n: "1 \<le> n" "n < length (split_on CHR ''/'' p)"
    and a: "a = join_with ''/'' (take n (split_on CHR ''/'' p))"
    unfolding proper_ancestors_def Let_def by auto
  have "p = join_with ''/'' (take n (split_on CHR ''/'' p) @ drop n (split_on CHR ''/'' p))"
    by (simp add: join_split_on)
  also have "\<dots> = a @ ''/'' @ join_with ''/'' (drop n (split_on CHR ''/'' p))"
    unfolding a using n by (intro join_with_append) auto
  finally show "inside a p" unfolding inside_def by auto
next
  assume "inside a p"
  then obtain r where p: "p = a @ CHR ''/'' # r" unfolding inside_def by auto
  have s: "split_on CHR ''/'' p = split_on CHR ''/'' a @ split_on CHR ''/'' r"
    by (simp add: p split_on_suffix)
  have "a = join_with ''/'' (take (length (split_on CHR ''/'' a)) (split_on CHR ''/'' p))"
    by (simp add: s join_split_on)
  moreover have "length (split_on CHR ''/'' a) \<in> set [1..<length (split_on CHR ''/'' p)]"
    by (simp add: s Suc_leI)
  ultimately show "a \<in> set (proper_ancestors p)" unfolding proper_ancestors_def Let_def by fastforce
qed

lemma inside_less: "inside p q \<Longrightarrow> p < q"
proof -
  have "p < p @ x # r" for x :: char and r by (induction p) auto
  then show "inside p q \<Longrightarrow> p < q" by (auto simp: inside_def)
qed

lemma containment_loop_iff:
  "sorted ps \<Longrightarrow> distinct ps \<Longrightarrow> containment_loop seen ps \<longleftrightarrow>
     (\<exists>q \<in> set ps. \<exists>p \<in> set seen \<union> set ps. inside p q)"
proof (induction seen ps rule: containment_loop.induct)
  case (2 seen p ps)
  have "\<not> inside x p" if "x \<in> set (p # ps)" for x
    using 2(2,3) that inside_less [of x p] by fastforce
  with 2 show ?case by (auto simp: list_ex_iff proper_ancestors_iff)
qed simp

lemma check_manifest_Inr:
  "check_manifest m = Inr m' \<longleftrightarrow> m' = m \<and> schema_version m = SUBJECT_SCHEMA_VERSION \<and>
     sorted (manifest_paths m) \<and> distinct (manifest_paths m) \<and>
     (\<forall>p \<in> set (manifest_paths m). \<forall>q \<in> set (manifest_paths m). \<not> inside p q)"
proof -
  have "sort ps = ps \<longleftrightarrow> sorted ps" for ps :: "bytes list"
    by (metis sorted_sort sorted_sort_id)
  moreover have "length (remdups ps) = length ps \<longleftrightarrow> distinct ps" for ps :: "bytes list"
    by (simp add: length_remdups_card_conv) (metis card_distinct distinct_card)
  ultimately show ?thesis
    using containment_loop_iff [of "manifest_paths m" "[]"]
    by (auto simp: check_manifest_def eq_commute [of "manifest_paths m"]
        eq_commute [of "length (manifest_paths m)"])
qed

lemma wf_manifestD:
  assumes "wf_manifest m"
  shows "schema_version m = SUBJECT_SCHEMA_VERSION" "sorted (map entry_path (entries m))"
    "distinct (map entry_path (entries m))" "\<forall>e \<in> set (entries m). wf_entry e"
    "\<forall>p \<in> set (map entry_path (entries m)). \<forall>q \<in> set (map entry_path (entries m)). \<not> inside p q"
  using assms by (auto simp: wf_manifest_def check_manifest_Inr list_all_iff manifest_paths_def)

lemma wf_manifest_eqI:
  assumes "wf_manifest m" and "wf_manifest n" and "set (entries m) = set (entries n)"
  shows "m = n"
proof -
  have "entries m = entries n"
    using wf_manifestD(2,3) [OF assms(1)] wf_manifestD(2,3) [OF assms(2)] assms(3)
    by (intro map_sorted_distinct_set_unique [where f = entry_path])
      (auto simp: distinct_map intro: inj_on_subset)
  then show ?thesis
    using wf_manifestD(1) [OF assms(1)] wf_manifestD(1) [OF assms(2)] by (cases m; cases n) auto
qed

lemma build_manifest_Inr:
  "build_manifest l es = Inr m \<longleftrightarrow>
     m = \<lparr>entries = sort_key entry_path es, schema_version = SUBJECT_SCHEMA_VERSION\<rparr> \<and>
     check_manifest m = Inr m \<and> validate_limits l m = Inr ()"
  by (auto simp: build_manifest_def rbind_Inr_iff check_manifest_Inr)

lemma build_manifest_wf:
  assumes "build_manifest l es = Inr m" and "\<forall>e \<in> set es. wf_entry e"
  shows "wf_manifest m" "set (entries m) = set es" "validate_limits l m = Inr ()"
  using assms by (auto simp: build_manifest_Inr wf_manifest_def list_all_iff)

text \<open>The limits: the loop accepts exactly when every entry and the whole are within bounds.\<close>

definition entry_bytes :: "manifest_entry \<Rightarrow> int" where
  "entry_bytes e = (case entry_kind e of
     REGULAR \<Rightarrow> (case entry_size e of None \<Rightarrow> 0 | Some n \<Rightarrow> n)
   | SYMLINK \<Rightarrow> (case symlink_target e of None \<Rightarrow> 0 | Some t \<Rightarrow> int (length t)))"

definition entry_within :: "limits \<Rightarrow> manifest_entry \<Rightarrow> bool" where
  "entry_within l e \<longleftrightarrow>
     int (length (entry_path e)) \<le> max_path_bytes l \<and>
     int (length (split_on CHR ''/'' (entry_path e))) \<le> max_path_depth l \<and>
     entry_bytes e \<le> (case entry_kind e of REGULAR \<Rightarrow> max_file_bytes l | SYMLINK \<Rightarrow> max_path_bytes l)"

lemma entry_bytes_nonneg: "wf_entry e \<Longrightarrow> 0 \<le> entry_bytes e"
  by (auto simp: wf_entry_cases entry_bytes_def split: entry_kind.splits)

lemma sum_entry_bytes_nonneg: "list_all wf_entry es \<Longrightarrow> 0 \<le> sum_list (map entry_bytes es)"
  by (induction es) (auto simp: entry_bytes_nonneg)

lemma limits_step:
  assumes "wf_entry e"
  shows "limits_loop l t (e # es) = Inr () \<longleftrightarrow> entry_within l e \<and>
    t + entry_bytes e \<le> max_total_subject_bytes l \<and> limits_loop l (t + entry_bytes e) es = Inr ()"
  using assms
  by (auto simp: wf_entry_cases entry_within_def entry_bytes_def not_less
      split: entry_kind.splits if_splits)

lemma limits_loop_Inr:
  assumes "list_all wf_entry es"
  shows "limits_loop l t es = Inr () \<longleftrightarrow> (\<forall>e \<in> set es. entry_within l e) \<and>
    (es \<noteq> [] \<longrightarrow> t + sum_list (map entry_bytes es) \<le> max_total_subject_bytes l)"
  using assms
proof (induction es arbitrary: t)
  case (Cons e es)
  then have e: "wf_entry e" "list_all wf_entry es" by auto
  show ?case
    using Cons.IH [OF e(2), of "t + entry_bytes e"] sum_entry_bytes_nonneg [OF e(2)]
    unfolding limits_step [OF e(1)] by (cases es) auto
qed simp

lemma validate_limits_Inr:
  assumes "wf_manifest m" and "0 < max_total_subject_bytes l"
  shows "validate_limits l m = Inr () \<longleftrightarrow> int (length (entries m)) \<le> max_files l \<and>
    (\<forall>e \<in> set (entries m). entry_within l e) \<and>
    sum_list (map entry_bytes (entries m)) \<le> max_total_subject_bytes l"
  using assms limits_loop_Inr [of "entries m" l 0]
  by (cases "entries m = []") (auto simp: validate_limits_def wf_manifest_def)

end
