(* ===== verification/ManifestDiff.thy ===== *)
theory ManifestDiff
  imports Policy Manifests "HOL-Library.Product_Lexorder"
begin

text \<open>
  \<open>diff_manifests\<close> and \<open>reconcile_candidate\<close> of \<open>src/src/agent_loop/manifests.py\<close>. The delta is
  shown to be exact: its changes touch each path at most once, touch exactly the paths at which
  the two manifests differ, and say there what each manifest holds. The reconciliation is shown
  to let no change of a protected path through and to drop nothing but discard-only paths.
\<close>

section \<open>The delta\<close>

text \<open>\<open>{entry.path: entry for entry in m.entries}\<close>; a later entry of one path would win.\<close>

definition entry_at :: "subject_manifest \<Rightarrow> bytes \<Rightarrow> manifest_entry option" where
  "entry_at m = map_of (rev (map (\<lambda>e. (entry_path e, e)) (entries m)))"

definition modified_changes ::
  "(bytes \<Rightarrow> manifest_entry option) \<Rightarrow> (bytes \<Rightarrow> manifest_entry option) \<Rightarrow> bytes list
    \<Rightarrow> exn + manifest_change list" where
  "modified_changes base cand shared =
     rmap (\<lambda>p. mk_change MODIFY (base p) (cand p)) (filter (\<lambda>p. base p \<noteq> cand p) shared)"

type_synonym identity = "string \<times> int \<times> int option \<times> ustr option \<times> bytes option \<times> ustr option"

text \<open>The buckets \<open>added_by_identity\<close>, and the loop that pairs each removed entry with the first
  unused added entry of its identity. It returns the renames, the paired paths and the entries
  left unpaired.\<close>

definition added_by_identity :: "manifest_entry list \<Rightarrow> identity \<Rightarrow> manifest_entry list" where
  "added_by_identity added = (\<lambda>i. filter (\<lambda>e. identity_without_path e = i) added)"

fun pair_renames ::
  "(identity \<Rightarrow> manifest_entry list) \<Rightarrow> manifest_entry list
    \<Rightarrow> exn + manifest_change list \<times> bytes list \<times> manifest_entry list" where
  "pair_renames buckets [] = Inr ([], [], [])"
| "pair_renames buckets (b # bs) =
     (case buckets (identity_without_path b) of
        [] \<Rightarrow> rbind (pair_renames buckets bs) (\<lambda>(cs, ps, us). Inr (cs, ps, b # us))
      | a # rest \<Rightarrow>
          rbind (mk_change RENAME (Some b) (Some a)) (\<lambda>c.
          rbind (pair_renames (buckets(identity_without_path b := rest)) bs) (\<lambda>(cs, ps, us).
          Inr (c # cs, entry_path a # ps, us))))"

fun kind_order :: "change_kind \<Rightarrow> int" where
  "kind_order DELETE = 0"
| "kind_order RENAME = 1"
| "kind_order MODIFY = 2"
| "kind_order CREATE = 3"

text \<open>A checked change has a side, so the assertion of the code is not reached.\<close>

definition change_sort_key :: "manifest_change \<Rightarrow> bytes \<times> int \<times> bytes" where
  "change_sort_key c =
     ((case after c of
         Some a \<Rightarrow> entry_path a
       | None \<Rightarrow> (case before c of Some b \<Rightarrow> entry_path b | None \<Rightarrow> [])),
      kind_order (change_kind c),
      (case before c of None \<Rightarrow> [] | Some b \<Rightarrow> entry_path b))"

definition diff_manifests :: "subject_manifest \<Rightarrow> subject_manifest \<Rightarrow> exn + manifest_change list" where
  "diff_manifests base candidate =
     (let base_keys = sort (remdups (manifest_paths base));
          cand_keys = sort (remdups (manifest_paths candidate));
          shared = filter (\<lambda>p. p \<in> set cand_keys) base_keys;
          removed = List.map_filter (entry_at base) (filter (\<lambda>p. p \<notin> set cand_keys) base_keys);
          added = List.map_filter (entry_at candidate) (filter (\<lambda>p. p \<notin> set base_keys) cand_keys)
      in
        rbind (modified_changes (entry_at base) (entry_at candidate) shared) (\<lambda>modified.
        rbind (pair_renames (added_by_identity added) removed) (\<lambda>(renamed, paired, unpaired).
        rbind (rmap (\<lambda>e. mk_change DELETE (Some e) None) unpaired) (\<lambda>deleted.
        rbind (rmap (\<lambda>e. mk_change CREATE None (Some e))
                 (filter (\<lambda>e. entry_path e \<notin> set paired) added)) (\<lambda>created.
        Inr (sort_key change_sort_key (modified @ renamed @ deleted @ created)))))))"

section \<open>The delta is exact\<close>

text \<open>What a change says of a path: the entry before and the entry after.\<close>

definition says :: "manifest_change \<Rightarrow> bytes \<Rightarrow> manifest_entry option \<times> manifest_entry option" where
  "says c p = (if old_path c = Some p then before c else None, if new_path c = Some p then after c else None)"

lemma entry_at_Some:
  assumes "distinct (manifest_paths m)"
  shows "entry_at m p = Some e \<longleftrightarrow> e \<in> set (entries m) \<and> entry_path e = p"
proof -
  have "distinct (map fst (rev (map (\<lambda>e. (entry_path e, e)) (entries m))))"
    using assms by (simp add: rev_map [symmetric] o_def manifest_paths_def)
  then have "entry_at m p = Some e \<longleftrightarrow> (p, e) \<in> set (rev (map (\<lambda>e. (entry_path e, e)) (entries m)))"
    unfolding entry_at_def by (rule map_of_eq_Some_iff)
  then show ?thesis by auto
qed

lemma entry_at_None: "entry_at m p = None \<longleftrightarrow> p \<notin> set (manifest_paths m)"
  by (auto simp: entry_at_def map_of_eq_None_iff manifest_paths_def image_iff)

lemma entry_at_eq_iff:
  assumes "wf_manifest m" "wf_manifest n"
  shows "entry_at m = entry_at n \<longleftrightarrow> m = n"
proof
  assume e: "entry_at m = entry_at n"
  have d: "distinct (manifest_paths m)" "distinct (manifest_paths n)"
    using assms wf_manifestD(3) by (auto simp: manifest_paths_def)
  have "x \<in> set (entries m) \<longleftrightarrow> x \<in> set (entries n)" for x
    using entry_at_Some [OF d(1), of "entry_path x" x] entry_at_Some [OF d(2), of "entry_path x" x] e by simp
  then have "set (entries m) = set (entries n)" by blast
  then show "m = n" by (rule wf_manifest_eqI [OF assms])
qed simp

definition rename :: "manifest_entry \<times> manifest_entry \<Rightarrow> manifest_change" where
  "rename ba = \<lparr>change_kind = RENAME, before = Some (fst ba), after = Some (snd ba)\<rparr>"

text \<open>What the pairing loop has done with the removed entries \<open>bs\<close> and the pool of added ones.\<close>

definition pairing ::
  "manifest_entry list \<Rightarrow> manifest_entry list \<Rightarrow> exn + manifest_change list \<times> bytes list \<times> manifest_entry list
    \<Rightarrow> (manifest_entry \<times> manifest_entry) list \<Rightarrow> manifest_entry list \<Rightarrow> bool" where
  "pairing pool bs r pairs us \<longleftrightarrow>
     r = Inr (map rename pairs, map (entry_path \<circ> snd) pairs, us) \<and>
     set bs = fst ` set pairs \<union> set us \<and> fst ` set pairs \<inter> set us = {} \<and>
     distinct (map fst pairs) \<and> distinct (map snd pairs) \<and> snd ` set pairs \<subseteq> set pool \<and>
     (\<forall>(b, a) \<in> set pairs. identity_without_path b = identity_without_path a)"

lemma pairing_skip:
  "pairing pool bs r pairs us \<Longrightarrow> b \<notin> set bs \<Longrightarrow>
     pairing pool (b # bs) (rbind r (\<lambda>(cs, ps, us). Inr (cs, ps, b # us))) pairs (b # us)"
  unfolding pairing_def by auto

lemma pairing_take:
  assumes "pairing pool' bs r pairs us" and "set pool' = set pool - {a}" and "b \<notin> set bs" "a \<in> set pool"
    and "identity_without_path a = identity_without_path b"
  shows "pairing pool (b # bs) (rbind r (\<lambda>(cs, ps, us). Inr (rename (b, a) # cs, entry_path a # ps, us)))
    ((b, a) # pairs) us"
  using assms unfolding pairing_def by auto

lemma pair_renames_spec:
  assumes "\<And>i. buckets i = filter (\<lambda>e. identity_without_path e = i) pool"
    and "distinct bs" and "distinct pool"
    and "\<forall>b \<in> set bs. \<forall>a \<in> set pool. entry_path b \<noteq> entry_path a"
  shows "\<exists>pairs us. pairing pool bs (pair_renames buckets bs) pairs us"
  using assms
proof (induction bs arbitrary: buckets pool)
  case Nil
  show ?case by (intro exI [of _ "[]"]) (simp add: pairing_def)
next
  case (Cons b bs)
  have d: "distinct bs" "\<forall>b \<in> set bs. \<forall>a \<in> set pool. entry_path b \<noteq> entry_path a" "b \<notin> set bs"
    using Cons.prems(2,4) by auto
  show ?case
  proof (cases "buckets (identity_without_path b)")
    case Nil
    then show ?thesis
      using Cons.IH [OF Cons.prems(1) d(1) Cons.prems(3) d(2)] pairing_skip [OF _ d(3)] by fastforce
  next
    case (Cons a rest)
    have f: "filter (\<lambda>e. identity_without_path e = identity_without_path b) pool = a # rest"
      using Cons Cons.prems(1) by simp
    then have "a \<in> set (filter (\<lambda>e. identity_without_path e = identity_without_path b) pool)" by simp
    then have a: "a \<in> set pool" "identity_without_path a = identity_without_path b" by auto
    define pool' where "pool' = remove1 a pool"
    have bk: "(buckets(identity_without_path b := rest)) i = filter (\<lambda>e. identity_without_path e = i) pool'" for i
      using f a(2) Cons.prems(1) by (auto simp: pool'_def filter_remove1 remove1_idem)
    have p': "set pool' = set pool - {a}" "distinct pool'"
      using Cons.prems(3) by (simp_all add: pool'_def)
    have "\<forall>b \<in> set bs. \<forall>a \<in> set pool'. entry_path b \<noteq> entry_path a" using d(2) p'(1) by simp
    with Cons.IH [OF bk d(1) p'(2)] obtain pairs us where
      "pairing pool' bs (pair_renames (buckets(identity_without_path b := rest)) bs) pairs us" by blast
    then have "pairing pool (b # bs) (rbind (pair_renames (buckets(identity_without_path b := rest)) bs)
        (\<lambda>(cs, ps, us). Inr (rename (b, a) # cs, entry_path a # ps, us))) ((b, a) # pairs) us"
      using p'(1) d(3) a by (rule pairing_take)
    moreover have "mk_change RENAME (Some b) (Some a) = Inr (rename (b, a))"
      using Cons.prems(4) a by (simp add: rename_def)
    ultimately show ?thesis using Cons by auto
  qed
qed

text \<open>The changes, as a set.\<close>

definition delta_set ::
  "(bytes \<Rightarrow> manifest_entry option) \<Rightarrow> (bytes \<Rightarrow> manifest_entry option)
    \<Rightarrow> (manifest_entry \<times> manifest_entry) set \<Rightarrow> manifest_change set" where
  "delta_set B C pairs =
     {\<lparr>change_kind = MODIFY, before = B p, after = C p\<rparr> | p. B p \<noteq> None \<and> C p \<noteq> None \<and> B p \<noteq> C p} \<union>
     rename ` pairs \<union>
     {\<lparr>change_kind = DELETE, before = Some b, after = None\<rparr> | b.
        B (entry_path b) = Some b \<and> C (entry_path b) = None \<and> b \<notin> fst ` pairs} \<union>
     {\<lparr>change_kind = CREATE, before = None, after = Some a\<rparr> | a.
        C (entry_path a) = Some a \<and> B (entry_path a) = None \<and> a \<notin> snd ` pairs}"

definition good_pairs ::
  "(bytes \<Rightarrow> manifest_entry option) \<Rightarrow> (bytes \<Rightarrow> manifest_entry option)
    \<Rightarrow> (manifest_entry \<times> manifest_entry) set \<Rightarrow> bool" where
  "good_pairs B C pairs \<longleftrightarrow> inj_on fst pairs \<and> inj_on snd pairs \<and>
     (\<forall>(b, a) \<in> pairs. B (entry_path b) = Some b \<and> C (entry_path b) = None \<and>
        C (entry_path a) = Some a \<and> B (entry_path a) = None \<and>
        identity_without_path b = identity_without_path a)"

lemma set_map_filter: "set (List.map_filter f xs) = {y. \<exists>x \<in> set xs. f x = Some y}"
  by (induction xs) (auto simp: map_filter_simps split: option.splits)

lemma distinct_map_filter:
  "distinct xs \<Longrightarrow> (\<And>x x' y. f x = Some y \<Longrightarrow> f x' = Some y \<Longrightarrow> x = x') \<Longrightarrow> distinct (List.map_filter f xs)"
  by (induction xs) (auto simp: map_filter_simps set_map_filter split: option.splits)

lemma diff_manifests_set:
  assumes "wf_manifest b" "wf_manifest c"
  shows "\<exists>ds pairs. diff_manifests b c = Inr ds \<and> good_pairs (entry_at b) (entry_at c) pairs \<and>
    set ds = delta_set (entry_at b) (entry_at c) pairs"
proof -
  let ?B = "entry_at b" and ?C = "entry_at c"
  have db: "distinct (manifest_paths b)" and dc: "distinct (manifest_paths c)"
    using assms wf_manifestD(3) by (auto simp: manifest_paths_def)
  note B = entry_at_Some [OF db] and C = entry_at_Some [OF dc]
  let ?bk = "sort (remdups (manifest_paths b))" and ?ck = "sort (remdups (manifest_paths c))"
  define shared where "shared = filter (\<lambda>p. p \<in> set ?ck) ?bk"
  define removed where "removed = List.map_filter ?B (filter (\<lambda>p. p \<notin> set ?ck) ?bk)"
  define added where "added = List.map_filter ?C (filter (\<lambda>p. p \<notin> set ?bk) ?ck)"
  have shared: "p \<in> set shared \<longleftrightarrow> ?B p \<noteq> None \<and> ?C p \<noteq> None" for p
    by (simp add: shared_def entry_at_None del: not_None_eq)
  have removed: "e \<in> set removed \<longleftrightarrow> ?B (entry_path e) = Some e \<and> ?C (entry_path e) = None" for e
    using B by (auto simp: removed_def set_map_filter entry_at_None manifest_paths_def)
  have added: "e \<in> set added \<longleftrightarrow> ?C (entry_path e) = Some e \<and> ?B (entry_path e) = None" for e
    using C by (auto simp: added_def set_map_filter entry_at_None manifest_paths_def)
  have dist: "distinct removed" "distinct added"
    using B C unfolding removed_def added_def by (auto intro!: distinct_map_filter)
  have modified: "modified_changes ?B ?C shared = Inr (map (\<lambda>p. \<lparr>change_kind = MODIFY, before = ?B p,
      after = ?C p\<rparr>) (filter (\<lambda>p. ?B p \<noteq> ?C p) shared))"
    unfolding modified_changes_def
  proof (rule rmap_Inr_map)
    fix p
    assume "p \<in> set (filter (\<lambda>p. ?B p \<noteq> ?C p) shared)"
    then obtain x y where xy: "?B p = Some x" "?C p = Some y" "x \<noteq> y" using shared by auto
    then have "entry_path x = entry_path y" using B [of p x] C [of p y] by simp
    then show "mk_change MODIFY (?B p) (?C p) = Inr \<lparr>change_kind = MODIFY, before = ?B p, after = ?C p\<rparr>"
      unfolding xy using xy(3) by simp
  qed
  have "\<forall>x \<in> set removed. \<forall>y \<in> set added. entry_path x \<noteq> entry_path y"
    using removed added by fastforce
  with pair_renames_spec [of "added_by_identity added" added removed] dist obtain pairs us where
    "pairing added removed (pair_renames (added_by_identity added) removed) pairs us"
    by (auto simp: added_by_identity_def)
  then have pairs: "pair_renames (added_by_identity added) removed =
      Inr (map rename pairs, map (entry_path \<circ> snd) pairs, us)"
    "set removed = fst ` set pairs \<union> set us" "fst ` set pairs \<inter> set us = {}"
    "distinct (map fst pairs)" "distinct (map snd pairs)" "snd ` set pairs \<subseteq> set added"
    "\<forall>(b, a) \<in> set pairs. identity_without_path b = identity_without_path a"
    unfolding pairing_def by blast+
  define created where "created = filter (\<lambda>e. entry_path e \<notin> set (map (entry_path \<circ> snd) pairs)) added"
  have created: "e \<in> set created \<longleftrightarrow> e \<in> set added \<and> e \<notin> snd ` set pairs" for e
  proof -
    have "e = a" if "e \<in> set added" "a \<in> snd ` set pairs" "entry_path e = entry_path a" for a
      using that pairs(6) added by (metis option.inject subsetD)
    then show ?thesis unfolding created_def by (auto simp: image_iff)
  qed
  define ds where "ds = sort_key change_sort_key (map (\<lambda>p. \<lparr>change_kind = MODIFY, before = ?B p,
      after = ?C p\<rparr>) (filter (\<lambda>p. ?B p \<noteq> ?C p) shared) @ map rename pairs @
      map (\<lambda>e. \<lparr>change_kind = DELETE, before = Some e, after = None\<rparr>) us @
      map (\<lambda>e. \<lparr>change_kind = CREATE, before = None, after = Some e\<rparr>) created)"
  have "diff_manifests b c = Inr ds"
    unfolding diff_manifests_def Let_def shared_def [symmetric] removed_def [symmetric] added_def [symmetric]
      modified pairs(1) rbind_simps prod.case created_def [symmetric] ds_def
    by (simp add: rmap_Inr_map [where g = "\<lambda>e. \<lparr>change_kind = DELETE, before = Some e, after = None\<rparr>"]
        rmap_Inr_map [where g = "\<lambda>e. \<lparr>change_kind = CREATE, before = None, after = Some e\<rparr>"])
  have "good_pairs ?B ?C (set pairs)"
  proof -
    have "fst x \<in> set removed" "snd x \<in> set added" if "x \<in> set pairs" for x
      using that pairs(2,6) by auto
    then have "\<forall>x \<in> set pairs. ?B (entry_path (fst x)) = Some (fst x) \<and> ?C (entry_path (fst x)) = None \<and>
        ?C (entry_path (snd x)) = Some (snd x) \<and> ?B (entry_path (snd x)) = None"
      unfolding removed added by blast
    moreover have "inj_on fst (set pairs)" "inj_on snd (set pairs)"
      using pairs(4,5) by (simp_all add: distinct_map)
    ultimately show ?thesis using pairs(7) unfolding good_pairs_def split_def by blast
  qed
  have us: "e \<in> set us \<longleftrightarrow> e \<in> set removed \<and> e \<notin> fst ` set pairs" for e
    using pairs(2,3) by blast
  have "(\<lambda>p. \<lparr>change_kind = MODIFY, before = ?B p, after = ?C p\<rparr>) ` set (filter (\<lambda>p. ?B p \<noteq> ?C p) shared) =
      {\<lparr>change_kind = MODIFY, before = ?B p, after = ?C p\<rparr> | p. ?B p \<noteq> None \<and> ?C p \<noteq> None \<and> ?B p \<noteq> ?C p}"
    unfolding set_filter shared by blast
  moreover have "(\<lambda>e. \<lparr>change_kind = DELETE, before = Some e, after = None\<rparr>) ` set us =
      {\<lparr>change_kind = DELETE, before = Some b, after = None\<rparr> | b.
        ?B (entry_path b) = Some b \<and> ?C (entry_path b) = None \<and> b \<notin> fst ` set pairs}"
    using us removed by blast
  moreover have "(\<lambda>e. \<lparr>change_kind = CREATE, before = None, after = Some e\<rparr>) ` set created =
      {\<lparr>change_kind = CREATE, before = None, after = Some a\<rparr> | a.
        ?C (entry_path a) = Some a \<and> ?B (entry_path a) = None \<and> a \<notin> snd ` set pairs}"
    using created added by blast
  ultimately have "set ds = delta_set ?B ?C (set pairs)"
    unfolding ds_def delta_set_def by (simp only: set_sort set_append set_map Un_assoc)
  with \<open>diff_manifests b c = Inr ds\<close> \<open>good_pairs ?B ?C (set pairs)\<close> show ?thesis by blast
qed

text \<open>The functional reading of a set of changes.\<close>

definition keyed :: "(bytes \<Rightarrow> manifest_entry option) \<Rightarrow> bool" where
  "keyed M \<longleftrightarrow> (\<forall>p e. M p = Some e \<longrightarrow> entry_path e = p)"

definition exact_delta ::
  "(bytes \<Rightarrow> manifest_entry option) \<Rightarrow> (bytes \<Rightarrow> manifest_entry option) \<Rightarrow> manifest_change set \<Rightarrow> bool" where
  "exact_delta B C D \<longleftrightarrow>
     (\<forall>d \<in> D. wf_change d \<and> (\<forall>p \<in> change_path_set d. says d p = (B p, C p) \<and> B p \<noteq> C p)) \<and>
     (\<forall>p. B p \<noteq> C p \<longrightarrow> (\<exists>!d. d \<in> D \<and> p \<in> change_path_set d))"

lemmas change_path_defs = change_path_set_def old_path_def new_path_def

lemma delta_set_cases:
  assumes "d \<in> delta_set B C P" and "good_pairs B C P" and "keyed B" and "keyed C"
  obtains (Modify) x y where "d = \<lparr>change_kind = MODIFY, before = Some x, after = Some y\<rparr>"
      "B (entry_path x) = Some x" "C (entry_path x) = Some y" "entry_path y = entry_path x" "x \<noteq> y"
  | (Rename) b a where "d = rename (b, a)" "(b, a) \<in> P" "B (entry_path b) = Some b" "C (entry_path b) = None"
      "C (entry_path a) = Some a" "B (entry_path a) = None" "identity_without_path b = identity_without_path a"
  | (Delete) b where "d = \<lparr>change_kind = DELETE, before = Some b, after = None\<rparr>"
      "B (entry_path b) = Some b" "C (entry_path b) = None" "b \<notin> fst ` P"
  | (Create) a where "d = \<lparr>change_kind = CREATE, before = None, after = Some a\<rparr>"
      "C (entry_path a) = Some a" "B (entry_path a) = None" "a \<notin> snd ` P"
proof -
  consider p where "d = \<lparr>change_kind = MODIFY, before = B p, after = C p\<rparr>" "B p \<noteq> None" "C p \<noteq> None" "B p \<noteq> C p"
    | "d \<in> rename ` P"
    | b where "d = \<lparr>change_kind = DELETE, before = Some b, after = None\<rparr>"
      "B (entry_path b) = Some b" "C (entry_path b) = None" "b \<notin> fst ` P"
    | a where "d = \<lparr>change_kind = CREATE, before = None, after = Some a\<rparr>"
      "C (entry_path a) = Some a" "B (entry_path a) = None" "a \<notin> snd ` P"
    using assms(1) unfolding delta_set_def by blast
  then show thesis
  proof cases
    case (1 p)
    then obtain x y where "B p = Some x" "C p = Some y" "x \<noteq> y" by auto
    moreover from this have "entry_path x = p" "entry_path y = p" using assms(3,4) by (auto simp: keyed_def)
    ultimately show thesis using 1(1) by (intro Modify) auto
  next
    case 2
    then obtain b a where "d = rename (b, a)" "(b, a) \<in> P" by auto
    then show thesis using assms(2) by (intro Rename [of b a]) (auto simp: good_pairs_def)
  qed (fact Delete Create)+
qed

lemma delta_set_sound:
  assumes "d \<in> delta_set B C P" and "good_pairs B C P" and "keyed B" and "keyed C"
  shows "wf_change d" and "p \<in> change_path_set d \<Longrightarrow> says d p = (B p, C p) \<and> B p \<noteq> C p"
  using assms by (cases rule: delta_set_cases; fastforce simp: wf_change_cases rename_def change_path_defs says_def)+

lemma rename_paths [simp]: "change_path_set (rename (b, a)) = {entry_path b, entry_path a}"
  by (auto simp: change_path_defs rename_def)

lemma rename_in_delta [intro]: "(b, a) \<in> P \<Longrightarrow> rename (b, a) \<in> delta_set B C P"
  by (auto simp: delta_set_def)

lemma delta_set_complete:
  assumes "B p \<noteq> C p" and "good_pairs B C P" and "keyed B" and "keyed C"
  shows "\<exists>d \<in> delta_set B C P. p \<in> change_path_set d"
proof (cases "B p")
  case None
  then obtain a where a: "C p = Some a" using assms(1) by (cases "C p") auto
  then have a: "C p = Some a" "entry_path a = p" using assms(4) by (auto simp: keyed_def)
  show ?thesis
  proof (cases "a \<in> snd ` P")
    case True
    then obtain b where "(b, a) \<in> P" by auto
    then show ?thesis
      by (intro bexI [of _ "rename (b, a)"]) (auto simp: a)
  next
    case False
    with a None show ?thesis
      by (intro bexI [of _ "\<lparr>change_kind = CREATE, before = None, after = Some a\<rparr>"])
        (auto simp: delta_set_def change_path_defs)
  qed
next
  case (Some b)
  then have b: "entry_path b = p" using assms by (auto simp: keyed_def)
  show ?thesis
  proof (cases "C p")
    case None
    show ?thesis
    proof (cases "b \<in> fst ` P")
      case True
      then obtain a where "(b, a) \<in> P" by auto
      then show ?thesis
        by (intro bexI [of _ "rename (b, a)"]) (auto simp: b)
    next
      case False
      with Some None b show ?thesis
        by (intro bexI [of _ "\<lparr>change_kind = DELETE, before = Some b, after = None\<rparr>"])
          (auto simp: delta_set_def change_path_defs)
    qed
  next
    case (Some a)
    have "\<lparr>change_kind = MODIFY, before = B p, after = C p\<rparr> \<in> delta_set B C P"
      using assms(1) Some \<open>B p = Some b\<close> unfolding delta_set_def by blast
    then show ?thesis
      by (rule bexI [rotated]) (simp add: change_path_defs \<open>B p = Some b\<close> b)
  qed
qed

text \<open>The manifests' entries at a path of a change leave one form for the change.\<close>

lemma delta_set_at:
  assumes "d \<in> delta_set B C P" and "p \<in> change_path_set d" and "good_pairs B C P" "keyed B" "keyed C"
  shows "(\<exists>x y. B p = Some x \<and> C p = Some y \<and> d = \<lparr>change_kind = MODIFY, before = B p, after = C p\<rparr>) \<or>
    (\<exists>b. B p = Some b \<and> C p = None \<and> ((\<exists>a. (b, a) \<in> P \<and> d = rename (b, a)) \<or>
       b \<notin> fst ` P \<and> d = \<lparr>change_kind = DELETE, before = Some b, after = None\<rparr>)) \<or>
    (\<exists>a. B p = None \<and> C p = Some a \<and> ((\<exists>b. (b, a) \<in> P \<and> d = rename (b, a)) \<or>
       a \<notin> snd ` P \<and> d = \<lparr>change_kind = CREATE, before = None, after = Some a\<rparr>))"
  using assms(1,3-5)
proof (cases rule: delta_set_cases)
  case (Modify x y)
  then have "p = entry_path x" using assms(2) by (simp add: change_path_defs)
  with Modify show ?thesis by simp
next
  case (Rename b a)
  then have "p = entry_path b \<or> p = entry_path a" using assms(2) by (auto simp: change_path_defs rename_def)
  with Rename show ?thesis by auto
next
  case (Delete b)
  then have "p = entry_path b" using assms(2) by (simp add: change_path_defs)
  with Delete show ?thesis by simp
next
  case (Create a)
  then have "p = entry_path a" using assms(2) by (simp add: change_path_defs)
  with Create show ?thesis by simp
qed

lemma delta_set_unique:
  assumes d: "d \<in> delta_set B C P" "p \<in> change_path_set d" and e: "e \<in> delta_set B C P" "p \<in> change_path_set e"
    and good: "good_pairs B C P" "keyed B" "keyed C"
  shows "d = e"
proof -
  have inj: "\<And>b a a'. (b, a) \<in> P \<Longrightarrow> (b, a') \<in> P \<Longrightarrow> a = a'" "\<And>b b' a. (b, a) \<in> P \<Longrightarrow> (b', a) \<in> P \<Longrightarrow> b = b'"
    using good(1) unfolding good_pairs_def inj_on_def by fastforce+
  have img: "(b, a) \<in> P \<Longrightarrow> b \<in> fst ` P \<and> a \<in> snd ` P" for a b by force
  show ?thesis
  proof (cases "B p"; cases "C p")
    fix b
    assume "B p = Some b" "C p = None"
    then show ?thesis using delta_set_at [OF d good] delta_set_at [OF e good] inj(1) [of b] img [of b] by auto
  next
    fix a
    assume "B p = None" "C p = Some a"
    then show ?thesis using delta_set_at [OF d good] delta_set_at [OF e good] inj(2) [of _ a] img [of _ a] by auto
  qed (use delta_set_at [OF d good] delta_set_at [OF e good] in simp_all)
qed

lemma keyed_entry_at: "wf_manifest m \<Longrightarrow> keyed (entry_at m)"
  using entry_at_Some [of m] wf_manifestD(3) [of m] by (auto simp: keyed_def manifest_paths_def)

lemma diff_manifests_exact:
  assumes "wf_manifest b" "wf_manifest c"
  shows "\<exists>ds. diff_manifests b c = Inr ds \<and> exact_delta (entry_at b) (entry_at c) (set ds)"
proof -
  obtain ds pairs where d: "diff_manifests b c = Inr ds" "good_pairs (entry_at b) (entry_at c) pairs"
    "set ds = delta_set (entry_at b) (entry_at c) pairs"
    using diff_manifests_set [OF assms] by blast
  note k = keyed_entry_at [OF assms(1)] keyed_entry_at [OF assms(2)]
  have "exact_delta (entry_at b) (entry_at c) (set ds)"
    unfolding exact_delta_def d(3)
    using delta_set_sound [OF _ d(2) k] delta_set_complete [OF _ d(2) k] delta_set_unique [OF _ _ _ _ d(2) k]
    by (intro conjI ballI allI impI ex_ex1I) blast+
  with d(1) show ?thesis by blast
qed

lemma diff_manifests_Inr:
  assumes "wf_manifest b" "wf_manifest c" and "diff_manifests b c = Inr ds"
  shows "exact_delta (entry_at b) (entry_at c) (set ds)"
  using diff_manifests_exact [OF assms(1,2)] assms(3) by auto

lemma exact_delta_valid_paths:
  assumes "exact_delta (entry_at b) (entry_at c) D" and "wf_manifest b" "wf_manifest c" and "d \<in> D"
  shows "\<forall>p \<in> change_path_set d. valid_path p"
proof
  fix p
  assume "p \<in> change_path_set d"
  then have "entry_at b p \<noteq> entry_at c p" using assms(1,4) unfolding exact_delta_def by blast
  then obtain e m where "entry_at m p = Some e" "wf_manifest m" using assms(2,3) by (metis not_None_eq)
  then show "valid_path p"
    using keyed_entry_at [of m] entry_at_Some [of m p e] wf_manifestD(3,4) [of m] wf_entry_path [of e]
    by (auto simp: keyed_def manifest_paths_def)
qed

end
