(* ===== verification/Canonical.thy ===== *)
theory Canonical
  imports Manifests
begin

text \<open>
  The canonical bytes of a manifest determine the manifest: length-prefixed atoms are a prefix
  code, an entry is six atoms that determine it, and so both the atoms and the entries can be
  read back from the concatenation. Two manifests with one fingerprint are therefore equal, or
  their canonical bytes are a SHA-256 collision.
\<close>

definition fits :: "bytes \<Rightarrow> bool" where
  "fits v \<longleftrightarrow> int (length v) \<le> U64_MAX"

definition framed :: "bytes \<Rightarrow> bytes" where
  "framed v = map char_of (be_bytes 8 (int (length v))) @ v"

lemma length_prefix_Inr: "length_prefix v = Inr b \<longleftrightarrow> fits v \<and> b = framed v"
  by (auto simp: length_prefix_def fits_def framed_def)

lemma char_of_int_inj_on: "inj_on (char_of :: int \<Rightarrow> char) {0..<256}"
proof (rule inj_onI)
  fix x y :: int
  assume xy: "x \<in> {0..<256}" "y \<in> {0..<256}" "char_of x = (char_of y :: char)"
  then have "of_char (char_of x) = (of_char (char_of y) :: int)" by simp
  with xy show "x = y" by (simp only: of_char_of) simp
qed

lemma framed_length_inject:
  assumes "fits v" "fits w" and "map char_of (be_bytes 8 (int (length v))) = (map char_of (be_bytes 8 (int (length w))) :: bytes)"
  shows "length v = length w"
proof -
  have "be_bytes 8 (int (length v)) = be_bytes 8 (int (length w))"
    using assms(3) by (rule inj_on_map_eq_map [THEN iffD1, rotated])
      (auto intro!: inj_on_subset [OF char_of_int_inj_on] dest: be_bytes_range)
  then show ?thesis
    using assms(1,2) be_bytes_inject [of "int (length v)" 8 "int (length w)"]
    by (simp add: fits_def U64_MAX_def)
qed

interpretation atom: prefix_code framed fits
proof
  fix a b s t :: bytes
  assume ok: "fits a" "fits b" and e: "framed a @ s = framed b @ t"
  then have "map char_of (be_bytes 8 (int (length a))) = (map char_of (be_bytes 8 (int (length b))) :: bytes)"
    and r: "a @ s = b @ t"
    by (auto simp: framed_def append_eq_append_conv)
  with ok have "length a = length b" by (intro framed_length_inject)
  with r show "a = b \<and> s = t" by simp
next
  have "length (framed a) \<ge> 8" for a by (simp add: framed_def)
  then show "framed a \<noteq> []" for a by (metis list.size(3) not_numeral_le_zero)
qed

lemma encode_atoms_Inr:
  "encode_atoms as = Inr b \<longleftrightarrow> list_all fits as \<and> b = concat (map framed as)"
proof -
  have "rmap length_prefix as = Inr bs \<longleftrightarrow> list_all fits as \<and> bs = map framed as" for bs
    by (induction as arbitrary: bs) (auto simp: rbind_Inr_iff length_prefix_Inr)
  then show ?thesis by (auto simp: encode_atoms_def rbind_Inr_iff)
qed

section \<open>Entries\<close>

definition digest_raw :: "ustr \<Rightarrow> bytes" where
  "digest_raw h = (case fromhex h of Inl e \<Rightarrow> [] | Inr b \<Rightarrow> b)"

lemma from_hex_Some:
  "\<forall>c \<in> set s. is_hex_lower (ord c) \<Longrightarrow> even (length s) \<Longrightarrow> \<exists>b. from_hex s = Some b \<and> hex_bytes b = s"
proof (induction s rule: from_hex.induct)
  case (3 c d s)
  then obtain b where b: "from_hex s = Some b" "hex_bytes b = s" by auto
  have v: "\<exists>x. hex_value (ord c) = Some x \<and> x < 16 \<and> digit x = c" if "is_hex_lower (ord c)" for c
  proof -
    have "char_of (ord c) = c" by simp
    then show ?thesis
      using that by (auto simp: is_hex_lower_def hex_value_def digit_def)
  qed
  obtain x y where "hex_value (ord c) = Some x" "x < 16" "digit x = c"
    and "hex_value (ord d) = Some y" "y < 16" "digit y = d"
    using v [of c] v [of d] 3(2) by auto
  with b show ?case by (simp add: hex_bytes_Cons)
qed auto

lemma fromhex_digest:
  assumes "digest h"
  shows "\<exists>b. fromhex h = Inr b \<and> length b = 32 \<and> U (hex_bytes b) = h"
proof -
  define s :: bytes where "s = map char_of h"
  have lt: "c < 128" if "c \<in> set h" for c using digest_ascii [OF assms that] .
  then have us: "U s = h" by (simp add: s_def U_def o_def) (rule map_idI, use lt in force)
  have a: "ascii_encode h = Some s" using lt by (auto simp: ascii_encode_def list_all_iff s_def)
  have hex: "\<forall>c \<in> set s. is_hex_lower (ord c)"
    using assms us by (auto simp: digest_def U_def)
  then have "filter (\<lambda>c. \<not> is_ws_byte c) s = s"
    by (auto simp: filter_id_conv is_ws_byte_def is_hex_lower_def)
  moreover have len: "length s = 64" using assms by (simp add: s_def digest_def)
  moreover obtain b where b: "from_hex s = Some b" "hex_bytes b = s"
    using from_hex_Some [OF hex] len by auto
  moreover have "length b = 32" using len length_hex_bytes [of b] b by simp
  ultimately show ?thesis using a us by (auto simp: fromhex_def)
qed

lemma digest_raw_inject: "digest h \<Longrightarrow> digest k \<Longrightarrow> digest_raw h = digest_raw k \<Longrightarrow> h = k"
  using fromhex_digest [of h] fromhex_digest [of k] by (auto simp: digest_raw_def)

definition entry_atoms :: "manifest_entry \<Rightarrow> bytes list" where
  "entry_atoms e = common_atoms e @
     (case entry_kind e of
        REGULAR \<Rightarrow> [dec_int (the (entry_size e)), digest_raw (the (blob_sha256 e))]
      | SYMLINK \<Rightarrow> [the (symlink_target e), digest_raw (the (target_sha256 e))])"

lemma canonical_entry_Inr:
  assumes "wf_entry e"
  shows "canonical_entry e = Inr b \<longleftrightarrow> list_all fits (entry_atoms e) \<and> b = concat (map framed (entry_atoms e))"
proof (cases "entry_kind e")
  case REGULAR
  then obtain n h where "entry_size e = Some n" "blob_sha256 e = Some h" "digest h"
    using assms by (auto simp: wf_entry_cases)
  with REGULAR fromhex_digest [of h] show ?thesis
    by (auto simp: canonical_entry_def entry_atoms_def encode_atoms_Inr digest_raw_def)
next
  case SYMLINK
  then obtain t where "symlink_target e = Some t" "target_sha256 e = Some (U (sha256_hex t))"
    using assms by (auto simp: wf_entry_cases)
  with SYMLINK fromhex_digest [of "U (sha256_hex t)"] show ?thesis
    by (auto simp: canonical_entry_def entry_atoms_def encode_atoms_Inr digest_raw_def)
qed

lemma mode_octal: "oct6 REGULAR_MODE = ''100644''" "oct6 EXECUTABLE_MODE = ''100755''" "oct6 SYMLINK_MODE = ''120000''"
  by (simp_all add: oct6_def REGULAR_MODE_def EXECUTABLE_MODE_def SYMLINK_MODE_def
      digits_of.simps digit_def char_of_def bit_Suc_0_iff)

lemma length_entry_atoms: "length (entry_atoms e) = 6"
  by (simp add: entry_atoms_def common_atoms_def split: entry_kind.splits)

text \<open>The six atoms of a checked entry determine it.\<close>

lemma entry_atoms_inject:
  assumes "wf_entry e" "wf_entry f" and "entry_atoms e = entry_atoms f"
  shows "e = f"
proof -
  have p: "entry_path e = entry_path f" and k: "entry_kind e = entry_kind f"
    and m: "oct6 (entry_mode e) = oct6 (entry_mode f)"
    using assms(3) by (auto simp: entry_atoms_def common_atoms_def entry_kind_value_inject)
  have "identity_without_path e = identity_without_path f"
  proof (cases "entry_kind e")
    case REGULAR
    then have "entry_mode e = entry_mode f"
      using assms(1,2) k m by (auto simp: wf_entry_cases mode_octal)
    with REGULAR show ?thesis
      using assms k by (auto simp: wf_entry_cases entry_atoms_def identity_without_path_def
          common_atoms_def dest: digest_raw_inject)
  next
    case SYMLINK
    with assms k show ?thesis
      by (auto simp: wf_entry_cases entry_atoms_def identity_without_path_def common_atoms_def)
  qed
  with p show ?thesis by (simp add: entry_eq_iff)
qed

interpretation entry: prefix_code entry_atoms wf_entry
proof
  fix a b :: manifest_entry and s t :: "bytes list"
  assume wf: "wf_entry a" "wf_entry b" and "entry_atoms a @ s = entry_atoms b @ t"
  then have "entry_atoms a = entry_atoms b" "s = t"
    using append_eq_append_conv [of "entry_atoms a" "entry_atoms b" s t]
    by (simp_all add: length_entry_atoms)
  with wf show "a = b \<and> s = t" using entry_atoms_inject by blast
next
  show "entry_atoms a \<noteq> []" for a using length_entry_atoms [of a] by auto
qed

section \<open>Manifests\<close>

definition manifest_atoms :: "subject_manifest \<Rightarrow> bytes list" where
  "manifest_atoms m =
     [CANONICAL_DOMAIN, dec_int (schema_version m), dec_int (int (length (entries m)))] @
     concat (map entry_atoms (entries m))"

lemma rmap_canonical_Inr:
  "list_all wf_entry es \<Longrightarrow> rmap canonical_entry es = Inr bs \<longleftrightarrow>
     list_all fits (concat (map entry_atoms es)) \<and>
     bs = map (\<lambda>e. concat (map framed (entry_atoms e))) es"
  by (induction es arbitrary: bs) (auto simp: rbind_Inr_iff canonical_entry_Inr)

lemma concat_map_concat: "concat (map (\<lambda>e. concat (map g (f e))) es) = concat (map g (concat (map f es)))"
  by (induction es) auto

lemma canonical_bytes_Inr:
  assumes "list_all wf_entry (entries m)"
  shows "canonical_bytes m = Inr b \<longleftrightarrow>
    list_all fits (manifest_atoms m) \<and> b = concat (map framed (manifest_atoms m))"
  using assms
  by (auto simp: canonical_bytes_def rbind_Inr_iff encode_atoms_Inr rmap_canonical_Inr
      manifest_atoms_def concat_map_concat)

lemma canonical_bytes_unique:
  assumes "list_all wf_entry (entries m)" "list_all wf_entry (entries n)"
    and "canonical_bytes m = Inr b" "canonical_bytes n = Inr b"
  shows "m = n"
proof -
  have "manifest_atoms m = manifest_atoms n"
    using assms canonical_bytes_Inr [of m b] canonical_bytes_Inr [of n b]
    by (intro atom.concat_enc_inject) auto
  then have "schema_version m = schema_version n"
    and "concat (map entry_atoms (entries m)) = concat (map entry_atoms (entries n))"
    by (simp_all add: manifest_atoms_def)
  moreover from this(2) assms(1,2) have "entries m = entries n"
    by (intro entry.concat_enc_inject)
  ultimately show ?thesis by (cases m; cases n) simp
qed

lemma fingerprint_Inr:
  "fingerprint m = Inr h \<longleftrightarrow> (\<exists>b. canonical_bytes m = Inr b \<and> h = U (sha256_hex b))"
  by (auto simp: fingerprint_def rbind_Inr_iff)

lemma fingerprint_unique:
  assumes "list_all wf_entry (entries m)" "list_all wf_entry (entries n)"
    and "fingerprint m = Inr h" "fingerprint n = Inr h"
  shows "m = n \<or> (\<exists>x y. canonical_bytes m = Inr x \<and> canonical_bytes n = Inr y \<and> x \<noteq> y \<and> sha256 x = sha256 y)"
proof -
  obtain x y where "canonical_bytes m = Inr x" "canonical_bytes n = Inr y" "sha256_hex x = sha256_hex y"
    using assms(3,4) by (auto simp: fingerprint_Inr)
  then show ?thesis
    using canonical_bytes_unique [OF assms(1,2), of x] by (auto simp: sha256_hex_eq_iff)
qed

lemma fingerprint_digest: "fingerprint m = Inr h \<Longrightarrow> digest h"
  by (auto simp: fingerprint_Inr)

end
