(* ===== verification/Json.thy ===== *)
theory Json
  imports Codecs
begin

text \<open>
  JSON as Python's \<open>json\<close> module reads and writes it in this program.
  \<^item> \<open>json\<close> is the tree of a decoded document. A dict is the list of its items in insertion
    order, its keys distinct. A float is carried as the text of its literal (\<open>float.__repr__\<close>
    when the program writes it, the token itself when it is read).
  \<^item> \<open>json_dumps\<close> is \<open>json.dumps(v, ensure_ascii=True, allow_nan=False, sort_keys=True,
    separators=(",", ":"))\<close>, the only writer of the canonical formats. Values are finite, so
    \<open>allow_nan\<close> never fires.
  \<^item> \<open>json_loads\<close> is \<open>json.loads\<close> with the two hooks every trust boundary installs: duplicate
    keys and non-finite constants are rejected. Python's limit of 4300 digits on an integer
    literal is part of it; its recursion limit (which every caller maps to the same error as a
    syntax error) is not.
\<close>

datatype json =
  JNull
| JBool bool
| JInt int
| JFloat bytes
| JStr ustr
| JArr "json list"
| JObj "(ustr \<times> json) list"

section \<open>Writing\<close>

definition hex4 :: "nat \<Rightarrow> bytes" where
  "hex4 n = map digit [n div 4096 mod 16, n div 256 mod 16, n div 16 mod 16, n mod 16]"

definition escape_char :: "nat \<Rightarrow> bytes" where
  "escape_char c =
     (if c = 34 then [char_of (92::nat), char_of (34::nat)]
      else if c = 92 then [char_of (92::nat), char_of (92::nat)]
      else if c = 10 then [char_of (92::nat), CHR ''n'']
      else if c = 13 then [char_of (92::nat), CHR ''r'']
      else if c = 9 then [char_of (92::nat), CHR ''t'']
      else if c = 12 then [char_of (92::nat), CHR ''f'']
      else if c = 8 then [char_of (92::nat), CHR ''b'']
      else if 32 \<le> c \<and> c \<le> 126 then [char_of c]
      else if c < 65536 then char_of (92::nat) # CHR ''u'' # hex4 c
      else char_of (92::nat) # CHR ''u'' # hex4 (55296 + (c - 65536) div 1024)
           @ char_of (92::nat) # CHR ''u'' # hex4 (56320 + (c - 65536) mod 1024))"

definition dump_str :: "ustr \<Rightarrow> bytes" where
  "dump_str s = CHR 0x22 # concat (map escape_char s) @ [CHR 0x22]"

fun dump_value :: "json \<Rightarrow> bytes" where
  "dump_value JNull = ''null''"
| "dump_value (JBool b) = (if b then ''true'' else ''false'')"
| "dump_value (JInt i) = dec_int i"
| "dump_value (JFloat t) = t"
| "dump_value (JStr s) = dump_str s"
| "dump_value (JArr vs) = ''['' @ join_with '','' (map dump_value vs) @ '']''"
| "dump_value (JObj kvs) =
     ''{'' @ join_with '','' (map (\<lambda>(k, v). dump_str k @ '':'' @ dump_value v) kvs) @ ''}''"

text \<open>\<open>sort_keys=True\<close>: every dict is written in the order of its keys.\<close>

function sort_keys :: "json \<Rightarrow> json" where
  "sort_keys (JArr vs) = JArr (map sort_keys vs)"
| "sort_keys (JObj kvs) = JObj (map (\<lambda>(k, v). (k, sort_keys v)) (sort_key fst kvs))"
| "sort_keys JNull = JNull"
| "sort_keys (JBool b) = JBool b"
| "sort_keys (JInt i) = JInt i"
| "sort_keys (JFloat t) = JFloat t"
| "sort_keys (JStr s) = JStr s"
  by pat_completeness auto
termination
proof (relation "measure size", goal_cases)
  case (2 v vs)
  then show ?case by (simp add: less_Suc_eq_le size_list_estimation')
next
  case (3 kvs x k v)
  then have "(k, v) \<in> set kvs" by simp
  then have "size v \<le> size_list (size_prod (\<lambda>_. 0) size) kvs"
    by (rule size_list_estimation') simp
  then show ?case by (simp add: less_Suc_eq_le)
qed simp

definition json_dumps :: "json \<Rightarrow> bytes" where
  "json_dumps v = dump_value (sort_keys v)"

section \<open>Reading\<close>

datatype jerr = JSyntax | JDuplicate ustr | JConstant bytes | JDigits | JFuel

fun skip_ws :: "ustr \<Rightarrow> ustr" where
  "skip_ws (c # s) = (if c = 32 \<or> c = 9 \<or> c = 10 \<or> c = 13 then skip_ws s else c # s)"
| "skip_ws [] = []"

fun hex4_value :: "ustr \<Rightarrow> (nat \<times> ustr) option" where
  "hex4_value (a # b # c # d # r) =
     (case (hex_value a, hex_value b, hex_value c, hex_value d) of
        (Some w, Some x, Some y, Some z) \<Rightarrow> Some (w * 4096 + x * 256 + y * 16 + z, r)
      | _ \<Rightarrow> None)"
| "hex4_value _ = None"

lemma hex4_value_length: "hex4_value s = Some (u, r) \<Longrightarrow> length r < length s"
  by (induction s rule: hex4_value.induct) (auto split: option.splits)

definition simple_escape :: "nat \<Rightarrow> nat option" where
  "simple_escape e =
     map_of [(34, 34), (92, 92), (47, 47), (98, 8), (102, 12), (110, 10), (114, 13), (116, 9)] e"

text \<open>The rest of a low surrogate escape after a high surrogate, when there is one.\<close>

definition low_surrogate :: "ustr \<Rightarrow> (nat \<times> ustr) option" where
  "low_surrogate s =
     (case s of
        b # u # r \<Rightarrow>
          if b = 92 \<and> u = 117
          then (case hex4_value r of
                  Some (l, r') \<Rightarrow> if 56320 \<le> l \<and> l \<le> 57343 then Some (l, r') else None
                | None \<Rightarrow> None)
          else None
      | _ \<Rightarrow> None)"

lemma low_surrogate_length: "low_surrogate s = Some (u, r) \<Longrightarrow> length r < length s"
  by (auto simp: low_surrogate_def split: list.splits option.splits if_splits dest!: hex4_value_length)

text \<open>One character of a string literal, or None at its closing quote.\<close>

definition next_char :: "ustr \<Rightarrow> jerr + nat option \<times> ustr" where
  "next_char t =
     (case t of
        [] \<Rightarrow> Inl JSyntax
      | c # s \<Rightarrow>
          if c = 34 then Inr (None, s)
          else if c < 32 then Inl JSyntax
          else if c \<noteq> 92 then Inr (Some c, s)
          else (case s of
                  [] \<Rightarrow> Inl JSyntax
                | e # r \<Rightarrow>
                    if e = 117
                    then (case hex4_value r of
                            None \<Rightarrow> Inl JSyntax
                          | Some (u, r') \<Rightarrow>
                              (case (if 55296 \<le> u \<and> u \<le> 56319 then low_surrogate r' else None) of
                                 None \<Rightarrow> Inr (Some u, r')
                               | Some (l, r'') \<Rightarrow> Inr (Some (65536 + (u - 55296) * 1024 + (l - 56320)), r'')))
                    else (case simple_escape e of
                            None \<Rightarrow> Inl JSyntax
                          | Some x \<Rightarrow> Inr (Some x, r))))"

lemma next_char_length: "next_char t = Inr (x, r) \<Longrightarrow> length r < length t"
  unfolding next_char_def
  by (auto split: list.splits if_splits option.splits dest!: hex4_value_length low_surrogate_length)

text \<open>The characters of a string literal after its opening quote.\<close>

function scan_string :: "ustr \<Rightarrow> jerr + ustr \<times> ustr" where
  "scan_string s =
     (case next_char s of
        Inl e \<Rightarrow> Inl e
      | Inr (None, r) \<Rightarrow> Inr ([], r)
      | Inr (Some c, r) \<Rightarrow>
          (case scan_string r of Inl e \<Rightarrow> Inl e | Inr (cs, r') \<Rightarrow> Inr (c # cs, r')))"
  by pat_completeness auto
termination
  by (relation "measure length") (auto dest: next_char_length)

declare scan_string.simps [simp del]

lemma scan_string_Inr:
  assumes "scan_string s = Inr (x, r)"
  obtains (close) "next_char s = Inr (None, r)" "x = []"
  | (char) c t cs where "next_char s = Inr (Some c, t)" "scan_string t = Inr (cs, r)" "x = c # cs"
  using assms
  by (subst (asm) scan_string.simps) (auto split: sum.splits prod.splits option.splits)

lemma scan_string_length: "scan_string s = Inr (x, r) \<Longrightarrow> length r < length s"
proof (induction s arbitrary: x rule: scan_string.induct)
  case (1 s)
  from "1.prems" show ?case
  proof (cases rule: scan_string_Inr)
    case close
    then show ?thesis by (simp add: next_char_length)
  next
    case (char c t cs)
    then have "length r < length t" by (intro "1.IH") auto
    with char(1) show ?thesis using next_char_length by fastforce
  qed
qed

text \<open>The longest decimal literal at the start: its text, whether it is an integer, and the rest.\<close>

definition scan_digits :: "ustr \<Rightarrow> ustr \<times> ustr" where
  "scan_digits s = (takeWhile is_dec_digit s, dropWhile is_dec_digit s)"

definition scan_fraction :: "ustr \<Rightarrow> ustr \<times> ustr" where
  "scan_fraction s =
     (case s of
        c # r \<Rightarrow> if c = 46 \<and> fst (scan_digits r) \<noteq> [] then (c # fst (scan_digits r), snd (scan_digits r))
                 else ([], s)
      | [] \<Rightarrow> ([], s))"

definition scan_exponent :: "ustr \<Rightarrow> ustr \<times> ustr" where
  "scan_exponent s =
     (case s of
        c # r \<Rightarrow>
          if c = 101 \<or> c = 69
          then (let (sg, r1) = (case r of [] \<Rightarrow> ([], r) | x # r' \<Rightarrow> if x = 43 \<or> x = 45 then ([x], r') else ([], r))
                in if fst (scan_digits r1) \<noteq> [] then (c # sg @ fst (scan_digits r1), snd (scan_digits r1))
                   else ([], s))
          else ([], s)
      | [] \<Rightarrow> ([], s))"

definition scan_int :: "ustr \<Rightarrow> (ustr \<times> ustr) option" where
  "scan_int s =
     (case s of
        [] \<Rightarrow> None
      | c # r \<Rightarrow>
          if c = 48 then Some ([c], r)
          else if is_dec_digit c then Some (scan_digits s) else None)"

definition scan_number :: "ustr \<Rightarrow> jerr + json \<times> ustr" where
  "scan_number t =
     (let neg = (t \<noteq> [] \<and> hd t = 45); s = (if neg then tl t else t)
      in case scan_int s of
           None \<Rightarrow> Inl JSyntax
         | Some (ds, r) \<Rightarrow>
             let (fr, r1) = scan_fraction r; (ex, r2) = scan_exponent r1
             in if fr = [] \<and> ex = []
                then (if length ds > 4300 then Inl JDigits
                      else let n = int (value_of 10 (map (\<lambda>c. c - 48) ds))
                           in Inr (JInt (if neg then - n else n), r2))
                else Inr (JFloat (map char_of ((if neg then [45] else []) @ ds @ fr @ ex)), r2))"

lemma scan_digits_length: "length (snd (scan_digits s)) \<le> length s"
  by (simp add: scan_digits_def length_dropWhile_le)

lemma scan_fraction_length: "length (snd (scan_fraction s)) \<le> length s"
  using scan_digits_length by (auto simp: scan_fraction_def le_Suc_eq split: list.splits)

lemma scan_exponent_length: "length (snd (scan_exponent s)) \<le> length s"
proof (cases s)
  case (Cons c r)
  then show ?thesis
    using scan_digits_length [of r] scan_digits_length [of "tl r"]
    by (auto simp: scan_exponent_def Let_def split: list.splits prod.splits)
qed (simp add: scan_exponent_def)

lemma scan_int_length: "scan_int s = Some (ds, r) \<Longrightarrow> length r < length s"
  by (auto simp: scan_int_def scan_digits_def le_imp_less_Suc length_dropWhile_le split: list.splits if_splits)

lemma scan_number_length: "scan_number t = Inr (v, r) \<Longrightarrow> length r < length t"
proof -
  assume *: "scan_number t = Inr (v, r)"
  let ?s = "if t \<noteq> [] \<and> hd t = 45 then tl t else t"
  from * obtain ds r0 where i: "scan_int ?s = Some (ds, r0)"
    and r: "r = snd (scan_exponent (snd (scan_fraction r0)))"
    by (auto simp: scan_number_def Let_def split: option.splits prod.splits if_splits)
  from scan_int_length [OF i] have "length r0 < length t"
    by (auto split: if_splits)
  then show ?thesis
    unfolding r using scan_exponent_length [of "snd (scan_fraction r0)"] scan_fraction_length [of r0]
    by linarith
qed

text \<open>\<open>object_pairs_hook\<close>: the dict of the pairs, or the first key that repeats.\<close>

fun first_dup :: "ustr list \<Rightarrow> ustr list \<Rightarrow> ustr option" where
  "first_dup seen [] = None"
| "first_dup seen (k # ks) = (if k \<in> set seen then Some k else first_dup (k # seen) ks)"

definition mk_obj :: "(ustr \<times> json) list \<Rightarrow> jerr + json" where
  "mk_obj kvs = (case first_dup [] (map fst kvs) of Some k \<Rightarrow> Inl (JDuplicate k) | None \<Rightarrow> Inr (JObj kvs))"

lemma first_dup_None: "first_dup seen ks = None \<longleftrightarrow> distinct ks \<and> set ks \<inter> set seen = {}"
  by (induction seen ks rule: first_dup.induct) auto

lemma mk_obj_Inr: "mk_obj kvs = Inr v \<longleftrightarrow> distinct (map fst kvs) \<and> v = JObj kvs"
  using first_dup_None [of "[]" "map fst kvs"] by (auto simp: mk_obj_def split: option.splits)

text \<open>
  The recursive descent. The first argument is fuel; \<open>json_loads\<close> supplies enough of it for any
  input (\<open>json_loads_fuel\<close>), so \<open>JFuel\<close> is never its result.
\<close>

fun scan_value :: "nat \<Rightarrow> ustr \<Rightarrow> jerr + json \<times> ustr"
and scan_elems :: "nat \<Rightarrow> ustr \<Rightarrow> jerr + json list \<times> ustr"
and scan_members :: "nat \<Rightarrow> ustr \<Rightarrow> jerr + (ustr \<times> json) list \<times> ustr" where
  "scan_value 0 s = Inl JFuel"
| "scan_value (Suc n) s =
     (case s of
        [] \<Rightarrow> Inl JSyntax
      | c # r \<Rightarrow>
          if c = 34 then
            (case scan_string r of Inl e \<Rightarrow> Inl e | Inr (x, r') \<Rightarrow> Inr (JStr x, r'))
          else if c = 123 then
            (case skip_ws r of
               [] \<Rightarrow> Inl JSyntax
             | d # r' \<Rightarrow>
                 if d = 125 then Inr (JObj [], r')
                 else (case scan_members n (d # r') of
                         Inl e \<Rightarrow> Inl e
                       | Inr (kvs, t) \<Rightarrow> (case mk_obj kvs of Inl e \<Rightarrow> Inl e | Inr v \<Rightarrow> Inr (v, t))))
          else if c = 91 then
            (case skip_ws r of
               [] \<Rightarrow> Inl JSyntax
             | d # r' \<Rightarrow>
                 if d = 93 then Inr (JArr [], r')
                 else (case scan_elems n (d # r') of
                         Inl e \<Rightarrow> Inl e | Inr (vs, t) \<Rightarrow> Inr (JArr vs, t)))
          else if prefix (U ''null'') s then Inr (JNull, drop 4 s)
          else if prefix (U ''true'') s then Inr (JBool True, drop 4 s)
          else if prefix (U ''false'') s then Inr (JBool False, drop 5 s)
          else if prefix (U ''NaN'') s then Inl (JConstant ''NaN'')
          else if prefix (U ''Infinity'') s then Inl (JConstant ''Infinity'')
          else if prefix (U ''-Infinity'') s then Inl (JConstant ''-Infinity'')
          else scan_number s)"
| "scan_elems 0 s = Inl JFuel"
| "scan_elems (Suc n) s =
     (case scan_value n s of
        Inl e \<Rightarrow> Inl e
      | Inr (v, r) \<Rightarrow>
          (case skip_ws r of
             [] \<Rightarrow> Inl JSyntax
           | c # r' \<Rightarrow>
               if c = 44 then
                 (case scan_elems n (skip_ws r') of Inl e \<Rightarrow> Inl e | Inr (vs, t) \<Rightarrow> Inr (v # vs, t))
               else if c = 93 then Inr ([v], r')
               else Inl JSyntax))"
| "scan_members 0 s = Inl JFuel"
| "scan_members (Suc n) s =
     (case s of
        [] \<Rightarrow> Inl JSyntax
      | q # r \<Rightarrow>
          if q \<noteq> 34 then Inl JSyntax
          else (case scan_string r of
                  Inl e \<Rightarrow> Inl e
                | Inr (k, r1) \<Rightarrow>
                    (case skip_ws r1 of
                       [] \<Rightarrow> Inl JSyntax
                     | c # r2 \<Rightarrow>
                         if c \<noteq> 58 then Inl JSyntax
                         else (case scan_value n (skip_ws r2) of
                                 Inl e \<Rightarrow> Inl e
                               | Inr (v, r3) \<Rightarrow>
                                   (case skip_ws r3 of
                                      [] \<Rightarrow> Inl JSyntax
                                    | d # r4 \<Rightarrow>
                                        if d = 44 then
                                          (case scan_members n (skip_ws r4) of
                                             Inl e \<Rightarrow> Inl e | Inr (kvs, t) \<Rightarrow> Inr ((k, v) # kvs, t))
                                        else if d = 125 then Inr ([(k, v)], r4)
                                        else Inl JSyntax)))))"

definition json_loads :: "ustr \<Rightarrow> jerr + json" where
  "json_loads s =
     (if s \<noteq> [] \<and> hd s = 65279 then Inl JSyntax
      else (case scan_value (2 * length s + 1) (skip_ws s) of
              Inl e \<Rightarrow> Inl e
            | Inr (v, r) \<Rightarrow> if skip_ws r = [] then Inr v else Inl JSyntax))"

end
