(* ===== verification/JsonRoundtrip.thy ===== *)
theory JsonRoundtrip
  imports Json
begin

text \<open>
  Correctness of the JSON reader against the writer: the reader never runs out of fuel, and it
  reads back exactly what \<open>json_dumps\<close> writes (keys sorted) for every float-free value whose
  strings are made of Unicode scalar values and whose integers have at most 4300 digits.
\<close>

section \<open>The reader consumes input and has fuel enough\<close>

lemma skip_ws_length: "length (skip_ws s) \<le> length s"
  by (induction s rule: skip_ws.induct) auto

lemma skip_ws_Cons: "skip_ws s = c # r \<Longrightarrow> length r < length s"
  using skip_ws_length [of s] by simp

text \<open>What one step of each scanner function consumed when it succeeds.\<close>

lemma scan_elems_Suc_Inr:
  assumes "scan_elems (Suc n) s = Inr (vs, r)"
  obtains (last) v t where "scan_value n s = Inr (v, t)" "skip_ws t = 93 # r" "vs = [v]"
  | (more) v t t' vs' where "scan_value n s = Inr (v, t)" "skip_ws t = 44 # t'"
      "scan_elems n (skip_ws t') = Inr (vs', r)" "vs = v # vs'"
  using assms by (auto split: sum.splits prod.splits list.splits if_splits)

lemma scan_members_Suc_Inr:
  assumes "scan_members (Suc n) s = Inr (kvs, r)"
  obtains (last) q k t1 t2 v t3 where "s = 34 # q" "scan_string q = Inr (k, t1)" "skip_ws t1 = 58 # t2"
      "scan_value n (skip_ws t2) = Inr (v, t3)" "skip_ws t3 = 125 # r" "kvs = [(k, v)]"
  | (more) q k t1 t2 v t3 t4 kvs' where "s = 34 # q" "scan_string q = Inr (k, t1)"
      "skip_ws t1 = 58 # t2" "scan_value n (skip_ws t2) = Inr (v, t3)" "skip_ws t3 = 44 # t4"
      "scan_members n (skip_ws t4) = Inr (kvs', r)" "kvs = (k, v) # kvs'"
  using assms by (auto split: sum.splits prod.splits list.splits if_splits)

lemma scan_value_Suc_Inr:
  assumes "scan_value (Suc n) s = Inr (v, r)"
  obtains (str) q x where "s = 34 # q" "scan_string q = Inr (x, r)" "v = JStr x"
  | (empty) q where "s = 123 # q \<or> s = 91 # q" "skip_ws q = 125 # r \<or> skip_ws q = 93 # r"
      "v = JObj [] \<or> v = JArr []"
  | (obj) q kvs where "s = 123 # q" "scan_members n (skip_ws q) = Inr (kvs, r)" "mk_obj kvs = Inr v"
  | (arr) q vs where "s = 91 # q" "scan_elems n (skip_ws q) = Inr (vs, r)" "v = JArr vs"
  | (literal) "r = drop 4 s \<or> r = drop 5 s" "s \<noteq> []" "v = JNull \<or> v = JBool True \<or> v = JBool False"
  | (number) "scan_number s = Inr (v, r)"
  using assms by (auto split: sum.splits prod.splits list.splits if_splits)

lemma scan_length:
  "(\<forall>s v r. scan_value n s = Inr (v, r) \<longrightarrow> length r < length s) \<and>
   (\<forall>s vs r. scan_elems n s = Inr (vs, r) \<longrightarrow> length r < length s) \<and>
   (\<forall>s kvs r. scan_members n s = Inr (kvs, r) \<longrightarrow> length r < length s)"
proof (induction n)
  case (Suc n)
  then have V: "\<And>s v r. scan_value n s = Inr (v, r) \<Longrightarrow> length r < length s"
    and E: "\<And>s vs r. scan_elems n s = Inr (vs, r) \<Longrightarrow> length r < length s"
    and M: "\<And>s kvs r. scan_members n s = Inr (kvs, r) \<Longrightarrow> length r < length s"
    by blast+
  have "length r < length s" if "scan_value (Suc n) s = Inr (v, r)" for s v r
    using that
  proof (cases rule: scan_value_Suc_Inr)
    case (empty q)
    then show ?thesis using skip_ws_Cons [of q] by fastforce
  next
    case (obj q kvs)
    then show ?thesis using M skip_ws_length [of q] by fastforce
  next
    case (arr q vs)
    then show ?thesis using E skip_ws_length [of q] by fastforce
  next
    case literal
    then show ?thesis by (cases s) auto
  qed (auto dest: scan_string_length scan_number_length)
  moreover have "length r < length s" if "scan_elems (Suc n) s = Inr (vs, r)" for s vs r
    using that
  proof (cases rule: scan_elems_Suc_Inr)
    case (last v t)
    then show ?thesis using V [of s v t] skip_ws_Cons [of t] by fastforce
  next
    case (more v t t' vs')
    then show ?thesis using V [of s v t] E skip_ws_Cons [of t] skip_ws_length [of t'] by fastforce
  qed
  moreover have "length r < length s" if "scan_members (Suc n) s = Inr (kvs, r)" for s kvs r
    using that
  proof (cases rule: scan_members_Suc_Inr)
    case (last q k t1 t2 v t3)
    from last(2) have "length t1 < length q" by (rule scan_string_length)
    moreover from last(3) have "length t2 < length t1" by (rule skip_ws_Cons)
    moreover from V [OF last(4)] have "length t3 < length t2"
      using skip_ws_length [of t2] by simp
    moreover from last(5) have "length r < length t3" by (rule skip_ws_Cons)
    ultimately show ?thesis using last(1) by simp
  next
    case (more q k t1 t2 v t3 t4 kvs')
    from more(2) have "length t1 < length q" by (rule scan_string_length)
    moreover from more(3) have "length t2 < length t1" by (rule skip_ws_Cons)
    moreover from V [OF more(4)] have "length t3 < length t2"
      using skip_ws_length [of t2] by simp
    moreover from more(5) have "length t4 < length t3" by (rule skip_ws_Cons)
    moreover from M [OF more(6)] have "length r < length t4"
      using skip_ws_length [of t4] by simp
    ultimately show ?thesis using more(1) by simp
  qed
  ultimately show ?case by blast
qed simp

lemmas scan_value_length = scan_length [THEN conjunct1, rule_format]

text \<open>The errors of the leaves are never \<open>JFuel\<close>.\<close>

lemma scan_string_no_fuel: "scan_string s \<noteq> Inl JFuel"
proof (induction s rule: scan_string.induct)
  case (1 s)
  have "next_char s \<noteq> Inl JFuel"
    by (auto simp: next_char_def split: list.splits option.splits if_splits)
  show ?case
  proof (cases "next_char s")
    case (Inr p)
    then obtain x r where p: "next_char s = Inr (x, r)" by (cases p) simp
    have "scan_string r \<noteq> Inl JFuel" if "x = Some c" for c
      using "1.IH" p that by blast
    with p show ?thesis
      by (subst scan_string.simps) (auto split: sum.splits option.splits)
  qed (use \<open>next_char s \<noteq> Inl JFuel\<close> in \<open>simp add: scan_string.simps\<close>)
qed

lemma scan_number_no_fuel: "scan_number s \<noteq> Inl JFuel"
  by (auto simp: scan_number_def Let_def split: option.splits prod.splits if_splits)

lemma mk_obj_no_fuel: "mk_obj kvs \<noteq> Inl JFuel"
  by (auto simp: mk_obj_def split: option.splits)

lemma scan_fuel:
  "(\<forall>s. 2 * length s < n \<longrightarrow> scan_value n s \<noteq> Inl JFuel) \<and>
   (\<forall>s. 2 * length s + 1 < n \<longrightarrow> scan_elems n s \<noteq> Inl JFuel) \<and>
   (\<forall>s. 2 * length s + 1 < n \<longrightarrow> scan_members n s \<noteq> Inl JFuel)"
proof (induction n)
  case (Suc n)
  then have V: "\<And>s. 2 * length s < n \<Longrightarrow> scan_value n s \<noteq> Inl JFuel"
    and E: "\<And>s. 2 * length s + 1 < n \<Longrightarrow> scan_elems n s \<noteq> Inl JFuel"
    and M: "\<And>s. 2 * length s + 1 < n \<Longrightarrow> scan_members n s \<noteq> Inl JFuel"
    by blast+
  have "scan_value (Suc n) s \<noteq> Inl JFuel" if len: "2 * length s < Suc n" for s
  proof (cases s)
    case (Cons c r)
    have "2 * length (skip_ws r) + 1 < n"
      using len Cons skip_ws_length [of r] by simp
    from E [OF this] M [OF this] show ?thesis
      using scan_string_no_fuel [of r] scan_number_no_fuel [of s] mk_obj_no_fuel
      by (auto simp: Cons split: list.splits sum.splits if_splits)
  qed simp
  moreover have "scan_elems (Suc n) s \<noteq> Inl JFuel" if len: "2 * length s + 1 < Suc n" for s
  proof (cases "scan_value n s")
    case (Inl e)
    with V [of s] len show ?thesis by auto
  next
    case (Inr p)
    obtain v t where p: "p = (v, t)" by (cases p)
    with Inr have "length t < length s" by (auto dest: scan_value_length)
    moreover have "length (skip_ws t') < length t" if "skip_ws t = c # t'" for c t'
      using skip_ws_Cons [OF that] skip_ws_length [of t'] by simp
    ultimately have "skip_ws t = c # t' \<Longrightarrow> scan_elems n (skip_ws t') \<noteq> Inl JFuel" for c t'
      using len by (intro E) fastforce
    with Inr p show ?thesis by (auto split: list.splits sum.splits)
  qed
  moreover have "scan_members (Suc n) s \<noteq> Inl JFuel" if len: "2 * length s + 1 < Suc n" for s
  proof (rule notI)
    assume *: "scan_members (Suc n) s = Inl JFuel"
    then obtain q k t1 t2 where s: "s = 34 # q" and k: "scan_string q = Inr (k, t1)"
      and t2: "skip_ws t1 = 58 # t2"
      using scan_string_no_fuel by (auto split: list.splits sum.splits if_splits)
    from scan_string_length [OF k] skip_ws_Cons [OF t2] skip_ws_length [of t2]
    have t2len: "length (skip_ws t2) < length s" by (simp add: s)
    with len have "scan_value n (skip_ws t2) \<noteq> Inl JFuel" by (intro V) simp
    with * s k t2 obtain v t3 t4 where v: "scan_value n (skip_ws t2) = Inr (v, t3)"
      and t4: "skip_ws t3 = 44 # t4" and m: "scan_members n (skip_ws t4) = Inl JFuel"
      by (auto split: list.splits sum.splits if_splits)
    from scan_value_length [OF v] skip_ws_Cons [OF t4] skip_ws_length [of t4] t2len len
    have "2 * length (skip_ws t4) + 1 < n" by simp
    with M m show False by blast
  qed
  ultimately show ?case by blast
qed simp

lemma json_loads_fuel: "json_loads s \<noteq> Inl JFuel"
proof -
  have "2 * length (skip_ws s) < 2 * length s + 1" using skip_ws_length [of s] by simp
  then have "scan_value (2 * length s + 1) (skip_ws s) \<noteq> Inl JFuel"
    using scan_fuel [THEN conjunct1, rule_format] by blast
  then show ?thesis
    by (cases "scan_value (2 * length s + 1) (skip_ws s)") (auto simp: json_loads_def simp del: scan_value.simps split: if_splits)
qed

section \<open>Reading back what was written\<close>

definition wf_str :: "ustr \<Rightarrow> bool" where
  "wf_str s \<longleftrightarrow> list_all scalar s"

definition wf_int :: "int \<Rightarrow> bool" where
  "wf_int i \<longleftrightarrow> length (dec_nat (nat \<bar>i\<bar>)) \<le> 4300"

fun wf_json :: "json \<Rightarrow> bool" where
  "wf_json JNull = True"
| "wf_json (JBool b) = True"
| "wf_json (JInt i) = wf_int i"
| "wf_json (JFloat t) = False"
| "wf_json (JStr s) = wf_str s"
| "wf_json (JArr vs) = (\<forall>v \<in> set vs. wf_json v)"
| "wf_json (JObj kvs) = (distinct (map fst kvs) \<and> (\<forall>(k, v) \<in> set kvs. wf_str k \<and> wf_json v))"

text \<open>What may follow a value inside a document.\<close>

definition delim :: "ustr \<Rightarrow> bool" where
  "delim r \<longleftrightarrow> (case r of [] \<Rightarrow> True | c # _ \<Rightarrow> c = 44 \<or> c = 93 \<or> c = 125 \<or> c = 10)"

lemma hex4_roundtrip: "n < 65536 \<Longrightarrow> hex4_value (U (hex4 n) @ r) = Some (n, r)"
proof -
  assume n: "n < 65536"
  let ?a = "n div 16" and ?b = "n div 16 div 16" and ?c = "n div 16 div 16 div 16"
  have d: "n div 256 = ?b" "n div 4096 = ?c" by (simp_all add: div_mult2_eq [symmetric])
  have "?a * 16 + n mod 16 = n" "?b * 16 + ?a mod 16 = ?a" "?c * 16 + ?b mod 16 = ?b"
    by (rule div_mult_mod_eq)+
  moreover from n have "?c < 16" by (simp add: div_mult2_eq [symmetric] div_less_iff_less_mult)
  then have "?c mod 16 = ?c" by (rule mod_less)
  ultimately have "?c mod 16 * 4096 + ?b mod 16 * 256 + ?a mod 16 * 16 + n mod 16 = n"
    by linarith
  moreover have "hex4_value (U (hex4 n) @ r) =
      Some (?c mod 16 * 4096 + ?b mod 16 * 256 + ?a mod 16 * 16 + n mod 16, r)"
    by (simp only: hex4_def d U_def list.map append.simps hex4_value.simps)
       (simp add: hex_value_digit del: of_char_of)
  ultimately show ?thesis by simp
qed

lemma next_char_escape:
  assumes "scalar c"
  shows "next_char (U (escape_char c) @ r) = Inr (Some c, r)"
proof -
  have low: "low_surrogate (92 # 117 # U (hex4 (56320 + x mod 1024)) @ r) = Some (56320 + x mod 1024, r)"
    for x
    using hex4_roundtrip [of "56320 + x mod 1024" r] by (simp add: low_surrogate_def)
  consider (short) "c = 34 \<or> c = 92 \<or> c = 10 \<or> c = 13 \<or> c = 9 \<or> c = 12 \<or> c = 8"
    | (plain) "32 \<le> c" "c \<le> 126" "c \<noteq> 34" "c \<noteq> 92"
    | (bmp) "c < 32 \<or> 126 < c" "c < 65536" "c \<noteq> 10" "c \<noteq> 13" "c \<noteq> 9" "c \<noteq> 12" "c \<noteq> 8"
    | (astral) "65536 \<le> c" by fastforce
  then show ?thesis
  proof cases
    case short
    then show ?thesis by (auto simp: escape_char_def U_def next_char_def simple_escape_def)
  next
    case plain
    then show ?thesis by (auto simp: escape_char_def U_def next_char_def)
  next
    case bmp
    then have e: "escape_char c = char_of (92::nat) # CHR ''u'' # hex4 c"
      by (auto simp: escape_char_def)
    from assms have "\<not> (55296 \<le> c \<and> c \<le> 56319)" by (auto simp: scalar_def is_surrogate_def)
    with hex4_roundtrip [OF bmp(2), of r] show ?thesis
      by (auto simp: e U_Cons next_char_def)
  next
    case astral
    let ?x = "c - 65536"
    from astral assms have x: "?x < 1048576" unfolding scalar_def by linarith
    then have h: "55296 + ?x div 1024 < 65536" "?x div 1024 \<le> 1023" by auto
    from astral have e: "escape_char c = char_of (92::nat) # CHR ''u'' # hex4 (55296 + ?x div 1024)
        @ char_of (92::nat) # CHR ''u'' # hex4 (56320 + ?x mod 1024)"
      by (auto simp: escape_char_def)
    have "65536 + ?x div 1024 * 1024 + ?x mod 1024 = c" using astral by simp
    with h low [of ?x] hex4_roundtrip [OF h(1)] show ?thesis
      by (simp add: e U_Cons U_append next_char_def)
  qed
qed

lemma scan_string_dump:
  "wf_str s \<Longrightarrow> scan_string (U (concat (map escape_char s)) @ 34 # r) = Inr (s, r)"
proof (induction s)
  case Nil
  show ?case by (subst scan_string.simps) (simp add: next_char_def)
next
  case (Cons c s)
  then have "scalar c" "wf_str s" by (auto simp: wf_str_def)
  with Cons.IH show ?case
    by (subst scan_string.simps) (simp add: U_append next_char_escape)
qed

lemma dump_str_scan: "U (dump_str s) @ r = 34 # U (concat (map escape_char s)) @ 34 # r"
  by (simp add: dump_str_def U_def)

lemma delim_not_digit: "delim (c # r) \<Longrightarrow> \<not> is_dec_digit c \<and> c \<noteq> 46 \<and> c \<noteq> 101 \<and> c \<noteq> 69"
  by (auto simp: delim_def is_dec_digit_def)

lemma scan_digits_append:
  "list_all is_dec_digit ds \<Longrightarrow> delim r \<Longrightarrow> scan_digits (ds @ r) = (ds, r)"
  by (cases r) (auto simp: scan_digits_def takeWhile_append dropWhile_append list_all_iff
      dest: delim_not_digit)

lemma U_dec_nat: "U (dec_nat n) = map ((+) 48) (digits_of 10 n)"
proof -
  have "ord (digit d) = 48 + d" if "d \<in> set (digits_of 10 n)" for d
    using digits_of_less [of 10 d n] that by (simp add: of_char_digit)
  then show ?thesis by (simp add: U_def dec_nat_def)
qed

lemma scan_int_dec:
  assumes "delim r"
  shows "scan_int (U (dec_nat n) @ r) = Some (U (dec_nat n), r)"
proof -
  obtain d ds where ds: "digits_of 10 n = d # ds" by (cases "digits_of 10 n") auto
  have dig: "list_all is_dec_digit (U (dec_nat n))"
    using digits_of_less [of 10 _ n] by (fastforce simp: U_dec_nat list_all_iff is_dec_digit_def)
  show ?thesis
  proof (cases "d = 0")
    case True
    with hd_digits_of [of 10 n] ds have "n = 0" by simp
    then show ?thesis by (simp add: scan_int_def U_dec_nat digits_of.simps [of 10 0])
  next
    case False
    moreover have "d < 10" using digits_of_less [of 10 d n] ds by simp
    ultimately show ?thesis
      using scan_digits_append [OF dig assms] ds
      by (simp add: scan_int_def U_dec_nat is_dec_digit_def)
  qed
qed

lemma scan_number_dump:
  assumes "wf_int i" and "delim r"
  shows "scan_number (U (dec_int i) @ r) = Inr (JInt i, r)"
proof -
  have nd: "scan_fraction r = ([], r)" "scan_exponent r = ([], r)"
    using assms(2) delim_not_digit
    by (auto simp: scan_fraction_def scan_exponent_def split: list.splits)
  have val: "value_of 10 (map (\<lambda>c. c - 48) (U (dec_nat n))) = n" for n
    by (simp add: U_dec_nat o_def value_digits_of)
  have neg: "hd (U (dec_nat n) @ r) \<noteq> 45" for n
    using hd_in_set [of "digits_of 10 n"] by (cases "digits_of 10 n") (auto simp: U_dec_nat)
  have len: "length (U (dec_nat (nat \<bar>i\<bar>))) \<le> 4300" using assms(1) by (simp add: wf_int_def)
  show ?thesis
  proof (cases "i < 0")
    case True
    then have "U (dec_int i) = 45 # U (dec_nat (nat (- i)))" by (simp add: dec_int_def U_Cons)
    with True len show ?thesis
      by (simp add: scan_number_def scan_int_dec [OF assms(2)] nd val)
  next
    case False
    then have "U (dec_int i) = U (dec_nat (nat i))" by (simp add: dec_int_def)
    with False len neg [of "nat i"] show ?thesis
      by (simp add: scan_number_def scan_int_dec [OF assms(2)] nd val)
  qed
qed

text \<open>
  The reader on written text, with any fuel that exceeds what the text needs: induction on the
  value, for every rest that may follow it.
\<close>

definition reads_back :: "json \<Rightarrow> bool" where
  "reads_back v \<longleftrightarrow>
     (\<forall>n r. delim r \<longrightarrow> 2 * length (U (dump_value v) @ r) < n \<longrightarrow>
        scan_value n (U (dump_value v) @ r) = Inr (v, r))"

lemma dump_value_start:
  assumes "wf_json v"
  obtains c r where "dump_value v = c # r" and "ord c \<notin> {32, 9, 10, 13, 44, 93, 125}"
proof (cases v)
  case (JInt i)
  obtain d ds where ds: "dec_nat (nat \<bar>i\<bar>) = d # ds" by (cases "dec_nat (nat \<bar>i\<bar>)") auto
  then have "is_dec_digit (ord d)" using dec_nat_digits [of d "nat \<bar>i\<bar>"] by simp
  then have "ord d \<notin> {32, 9, 10, 13, 44, 93, 125}" by (auto simp: is_dec_digit_def)
  with JInt ds that show ?thesis by (cases "i < 0") (auto simp: dec_int_def)
next
  case (JBool b)
  then show ?thesis using that by (cases b) auto
qed (use assms that in \<open>auto simp: dump_str_def\<close>)

lemma skip_ws_dump: "wf_json v \<Longrightarrow> skip_ws (U (dump_value v) @ r) = U (dump_value v) @ r"
  by (erule dump_value_start) (auto simp: U_Cons)

lemma skip_ws_simps [simp]:
  "skip_ws (44 # r) = 44 # r" "skip_ws (93 # r) = 93 # r" "skip_ws (125 # r) = 125 # r"
  "skip_ws (58 # r) = 58 # r" "skip_ws (34 # r) = 34 # r"
  by simp_all

lemma delim_simps [simp]: "delim []" "delim (44 # r)" "delim (93 # r)" "delim (125 # r)" "delim (10 # r)"
  by (simp_all add: delim_def)

declare scan_value.simps [simp del] scan_elems.simps [simp del] scan_members.simps [simp del]

lemma join_dump_start:
  assumes "wf_json v"
  obtains c t where "U (join_with sep (map dump_value (v # vs))) @ r = c # t"
    and "c \<notin> {32, 9, 10, 13, 44, 93, 125}"
proof -
  obtain c t where "dump_value v = c # t" "ord c \<notin> {32, 9, 10, 13, 44, 93, 125}"
    using dump_value_start [OF assms] .
  then show ?thesis using that by (cases vs) (auto simp: U_append U_Cons)
qed

lemma scan_elems_dump:
  assumes "vs \<noteq> []" and "\<forall>v \<in> set vs. wf_json v \<and> reads_back v"
    and "2 * length (U (join_with '','' (map dump_value vs)) @ 93 # r) + 1 < n"
  shows "scan_elems n (U (join_with '','' (map dump_value vs)) @ 93 # r) = Inr (vs, r)"
  using assms
proof (induction vs arbitrary: n)
  case (Cons v vs)
  then obtain m where n: "n = Suc m" by (cases n) auto
  have v: "wf_json v" and rb: "\<And>n r. delim r \<Longrightarrow> 2 * length (U (dump_value v) @ r) < n
      \<Longrightarrow> scan_value n (U (dump_value v) @ r) = Inr (v, r)"
    using Cons.prems(2) by (auto simp: reads_back_def)
  show ?case
  proof (cases vs)
    case Nil
    with Cons.prems(3) rb [of "93 # r" m] show ?thesis by (simp add: n scan_elems.simps)
  next
    case (Cons w ws)
    let ?rest = "U (join_with '','' (map dump_value vs)) @ 93 # r"
    have eq: "U (join_with '','' (map dump_value (v # vs))) @ 93 # r = U (dump_value v) @ 44 # ?rest"
      by (simp add: Cons U_append U_Cons)
    have len: "2 * length (U (dump_value v) @ 44 # ?rest) + 1 < n"
      using Cons.prems(3) unfolding eq .
    have sk: "skip_ws ?rest = ?rest"
      using skip_ws_dump [of w] Cons Cons.prems(2)
      by (cases ws) (auto simp: U_append)
    have "scan_elems m ?rest = Inr (vs, r)"
      using Cons.prems(2) len by (intro Cons.IH) (auto simp: Cons n)
    moreover have "scan_value m (U (dump_value v) @ 44 # ?rest) = Inr (v, 44 # ?rest)"
      using len by (intro rb) (auto simp: n)
    ultimately show ?thesis
      unfolding eq n by (simp add: scan_elems.simps sk)
  qed
qed simp

abbreviation dump_item :: "ustr \<times> json \<Rightarrow> bytes" where
  "dump_item \<equiv> \<lambda>(k, v). dump_str k @ '':'' @ dump_value v"

lemma scan_members_dump:
  assumes "kvs \<noteq> []" and "\<forall>(k, v) \<in> set kvs. wf_str k \<and> wf_json v \<and> reads_back v"
    and "2 * length (U (join_with '','' (map dump_item kvs)) @ 125 # r) + 1 < n"
  shows "scan_members n (U (join_with '','' (map dump_item kvs)) @ 125 # r) = Inr (kvs, r)"
  using assms
proof (induction kvs arbitrary: n)
  case (Cons kv kvs)
  then obtain m k v where n: "n = Suc m" and kv: "kv = (k, v)" by (cases n; cases kv) auto
  have k: "wf_str k" and v: "wf_json v" and rb: "\<And>n r. delim r \<Longrightarrow>
      2 * length (U (dump_value v) @ r) < n \<Longrightarrow> scan_value n (U (dump_value v) @ r) = Inr (v, r)"
    using Cons.prems(2) by (auto simp: reads_back_def kv)
  have item: "U (dump_item kv) @ t = 34 # U (concat (map escape_char k)) @ 34 # 58 # U (dump_value v) @ t"
    for t
    by (simp add: kv dump_str_def U_append U_Cons)
  have key: "scan_string (U (concat (map escape_char k)) @ 34 # t) = Inr (k, t)" for t
    by (rule scan_string_dump [OF k])
  show ?case
  proof (cases kvs)
    case Nil
    have "2 * length (U (dump_item kv) @ 125 # r) + 1 < n"
      using Cons.prems(3) by (simp add: Nil)
    then have "scan_value m (U (dump_value v) @ 125 # r) = Inr (v, 125 # r)"
      unfolding item n by (intro rb) auto
    then have "scan_members n (U (dump_item kv) @ 125 # r) = Inr ([(k, v)], r)"
      unfolding item n by (simp add: scan_members.simps key skip_ws_dump [OF v])
    then show ?thesis by (simp add: Nil kv)
  next
    case (Cons kw kws)
    define rest where "rest = U (join_with '','' (map dump_item kvs)) @ 125 # r"
    have eq: "U (join_with '','' (map dump_item (kv # kvs))) @ 125 # r = U (dump_item kv) @ 44 # rest"
      by (simp add: rest_def Cons U_append U_Cons)
    have len: "2 * length (U (dump_item kv) @ 44 # rest) + 1 < n"
      using Cons.prems(3) unfolding eq .
    have sk: "skip_ws rest = rest"
      by (cases kw; cases kws) (simp_all add: rest_def Cons U_append dump_str_def U_Cons)
    have "scan_members m rest = Inr (kvs, r)"
      using Cons.prems(2) len unfolding item rest_def by (intro Cons.IH) (auto simp: Cons n)
    moreover have "scan_value m (U (dump_value v) @ 44 # rest) = Inr (v, 44 # rest)"
      using len unfolding item by (intro rb) (auto simp: n)
    ultimately show ?thesis
      unfolding eq item n by (simp add: scan_members.simps key skip_ws_dump [OF v] sk kv)
  qed
qed simp

lemma U_literals:
  "U ''null'' = [110, 117, 108, 108]" "U ''true'' = [116, 114, 117, 101]"
  "U ''false'' = [102, 97, 108, 115, 101]" "U ''NaN'' = [78, 97, 78]"
  "U ''Infinity'' = [73, 110, 102, 105, 110, 105, 116, 121]"
  "U ''-Infinity'' = [45, 73, 110, 102, 105, 110, 105, 116, 121]"
  by (simp_all add: U_def)

lemma reads_back_number: "wf_int i \<Longrightarrow> reads_back (JInt i)"
  unfolding reads_back_def
proof (intro allI impI)
  fix n r
  assume i: "wf_int i" and r: "delim r" and len: "2 * length (U (dump_value (JInt i)) @ r) < n"
  then obtain m where n: "n = Suc m" by (cases n) auto
  obtain d ds where ds: "digits_of 10 (nat \<bar>i\<bar>) = d # ds" by (cases "digits_of 10 (nat \<bar>i\<bar>)") auto
  then have d: "d < 10" using digits_of_less [of 10 d "nat \<bar>i\<bar>"] by simp
  have "U (dump_value (JInt i)) = (if i < 0 then [45] else []) @ (48 + d) # map ((+) 48) ds"
    using ds by (auto simp: dec_int_def U_Cons U_dec_nat)
  moreover have "scan_number (U (dump_value (JInt i)) @ r) = Inr (JInt i, r)"
    using scan_number_dump [OF i r] by simp
  ultimately show "scan_value n (U (dump_value (JInt i)) @ r) = Inr (JInt i, r)"
    using d by (auto simp: n scan_value.simps U_literals)
qed

lemma reads_back: "wf_json v \<Longrightarrow> reads_back v"
proof (induction v)
  case (JArr vs)
  then have vs: "\<forall>v \<in> set vs. wf_json v \<and> reads_back v" by auto
  show ?case
    unfolding reads_back_def
  proof (intro allI impI)
    fix n r
    assume len: "2 * length (U (dump_value (JArr vs)) @ r) < n"
    then obtain m where n: "n = Suc m" by (cases n) auto
    have eq: "U (dump_value (JArr vs)) @ r = 91 # U (join_with '','' (map dump_value vs)) @ 93 # r"
      by (simp add: U_append U_Cons)
    show "scan_value n (U (dump_value (JArr vs)) @ r) = Inr (JArr vs, r)"
    proof (cases vs)
      case Nil
      then show ?thesis unfolding eq n by (simp add: scan_value.simps)
    next
      case (Cons w ws)
      have e: "scan_elems m (U (join_with '','' (map dump_value vs)) @ 93 # r) = Inr (vs, r)"
        using len unfolding eq n by (intro scan_elems_dump vs) (auto simp: Cons)
      have "wf_json w" using vs Cons by simp
      then obtain c t where "U (join_with '','' (map dump_value vs)) @ 93 # r = c # t"
        and "c \<notin> {32, 9, 10, 13, 44, 93, 125}"
        unfolding Cons by (rule join_dump_start)
      with e show ?thesis unfolding eq n by (simp add: scan_value.simps)
    qed
  qed
next
  case (JObj kvs)
  then have kvs: "\<forall>(k, v) \<in> set kvs. wf_str k \<and> wf_json v \<and> reads_back v"
    and d: "distinct (map fst kvs)" by fastforce+
  show ?case
    unfolding reads_back_def
  proof (intro allI impI)
    fix n r
    assume len: "2 * length (U (dump_value (JObj kvs)) @ r) < n"
    then obtain m where n: "n = Suc m" by (cases n) auto
    have eq: "U (dump_value (JObj kvs)) @ r = 123 # U (join_with '','' (map dump_item kvs)) @ 125 # r"
      by (simp add: U_append U_Cons)
    show "scan_value n (U (dump_value (JObj kvs)) @ r) = Inr (JObj kvs, r)"
    proof (cases kvs)
      case Nil
      then show ?thesis unfolding eq n by (simp add: scan_value.simps)
    next
      case (Cons kw ws)
      have e: "scan_members m (U (join_with '','' (map dump_item kvs)) @ 125 # r) = Inr (kvs, r)"
        using len unfolding eq n by (intro scan_members_dump kvs) (auto simp: Cons)
      obtain t where "U (join_with '','' (map dump_item kvs)) @ 125 # r = 34 # t"
        by (cases kw; cases ws) (auto simp: Cons U_append U_Cons dump_str_def)
      moreover have "mk_obj kvs = Inr (JObj kvs)" using d by (simp add: mk_obj_Inr)
      ultimately show ?thesis using e unfolding eq n by (simp add: scan_value.simps)
    qed
  qed
next
  case (JStr x)
  have "scan_value (Suc m) (34 # U (concat (map escape_char x)) @ 34 # r) = Inr (JStr x, r)" for m r
    using JStr by (simp add: scan_value.simps scan_string_dump)
  then show ?case
    by (auto simp: reads_back_def dump_str_def U_append U_Cons dest: less_imp_Suc_add)
next
  case (JInt i)
  then show ?case by (simp add: reads_back_number)
next
  case (JBool b)
  have "scan_value (Suc m) (U (dump_value (JBool b)) @ r) = Inr (JBool b, r)" for m r
    by (cases b) (simp_all add: scan_value.simps U_literals)
  then show ?case by (auto simp only: reads_back_def dest!: less_imp_Suc_add)
qed (auto simp: reads_back_def scan_value.simps U_literals dest!: less_imp_Suc_add)

theorem json_loads_dump:
  assumes "wf_json v"
  shows "json_loads (U (dump_value v) @ (if nl then [10] else [])) = Inr v"
proof -
  define r :: ustr where "r = (if nl then [10] else [])"
  obtain c t where c: "dump_value v = c # t" "ord c \<notin> {32, 9, 10, 13, 44, 93, 125}"
    using dump_value_start [OF assms] .
  have "delim r" "skip_ws r = []" by (simp_all add: r_def)
  with reads_back [OF assms] have
    "scan_value (2 * length (U (dump_value v) @ r) + 1) (U (dump_value v) @ r) = Inr (v, r)"
    unfolding reads_back_def by (elim allE impE) auto
  moreover have "hd (U (dump_value v) @ r) \<noteq> 65279"
    using c(1) less_imp_neq [OF less_trans [OF ord_less [of c], of 65279]] by (simp add: U_Cons)
  ultimately show ?thesis
    using \<open>skip_ws r = []\<close> skip_ws_dump [OF assms, of r]
    by (simp add: json_loads_def flip: r_def)
qed

lemma wf_sort_keys: "wf_json v \<Longrightarrow> wf_json (sort_keys v)"
proof (induction v rule: sort_keys.induct)
  case (2 kvs)
  have "map fst (map (\<lambda>(k, v). (k, sort_keys v)) (sort_key fst kvs)) = map fst (sort_key fst kvs)"
    by (simp add: o_def split_def)
  moreover have "distinct (map fst (sort_key fst kvs))"
    using 2 by (simp add: distinct_map)
  moreover have "\<forall>(k, v) \<in> set kvs. wf_str k \<and> wf_json (sort_keys v)"
    using 2 by fastforce
  ultimately show ?case by (fastforce simp: o_def split_def)
qed auto

text \<open>What \<open>json.dumps\<close> wrote, \<open>json.loads\<close> reads back, with every dict in key order.\<close>

lemma json_roundtrip: "wf_json v \<Longrightarrow> json_loads (U (json_dumps v)) = Inr (sort_keys v)"
  using json_loads_dump [OF wf_sort_keys, of v False] by (simp add: json_dumps_def)

lemma json_roundtrip_line: "wf_json v \<Longrightarrow> json_loads (U (json_dumps v @ [CHR 0x0A])) = Inr (sort_keys v)"
  using json_loads_dump [OF wf_sort_keys, of v True] by (simp add: json_dumps_def U_append U_Cons)

text \<open>\<open>ensure_ascii=True\<close>: the writer emits ASCII.\<close>

lemma digit_ascii [simp]: "d < 36 \<Longrightarrow> ord (digit d) < 128"
  by (simp add: of_char_digit)

lemma escape_char_ascii: "x \<in> set (escape_char c) \<Longrightarrow> ord x < 128"
  by (auto simp: escape_char_def hex4_def split: if_splits)

lemma dump_str_ascii: "x \<in> set (dump_str s) \<Longrightarrow> ord x < 128"
  by (auto simp: dump_str_def dest: escape_char_ascii)

lemma dec_int_ascii: "x \<in> set (dec_int i) \<Longrightarrow> ord x < 128"
  using dec_nat_digits [of x "nat i"] dec_nat_digits [of x "nat (- i)"]
  by (auto simp: dec_int_def is_dec_digit_def split: if_splits)

lemma set_join_with: "set (join_with sep ws) \<subseteq> set sep \<union> \<Union> (set ` set ws)"
  by (induction sep ws rule: join_with.induct) auto

lemma dump_value_ascii: "wf_json v \<Longrightarrow> x \<in> set (dump_value v) \<Longrightarrow> ord x < 128"
proof (induction v arbitrary: x)
  case (JArr vs)
  then show ?case using set_join_with [of "'',''" "map dump_value vs"] by fastforce
next
  case (JObj kvs)
  then have "ord x < 128" if "(k, v) \<in> set kvs" "x \<in> set (dump_str k @ '':'' @ dump_value v)" for k v x
    using that dump_str_ascii by fastforce
  then show ?case
    using JObj.prems(2)
      set_join_with [of "'',''" "map (\<lambda>(k, v). dump_str k @ '':'' @ dump_value v) kvs"] by fastforce
qed (auto dest: dump_str_ascii dec_int_ascii split: if_splits)

lemma json_dumps_ascii: "wf_json v \<Longrightarrow> list_all (\<lambda>c. ord c < 128) (json_dumps v)"
  using dump_value_ascii [OF wf_sort_keys] by (auto simp: json_dumps_def list_all_iff)

section \<open>Dicts written with sorted keys\<close>

lemma map_of_sort_keys:
  assumes "distinct (map fst kvs)"
  shows "map_of (map (\<lambda>(k, v). (k, sort_keys v)) (sort_key fst kvs)) k = map_option sort_keys (map_of kvs k)"
proof -
  have "map_of (sort_key fst kvs) = map_of kvs"
    using assms by (intro map_of_inject_set [THEN iffD2]) (auto simp: distinct_map)
  then show ?thesis by (simp add: map_of_map)
qed

lemma sort_keys_JObj:
  assumes "distinct (map fst kvs)"
  shows "\<exists>kvs'. sort_keys (JObj kvs) = JObj kvs' \<and>
    (\<forall>k. map_of kvs' k = map_option sort_keys (map_of kvs k)) \<and>
    set (map fst kvs') = set (map fst kvs)"
proof (intro exI conjI)
  show "sort_keys (JObj kvs) = JObj (map (\<lambda>(k, v). (k, sort_keys v)) (sort_key fst kvs))" by simp
qed (use map_of_sort_keys [OF assms] in \<open>auto simp: image_iff split_def\<close>)

lemma sort_keys_JObj_eq:
  assumes "distinct (map fst a)" "distinct (map fst b)" and "sort_keys (JObj a) = sort_keys (JObj b)"
  shows "map_option sort_keys (map_of a k) = map_option sort_keys (map_of b k)"
  using map_of_sort_keys [OF assms(1), of k] map_of_sort_keys [OF assms(2), of k] assms(3) by simp

lemma json_dumps_eq:
  "wf_json v \<Longrightarrow> wf_json w \<Longrightarrow> json_dumps v = json_dumps w \<Longrightarrow> sort_keys v = sort_keys w"
  using json_roundtrip [of v] json_roundtrip [of w] by simp

lemma wf_str_U: "wf_str (U s)"
proof -
  have "scalar (ord c)" for c using ord_less [of c] unfolding scalar_def is_surrogate_def by linarith
  then show ?thesis by (simp add: wf_str_def U_def list_all_iff)
qed

end
