(* ===== verification/ManifestJson.thy ===== *)
theory ManifestJson
  imports Canonical JsonRoundtrip
begin

text \<open>
  The JSON form of a manifest in \<open>src/src/agent_loop/manifests.py\<close>: writing an entry and a
  manifest, the strict reader with its checks (exact keys, canonical paths and modes, sorted
  entries, limits, the recomputed fingerprint), and the theorems that what is written is read
  back and that what is accepted is a well-formed manifest.
\<close>

section \<open>Writing\<close>

definition jstr :: "string \<Rightarrow> json" where
  "jstr s = JStr (U s)"

definition json_opt_int :: "int option \<Rightarrow> json" where
  "json_opt_int x = (case x of None \<Rightarrow> JNull | Some n \<Rightarrow> JInt n)"

definition json_opt_str :: "ustr option \<Rightarrow> json" where
  "json_opt_str x = (case x of None \<Rightarrow> JNull | Some s \<Rightarrow> JStr s)"

definition entry_to_json :: "manifest_entry \<Rightarrow> exn + json" where
  "entry_to_json e =
     (let common =
        [(U ''path_b64'', JStr (path_to_b64 (entry_path e))),
         (U ''path_display'', JStr (display_path (entry_path e))),
         (U ''kind'', jstr (entry_kind_value (entry_kind e))),
         (U ''mode'', jstr (oct6 (entry_mode e)))]
      in case entry_kind e of
           REGULAR \<Rightarrow> Inr (JObj (common @
             [(U ''size'', json_opt_int (entry_size e)),
              (U ''blob_sha256'', json_opt_str (blob_sha256 e))]))
         | SYMLINK \<Rightarrow>
             (case symlink_target e of
                None \<Rightarrow> Inl (AssertionError [])
              | Some t \<Rightarrow> Inr (JObj (common @
                  [(U ''target_b64'', JStr (path_to_b64 t)),
                   (U ''target_sha256'', json_opt_str (target_sha256 e))]))))"

definition manifest_to_json_obj :: "subject_manifest \<Rightarrow> exn + json" where
  "manifest_to_json_obj m =
     rbind (fingerprint m) (\<lambda>fp.
     rbind (rmap entry_to_json (entries m)) (\<lambda>es.
     Inr (JObj [(U ''schema_version'', JInt (schema_version m)),
                (U ''fingerprint'', JStr fp),
                (U ''entries'', JArr es)])))"

definition manifest_to_json_bytes :: "subject_manifest \<Rightarrow> exn + bytes" where
  "manifest_to_json_bytes m =
     rbind (manifest_to_json_obj m) (\<lambda>v. Inr (json_dumps v @ [CHR 0x0A]))"

section \<open>Reading\<close>

definition require_exact_keys :: "(ustr \<times> json) list \<Rightarrow> string list \<Rightarrow> string \<Rightarrow> exn + unit" where
  "require_exact_keys kvs expected context =
     (if set (map fst kvs) = set (map U expected) then Inr ()
      else Inl (ValueError (U context @ U '' has missing keys ''
        @ repr_list (sort (filter (\<lambda>k. k \<notin> set (map fst kvs)) (map U expected)))
        @ U '' and unknown keys ''
        @ repr_list (sort (filter (\<lambda>k. k \<notin> set (map U expected)) (map fst kvs))))))"

text \<open>\<open>value[key]\<close> on a decoded object.\<close>

definition item :: "(ustr \<times> json) list \<Rightarrow> string \<Rightarrow> exn + json" where
  "item kvs k = (case map_of kvs (U k) of None \<Rightarrow> Inl (KeyError (U k)) | Some v \<Rightarrow> Inr v)"

definition str_or :: "exn \<Rightarrow> json \<Rightarrow> exn + ustr" where
  "str_or e v = (case v of JStr s \<Rightarrow> Inr s | _ \<Rightarrow> Inl e)"

definition int_or :: "exn \<Rightarrow> json \<Rightarrow> exn + int" where
  "int_or e v = (case v of JInt i \<Rightarrow> Inr i | _ \<Rightarrow> Inl e)"

definition arr_or :: "exn \<Rightarrow> json \<Rightarrow> exn + json list" where
  "arr_or e v = (case v of JArr vs \<Rightarrow> Inr vs | _ \<Rightarrow> Inl e)"

lemma json_or_Inr [simp, result_simps]:
  "str_or e v = Inr s \<longleftrightarrow> v = JStr s" "int_or e v = Inr i \<longleftrightarrow> v = JInt i" "arr_or e v = Inr vs \<longleftrightarrow> v = JArr vs"
  by (auto simp: str_or_def int_or_def arr_or_def split: json.splits)

lemma json_or_simps [simp, result_simps]:
  "str_or e (JStr s) = Inr s" "int_or e (JInt i) = Inr i" "arr_or e (JArr vs) = Inr vs"
  by simp_all

definition parse_mode :: "json \<Rightarrow> exn + int" where
  "parse_mode v =
     (case v of
        JStr s \<Rightarrow>
          if length s \<noteq> 6 then Inl (ValueError (U ''entry mode must be a six-digit octal string''))
          else
            (case int_base8 s of
               None \<Rightarrow> Inl (ValueError (U ''entry mode must be a six-digit octal string''))
             | Some m \<Rightarrow>
                 if U (oct6 m) \<noteq> s then Inl (ValueError (U ''entry mode is not canonical''))
                 else Inr m)
      | _ \<Rightarrow> Inl (ValueError (U ''entry mode must be a six-digit octal string'')))"

text \<open>\<open>_entry_from_json\<close> in four parts: the kind with its exact keys, the common fields, and the
  fields of the two kinds.\<close>

definition json_kind :: "(ustr \<times> json) list \<Rightarrow> exn + entry_kind" where
  "json_kind kvs =
     (if map_of kvs (U ''kind'') = Some (jstr ''regular'') then
        rbind (require_exact_keys kvs
          [''path_b64'', ''path_display'', ''kind'', ''mode'', ''size'', ''blob_sha256'']
          ''regular manifest entry'') (\<lambda>_. Inr REGULAR)
      else if map_of kvs (U ''kind'') = Some (jstr ''symlink'') then
        rbind (require_exact_keys kvs
          [''path_b64'', ''path_display'', ''kind'', ''mode'', ''target_b64'', ''target_sha256'']
          ''symlink manifest entry'') (\<lambda>_. Inr SYMLINK)
      else Inl (ValueError (U ''manifest entry kind is unsupported'')))"

definition json_common :: "(ustr \<times> json) list \<Rightarrow> exn + bytes \<times> int" where
  "json_common kvs =
     rbind (item kvs ''path_b64'') (\<lambda>path_value.
     rbind (str_or (TypeError (U ''path_b64 must be a string'')) path_value) (\<lambda>path_text.
     rbind (path_from_b64 path_text) (\<lambda>path.
     rbind (item kvs ''path_display'') (\<lambda>shown.
     if shown \<noteq> JStr (display_path path)
     then Inl (ValueError (U ''path_display does not match path_b64''))
     else
       rbind (item kvs ''mode'') (\<lambda>mode_value.
       rbind (parse_mode mode_value) (\<lambda>m. Inr (path, m)))))))"

definition json_regular :: "(ustr \<times> json) list \<Rightarrow> bytes \<Rightarrow> int \<Rightarrow> exn + manifest_entry" where
  "json_regular kvs path m =
     rbind (item kvs ''size'') (\<lambda>size_value.
     rbind (item kvs ''blob_sha256'') (\<lambda>digest_value.
     rbind (int_or (TypeError (U ''regular entry size must be an integer'')) size_value) (\<lambda>n.
     rbind (str_or (TypeError (U ''blob_sha256 must be a string'')) digest_value) (\<lambda>h.
     check_entry \<lparr>entry_path = path, entry_kind = REGULAR, entry_mode = m,
       entry_size = Some n, blob_sha256 = Some h, symlink_target = None,
       target_sha256 = None\<rparr>))))"

definition json_symlink :: "(ustr \<times> json) list \<Rightarrow> bytes \<Rightarrow> int \<Rightarrow> exn + manifest_entry" where
  "json_symlink kvs path m =
     rbind (item kvs ''target_b64'') (\<lambda>target_value.
     rbind (item kvs ''target_sha256'') (\<lambda>digest_value.
     rbind (str_or (TypeError (U ''target_b64 must be a string'')) target_value) (\<lambda>t64.
     rbind (str_or (TypeError (U ''target_sha256 must be a string'')) digest_value) (\<lambda>h.
     rbind (path_from_b64 t64) (\<lambda>t.
     check_entry \<lparr>entry_path = path, entry_kind = SYMLINK, entry_mode = m,
       entry_size = None, blob_sha256 = None, symlink_target = Some t,
       target_sha256 = Some h\<rparr>)))))"

definition entry_from_json :: "json \<Rightarrow> exn + manifest_entry" where
  "entry_from_json value =
     (case value of
        JObj kvs \<Rightarrow>
          rbind (json_kind kvs) (\<lambda>k.
          rbind (json_common kvs) (\<lambda>(path, m).
          case k of REGULAR \<Rightarrow> json_regular kvs path m | SYMLINK \<Rightarrow> json_symlink kvs path m))
      | _ \<Rightarrow> Inl (TypeError (U ''manifest entry must be a JSON object with string keys'')))"

definition json_error :: "jerr \<Rightarrow> exn" where
  "json_error e =
     (case e of
        JSyntax \<Rightarrow> ValueError (U ''manifest JSON is malformed'')
      | JDuplicate k \<Rightarrow> ValueError (U ''duplicate JSON key: '' @ k)
      | JConstant c \<Rightarrow> ValueError (U ''non-finite JSON number is forbidden: '' @ U c)
      | JDigits \<Rightarrow> ValueError (U ''Exceeds the limit (4300 digits) for integer string conversion'')
      | JFuel \<Rightarrow> ValueError (U ''manifest JSON is malformed''))"

definition strict_json_loads :: "bytes \<Rightarrow> exn + json" where
  "strict_json_loads data =
     (case utf8_decode data of
        None \<Rightarrow> Inl (ValueError (U ''manifest JSON must be UTF-8''))
      | Some text \<Rightarrow>
          (case json_loads text of Inl e \<Rightarrow> Inl (json_error e) | Inr v \<Rightarrow> Inr v))"

definition manifest_from_json_obj :: "limits \<Rightarrow> json \<Rightarrow> exn + subject_manifest" where
  "manifest_from_json_obj l value =
     (case value of
        JObj kvs \<Rightarrow>
          rbind (require_exact_keys kvs [''schema_version'', ''fingerprint'', ''entries''] ''manifest'') (\<lambda>_.
          rbind (item kvs ''schema_version'') (\<lambda>v.
          rbind (int_or (TypeError (U ''manifest schema_version must be an integer'')) v) (\<lambda>sv.
          if sv \<noteq> SUBJECT_SCHEMA_VERSION
          then Inl (ValueError (U ''unsupported manifest schema_version''))
          else
            rbind (item kvs ''entries'') (\<lambda>raw.
            rbind (arr_or (TypeError (U ''manifest entries must be an array'')) raw) (\<lambda>vs.
            rbind (rmap entry_from_json vs) (\<lambda>es.
            if map entry_path es \<noteq> sort (map entry_path es)
            then Inl (ValueError (U ''JSON manifest entries must be sorted by raw path bytes''))
            else
              rbind (check_manifest \<lparr>entries = es, schema_version = sv\<rparr>) (\<lambda>m.
              rbind (validate_limits l m) (\<lambda>_.
              rbind (item kvs ''fingerprint'') (\<lambda>fp_value.
              rbind (str_or (TypeError (U ''manifest fingerprint must be a string'')) fp_value) (\<lambda>fp.
              rbind (fingerprint m) (\<lambda>actual.
              if fp \<noteq> actual
              then Inl (ValueError (U ''manifest fingerprint does not match canonical entries''))
              else Inr m)))))))))))
      | _ \<Rightarrow> Inl (TypeError (U ''subject manifest must be a JSON object with string keys'')))"

definition manifest_from_json_bytes :: "limits \<Rightarrow> bytes \<Rightarrow> exn + subject_manifest" where
  "manifest_from_json_bytes l data =
     rbind (strict_json_loads data) (\<lambda>v. manifest_from_json_obj l v)"

section \<open>What is accepted\<close>

lemma entry_from_json_wf: "entry_from_json v = Inr e \<Longrightarrow> wf_entry e"
  by (auto simp: entry_from_json_def json_regular_def json_symlink_def rbind_Inr_iff check_entry_Inr
      split: json.splits entry_kind.splits) (metis entry_kind.exhaust)

lemma manifest_from_json_obj_wf:
  assumes "manifest_from_json_obj l v = Inr m"
  shows "wf_manifest m" "validate_limits l m = Inr ()" "\<exists>fp. fingerprint m = Inr fp"
proof -
  obtain es where "rmap entry_from_json es = Inr (entries m)" and m: "check_manifest m = Inr m"
    and "validate_limits l m = Inr ()" "\<exists>fp. fingerprint m = Inr fp"
    using assms
    by (auto simp: manifest_from_json_obj_def rbind_Inr_iff check_manifest_Inr
        split: json.splits if_splits)
  moreover from this(1) have "list_all wf_entry (entries m)"
    unfolding rmap_Inr_iff by (induction rule: list_all2_induct) (auto dest: entry_from_json_wf)
  ultimately show "wf_manifest m" "validate_limits l m = Inr ()" "\<exists>fp. fingerprint m = Inr fp"
    by (simp_all add: wf_manifest_def)
qed

section \<open>What is written is read back\<close>

lemma int_base8_modes [simp]:
  "int_base8 (U ''100644'') = Some REGULAR_MODE" "int_base8 (U ''100755'') = Some EXECUTABLE_MODE"
  "int_base8 (U ''120000'') = Some SYMLINK_MODE"
  by (simp_all add: int_base8_def U_def strip_def is_space_def oct_body_def oct_digits_def Let_def
      REGULAR_MODE_def EXECUTABLE_MODE_def SYMLINK_MODE_def)

lemma parse_mode_oct6:
  "m \<in> {REGULAR_MODE, EXECUTABLE_MODE, SYMLINK_MODE} \<Longrightarrow> parse_mode (JStr (U (oct6 m))) = Inr m"
  by (auto simp: parse_mode_def mode_octal)

lemma entry_round_trip_regular:
  assumes "wf_entry e" and "entry_kind e = REGULAR"
  obtains v where "entry_to_json e = Inr v" and "entry_from_json (sort_keys v) = Inr e"
proof -
  obtain n h where r: "entry_size e = Some n" "blob_sha256 e = Some h" "symlink_target e = None"
      "target_sha256 e = None" "entry_mode e \<in> {REGULAR_MODE, EXECUTABLE_MODE, SYMLINK_MODE}"
    using assms by (auto simp: wf_entry_cases)
  have e: "\<lparr>entry_path = entry_path e, entry_kind = REGULAR, entry_mode = entry_mode e,
      entry_size = Some n, blob_sha256 = Some h, symlink_target = None, target_sha256 = None\<rparr> = e"
    using assms(2) r by (cases e) simp
  let ?kvs = "[(U ''path_b64'', JStr (path_to_b64 (entry_path e))),
    (U ''path_display'', JStr (display_path (entry_path e))), (U ''kind'', jstr ''regular''),
    (U ''mode'', jstr (oct6 (entry_mode e))), (U ''size'', JInt n), (U ''blob_sha256'', JStr h)]"
  have keys: "distinct (map fst ?kvs)" by simp
  obtain kvs where kvs: "sort_keys (JObj ?kvs) = JObj kvs"
    and g: "\<forall>k. map_of kvs k = map_option sort_keys (map_of ?kvs k)"
    and s: "set (map fst kvs) = set (map fst ?kvs)"
    using sort_keys_JObj [OF keys] by blast
  have "json_kind kvs = Inr REGULAR"
    unfolding json_kind_def require_exact_keys_def s g [THEN spec] by (simp add: jstr_def)
  moreover have "json_common kvs = Inr (entry_path e, entry_mode e)"
    unfolding json_common_def item_def g [THEN spec] by (simp add: jstr_def parse_mode_oct6 [OF r(5)])
  moreover have "json_regular kvs (entry_path e) (entry_mode e) = Inr e"
    unfolding json_regular_def item_def g [THEN spec] using assms(1) by (simp add: e wf_entry_def)
  ultimately have "entry_from_json (sort_keys (JObj ?kvs)) = Inr e"
    unfolding kvs entry_from_json_def by simp
  moreover have "entry_to_json e = Inr (JObj ?kvs)"
    by (simp add: entry_to_json_def assms(2) r json_opt_int_def json_opt_str_def)
  ultimately show thesis using that by blast
qed

lemma entry_round_trip_symlink:
  assumes "wf_entry e" and "entry_kind e = SYMLINK"
  obtains v where "entry_to_json e = Inr v" and "entry_from_json (sort_keys v) = Inr e"
proof -
  obtain t where r: "symlink_target e = Some t" "entry_size e = None" "blob_sha256 e = None"
      "target_sha256 e = Some (U (sha256_hex t))" "entry_mode e \<in> {REGULAR_MODE, EXECUTABLE_MODE, SYMLINK_MODE}"
    using assms by (auto simp: wf_entry_cases)
  have e: "\<lparr>entry_path = entry_path e, entry_kind = SYMLINK, entry_mode = entry_mode e,
      entry_size = None, blob_sha256 = None, symlink_target = Some t,
      target_sha256 = Some (U (sha256_hex t))\<rparr> = e"
    using assms(2) r by (cases e) simp
  let ?kvs = "[(U ''path_b64'', JStr (path_to_b64 (entry_path e))),
    (U ''path_display'', JStr (display_path (entry_path e))), (U ''kind'', jstr ''symlink''),
    (U ''mode'', jstr (oct6 (entry_mode e))), (U ''target_b64'', JStr (path_to_b64 t)),
    (U ''target_sha256'', JStr (U (sha256_hex t)))]"
  have keys: "distinct (map fst ?kvs)" by simp
  obtain kvs where kvs: "sort_keys (JObj ?kvs) = JObj kvs"
    and g: "\<forall>k. map_of kvs k = map_option sort_keys (map_of ?kvs k)"
    and s: "set (map fst kvs) = set (map fst ?kvs)"
    using sort_keys_JObj [OF keys] by blast
  have "json_kind kvs = Inr SYMLINK"
    unfolding json_kind_def require_exact_keys_def s g [THEN spec] by (simp add: jstr_def)
  moreover have "json_common kvs = Inr (entry_path e, entry_mode e)"
    unfolding json_common_def item_def g [THEN spec] by (simp add: jstr_def parse_mode_oct6 [OF r(5)])
  moreover have "json_symlink kvs (entry_path e) (entry_mode e) = Inr e"
    unfolding json_symlink_def item_def g [THEN spec] using assms(1) by (simp add: e wf_entry_def)
  ultimately have "entry_from_json (sort_keys (JObj ?kvs)) = Inr e"
    unfolding kvs entry_from_json_def by simp
  moreover have "entry_to_json e = Inr (JObj ?kvs)"
    by (simp add: entry_to_json_def assms(2) r json_opt_int_def json_opt_str_def)
  ultimately show thesis using that by blast
qed

lemma entry_round_trip:
  assumes "wf_entry e"
  obtains v where "entry_to_json e = Inr v" and "entry_from_json (sort_keys v) = Inr e"
proof (cases "entry_kind e")
  case REGULAR
  then show thesis using entry_round_trip_regular [OF assms] that by blast
next
  case SYMLINK
  then show thesis using entry_round_trip_symlink [OF assms] that by blast
qed

lemma wf_str_digest: "digest h \<Longrightarrow> wf_str h"
  using digest_ascii [of h] by (fastforce simp: wf_str_def list_all_iff scalar_def is_surrogate_def)

lemma entry_to_json_wf:
  assumes "wf_entry e" and "entry_to_json e = Inr v" and "\<forall>n. entry_size e = Some n \<longrightarrow> wf_int n"
  shows "wf_json v"
proof -
  have u: "wf_str (U s)" for s by (rule wf_str_U)
  have d: "wf_str h" if "digest h" for h by (rule wf_str_digest [OF that])
  have p: "wf_str (path_to_b64 q)" "wf_str (display_path q)" for q
    by (simp_all add: path_to_b64_def display_path_def u)
  show ?thesis
    using assms
    by (auto simp: entry_to_json_def wf_entry_cases Let_def jstr_def json_opt_int_def json_opt_str_def
        u d p split: entry_kind.splits)
qed

lemma rmap_entry_round_trip:
  assumes "\<forall>e \<in> set es. wf_entry e \<and> (\<forall>n. entry_size e = Some n \<longrightarrow> wf_int n)"
  obtains vs where "rmap entry_to_json es = Inr vs" and "rmap entry_from_json (map sort_keys vs) = Inr es"
    and "\<forall>v \<in> set vs. wf_json v"
  using assms
proof (induction es arbitrary: thesis)
  case (Cons e es)
  obtain vs where vs: "rmap entry_to_json es = Inr vs" "rmap entry_from_json (map sort_keys vs) = Inr es"
    "\<forall>v \<in> set vs. wf_json v" using Cons.IH Cons.prems(2) by auto
  obtain v where v: "entry_to_json e = Inr v" "entry_from_json (sort_keys v) = Inr e"
    using Cons.prems(2) by (auto elim: entry_round_trip)
  have "wf_json v" using entry_to_json_wf [OF _ v(1)] Cons.prems(2) by auto
  with vs v show ?case by (intro Cons.prems(1) [of "v # vs"]) auto
qed auto

lemma strict_json_loads_dumps: "wf_json v \<Longrightarrow> strict_json_loads (json_dumps v @ [CHR 0x0A]) = Inr (sort_keys v)"
  using json_roundtrip_line [of v] json_dumps_ascii [of v]
  by (simp add: strict_json_loads_def utf8_decode_ascii list_all_iff)

theorem manifest_round_trip:
  assumes wf: "wf_manifest m" and "validate_limits l m = Inr ()"
    and sizes: "\<forall>e \<in> set (entries m). \<forall>n. entry_size e = Some n \<longrightarrow> wf_int n"
    and "manifest_to_json_bytes m = Inr bs"
  shows "manifest_from_json_bytes l bs = Inr m"
proof -
  note m = wf_manifestD [OF wf]
  have "\<forall>e \<in> set (entries m). wf_entry e \<and> (\<forall>n. entry_size e = Some n \<longrightarrow> wf_int n)"
    using m(4) sizes by blast
  then obtain vs where vs: "rmap entry_to_json (entries m) = Inr vs"
    "rmap entry_from_json (map sort_keys vs) = Inr (entries m)" "\<forall>v \<in> set vs. wf_json v"
    by (rule rmap_entry_round_trip)
  obtain fp where fp: "fingerprint m = Inr fp"
    using assms(4) by (auto simp: manifest_to_json_bytes_def manifest_to_json_obj_def rbind_Inr_iff)
  let ?kvs = "[(U ''schema_version'', JInt (schema_version m)), (U ''fingerprint'', JStr fp),
    (U ''entries'', JArr vs)]"
  have bs: "bs = json_dumps (JObj ?kvs) @ [CHR 0x0A]"
    using assms(4) by (simp add: manifest_to_json_bytes_def manifest_to_json_obj_def fp vs)
  have "wf_int 1" by (simp add: wf_int_def dec_nat_def digits_of.simps)
  moreover have "wf_str fp" using fingerprint_digest [OF fp] by (rule wf_str_digest)
  ultimately have "wf_json (JObj ?kvs)" using vs(3) by (simp add: m(1) SUBJECT_SCHEMA_VERSION_def wf_str_U)
  then have loads: "strict_json_loads bs = Inr (sort_keys (JObj ?kvs))"
    unfolding bs by (rule strict_json_loads_dumps)
  have keys: "distinct (map fst ?kvs)" by simp
  obtain kvs where kvs: "sort_keys (JObj ?kvs) = JObj kvs"
    and g: "\<forall>k. map_of kvs k = map_option sort_keys (map_of ?kvs k)"
    and s: "set (map fst kvs) = set (map fst ?kvs)"
    using sort_keys_JObj [OF keys] by blast
  have items: "item kvs ''schema_version'' = Inr (JInt (schema_version m))"
    "item kvs ''fingerprint'' = Inr (JStr fp)" "item kvs ''entries'' = Inr (JArr (map sort_keys vs))"
    unfolding item_def g [THEN spec] by simp_all
  have "require_exact_keys kvs [''schema_version'', ''fingerprint'', ''entries''] ''manifest'' = Inr ()"
    unfolding require_exact_keys_def s by simp
  moreover have "map entry_path (entries m) = sort (map entry_path (entries m))"
    using m(2) by (simp add: sorted_sort_id)
  moreover have "check_manifest \<lparr>entries = entries m, schema_version = SUBJECT_SCHEMA_VERSION\<rparr> = Inr m"
    using wf m(1) by (cases m) (simp add: wf_manifest_def)
  ultimately have "manifest_from_json_obj l (JObj kvs) = Inr m"
    unfolding manifest_from_json_obj_def
    by (simp add: items vs(2) assms(2) fp m(1))
  then show ?thesis unfolding manifest_from_json_bytes_def loads kvs by simp
qed

end
