(* ===== verification/Effects.thy ===== *)
theory Effects
  imports Errors
begin

text \<open>
  Operations that read and change a state and may raise: \<open>'s \<Rightarrow> (exn + 'a) \<times> 's\<close>. The state that
  an operation leaves behind is returned beside the exception too, because a Python object keeps
  what was done to it before the exception.
\<close>

type_synonym ('s, 'a) eff = "'s \<Rightarrow> (exn + 'a) \<times> 's"

definition ret :: "'a \<Rightarrow> ('s, 'a) eff" where
  "ret x s = (Inr x, s)"

definition raise :: "exn \<Rightarrow> ('s, 'a) eff" where
  "raise e s = (Inl e, s)"

definition sbind :: "('s, 'a) eff \<Rightarrow> ('a \<Rightarrow> ('s, 'b) eff) \<Rightarrow> ('s, 'b) eff" where
  "sbind m f s = (case m s of (Inl e, s') \<Rightarrow> (Inl e, s') | (Inr x, s') \<Rightarrow> f x s')"

definition lift :: "exn + 'a \<Rightarrow> ('s, 'a) eff" where
  "lift r s = (r, s)"

text \<open>\<open>try: m except ... as e: h e\<close>: the handler decides on every exception; one that it does
  not catch it raises again.\<close>

definition handle :: "('s, 'a) eff \<Rightarrow> (exn \<Rightarrow> ('s, 'a) eff) \<Rightarrow> ('s, 'a) eff" where
  "handle m h s = (case m s of (Inl e, s') \<Rightarrow> h e s' | (Inr x, s') \<Rightarrow> (Inr x, s'))"

fun smap :: "('a \<Rightarrow> ('s, 'b) eff) \<Rightarrow> 'a list \<Rightarrow> ('s, 'b list) eff" where
  "smap f [] = ret []"
| "smap f (x # xs) = sbind (f x) (\<lambda>y. sbind (smap f xs) (\<lambda>ys. ret (y # ys)))"

lemma eff_simps [simp]:
  "ret x s = (Inr x, s)" "raise e s = (Inl e, s)" "lift r s = (r, s)"
  by (simp_all add: ret_def raise_def lift_def)

lemma sbind_Inr_iff:
  "sbind m f s = (Inr y, s'') \<longleftrightarrow> (\<exists>x s'. m s = (Inr x, s') \<and> f x s' = (Inr y, s''))"
  by (auto simp: sbind_def split: sum.splits prod.splits)

lemma sbind_Inl_iff:
  "sbind m f s = (Inl e, s'') \<longleftrightarrow> m s = (Inl e, s'') \<or> (\<exists>x s'. m s = (Inr x, s') \<and> f x s' = (Inl e, s''))"
  by (auto simp: sbind_def split: sum.splits prod.splits)

lemma sbind_simps:
  "m s = (Inl e, s') \<Longrightarrow> sbind m f s = (Inl e, s')"
  "m s = (Inr x, s') \<Longrightarrow> sbind m f s = f x s'"
  by (simp_all add: sbind_def)

lemma sbind_basic [simp]:
  "sbind (ret x) f s = f x s" "sbind (raise e) f s = (Inl e, s)"
  "sbind (lift r) f s = (case r of Inl e \<Rightarrow> (Inl e, s) | Inr x \<Rightarrow> f x s)"
  by (simp_all add: sbind_def split: sum.splits)

lemma handle_simps:
  "m s = (Inl e, s') \<Longrightarrow> handle m h s = h e s'"
  "m s = (Inr x, s') \<Longrightarrow> handle m h s = (Inr x, s')"
  by (simp_all add: handle_def)

text \<open>An invariant that each step keeps is kept by \<open>sbind\<close>, \<open>handle\<close> and \<open>smap\<close>, whatever the
  result.\<close>

definition keeps :: "('s \<Rightarrow> bool) \<Rightarrow> ('s, 'a) eff \<Rightarrow> bool" where
  "keeps I m \<longleftrightarrow> (\<forall>s. I s \<longrightarrow> I (snd (m s)))"

lemma keepsI: "(\<And>s. I s \<Longrightarrow> I (snd (m s))) \<Longrightarrow> keeps I m"
  by (simp add: keeps_def)

lemma keepsD: "keeps I m \<Longrightarrow> I s \<Longrightarrow> m s = (r, s') \<Longrightarrow> I s'"
  by (metis keeps_def snd_conv)

lemma keeps_basic [intro, simp]: "keeps I (ret x)" "keeps I (raise e)" "keeps I (lift r)"
  by (simp_all add: keeps_def)

lemma keeps_sbind [intro]: "keeps I m \<Longrightarrow> (\<And>x. keeps I (f x)) \<Longrightarrow> keeps I (sbind m f)"
  unfolding keeps_def sbind_def by (auto split: sum.splits prod.splits)

lemma keeps_handle [intro]: "keeps I m \<Longrightarrow> (\<And>e. keeps I (h e)) \<Longrightarrow> keeps I (handle m h)"
  unfolding keeps_def handle_def by (auto split: sum.splits prod.splits)

lemma keeps_smap [intro]: "(\<And>x. x \<in> set xs \<Longrightarrow> keeps I (f x)) \<Longrightarrow> keeps I (smap f xs)"
  by (induction xs) auto

end
