(* ===== verification/Blobs.thy ===== *)
theory Blobs
  imports Effects Canonical
begin

text \<open>
  Content-addressed blobs. The locale \<open>blob_store\<close> is the interface of \<open>BlobWriter\<close> and
  \<open>BlobReader\<close> (\<open>models.py\<close>) with the laws their clients rely on; the clients
  \<open>build_manifest_from_scan\<close> and \<open>verify_manifest_blobs\<close> of \<open>manifests.py\<close> are written over the
  operations \<open>put\<close> and \<open>read\<close>, and the provider \<open>_PrecredentialBlobStore\<close> of \<open>workflow.py\<close> is
  shown to satisfy the laws.
\<close>

section \<open>Building a manifest from a scan\<close>

fun scan_limits :: "limits \<Rightarrow> int \<Rightarrow> int \<Rightarrow> scan_record list \<Rightarrow> exn + unit" where
  "scan_limits l count bytes [] = Inr ()"
| "scan_limits l count bytes (r # rs) =
     (if count + 1 > max_files l then Inl (ValueError (U ''scan exceeds max_files''))
      else if int (length (scan_path r)) > max_path_bytes l
      then Inl (ValueError (U ''scanned path exceeds max_path_bytes: '' @ display_path (scan_path r)))
      else if int (length (split_on CHR ''/'' (scan_path r))) > max_path_depth l
      then Inl (ValueError (U ''scanned path exceeds max_path_depth: '' @ display_path (scan_path r)))
      else if int (length (scan_payload r)) > max_file_bytes l
      then Inl (ValueError (U ''scanned payload exceeds max_file_bytes: '' @ display_path (scan_path r)))
      else if bytes + int (length (scan_payload r)) > max_total_subject_bytes l
      then Inl (ValueError (U ''scan exceeds max_total_subject_bytes''))
      else scan_limits l (count + 1) (bytes + int (length (scan_payload r))) rs)"

definition scan_entry :: "(bytes \<Rightarrow> ('s, ustr) eff) \<Rightarrow> scan_record \<Rightarrow> ('s, manifest_entry) eff" where
  "scan_entry put r =
     (case scan_kind r of
        REGULAR \<Rightarrow>
          sbind (put (scan_payload r)) (\<lambda>observed.
          if observed \<noteq> U (sha256_hex (scan_payload r))
          then raise (ValueError (U ''blob writer returned an identity that does not match its bytes''))
          else lift (check_entry
            \<lparr>entry_path = scan_path r, entry_kind = REGULAR, entry_mode = scan_mode r,
             entry_size = Some (int (length (scan_payload r))),
             blob_sha256 = Some (U (sha256_hex (scan_payload r))),
             symlink_target = None, target_sha256 = None\<rparr>))
      | SYMLINK \<Rightarrow> lift (symlink_entry (scan_path r) (scan_payload r)))"

definition build_manifest_from_scan ::
  "limits \<Rightarrow> (bytes \<Rightarrow> ('s, ustr) eff) \<Rightarrow> scan_record list \<Rightarrow> ('s, subject_manifest) eff" where
  "build_manifest_from_scan l put rs =
     sbind (lift (scan_limits l 0 0 rs)) (\<lambda>_.
     sbind (smap (scan_entry put) rs) (\<lambda>es.
     lift (build_manifest l es)))"

section \<open>Verifying the blobs of a manifest\<close>

definition verify_entry :: "(ustr \<Rightarrow> exn + bytes) \<Rightarrow> manifest_entry \<Rightarrow> exn + unit" where
  "verify_entry read e =
     (case entry_kind e of
        SYMLINK \<Rightarrow> Inr ()
      | REGULAR \<Rightarrow>
          (case (blob_sha256 e, entry_size e) of
             (Some h, Some n) \<Rightarrow>
               rbind (read h) (\<lambda>data.
               if int (length data) \<noteq> n
               then Inl (ValueError (U ''blob size mismatch for '' @ display_path (entry_path e)))
               else if U (sha256_hex data) \<noteq> h
               then Inl (ValueError (U ''blob hash mismatch for '' @ display_path (entry_path e)))
               else Inr ())
           | _ \<Rightarrow> Inl (AssertionError [])))"

definition verify_manifest_blobs :: "(ustr \<Rightarrow> exn + bytes) \<Rightarrow> subject_manifest \<Rightarrow> exn + unit" where
  "verify_manifest_blobs read m = rbind (rmap (verify_entry read) (entries m)) (\<lambda>_. Inr ())"

lemma verify_manifest_blobs_Inr:
  assumes "wf_manifest m"
  shows "verify_manifest_blobs read m = Inr () \<longleftrightarrow>
    (\<forall>e \<in> set (entries m). entry_kind e = REGULAR \<longrightarrow>
       (\<exists>d. read (the (blob_sha256 e)) = Inr d \<and> entry_size e = Some (int (length d)) \<and>
            blob_sha256 e = Some (U (sha256_hex d))))"
proof -
  have e: "verify_entry read e = Inr () \<longleftrightarrow> (entry_kind e = REGULAR \<longrightarrow>
       (\<exists>d. read (the (blob_sha256 e)) = Inr d \<and> entry_size e = Some (int (length d)) \<and>
            blob_sha256 e = Some (U (sha256_hex d))))" if "wf_entry e" for e
    using that by (auto simp: verify_entry_def wf_entry_cases rbind_Inr_iff split: entry_kind.splits if_splits)
  have "rmap (verify_entry read) es = Inr us \<longleftrightarrow> (\<forall>e \<in> set es. verify_entry read e = Inr ()) \<and>
      us = map (\<lambda>_. ()) es" for es us
    by (induction es arbitrary: us) (auto simp: rbind_Inr_iff)
  then have "verify_manifest_blobs read m = Inr () \<longleftrightarrow> (\<forall>e \<in> set (entries m). verify_entry read e = Inr ())"
    by (auto simp: verify_manifest_blobs_def rbind_Inr_iff)
  then show ?thesis using e wf_manifestD(4) [OF assms] by auto
qed

section \<open>The interface\<close>

locale blob_store =
  fixes inv :: "'s \<Rightarrow> bool"
    and put :: "bytes \<Rightarrow> ('s, ustr) eff"
    and read :: "'s \<Rightarrow> ustr \<Rightarrow> exn + bytes"
  assumes put_inv: "inv s \<Longrightarrow> inv (snd (put d s))"
    and put_hash: "inv s \<Longrightarrow> put d s = (Inr h, s') \<Longrightarrow> h = U (sha256_hex d)"
    and put_read: "inv s \<Longrightarrow> put d s = (Inr h, s') \<Longrightarrow> read s' h = Inr d"
    and put_keeps: "inv s \<Longrightarrow> read s k = Inr b \<Longrightarrow> read (snd (put d s)) k = Inr b"
    and read_hash: "inv s \<Longrightarrow> read s k = Inr b \<Longrightarrow> k = U (sha256_hex b)"
begin

text \<open>The blobs of a list of entries are all in the store.\<close>

definition covers :: "'s \<Rightarrow> manifest_entry list \<Rightarrow> bool" where
  "covers s es \<longleftrightarrow> (\<forall>e \<in> set es. entry_kind e = REGULAR \<longrightarrow>
     (\<exists>d. read s (the (blob_sha256 e)) = Inr d \<and> entry_size e = Some (int (length d)) \<and>
          blob_sha256 e = Some (U (sha256_hex d))))"

lemma scan_entry_keeps: "keeps (\<lambda>s. inv s \<and> covers s es) (scan_entry put r)"
proof (rule keepsI)
  fix s
  assume s: "inv s \<and> covers s es"
  have "inv (snd (put d s)) \<and> covers (snd (put d s)) es" for d
    using s put_inv [of s d] put_keeps [of s _ _ d] unfolding covers_def by meson
  then show "inv (snd (scan_entry put r s)) \<and> covers (snd (scan_entry put r s)) es"
    using s by (auto simp: scan_entry_def sbind_def lift_def raise_def split: entry_kind.splits sum.splits prod.splits)
      (metis snd_conv)+
qed

lemma scan_entry_covers:
  assumes "inv s" and "scan_entry put r s = (Inr e, s')"
  shows "covers s' [e]" and "wf_entry e" and "entry_path e = scan_path r"
  using assms
  by (auto simp: scan_entry_def covers_def sbind_Inr_iff check_entry_Inr symlink_entry_Inr wf_entry_cases
      symlink_entry_def split: entry_kind.splits if_splits dest: put_read)

lemma smap_scan_covers:
  assumes "inv s" and "smap (scan_entry put) rs s = (Inr es, s')"
  shows "inv s' \<and> covers s' es \<and> list_all wf_entry es \<and> map entry_path es = map scan_path rs"
  using assms
proof (induction rs arbitrary: s es)
  case (Cons r rs)
  then obtain e es' s1 where e: "scan_entry put r s = (Inr e, s1)"
    and es': "smap (scan_entry put) rs s1 = (Inr es', s')" and es: "es = e # es'"
    by (auto simp: sbind_Inr_iff)
  have s1: "inv s1" using scan_entry_keeps [of "[]"] Cons.prems(1) e
    by (auto simp: covers_def dest: keepsD)
  note IH = Cons.IH [OF s1 es']
  have "keeps (\<lambda>s. inv s \<and> covers s [e]) (smap (scan_entry put) rs)"
    using scan_entry_keeps by blast
  then have "covers s' [e]"
    using s1 scan_entry_covers(1) [OF Cons.prems(1) e] es' unfolding keeps_def
    by (metis snd_conv)
  with IH scan_entry_covers(2,3) [OF Cons.prems(1) e] show ?case
    by (auto simp: es covers_def)
qed (simp add: covers_def)

text \<open>A manifest built from a scan verifies against the store it was built into.\<close>

lemma build_then_verify:
  assumes "inv s" and "build_manifest_from_scan l put rs s = (Inr m, s')"
  shows "wf_manifest m" and "verify_manifest_blobs (read s') m = Inr ()"
    and "set (manifest_paths m) = set (map scan_path rs)" and "inv s'"
proof -
  obtain es where es: "smap (scan_entry put) rs s = (Inr es, s')" and m: "build_manifest l es = Inr m"
    using assms(2) by (auto simp: build_manifest_from_scan_def sbind_Inr_iff split: sum.splits)
  note c = smap_scan_covers [OF assms(1) es]
  have wf: "\<forall>e \<in> set es. wf_entry e" using c by (simp add: list_all_iff)
  show "wf_manifest m" by (rule build_manifest_wf(1) [OF m wf])
  note s = build_manifest_wf(2) [OF m wf]
  show "verify_manifest_blobs (read s') m = Inr ()"
    using c verify_manifest_blobs_Inr [OF \<open>wf_manifest m\<close>, of "read s'"] s by (simp add: covers_def)
  show "set (manifest_paths m) = set (map scan_path rs)"
    using c s by (metis list.set_map manifest_paths_def)
  show "inv s'" using c by blast
qed

end

section \<open>The in-memory store before credentials exist\<close>

record precredential_store =
  store_limits :: limits
  store_values :: "(ustr \<times> bytes) list"
  store_total_bytes :: int

definition new_store :: "limits \<Rightarrow> precredential_store" where
  "new_store l = \<lparr>store_limits = l, store_values = [], store_total_bytes = 0\<rparr>"

definition put_blob :: "bytes \<Rightarrow> (precredential_store, ustr) eff" where
  "put_blob data s =
     (if int (length data) > max_file_bytes (store_limits s)
      then (Inl (fail GIT_POLICY_OR_OUTPUT_FAILURE
              ''committed source blob exceeded the configured file limit''), s)
      else
        (let d = U (sha256_hex data)
         in case map_of (store_values s) d of
              Some existing \<Rightarrow>
                if existing \<noteq> data
                then (Inl (fail OUT_OF_BAND_CHANGE
                        ''in-memory source blob did not match its content identity''), s)
                else (Inr d, s)
            | None \<Rightarrow>
                if int (length (store_values s)) \<ge> max_files (store_limits s)
                then (Inl (fail GIT_POLICY_OR_OUTPUT_FAILURE
                        ''committed source exceeded the configured file-count limit''), s)
                else if store_total_bytes s + int (length data) > max_total_subject_bytes (store_limits s)
                then (Inl (fail GIT_POLICY_OR_OUTPUT_FAILURE
                        ''committed source exceeded the configured aggregate byte limit''), s)
                else (Inr d, s\<lparr>store_values := store_values s @ [(d, data)],
                               store_total_bytes := store_total_bytes s + int (length data)\<rparr>)))"

definition read_blob :: "precredential_store \<Rightarrow> ustr \<Rightarrow> exn + bytes" where
  "read_blob s h =
     (case map_of (store_values s) h of
        None \<Rightarrow> Inl (fail OUT_OF_BAND_CHANGE
                  ''committed source manifest references a missing staged blob'')
      | Some data \<Rightarrow>
          if U (sha256_hex data) \<noteq> h
          then Inl (fail OUT_OF_BAND_CHANGE ''in-memory source blob failed identity verification'')
          else Inr data)"

definition store_inv :: "precredential_store \<Rightarrow> bool" where
  "store_inv s \<longleftrightarrow>
     distinct (map fst (store_values s)) \<and>
     (\<forall>(k, v) \<in> set (store_values s). k = U (sha256_hex v)) \<and>
     store_total_bytes s = (\<Sum>(k, v) \<leftarrow> store_values s. int (length v)) \<and>
     int (length (store_values s)) \<le> max_files (store_limits s) \<and>
     store_total_bytes s \<le> max_total_subject_bytes (store_limits s) \<and>
     (\<forall>(k, v) \<in> set (store_values s). int (length v) \<le> max_file_bytes (store_limits s))"

lemma new_store_inv: "check_limits l = Inr l \<Longrightarrow> store_inv (new_store l)"
  using check_limits_positive [of l l] by (simp add: store_inv_def new_store_def)

lemma put_blob_inv: "store_inv s \<Longrightarrow> store_inv (snd (put_blob d s))"
  by (auto simp: put_blob_def Let_def store_inv_def map_of_eq_None_iff split: option.splits)

lemma put_blob_limits: "store_limits (snd (put_blob d s)) = store_limits s"
  by (auto simp: put_blob_def Let_def split: option.splits)

lemma put_blob_hash: "put_blob d s = (Inr h, s') \<Longrightarrow> h = U (sha256_hex d)"
  by (auto simp: put_blob_def Let_def split: option.splits if_splits)

lemma read_blob_Inr: "store_inv s \<Longrightarrow> read_blob s k = Inr b \<longleftrightarrow> map_of (store_values s) k = Some b"
proof -
  assume "store_inv s"
  then have "map_of (store_values s) k = Some v \<Longrightarrow> k = U (sha256_hex v)" for v
    using map_of_SomeD [of "store_values s" k v] by (auto simp: store_inv_def)
  then show ?thesis by (auto simp: read_blob_def split: option.splits if_splits)
qed

lemma put_blob_read: "store_inv s \<Longrightarrow> put_blob d s = (Inr h, s') \<Longrightarrow> read_blob s' h = Inr d"
proof -
  assume s: "store_inv s" and p: "put_blob d s = (Inr h, s')"
  have "store_inv s'" using put_blob_inv [OF s, of d] p by simp
  moreover have "map_of (store_values s') h = Some d"
    using p by (auto simp: put_blob_def Let_def map_add_def split: option.splits if_splits)
  ultimately show ?thesis by (simp add: read_blob_Inr)
qed

lemma put_blob_keeps: "store_inv s \<Longrightarrow> read_blob s k = Inr b \<Longrightarrow> read_blob (snd (put_blob d s)) k = Inr b"
proof -
  assume s: "store_inv s" and "read_blob s k = Inr b"
  then have "map_of (store_values s) k = Some b" by (simp add: read_blob_Inr)
  then have "map_of (store_values (snd (put_blob d s))) k = Some b"
    by (auto simp: put_blob_def Let_def map_add_def split: option.splits)
  then show ?thesis using put_blob_inv [OF s] by (simp add: read_blob_Inr)
qed

interpretation precredential: blob_store store_inv put_blob read_blob
proof
  show "store_inv s \<Longrightarrow> store_inv (snd (put_blob d s))" for s d by (rule put_blob_inv)
  show "store_inv s \<Longrightarrow> put_blob d s = (Inr h, s') \<Longrightarrow> h = U (sha256_hex d)" for s d h s'
    by (rule put_blob_hash)
  show "store_inv s \<Longrightarrow> put_blob d s = (Inr h, s') \<Longrightarrow> read_blob s' h = Inr d" for s d h s'
    by (rule put_blob_read)
  show "store_inv s \<Longrightarrow> read_blob s k = Inr b \<Longrightarrow> read_blob (snd (put_blob d s)) k = Inr b" for s k b d
    by (rule put_blob_keeps)
  show "store_inv s \<Longrightarrow> read_blob s k = Inr b \<Longrightarrow> k = U (sha256_hex b)" for s k b
    by (auto simp: read_blob_def split: option.splits if_splits)
qed

end
