(* ===== verification/StateMachine.thy ===== *)
theory StateMachine
  imports Complex_Main Errors
begin

text \<open>
  \<open>src/src/agent_loop/state_machine.py\<close>: the fatal latch of a run, what a round observes, and
  \<open>decide\<close>, the function that orders fatal failures, success, a blocked critic, the round cap
  and a stall. Monotonic timestamps are rationals (the code compares them and never rounds).
  An operation on the mutable \<open>FatalLatch\<close> returns the latch it leaves behind.
\<close>

type_synonym time = rat

record fatal_latch =
  latch_reason :: "stop_reason option"
  latch_detail :: "ustr option"
  latched_at :: "time option"
  secondary :: "(stop_reason \<times> ustr \<times> time) list"

definition new_latch :: fatal_latch where
  "new_latch = \<lparr>latch_reason = None, latch_detail = None, latched_at = None, secondary = []\<rparr>"

definition non_fatal_reasons :: "stop_reason list" where
  "non_fatal_reasons = [CONVERGED, ROUND_CAP_REACHED, STALLED, CRITIC_BLOCKED]"

definition is_set :: "fatal_latch \<Rightarrow> bool" where
  "is_set l \<longleftrightarrow> latch_reason l \<noteq> None"

definition latch :: "stop_reason \<Rightarrow> ustr \<Rightarrow> time \<Rightarrow> fatal_latch \<Rightarrow> exn + fatal_latch" where
  "latch reason detail now l =
     (if reason \<in> set non_fatal_reasons
      then Inl (ValueError (U (reason_value reason @ '' is not a fatal reason'')))
      else if now < 0 then Inl (ValueError (U ''monotonic timestamp cannot be negative''))
      else if latch_reason l = None
      then Inr (l\<lparr>latch_reason := Some reason, latch_detail := Some detail, latched_at := Some now\<rparr>)
      else Inr (l\<lparr>secondary := secondary l @ [(reason, detail, now)]\<rparr>))"

definition clear_latch :: "fatal_latch \<Rightarrow> exn + fatal_latch" where
  "clear_latch l = Inl (RuntimeError (U ''a fatal latch cannot be cleared''))"

record round_observation =
  round_count :: int
  max_rounds :: int
  all_validations_pass :: bool
  semantic_deltas_visible :: bool
  evidence_approval_eligible :: bool
  critic_verdict :: "ustr option"
  critic_completed_at :: "time option"
  monotonic_deadline :: time
  repeated_non_success_state :: bool

definition check_observation :: "round_observation \<Rightarrow> exn + round_observation" where
  "check_observation ob =
     (if round_count ob < 1 then Inl (ValueError (U ''round_count must be positive''))
      else if max_rounds ob < 1 then Inl (ValueError (U ''max_rounds must be positive''))
      else if monotonic_deadline ob < 0 then Inl (ValueError (U ''deadline cannot be negative''))
      else if (case critic_completed_at ob of None \<Rightarrow> False | Some t \<Rightarrow> t < 0)
      then Inl (ValueError (U ''completion timestamp cannot be negative''))
      else if critic_verdict ob \<notin>
                {None, Some (U ''LGTM''), Some (U ''REVISE''), Some (U ''BLOCKED'')}
      then Inl (ValueError (U ''unknown critic verdict''))
      else Inr ob)"

datatype action = CONTINUE | STOP

record decision =
  decision_action :: action
  decision_reason :: "stop_reason option"
  decision_exit_code :: "exit_code option"

definition stop_with :: "stop_reason \<Rightarrow> exit_code \<Rightarrow> decision" where
  "stop_with r c = \<lparr>decision_action = STOP, decision_reason = Some r, decision_exit_code = Some c\<rparr>"

definition go_on :: decision where
  "go_on = \<lparr>decision_action = CONTINUE, decision_reason = None, decision_exit_code = None\<rparr>"

text \<open>The two latching steps at the head of \<open>decide\<close>, and then the ordered checks.\<close>

definition latch_late_critic :: "round_observation \<Rightarrow> fatal_latch \<Rightarrow> exn + fatal_latch" where
  "latch_late_critic ob l =
     (case critic_completed_at ob of
        None \<Rightarrow> Inr l
      | Some t \<Rightarrow>
          if t > monotonic_deadline ob
          then latch WALL_CLOCK_DEADLINE_EXCEEDED
                 (U ''critic envelope completed after the run deadline'') t l
          else Inr l)"

definition latch_contradicted_lgtm :: "round_observation \<Rightarrow> fatal_latch \<Rightarrow> exn + fatal_latch" where
  "latch_contradicted_lgtm ob l =
     (if critic_verdict ob = Some (U ''LGTM'') \<and>
         \<not> (all_validations_pass ob \<and> semantic_deltas_visible ob \<and> evidence_approval_eligible ob)
      then latch CRITIC_LGTM_WITH_FAILED_VALIDATION
             (U ''LGTM contradicted local validation or evidence state'')
             (case critic_completed_at ob of
                None \<Rightarrow> monotonic_deadline ob
              | Some t \<Rightarrow> if t = 0 then monotonic_deadline ob else t) l
      else Inr l)"

definition decide_ordered :: "round_observation \<Rightarrow> fatal_latch \<Rightarrow> decision" where
  "decide_ordered ob l =
     (case latch_reason l of
        Some r \<Rightarrow> stop_with r (exit_code_for r)
      | None \<Rightarrow>
          if all_validations_pass ob \<and> semantic_deltas_visible ob \<and> evidence_approval_eligible ob
             \<and> critic_verdict ob = Some (U ''LGTM'')
             \<and> (case critic_completed_at ob of None \<Rightarrow> False | Some t \<Rightarrow> t \<le> monotonic_deadline ob)
          then stop_with CONVERGED SUCCESS
          else if critic_verdict ob = Some (U ''BLOCKED'')
          then stop_with CRITIC_BLOCKED EXIT_CRITIC_BLOCKED
          else if round_count ob \<ge> max_rounds ob then stop_with ROUND_CAP_REACHED ROUND_CAP
          else if repeated_non_success_state ob then stop_with STALLED EXIT_STALLED
          else go_on)"

definition decide :: "round_observation \<Rightarrow> fatal_latch \<Rightarrow> exn + (decision \<times> fatal_latch)" where
  "decide ob l =
     rbind (latch_late_critic ob l) (\<lambda>l1.
     rbind (latch_contradicted_lgtm ob l1) (\<lambda>l2.
     Inr (decide_ordered ob l2, l2)))"

section \<open>The latch\<close>

text \<open>A latch is well formed when its three fields are set together, by a fatal reason, and
  nothing is in the secondary list before the first failure.\<close>

definition wf_latch :: "fatal_latch \<Rightarrow> bool" where
  "wf_latch l \<longleftrightarrow>
     (case latch_reason l of
        None \<Rightarrow> latch_detail l = None \<and> latched_at l = None \<and> secondary l = []
      | Some r \<Rightarrow> r \<notin> set non_fatal_reasons \<and> latch_detail l \<noteq> None \<and>
                  (\<exists>t \<ge> 0. latched_at l = Some t)) \<and>
     (\<forall>(r, d, t) \<in> set (secondary l). r \<notin> set non_fatal_reasons \<and> 0 \<le> t)"

lemma wf_new_latch [simp]: "wf_latch new_latch"
  by (simp add: wf_latch_def new_latch_def)

lemma latch_wf: "wf_latch l \<Longrightarrow> latch r d t l = Inr l' \<Longrightarrow> wf_latch l'"
  by (auto simp: wf_latch_def latch_def not_less split: if_splits option.splits)

lemma latch_fatal:
  assumes "r \<notin> set non_fatal_reasons" and "0 \<le> t"
  shows "latch r d t l =
    Inr (if latch_reason l = None
         then l\<lparr>latch_reason := Some r, latch_detail := Some d, latched_at := Some t\<rparr>
         else l\<lparr>secondary := secondary l @ [(r, d, t)]\<rparr>)"
  using assms by (simp add: latch_def)

lemma latch_sets: "latch r d t l = Inr l' \<Longrightarrow> latch_reason l' \<noteq> None"
  by (auto simp: latch_def split: if_splits)

lemma latch_keeps: "latch r d t l = Inr l' \<Longrightarrow> latch_reason l = Some q \<Longrightarrow>
    latch_reason l' = Some q \<and> latch_detail l' = latch_detail l \<and> latched_at l' = latched_at l"
  by (auto simp: latch_def split: if_splits)

text \<open>A sequence of reported failures.\<close>

fun latch_all :: "(stop_reason \<times> ustr \<times> time) list \<Rightarrow> fatal_latch \<Rightarrow> exn + fatal_latch" where
  "latch_all [] l = Inr l"
| "latch_all ((r, d, t) # rs) l = rbind (latch r d t l) (latch_all rs)"

lemma latch_all_set:
  assumes "latch_reason l = Some q" and "\<forall>(r, d, t) \<in> set rs. r \<notin> set non_fatal_reasons \<and> 0 \<le> t"
  shows "latch_all rs l = Inr (l\<lparr>secondary := secondary l @ rs\<rparr>)"
  using assms
proof (induction rs arbitrary: l)
  case (Cons x rs)
  then show ?case by (cases x) (simp add: latch_fatal)
qed simp

section \<open>Deciding a round\<close>

lemma check_observation_Inr:
  "check_observation ob = Inr ob' \<longleftrightarrow>
     ob' = ob \<and> 1 \<le> round_count ob \<and> 1 \<le> max_rounds ob \<and> 0 \<le> monotonic_deadline ob \<and>
     (\<forall>t. critic_completed_at ob = Some t \<longrightarrow> 0 \<le> t) \<and>
     critic_verdict ob \<in> {None, Some (U ''LGTM''), Some (U ''REVISE''), Some (U ''BLOCKED'')}"
  by (auto simp: check_observation_def not_less split: option.splits)

text \<open>The events of a round in the order of the plan; \<open>decide\<close> reports the first that holds.\<close>

definition late :: "round_observation \<Rightarrow> bool" where
  "late ob \<longleftrightarrow> (\<exists>t. critic_completed_at ob = Some t \<and> monotonic_deadline ob < t)"

definition approved :: "round_observation \<Rightarrow> bool" where
  "approved ob \<longleftrightarrow>
     all_validations_pass ob \<and> semantic_deltas_visible ob \<and> evidence_approval_eligible ob"

definition contradicted :: "round_observation \<Rightarrow> bool" where
  "contradicted ob \<longleftrightarrow> critic_verdict ob = Some (U ''LGTM'') \<and> \<not> approved ob"

definition succeeded :: "round_observation \<Rightarrow> bool" where
  "succeeded ob \<longleftrightarrow> critic_verdict ob = Some (U ''LGTM'') \<and> approved ob \<and>
     (\<exists>t \<le> monotonic_deadline ob. critic_completed_at ob = Some t)"

definition event_order :: "round_observation \<Rightarrow> fatal_latch \<Rightarrow> (bool \<times> stop_reason) list" where
  "event_order ob l =
     (case latch_reason l of None \<Rightarrow> [] | Some r \<Rightarrow> [(True, r)]) @
     [(late ob, WALL_CLOCK_DEADLINE_EXCEEDED),
      (contradicted ob, CRITIC_LGTM_WITH_FAILED_VALIDATION),
      (succeeded ob, CONVERGED),
      (critic_verdict ob = Some (U ''BLOCKED''), CRITIC_BLOCKED),
      (max_rounds ob \<le> round_count ob, ROUND_CAP_REACHED),
      (repeated_non_success_state ob, STALLED)]"

definition ordered_decision :: "round_observation \<Rightarrow> fatal_latch \<Rightarrow> decision" where
  "ordered_decision ob l =
     (case find fst (event_order ob l) of
        None \<Rightarrow> go_on
      | Some (b, r) \<Rightarrow> stop_with r (exit_code_for r))"

lemma latch_late_critic_valid:
  assumes "check_observation ob = Inr ob"
  shows "\<exists>l'. latch_late_critic ob l = Inr l' \<and>
    latch_reason l' = (case latch_reason l of Some r \<Rightarrow> Some r
      | None \<Rightarrow> if late ob then Some WALL_CLOCK_DEADLINE_EXCEEDED else None)"
  using assms
  by (auto simp: latch_late_critic_def check_observation_Inr late_def latch_def
      non_fatal_reasons_def split: option.splits)

lemma latch_contradicted_valid:
  assumes "check_observation ob = Inr ob"
  shows "\<exists>l'. latch_contradicted_lgtm ob l = Inr l' \<and>
    latch_reason l' = (case latch_reason l of Some r \<Rightarrow> Some r
      | None \<Rightarrow> if contradicted ob then Some CRITIC_LGTM_WITH_FAILED_VALIDATION else None)"
  using assms
  by (auto simp: latch_contradicted_lgtm_def check_observation_Inr contradicted_def approved_def
      latch_def non_fatal_reasons_def split: option.splits)

lemma decide_ordered_decision:
  assumes "check_observation ob = Inr ob"
  obtains l' where "decide ob l = Inr (ordered_decision ob l, l')"
    and "\<And>r. latch_reason l = Some r \<Longrightarrow> latch_reason l' = Some r"
    and "latch_reason l' = None \<longleftrightarrow> latch_reason l = None \<and> \<not> late ob \<and> \<not> contradicted ob"
proof -
  obtain l1 where l1: "latch_late_critic ob l = Inr l1" "latch_reason l1 = (case latch_reason l of
      Some r \<Rightarrow> Some r | None \<Rightarrow> if late ob then Some WALL_CLOCK_DEADLINE_EXCEEDED else None)"
    using latch_late_critic_valid [OF assms] by blast
  obtain l2 where l2: "latch_contradicted_lgtm ob l1 = Inr l2" "latch_reason l2 = (case latch_reason l1 of
      Some r \<Rightarrow> Some r | None \<Rightarrow> if contradicted ob then Some CRITIC_LGTM_WITH_FAILED_VALIDATION else None)"
    using latch_contradicted_valid [OF assms] by blast
  have "decide_ordered ob l2 = ordered_decision ob l"
  proof (cases "latch_reason l2")
    case None
    then have "latch_reason l = None" "\<not> late ob" "\<not> contradicted ob"
      using l1(2) l2(2) by (auto split: option.splits if_splits)
    moreover have "(case critic_completed_at ob of None \<Rightarrow> False | Some t \<Rightarrow> t \<le> monotonic_deadline ob)
        = (\<exists>t \<le> monotonic_deadline ob. critic_completed_at ob = Some t)"
      by (auto split: option.splits)
    ultimately show ?thesis
      using None unfolding decide_ordered_def ordered_decision_def event_order_def succeeded_def
        approved_def by (simp, blast)
  next
    case (Some r)
    then show ?thesis
      using l1(2) l2(2)
      by (auto simp: decide_ordered_def ordered_decision_def event_order_def
          split: option.splits if_splits)
  qed
  then show thesis
    using l1 l2 by (intro that [of l2]) (auto simp: decide_def split: option.splits if_splits)
qed

lemmas decision_defs = ordered_decision_def event_order_def stop_with_def go_on_def

end
