(* ===== verification/Reconcile.thy ===== *)
theory Reconcile
  imports ManifestDiff
begin

text \<open>
  \<open>reconcile_candidate\<close> of \<open>src/src/agent_loop/manifests.py\<close>: protection is checked on the
  unfiltered delta, discard-only entries are dropped, the rest is the authoritative manifest and
  its delta is split into semantic and opaque changes. The lemmas show that no protected path
  changes, what the authoritative manifest holds at each path, and that the split loses only
  discard-only paths.
\<close>

record reconciliation =
  candidate_delta :: "manifest_change list"
  authoritative_manifest :: subject_manifest
  authoritative_delta :: "manifest_change list"
  semantic_changes :: "manifest_change list"
  opaque_changes :: "manifest_change list"
  discarded_changes :: "manifest_change list"

text \<open>A comprehension with a condition that may raise.\<close>

fun rfilter :: "('a \<Rightarrow> exn + bool) \<Rightarrow> 'a list \<Rightarrow> exn + 'a list" where
  "rfilter f [] = Inr []"
| "rfilter f (x # xs) =
     rbind (f x) (\<lambda>b. rbind (rfilter f xs) (\<lambda>ys. Inr (if b then x # ys else ys)))"

definition has_disposition :: "path_policy \<Rightarrow> path_disposition \<Rightarrow> bytes \<Rightarrow> exn + bool" where
  "has_disposition pol d p = rbind (classify pol p) (\<lambda>x. Inr (x = d))"

definition check_protected :: "path_policy \<Rightarrow> manifest_change \<Rightarrow> exn + unit" where
  "check_protected pol c =
     rbind (change_paths c) (\<lambda>ps.
     rbind (rfilter (has_disposition pol PROTECTED) ps) (\<lambda>protected.
     if protected \<noteq> []
     then Inl (AgentLoopError PROTECTED_SUBJECT_PATH_CHANGED
            (U ''candidate changed protected subject path(s): '' @
             join_with (U '', '') (map display_path protected)))
     else Inr ()))"

text \<open>\<open>any(classify(path) is DISCARD_ONLY for path in paths)\<close>: the first match ends it.\<close>

fun any_disposition :: "path_policy \<Rightarrow> path_disposition \<Rightarrow> bytes list \<Rightarrow> exn + bool" where
  "any_disposition pol d [] = Inr False"
| "any_disposition pol d (p # ps) =
     rbind (has_disposition pol d p) (\<lambda>b. if b then Inr True else any_disposition pol d ps)"

definition reconcile_candidate ::
  "subject_manifest \<Rightarrow> subject_manifest \<Rightarrow> path_policy \<Rightarrow> limits \<Rightarrow> exn + reconciliation" where
  "reconcile_candidate base candidate pol l =
     rbind (diff_manifests base candidate) (\<lambda>delta.
     rbind (rmap (check_protected pol) delta) (\<lambda>_.
     rbind (rfilter (\<lambda>e. rbind (classify pol (entry_path e)) (\<lambda>d. Inr (d \<noteq> DISCARD_ONLY)))
              (entries candidate)) (\<lambda>kept.
     rbind (build_manifest l kept) (\<lambda>authoritative.
     rbind (diff_manifests base authoritative) (\<lambda>auth_delta.
     rbind (rmap (classify_change pol) auth_delta) (\<lambda>ds.
     rbind (rfilter (\<lambda>c. rbind (change_paths c) (any_disposition pol DISCARD_ONLY)) delta) (\<lambda>discarded.
     Inr \<lparr>candidate_delta = delta, authoritative_manifest = authoritative,
          authoritative_delta = auth_delta,
          semantic_changes = map fst (filter (\<lambda>(c, d). d = SEMANTIC) (zip auth_delta ds)),
          opaque_changes = map fst (filter (\<lambda>(c, d). d = OPAQUE_NONSEMANTIC) (zip auth_delta ds)),
          discarded_changes = discarded\<rparr>)))))))"

section \<open>The parts\<close>

lemma rfilter_Inr_filter: "(\<And>x. x \<in> set xs \<Longrightarrow> f x = Inr (P x)) \<Longrightarrow> rfilter f xs = Inr (filter P xs)"
  by (induction xs) auto

lemma has_disposition_valid: "valid_path p \<Longrightarrow> has_disposition pol d p = Inr (disposition pol p = d)"
  by (simp add: has_disposition_def classify_valid)

lemma any_disposition_valid:
  "\<forall>p \<in> set ps. valid_path p \<Longrightarrow> any_disposition pol d ps = Inr (\<exists>p \<in> set ps. disposition pol p = d)"
  by (induction ps) (auto simp: has_disposition_valid)

lemma check_protected_Inr:
  assumes "wf_change c" and "\<forall>p \<in> change_path_set c. valid_path p"
  shows "check_protected pol c = Inr u \<longleftrightarrow> (\<forall>p \<in> change_path_set c. disposition pol p \<noteq> PROTECTED)"
    and "check_protected pol c = Inl e \<Longrightarrow> \<exists>d. e = AgentLoopError PROTECTED_SUBJECT_PATH_CHANGED d"
proof -
  obtain ps where ps: "change_paths c = Inr ps" "set ps = change_path_set c"
    using change_paths_wf [OF assms(1)] unfolding change_path_set_def by metis
  have f: "rfilter (has_disposition pol PROTECTED) ps = Inr (filter (\<lambda>p. disposition pol p = PROTECTED) ps)"
    using assms(2) ps(2) by (intro rfilter_Inr_filter) (simp add: has_disposition_valid)
  show "check_protected pol c = Inr u \<longleftrightarrow> (\<forall>p \<in> change_path_set c. disposition pol p \<noteq> PROTECTED)"
    using ps(2) by (auto simp: check_protected_def ps(1) f filter_empty_conv)
  show "check_protected pol c = Inl e \<Longrightarrow> \<exists>d. e = AgentLoopError PROTECTED_SUBJECT_PATH_CHANGED d"
    by (auto simp: check_protected_def ps(1) f split: if_splits)
qed

definition kept_at :: "path_policy \<Rightarrow> subject_manifest \<Rightarrow> bytes \<Rightarrow> manifest_entry option" where
  "kept_at pol m p = (if disposition pol p = DISCARD_ONLY then None else entry_at m p)"

definition touches_protected :: "path_policy \<Rightarrow> subject_manifest \<Rightarrow> subject_manifest \<Rightarrow> bool" where
  "touches_protected pol b c \<longleftrightarrow> (\<exists>p. entry_at b p \<noteq> entry_at c p \<and> disposition pol p = PROTECTED)"

lemma rmap_check_protected:
  assumes "wf_manifest b" "wf_manifest c" and d: "diff_manifests b c = Inr ds"
  shows "(\<exists>us. rmap (check_protected pol) ds = Inr us) \<longleftrightarrow> \<not> touches_protected pol b c"
    and "rmap (check_protected pol) ds = Inl e \<Longrightarrow> \<exists>t. e = AgentLoopError PROTECTED_SUBJECT_PATH_CHANGED t"
proof -
  note ex = diff_manifests_Inr [OF assms]
  have wf: "wf_change x" "\<forall>p \<in> change_path_set x. valid_path p" if "x \<in> set ds" for x
    using ex that exact_delta_valid_paths [OF ex assms(1,2) that] by (auto simp: exact_delta_def)
  have all: "(\<exists>us. rmap (check_protected pol) xs = Inr us) \<longleftrightarrow>
      (\<forall>x \<in> set xs. \<forall>p \<in> change_path_set x. disposition pol p \<noteq> PROTECTED)" if "set xs \<subseteq> set ds" for xs
    using that
  proof (induction xs)
    case (Cons x xs)
    then show ?case using check_protected_Inr(1) [OF wf, of x pol "()"] by (auto simp: rbind_Inr_iff)
  qed simp
  have touched: "(\<exists>x \<in> set ds. p \<in> change_path_set x) \<longleftrightarrow> entry_at b p \<noteq> entry_at c p" for p
    using ex unfolding exact_delta_def by blast
  show "(\<exists>us. rmap (check_protected pol) ds = Inr us) \<longleftrightarrow> \<not> touches_protected pol b c"
    unfolding all [OF subset_refl] touches_protected_def using touched by blast
  show "rmap (check_protected pol) ds = Inl e \<Longrightarrow> \<exists>t. e = AgentLoopError PROTECTED_SUBJECT_PATH_CHANGED t"
    using rmap_Inl_ex [of "check_protected pol" ds e] check_protected_Inr(2) [OF wf] by blast
qed

lemma rfilter_kept:
  assumes "wf_manifest c"
  shows "rfilter (\<lambda>e. rbind (classify pol (entry_path e)) (\<lambda>d. Inr (d \<noteq> DISCARD_ONLY))) (entries c) =
    Inr (filter (\<lambda>e. disposition pol (entry_path e) \<noteq> DISCARD_ONLY) (entries c))"
  using wf_manifestD(4) [OF assms] by (intro rfilter_Inr_filter) (simp add: classify_valid wf_entry_path)

lemma opt_eqI:
  assumes "\<And>v. x = Some v \<longleftrightarrow> y = Some v"
  shows "x = y"
proof (cases x)
  case None
  with assms [of "the y"] show ?thesis by (cases y) simp_all
next
  case (Some v)
  with assms [of v] show ?thesis by simp
qed

lemma kept_manifest:
  assumes c: "wf_manifest c"
    and m: "build_manifest l (filter (\<lambda>e. disposition pol (entry_path e) \<noteq> DISCARD_ONLY) (entries c)) = Inr m"
  shows "wf_manifest m" and "entry_at m = kept_at pol c" and "validate_limits l m = Inr ()"
proof -
  let ?kept = "filter (\<lambda>e. disposition pol (entry_path e) \<noteq> DISCARD_ONLY) (entries c)"
  have wf: "\<forall>e \<in> set ?kept. wf_entry e" using wf_manifestD(4) [OF c] by auto
  show wfm: "wf_manifest m" and "validate_limits l m = Inr ()"
    by (rule build_manifest_wf [OF m wf])+
  have d: "distinct (manifest_paths m)" "distinct (manifest_paths c)"
    using wf_manifestD(3) [OF wfm] wf_manifestD(3) [OF c] by (simp_all add: manifest_paths_def)
  have e: "entry_at m p = Some e \<longleftrightarrow> kept_at pol c p = Some e" for p e
    using entry_at_Some [OF d(1), of p e] entry_at_Some [OF d(2), of p e] build_manifest_wf(2) [OF m wf]
    by (auto simp: kept_at_def)
  show "entry_at m = kept_at pol c"
    by (intro ext opt_eqI) (rule e)
qed

section \<open>The result\<close>

lemma zip_map_filter: "map fst (filter (\<lambda>(c, d). d = x) (zip cs (map f cs))) = filter (\<lambda>c. f c = x) cs"
  by (induction cs) auto

lemma reconcile_Inr:
  assumes b: "wf_manifest b" and c: "wf_manifest c" and r: "reconcile_candidate b c pol l = Inr r"
  shows "\<not> touches_protected pol b c"
    and "wf_manifest (authoritative_manifest r)" and "validate_limits l (authoritative_manifest r) = Inr ()"
    and "entry_at (authoritative_manifest r) = kept_at pol c"
    and "exact_delta (entry_at b) (entry_at c) (set (candidate_delta r))"
    and "exact_delta (entry_at b) (kept_at pol c) (set (authoritative_delta r))"
    and "semantic_changes r = filter (\<lambda>d. change_disposition pol d = SEMANTIC) (authoritative_delta r)"
    and "opaque_changes r = filter (\<lambda>d. change_disposition pol d = OPAQUE_NONSEMANTIC) (authoritative_delta r)"
    and "discarded_changes r = filter (\<lambda>d. \<exists>p \<in> change_path_set d. disposition pol p = DISCARD_ONLY) (candidate_delta r)"
proof -
  let ?kept = "filter (\<lambda>e. disposition pol (entry_path e) \<noteq> DISCARD_ONLY) (entries c)"
  obtain us ds where d: "diff_manifests b c = Inr (candidate_delta r)"
    and p: "rmap (check_protected pol) (candidate_delta r) = Inr us"
    and m: "build_manifest l ?kept = Inr (authoritative_manifest r)"
    and a: "diff_manifests b (authoritative_manifest r) = Inr (authoritative_delta r)"
    and ds: "rmap (classify_change pol) (authoritative_delta r) = Inr ds"
    and disc: "rfilter (\<lambda>c. rbind (change_paths c) (any_disposition pol DISCARD_ONLY)) (candidate_delta r) =
      Inr (discarded_changes r)"
    and sem: "semantic_changes r = map fst (filter (\<lambda>(c, d). d = SEMANTIC) (zip (authoritative_delta r) ds))"
    and opq: "opaque_changes r = map fst (filter (\<lambda>(c, d). d = OPAQUE_NONSEMANTIC) (zip (authoritative_delta r) ds))"
    using r by (auto simp: reconcile_candidate_def rbind_Inr_iff rfilter_kept [OF c])
  show "\<not> touches_protected pol b c" using rmap_check_protected(1) [OF b c d, of pol] p by blast
  note km = kept_manifest [OF c m]
  show "wf_manifest (authoritative_manifest r)" "validate_limits l (authoritative_manifest r) = Inr ()"
    "entry_at (authoritative_manifest r) = kept_at pol c" by (fact km)+
  show ex: "exact_delta (entry_at b) (entry_at c) (set (candidate_delta r))"
    by (rule diff_manifests_Inr [OF b c d])
  have exa': "exact_delta (entry_at b) (entry_at (authoritative_manifest r)) (set (authoritative_delta r))"
    by (rule diff_manifests_Inr [OF b km(1) a])
  then show "exact_delta (entry_at b) (kept_at pol c) (set (authoritative_delta r))" by (simp add: km(2))
  have "rmap (classify_change pol) (authoritative_delta r) = Inr (map (change_disposition pol) (authoritative_delta r))"
    using exa' exact_delta_valid_paths [OF exa' b km(1)]
    by (intro rmap_Inr_map classify_change_wf) (auto simp: exact_delta_def)
  then have ds: "ds = map (change_disposition pol) (authoritative_delta r)" using ds by simp
  show "semantic_changes r = filter (\<lambda>d. change_disposition pol d = SEMANTIC) (authoritative_delta r)"
    "opaque_changes r = filter (\<lambda>d. change_disposition pol d = OPAQUE_NONSEMANTIC) (authoritative_delta r)"
    unfolding sem opq ds zip_map_filter by (rule refl)+
  have "rbind (change_paths x) (any_disposition pol DISCARD_ONLY) =
      Inr (\<exists>p \<in> change_path_set x. disposition pol p = DISCARD_ONLY)" if x: "x \<in> set (candidate_delta r)" for x
  proof -
    have "wf_change x" using ex x by (simp add: exact_delta_def)
    then obtain ps where "change_paths x = Inr ps" "set ps = change_path_set x"
      using change_paths_wf unfolding change_path_set_def by metis
    then show ?thesis using exact_delta_valid_paths [OF ex b c x] by (simp add: any_disposition_valid)
  qed
  from rfilter_Inr_filter [of "candidate_delta r", OF this] disc
  show "discarded_changes r = filter (\<lambda>d. \<exists>p \<in> change_path_set d. disposition pol p = DISCARD_ONLY) (candidate_delta r)"
    by simp
qed

lemma reconcile_authoritative_delta:
  "wf_manifest b \<Longrightarrow> wf_manifest c \<Longrightarrow> reconcile_candidate b c pol l = Inr r \<Longrightarrow>
     diff_manifests b (authoritative_manifest r) = Inr (authoritative_delta r)"
  by (auto simp: reconcile_candidate_def rbind_Inr_iff)

lemma reconcile_touches_protected:
  assumes "wf_manifest b" "wf_manifest c" and "touches_protected pol b c"
  shows "\<exists>t. reconcile_candidate b c pol l = Inl (AgentLoopError PROTECTED_SUBJECT_PATH_CHANGED t)"
proof -
  obtain ds where d: "diff_manifests b c = Inr ds" using diff_manifests_exact [OF assms(1,2)] by blast
  note P = rmap_check_protected [OF assms(1,2) d, of pol]
  obtain e where e: "rmap (check_protected pol) ds = Inl e"
    using P(1) assms(3) by (cases "rmap (check_protected pol) ds") auto
  with P(2) show ?thesis by (auto simp: reconcile_candidate_def d)
qed

lemma reconcile_succeeds:
  assumes b: "wf_manifest b" and c: "wf_manifest c" and t: "\<not> touches_protected pol b c"
    and m: "build_manifest l (filter (\<lambda>e. disposition pol (entry_path e) \<noteq> DISCARD_ONLY) (entries c)) = Inr m"
  shows "\<exists>r. reconcile_candidate b c pol l = Inr r"
proof -
  obtain ds where d: "diff_manifests b c = Inr ds" using diff_manifests_exact [OF b c] by blast
  obtain us where p: "rmap (check_protected pol) ds = Inr us"
    using rmap_check_protected(1) [OF b c d] t by blast
  note wfm = kept_manifest(1) [OF c m]
  obtain as where a: "diff_manifests b m = Inr as" using diff_manifests_exact [OF b wfm] by blast
  note exa = diff_manifests_Inr [OF b wfm a] and exd = diff_manifests_Inr [OF b c d]
  have cl: "rmap (classify_change pol) as = Inr (map (change_disposition pol) as)"
    using exa exact_delta_valid_paths [OF exa b wfm]
    by (intro rmap_Inr_map classify_change_wf) (auto simp: exact_delta_def)
  have "rfilter (\<lambda>c. rbind (change_paths c) (any_disposition pol DISCARD_ONLY)) ds =
      Inr (filter (\<lambda>d. \<exists>p \<in> change_path_set d. disposition pol p = DISCARD_ONLY) ds)"
  proof (rule rfilter_Inr_filter)
    fix x
    assume x: "x \<in> set ds"
    then have "wf_change x" using exd by (simp add: exact_delta_def)
    then obtain ps where "change_paths x = Inr ps" "set ps = change_path_set x"
      using change_paths_wf unfolding change_path_set_def by metis
    then show "rbind (change_paths x) (any_disposition pol DISCARD_ONLY) =
        Inr (\<exists>p \<in> change_path_set x. disposition pol p = DISCARD_ONLY)"
      using exact_delta_valid_paths [OF exd b c x] by (simp add: any_disposition_valid)
  qed
  then show ?thesis by (simp add: reconcile_candidate_def d p rfilter_kept [OF c] m a cl)
qed

text \<open>What is dropped from the authoritative delta is only the removal of discard-only base paths.\<close>

lemma dropped_changes:
  assumes "wf_manifest b" "wf_manifest c" and "reconcile_candidate b c pol l = Inr r"
    and "d \<in> set (authoritative_delta r)" and "d \<notin> set (semantic_changes r) \<union> set (opaque_changes r)"
  shows "change_kind d = DELETE" and "\<forall>p \<in> change_path_set d. disposition pol p = DISCARD_ONLY"
proof -
  note R = reconcile_Inr [OF assms(1-3)]
  have wf: "wf_change d" and says: "\<forall>p \<in> change_path_set d. says d p = (entry_at b p, kept_at pol c p) \<and>
      entry_at b p \<noteq> kept_at pol c p"
    using R(6) assms(4) by (auto simp: exact_delta_def)
  have "disposition pol p \<noteq> PROTECTED" if "p \<in> change_path_set d" for p
    using R(1) says that by (auto simp: touches_protected_def kept_at_def split: if_splits)
  then have "change_disposition pol d \<noteq> PROTECTED"
    using change_disposition_iff(1) [OF wf_change_paths [OF wf]] by blast
  moreover have "change_disposition pol d \<noteq> SEMANTIC" "change_disposition pol d \<noteq> OPAQUE_NONSEMANTIC"
    using assms(4,5) R(7,8) by auto
  ultimately have "change_disposition pol d = DISCARD_ONLY"
    by (cases "change_disposition pol d") auto
  then show *: "\<forall>p \<in> change_path_set d. disposition pol p = DISCARD_ONLY"
    using change_disposition_iff(2) [OF wf_change_paths [OF wf]] by blast
  have "after d = None"
  proof (rule ccontr)
    assume "after d \<noteq> None"
    then obtain a where a: "after d = Some a" by auto
    then have "entry_path a \<in> change_path_set d" by (simp add: change_path_defs)
    with says * have "snd (says d (entry_path a)) = None" by (simp add: kept_at_def)
    then show False using a by (simp add: says_def new_path_def)
  qed
  then show "change_kind d = DELETE"
    using wf by (cases "change_kind d") (auto simp: wf_change_cases)
qed

end
