(* ===== verification/Validation.thy ===== *)
theory Validation
  imports StateMachine Reconcile
begin

text \<open>
  \<open>src/src/agent_loop/validation.py\<close>: the result of a validation command with its outcome, the
  summary of a validation run, the classification of a run against the pristine baseline, and
  the check that a validation run did not change the subject.
\<close>

datatype check_outcome =
  PASSED | FAILED | TIMED_OUT | OUTPUT_LIMITED | OUTCOME_PROCESS_FAILURE | INFRASTRUCTURE_FAILURE

fun outcome_value :: "check_outcome \<Rightarrow> string" where
  "outcome_value PASSED = ''passed''"
| "outcome_value FAILED = ''failed''"
| "outcome_value TIMED_OUT = ''timed_out''"
| "outcome_value OUTPUT_LIMITED = ''output_limited''"
| "outcome_value OUTCOME_PROCESS_FAILURE = ''process_failure''"
| "outcome_value INFRASTRUCTURE_FAILURE = ''infrastructure_failure''"

datatype validation_transition =
  PASS_TO_PASS | PASS_TO_FAIL | FAIL_TO_PASS | FAIL_TO_FAIL | NO_BASELINE

fun transition_value :: "validation_transition \<Rightarrow> string" where
  "transition_value PASS_TO_PASS = ''pass_to_pass''"
| "transition_value PASS_TO_FAIL = ''pass_to_fail''"
| "transition_value FAIL_TO_PASS = ''fail_to_pass''"
| "transition_value FAIL_TO_FAIL = ''fail_to_fail''"
| "transition_value NO_BASELINE = ''no_baseline''"

record check_execution =
  check_id :: ustr
  check_command :: ustr
  started_at :: time
  completed_at :: time
  check_exit_code :: "int option"
  check_signal :: "int option"
  timed_out :: bool
  infrastructure_failure :: bool
  process_started :: bool
  output_limited :: bool

definition check_check_execution :: "check_execution \<Rightarrow> exn + check_execution" where
  "check_check_execution c =
     (if check_id c = [] \<or> check_command c = []
      then Inl (ValueError (U ''check_id and command must be non-empty''))
      else if started_at c < 0 \<or> completed_at c < started_at c
      then Inl (ValueError (U ''validation timestamps must be monotonic and ordered''))
      else if check_exit_code c = None \<and> check_signal c = None \<and> \<not> timed_out c \<and>
              \<not> infrastructure_failure c \<and> process_started c \<and> \<not> output_limited c
      then Inl (ValueError (U ''validation execution has no terminal state''))
      else if check_exit_code c \<noteq> None \<and> (check_signal c \<noteq> None \<or> timed_out c)
      then Inl (ValueError (U ''exit code contradicts signal or timeout''))
      else if infrastructure_failure c \<and> process_started c
      then Inl (ValueError (U ''infrastructure failure must precede check process start''))
      else if output_limited c \<and> \<not> process_started c
      then Inl (ValueError (U ''an output-limited validation process must have started''))
      else Inr c)"

definition outcome :: "check_execution \<Rightarrow> check_outcome" where
  "outcome c =
     (if output_limited c then OUTPUT_LIMITED
      else if timed_out c then TIMED_OUT
      else if infrastructure_failure c \<or> \<not> process_started c then INFRASTRUCTURE_FAILURE
      else if check_signal c \<noteq> None then OUTCOME_PROCESS_FAILURE
      else if check_exit_code c = Some 0 then PASSED else FAILED)"

record validation_summary =
  summary_schema_version :: int
  summary_fingerprint :: ustr
  checks :: "check_execution list"

definition check_summary :: "validation_summary \<Rightarrow> exn + validation_summary" where
  "check_summary s =
     (if summary_schema_version s \<noteq> 1
      then Inl (ValueError (U ''unsupported validation summary schema''))
      else if length (summary_fingerprint s) \<noteq> 64
      then Inl (ValueError (U ''subject fingerprint must be a SHA-256 hex string''))
      else if length (map check_id (checks s)) \<noteq> length (remdups (map check_id (checks s)))
      then Inl (ValueError (U ''validation check IDs must be unique''))
      else Inr s)"

definition all_pass :: "validation_summary \<Rightarrow> bool" where
  "all_pass s \<longleftrightarrow> checks s \<noteq> [] \<and> list_all (\<lambda>c. outcome c = PASSED) (checks s)"

definition has_infrastructure_failure :: "validation_summary \<Rightarrow> bool" where
  "has_infrastructure_failure s \<longleftrightarrow> list_ex (\<lambda>c. outcome c = INFRASTRUCTURE_FAILURE) (checks s)"

record classified_check =
  cc_check_id :: ustr
  cc_command :: ustr
  cc_baseline_outcome :: "check_outcome option"
  cc_current_outcome :: check_outcome
  cc_transition :: validation_transition
  cc_regression :: bool
  cc_exit_code :: "int option"
  cc_signal :: "int option"

text \<open>The outcomes after which a validation run ends early.\<close>

definition terminal_outcomes :: "check_outcome list" where
  "terminal_outcomes = [TIMED_OUT, OUTPUT_LIMITED, OUTCOME_PROCESS_FAILURE, INFRASTRUCTURE_FAILURE]"

definition comparable_sequences :: "validation_summary \<Rightarrow> validation_summary \<Rightarrow> bool" where
  "comparable_sequences base cur \<longleftrightarrow>
     (let base_ids = map check_id (checks base); cur_ids = map check_id (checks cur)
      in cur_ids = base_ids \<or>
         (checks cur \<noteq> [] \<and> length cur_ids < length base_ids \<and>
          cur_ids = take (length cur_ids) base_ids \<and>
          outcome (last (checks cur)) \<in> set terminal_outcomes))"

definition classify_one :: "(ustr \<Rightarrow> check_execution option) \<Rightarrow> check_execution \<Rightarrow> exn + classified_check" where
  "classify_one baseline_by_id c =
     (let old = baseline_by_id (check_id c)
      in if (case old of None \<Rightarrow> False | Some o' \<Rightarrow> check_command o' \<noteq> check_command c)
         then Inl (AgentLoopError VALIDATION_MUTATED_SUBJECT
                (U ''validation command changed for '' @ check_id c))
         else
           let old_outcome = map_option outcome old;
               old_pass = (old_outcome = Some PASSED);
               new_pass = (outcome c = PASSED);
               transition =
                 (if old_outcome = None then NO_BASELINE
                  else if old_pass \<and> new_pass then PASS_TO_PASS
                  else if old_pass then PASS_TO_FAIL
                  else if new_pass then FAIL_TO_PASS
                  else FAIL_TO_FAIL)
           in Inr \<lparr>cc_check_id = check_id c, cc_command = check_command c,
                cc_baseline_outcome = old_outcome, cc_current_outcome = outcome c,
                cc_transition = transition, cc_regression = (old_pass \<and> \<not> new_pass),
                cc_exit_code = check_exit_code c, cc_signal = check_signal c\<rparr>)"

definition classify_validations ::
  "validation_summary option \<Rightarrow> validation_summary \<Rightarrow> exn + classified_check list" where
  "classify_validations baseline cur =
     (case baseline of
        None \<Rightarrow> rmap (classify_one (\<lambda>_. None)) (checks cur)
      | Some b \<Rightarrow>
          if has_infrastructure_failure b
          then Inl (fail BASELINE_INFRASTRUCTURE_FAILURE
                 ''pristine validation sandbox or toolchain failed before check execution'')
          else if \<not> comparable_sequences b cur
          then Inl (ValueError (U ''baseline and current validation sequences differ''))
          else rmap (classify_one (map_of (rev (map (\<lambda>c. (check_id c, c)) (checks b))))) (checks cur))"

text \<open>\<open>change.paths and all(classify(path) is DISCARD_ONLY for path in change.paths)\<close>: the first
  path of another class ends it.\<close>

fun all_disposition :: "path_policy \<Rightarrow> path_disposition \<Rightarrow> bytes list \<Rightarrow> exn + bool" where
  "all_disposition pol d [] = Inr True"
| "all_disposition pol d (p # ps) =
     rbind (has_disposition pol d p) (\<lambda>b. if b then all_disposition pol d ps else Inr False)"

definition allowed_change :: "path_policy \<Rightarrow> manifest_change \<Rightarrow> exn + bytes list" where
  "allowed_change pol c =
     rbind (change_paths c) (\<lambda>paths.
     rbind (if paths = [] then Inr False else all_disposition pol DISCARD_ONLY paths) (\<lambda>ok.
     if ok then Inr paths
     else Inl (fail VALIDATION_MUTATED_SUBJECT
            ''validation changed authoritative or protected subject state'')))"

definition verify_validation_mutation ::
  "subject_manifest \<Rightarrow> subject_manifest \<Rightarrow> path_policy \<Rightarrow> exn + bytes list" where
  "verify_validation_mutation subject result_manifest pol =
     rbind (diff_manifests subject result_manifest) (\<lambda>delta.
     rbind (rmap (allowed_change pol) delta) (\<lambda>allowed.
     Inr (sort (remdups (concat allowed)))))"

section \<open>Outcomes and summaries\<close>

lemma check_check_execution_Inr:
  "check_check_execution c = Inr c' \<Longrightarrow> c' = c"
  by (auto simp: check_check_execution_def split: if_splits)

text \<open>A checked execution passed exactly when it started, ended by itself with status 0, and was
  neither killed nor cut off.\<close>

lemma outcome_PASSED:
  assumes "check_check_execution c = Inr c"
  shows "outcome c = PASSED \<longleftrightarrow> check_exit_code c = Some 0 \<and> process_started c \<and> \<not> output_limited c"
  using assms by (auto simp: outcome_def check_check_execution_def split: if_splits)

lemma all_pass_iff: "all_pass s \<longleftrightarrow> checks s \<noteq> [] \<and> (\<forall>c \<in> set (checks s). outcome c = PASSED)"
  by (simp add: all_pass_def list_all_iff)

section \<open>Classification\<close>

lemma classify_one_Inr:
  "classify_one B c = Inr k \<Longrightarrow>
     cc_check_id k = check_id c \<and> cc_command k = check_command c \<and>
     cc_current_outcome k = outcome c \<and> cc_exit_code k = check_exit_code c \<and> cc_signal k = check_signal c \<and>
     cc_baseline_outcome k = map_option outcome (B (check_id c)) \<and>
     (\<forall>old. B (check_id c) = Some old \<longrightarrow> check_command old = check_command c)"
  by (auto simp: classify_one_def Let_def split: if_splits option.splits)

lemma classify_one_regression:
  "classify_one B c = Inr k \<Longrightarrow>
     (cc_regression k \<longleftrightarrow> cc_transition k = PASS_TO_FAIL) \<and>
     (cc_regression k \<longleftrightarrow> (\<exists>old. B (check_id c) = Some old \<and> outcome old = PASSED) \<and> outcome c \<noteq> PASSED) \<and>
     (cc_transition k = NO_BASELINE \<longleftrightarrow> B (check_id c) = None)"
  by (auto simp: classify_one_def Let_def split: if_splits option.splits)

lemma classify_validations_Inr:
  assumes "classify_validations (Some b) cur = Inr ks"
  shows "\<not> has_infrastructure_failure b" and "comparable_sequences b cur"
    and "rmap (classify_one (map_of (rev (map (\<lambda>c. (check_id c, c)) (checks b))))) (checks cur) = Inr ks"
  using assms by (auto simp: classify_validations_def split: if_splits)

lemma classified_ids: "rmap (classify_one B) cs = Inr ks \<Longrightarrow> map cc_check_id ks = map check_id cs"
  by (induction cs arbitrary: ks) (auto simp: rbind_Inr_iff dest: classify_one_Inr)

section \<open>Mutation by a validation run\<close>

lemma all_disposition_valid:
  "\<forall>p \<in> set ps. valid_path p \<Longrightarrow> all_disposition pol d ps = Inr (\<forall>p \<in> set ps. disposition pol p = d)"
  by (induction ps) (auto simp: has_disposition_valid)

lemma allowed_change_wf:
  assumes "wf_change c" and "\<forall>p \<in> change_path_set c. valid_path p"
  shows "allowed_change pol c = Inr ps \<Longrightarrow> set ps = change_path_set c"
    and "(\<exists>ps. allowed_change pol c = Inr ps) \<longleftrightarrow> (\<forall>p \<in> change_path_set c. disposition pol p = DISCARD_ONLY)"
proof -
  obtain qs where qs: "change_paths c = Inr qs" "qs \<noteq> []" "set qs = change_path_set c"
    using change_paths_wf [OF assms(1)] unfolding change_path_set_def by metis
  have "all_disposition pol DISCARD_ONLY qs = Inr (\<forall>p \<in> change_path_set c. disposition pol p = DISCARD_ONLY)"
    using assms(2) qs(3) by (simp add: all_disposition_valid)
  then show "allowed_change pol c = Inr ps \<Longrightarrow> set ps = change_path_set c"
    "(\<exists>ps. allowed_change pol c = Inr ps) \<longleftrightarrow> (\<forall>p \<in> change_path_set c. disposition pol p = DISCARD_ONLY)"
    using qs by (auto simp: allowed_change_def split: if_splits)
qed

lemma verify_validation_mutation_Inr:
  assumes s: "wf_manifest s" and r: "wf_manifest r"
  shows "(\<exists>ps. verify_validation_mutation s r pol = Inr ps) \<longleftrightarrow>
      (\<forall>p. entry_at s p \<noteq> entry_at r p \<longrightarrow> disposition pol p = DISCARD_ONLY)"
    and "verify_validation_mutation s r pol = Inr ps \<Longrightarrow> set ps = {p. entry_at s p \<noteq> entry_at r p}"
proof -
  obtain ds where d: "diff_manifests s r = Inr ds" using diff_manifests_exact [OF s r] by blast
  note ex = diff_manifests_Inr [OF s r d]
  have wf: "wf_change x" "\<forall>p \<in> change_path_set x. valid_path p" if "x \<in> set ds" for x
    using ex that exact_delta_valid_paths [OF ex s r that] by (auto simp: exact_delta_def)
  have touched: "(\<exists>x \<in> set ds. p \<in> change_path_set x) \<longleftrightarrow> entry_at s p \<noteq> entry_at r p" for p
    using ex unfolding exact_delta_def by blast
  have all: "(\<exists>as. rmap (allowed_change pol) xs = Inr as) \<longleftrightarrow>
      (\<forall>x \<in> set xs. \<exists>a. allowed_change pol x = Inr a)" for xs
    by (induction xs) (auto simp: rbind_Inr_iff)
  have sets: "rmap (allowed_change pol) xs = Inr as \<Longrightarrow> set xs \<subseteq> set ds \<Longrightarrow>
      set (concat as) = (\<Union>x \<in> set xs. change_path_set x)" for xs as
  proof (induction xs arbitrary: as)
    case (Cons x xs)
    then obtain a as' where "allowed_change pol x = Inr a" "rmap (allowed_change pol) xs = Inr as'" "as = a # as'"
      by (auto simp: rbind_Inr_iff)
    with Cons.IH [of as'] Cons.prems(2) allowed_change_wf(1) [OF wf, of x pol a] show ?case by simp
  qed simp
  show "(\<exists>ps. verify_validation_mutation s r pol = Inr ps) \<longleftrightarrow>
      (\<forall>p. entry_at s p \<noteq> entry_at r p \<longrightarrow> disposition pol p = DISCARD_ONLY)"
    using all [of ds] allowed_change_wf(2) [OF wf, of _ pol] touched
    by (auto simp: verify_validation_mutation_def d rbind_Inr_iff) blast+
  show "set ps = {p. entry_at s p \<noteq> entry_at r p}" if v: "verify_validation_mutation s r pol = Inr ps"
  proof -
    obtain as where "rmap (allowed_change pol) ds = Inr as" "ps = sort (remdups (concat as))"
      using v by (auto simp: verify_validation_mutation_def d rbind_Inr_iff)
    with sets [OF this(1)] touched show ?thesis by auto
  qed
qed

end
