(* ===== verification/Declassify.thy ===== *)
theory Declassify
  imports Validation JsonRoundtrip
begin

text \<open>
  \<open>src/src/agent_loop/declassify.py\<close>: the forms under which a known secret is searched, the search
  in a raw log, and the evidence that is passed on instead of the log. The search is shown to find
  every form of every secret whatever the case of its letters and whatever white space was put
  between its bytes. \<open>_KnownSecretLedger\<close> of \<open>workflow.py\<close>, the history of the secrets, is here too.
\<close>

record known_secret =
  secret_id :: ustr
  secret_value :: bytes

definition check_known_secret :: "known_secret \<Rightarrow> exn + known_secret" where
  "check_known_secret s =
     (if secret_id s = [] \<or> secret_value s = []
      then Inl (ValueError (U ''known secrets need an identifier and non-empty bytes''))
      else Inr s)"

definition rstrip_padding :: "bytes \<Rightarrow> bytes" where
  "rstrip_padding s = rev (dropWhile (\<lambda>c. c = CHR ''='') (rev s))"

definition forbidden_forms :: "known_secret \<Rightarrow> bytes list" where
  "forbidden_forms s =
     (let v = secret_value s; std = b64encode v; url = urlsafe_b64encode v
      in sort_key (\<lambda>f. (length f, f)) (remdups
           [v, std, url, rstrip_padding std, rstrip_padding url, hex_bytes v, upper (hex_bytes v)]))"

definition form_in_log :: "bytes \<Rightarrow> bytes \<Rightarrow> bool" where
  "form_in_log raw form \<longleftrightarrow>
     contains form raw \<or> contains (lower form) (lower raw) \<or>
     contains (compact form) (compact raw) \<or> contains (lower (compact form)) (lower (compact raw))"

definition raw_log_contains_known_secret :: "bytes \<Rightarrow> known_secret list \<Rightarrow> bool" where
  "raw_log_contains_known_secret raw secrets \<longleftrightarrow>
     list_ex (\<lambda>s. list_ex (form_in_log raw) (forbidden_forms s)) secrets"

record check_evidence =
  ev_check_id :: ustr
  ev_exit_code :: "int option"
  ev_signal :: "int option"
  ev_baseline_outcome :: "ustr option"
  ev_current_outcome :: ustr
  ev_transition :: ustr
  ev_regression :: bool
  ev_evidence_complete :: bool

record validation_evidence =
  ve_schema_version :: int
  ve_subject_fingerprint :: ustr
  ve_approval_eligible :: bool
  ve_checks :: "check_evidence list"

definition VALIDATION_SCHEMA_VERSION :: int where "VALIDATION_SCHEMA_VERSION = 1"

definition evidence_of :: "classified_check \<Rightarrow> check_evidence" where
  "evidence_of c =
     \<lparr>ev_check_id = cc_check_id c, ev_exit_code = cc_exit_code c, ev_signal = cc_signal c,
      ev_baseline_outcome = map_option (U \<circ> outcome_value) (cc_baseline_outcome c),
      ev_current_outcome = U (outcome_value (cc_current_outcome c)),
      ev_transition = U (transition_value (cc_transition c)), ev_regression = cc_regression c,
      ev_evidence_complete = (cc_current_outcome c \<in> {PASSED, FAILED})\<rparr>"

text \<open>The scan of the log is computed and its result is dropped, as in the code.\<close>

definition declassify_validation ::
  "ustr \<Rightarrow> classified_check list \<Rightarrow> bytes \<Rightarrow> known_secret list \<Rightarrow> validation_evidence" where
  "declassify_validation fp cs raw_log secrets =
     (let contains_secret = raw_log_contains_known_secret raw_log secrets;
          evidence = map evidence_of cs
      in \<lparr>ve_schema_version = VALIDATION_SCHEMA_VERSION, ve_subject_fingerprint = fp,
          ve_approval_eligible = list_all ev_evidence_complete evidence, ve_checks = evidence\<rparr>)"

definition opt_int :: "int option \<Rightarrow> json" where
  "opt_int x = (case x of None \<Rightarrow> JNull | Some i \<Rightarrow> JInt i)"

definition opt_str :: "ustr option \<Rightarrow> json" where
  "opt_str x = (case x of None \<Rightarrow> JNull | Some s \<Rightarrow> JStr s)"

definition check_evidence_json :: "check_evidence \<Rightarrow> json" where
  "check_evidence_json c = JObj
     [(U ''check_id'', JStr (ev_check_id c)), (U ''exit_code'', opt_int (ev_exit_code c)),
      (U ''signal'', opt_int (ev_signal c)), (U ''baseline_outcome'', opt_str (ev_baseline_outcome c)),
      (U ''current_outcome'', JStr (ev_current_outcome c)), (U ''transition'', JStr (ev_transition c)),
      (U ''regression'', JBool (ev_regression c)), (U ''evidence_complete'', JBool (ev_evidence_complete c))]"

definition evidence_to_json_obj :: "validation_evidence \<Rightarrow> json" where
  "evidence_to_json_obj e = JObj
     [(U ''schema_version'', JInt (ve_schema_version e)),
      (U ''subject_fingerprint'', JStr (ve_subject_fingerprint e)),
      (U ''approval_eligible'', JBool (ve_approval_eligible e)),
      (U ''checks'', JArr (map check_evidence_json (ve_checks e)))]"

definition evidence_to_json_bytes :: "validation_evidence \<Rightarrow> bytes" where
  "evidence_to_json_bytes e = json_dumps (evidence_to_json_obj e) @ [CHR 0x0A]"

section \<open>The history of the secrets\<close>

definition MAX_KNOWN_SECRET_HISTORY :: int where "MAX_KNOWN_SECRET_HISTORY = 256"
definition MAX_KNOWN_SECRET_HISTORY_BYTES :: int where "MAX_KNOWN_SECRET_HISTORY_BYTES = 4 * 1024 * 1024"

record secret_ledger =
  ledger_values :: "known_secret list"
  ledger_keys :: "(ustr \<times> bytes) list"
  ledger_total_bytes :: int

definition empty_ledger :: secret_ledger where
  "empty_ledger = \<lparr>ledger_values = [], ledger_keys = [], ledger_total_bytes = 0\<rparr>"

definition secret_key :: "known_secret \<Rightarrow> ustr \<times> bytes" where
  "secret_key s = (secret_id s, secret_value s)"

fun ledger_additions :: "(ustr \<times> bytes) set \<Rightarrow> known_secret list \<Rightarrow> known_secret list" where
  "ledger_additions seen [] = []"
| "ledger_additions seen (v # vs) =
     (if secret_key v \<in> seen then ledger_additions seen vs
      else v # ledger_additions (insert (secret_key v) seen) vs)"

definition ledger_extend :: "known_secret list \<Rightarrow> secret_ledger \<Rightarrow> (exn + bool) \<times> secret_ledger" where
  "ledger_extend values l =
     (let additions = ledger_additions (set (ledger_keys l)) values;
          count = int (length (ledger_values l)) + int (length additions);
          total_bytes = ledger_total_bytes l + (\<Sum>v \<leftarrow> additions. int (length (secret_value v)))
      in if count > MAX_KNOWN_SECRET_HISTORY \<or> total_bytes > MAX_KNOWN_SECRET_HISTORY_BYTES
         then (Inl (fail CREDENTIAL_REFRESH_FAILURE
                 ''credential secret history exceeded its private in-memory bound''), l)
         else (Inr (additions \<noteq> []),
               \<lparr>ledger_values = ledger_values l @ additions,
                ledger_keys = ledger_keys l @ map secret_key additions,
                ledger_total_bytes = total_bytes\<rparr>))"

definition new_ledger :: "known_secret list \<Rightarrow> exn + secret_ledger" where
  "new_ledger initial =
     (case ledger_extend initial empty_ledger of (Inl e, l) \<Rightarrow> Inl e | (Inr b, l) \<Rightarrow> Inr l)"

section \<open>The search finds every disguise\<close>

lemma lower_byte_ws: "is_ws_byte (lower_byte c) \<longleftrightarrow> is_ws_byte c"
proof -
  have "ord (char_of (ord c + 32)) = ord c + 32" if "ord c \<le> 90" using that by simp
  then show ?thesis by (auto simp: is_ws_byte_def lower_byte_def simp del: of_char_of)
qed

lemma lower_compact: "lower (compact s) = compact (lower s)"
  by (induction s) (simp_all add: compact_filter lower_def lower_byte_ws)

text \<open>Two byte strings that differ only in the case of letters and in white space.\<close>

definition disguised :: "bytes \<Rightarrow> bytes \<Rightarrow> bool" where
  "disguised s t \<longleftrightarrow> lower (compact s) = lower (compact t)"

lemma form_in_log_iff: "form_in_log raw form \<longleftrightarrow> contains (lower (compact form)) (lower (compact raw))"
  using contains_lower [OF contains_compact, of form raw] contains_compact [of "lower form" "lower raw"]
    contains_lower [of "compact form" "compact raw"]
  unfolding form_in_log_def by (auto simp only: lower_compact)

lemma disguised_form_found:
  assumes "disguised raw (a @ form @ b)"
  shows "form_in_log raw form"
  unfolding form_in_log_iff contains_append
proof (intro exI)
  show "lower (compact raw) = lower (compact a) @ lower (compact form) @ lower (compact b)"
    using assms by (simp add: disguised_def compact_filter lower_def)
qed

lemma forbidden_forms_set:
  "set (forbidden_forms s) =
     {secret_value s, b64encode (secret_value s), urlsafe_b64encode (secret_value s),
      rstrip_padding (b64encode (secret_value s)), rstrip_padding (urlsafe_b64encode (secret_value s)),
      hex_bytes (secret_value s), upper (hex_bytes (secret_value s))}"
  unfolding forbidden_forms_def Let_def by (simp only: set_sort set_remdups list.set)

lemma raw_log_contains_iff:
  "raw_log_contains_known_secret raw ss \<longleftrightarrow> (\<exists>s \<in> set ss. \<exists>f \<in> set (forbidden_forms s). form_in_log raw f)"
  by (simp add: raw_log_contains_known_secret_def list_ex_iff)

section \<open>The ledger\<close>

definition ledger_inv :: "secret_ledger \<Rightarrow> bool" where
  "ledger_inv l \<longleftrightarrow>
     ledger_keys l = map secret_key (ledger_values l) \<and> distinct (ledger_keys l) \<and>
     ledger_total_bytes l = (\<Sum>v \<leftarrow> ledger_values l. int (length (secret_value v))) \<and>
     int (length (ledger_values l)) \<le> MAX_KNOWN_SECRET_HISTORY \<and>
     ledger_total_bytes l \<le> MAX_KNOWN_SECRET_HISTORY_BYTES"

lemma empty_ledger_inv: "ledger_inv empty_ledger"
  by (simp add: ledger_inv_def empty_ledger_def MAX_KNOWN_SECRET_HISTORY_def MAX_KNOWN_SECRET_HISTORY_BYTES_def)

lemma ledger_additions_spec:
  "distinct (map secret_key (ledger_additions seen vs)) \<and>
   secret_key ` set (ledger_additions seen vs) \<inter> seen = {} \<and>
   seen \<union> secret_key ` set (ledger_additions seen vs) = seen \<union> secret_key ` set vs"
proof (induction seen vs rule: ledger_additions.induct)
  case (2 seen v vs)
  show ?case
  proof (cases "secret_key v \<in> seen")
    case True
    with 2(1) show ?thesis by auto
  next
    case False
    with 2(2) [OF False] show ?thesis by (simp only: ledger_additions.simps if_False) auto
  qed
qed simp

lemma ledger_extend_inv:
  assumes "ledger_inv l"
  shows "ledger_inv (snd (ledger_extend vs l))"
proof -
  note A = ledger_additions_spec [of "set (ledger_keys l)" vs]
  show ?thesis
    using assms A by (auto simp: ledger_extend_def Let_def ledger_inv_def)
qed

lemma ledger_extend_grows:
  assumes "ledger_inv l" and "ledger_extend vs l = (r, l')"
  shows "prefix (ledger_values l) (ledger_values l')"
    and "r = Inr b \<Longrightarrow> secret_key ` set vs \<subseteq> set (ledger_keys l')"
    and "r = Inl e \<Longrightarrow> l' = l"
  using assms ledger_additions_spec [of "set (ledger_keys l)" vs]
  by (auto simp: ledger_extend_def Let_def split: if_splits)

end
