(* ===== verification/Schemas.thy ===== *)
theory Schemas
  imports Declassify
begin

text \<open>
  \<open>src/src/agent_loop/schemas.py\<close>: the parser of the critic's envelope and the semantic
  validation of a review, an independent second check beside the JSON schema that the critic is
  given. A Python object read from JSON is a \<open>json\<close> value; its keys are strings by type, so the
  last check of \<open>_closed_mapping\<close> has no case here. After \<open>invalid UTF-8 JSON:\<close> the code puts the
  message of the library's exception; the model has a fixed text there. Nesting deeper than the
  interpreter's recursion limit (an \<open>INVALID_STRUCTURED_OUTPUT\<close> too) is not modelled.
\<close>

definition DEFAULT_MAX_AGENT_OUTPUT_BYTES :: int where "DEFAULT_MAX_AGENT_OUTPUT_BYTES = 16 * 1024 * 1024"
definition DEFAULT_MAX_FIELD_BYTES :: int where "DEFAULT_MAX_FIELD_BYTES = 32 * 1024"
definition DEFAULT_MAX_FINDINGS :: int where "DEFAULT_MAX_FINDINGS = 128"
definition CRITIC_SCHEMA_VERSION :: int where "CRITIC_SCHEMA_VERSION = 1"

definition SEVERITY_VALUES :: "string list" where
  "SEVERITY_VALUES = [''critical'', ''high'', ''medium'', ''low'']"

definition CATEGORY_VALUES :: "string list" where
  "CATEGORY_VALUES =
     [''correctness'', ''security'', ''reliability'', ''performance'', ''maintainability'',
      ''testing'', ''spec_compliance'']"

datatype verdict = LGTM | REVISE | BLOCKED

fun verdict_value :: "verdict \<Rightarrow> string" where
  "verdict_value LGTM = ''LGTM''"
| "verdict_value REVISE = ''REVISE''"
| "verdict_value BLOCKED = ''BLOCKED''"

definition all_verdicts :: "verdict list" where
  "all_verdicts = [LGTM, REVISE, BLOCKED]"

record finding =
  f_id :: ustr
  f_severity :: ustr
  f_category :: ustr
  f_file :: "ustr option"
  f_symbol :: "ustr option"
  f_line_start :: "int option"
  f_line_end :: "int option"
  f_problem :: ustr
  f_evidence :: ustr
  f_required_fix :: ustr

record critic_review =
  r_schema_version :: int
  r_verdict :: verdict
  r_summary :: ustr
  r_blocked_reason :: "ustr option"
  r_blocking_findings :: "finding list"
  r_non_blocking_findings :: "finding list"

record approval_context =
  ap_all_validations_pass :: bool
  ap_semantic_deltas_visible :: bool
  ap_evidence_approval_eligible :: bool

section \<open>The JSON schema given to the critic\<close>

definition str_json :: "string \<Rightarrow> json" where
  "str_json s = JStr (U s)"

definition nonempty_field :: json where
  "nonempty_field = JObj
     [(U ''type'', str_json ''string''), (U ''minLength'', JInt 1), (U ''maxLength'', JInt DEFAULT_MAX_FIELD_BYTES)]"

definition nullable_field :: json where
  "nullable_field = JObj
     [(U ''type'', JArr [str_json ''string'', str_json ''null'']), (U ''maxLength'', JInt DEFAULT_MAX_FIELD_BYTES)]"

definition nullable_line :: json where
  "nullable_line = JObj
     [(U ''type'', JArr [str_json ''integer'', str_json ''null'']), (U ''minimum'', JInt 1)]"

definition FINDING_KEYS :: "string list" where
  "FINDING_KEYS =
     [''id'', ''severity'', ''category'', ''file'', ''symbol'', ''line_start'', ''line_end'',
      ''problem'', ''evidence'', ''required_fix'']"

definition REVIEW_KEYS :: "string list" where
  "REVIEW_KEYS =
     [''schema_version'', ''verdict'', ''summary'', ''blocked_reason'', ''blocking_findings'',
      ''non_blocking_findings'']"

definition finding_schema :: json where
  "finding_schema = JObj
     [(U ''type'', str_json ''object''), (U ''additionalProperties'', JBool False),
      (U ''required'', JArr (map str_json
         [''id'', ''severity'', ''category'', ''file'', ''symbol'', ''line_start'', ''line_end'',
          ''problem'', ''evidence'', ''required_fix''])),
      (U ''properties'', JObj
         [(U ''id'', JObj [(U ''type'', str_json ''string''),
             (U ''pattern'', str_json ''^[A-Za-z0-9][A-Za-z0-9_.-]{0,63}$'')]),
          (U ''severity'', JObj [(U ''enum'', JArr (map str_json SEVERITY_VALUES))]),
          (U ''category'', JObj [(U ''enum'', JArr (map str_json CATEGORY_VALUES))]),
          (U ''file'', nullable_field), (U ''symbol'', nullable_field),
          (U ''line_start'', nullable_line), (U ''line_end'', nullable_line),
          (U ''problem'', nonempty_field), (U ''evidence'', nonempty_field),
          (U ''required_fix'', nonempty_field)])]"

definition findings_array :: "(string \<times> json) list \<Rightarrow> json" where
  "findings_array extra = JObj
     ([(U ''type'', str_json ''array''), (U ''maxItems'', JInt DEFAULT_MAX_FINDINGS),
       (U ''items'', JObj [(U ''$ref'', str_json ''#/definitions/finding'')])] @
      map (\<lambda>(k, v). (U k, v)) extra)"

definition no_blocking_array :: json where
  "no_blocking_array = JObj
     [(U ''type'', str_json ''array''), (U ''maxItems'', JInt 0),
      (U ''items'', JObj [(U ''$ref'', str_json ''#/definitions/finding'')])]"

definition review_shape :: "verdict \<Rightarrow> json" where
  "review_shape v =
     (let (blocked_reason, blocking_findings) =
        (case v of
           REVISE \<Rightarrow> (JObj [(U ''type'', str_json ''null'')], findings_array [(''minItems'', JInt 1)])
         | BLOCKED \<Rightarrow>
             (JObj [(U ''type'', str_json ''string''), (U ''minLength'', JInt 1),
                (U ''maxLength'', JInt DEFAULT_MAX_FIELD_BYTES), (U ''pattern'', str_json (CHR 0x5C # ''S''))],
              no_blocking_array)
         | LGTM \<Rightarrow> (JObj [(U ''type'', str_json ''null'')], no_blocking_array))
      in JObj
        [(U ''type'', str_json ''object''), (U ''additionalProperties'', JBool False),
         (U ''required'', JArr (map str_json
            [''schema_version'', ''verdict'', ''summary'', ''blocked_reason'', ''blocking_findings'',
             ''non_blocking_findings''])),
         (U ''properties'', JObj
            [(U ''schema_version'', JObj [(U ''const'', JInt CRITIC_SCHEMA_VERSION)]),
             (U ''verdict'', JObj [(U ''const'', str_json (verdict_value v))]),
             (U ''summary'', nonempty_field),
             (U ''blocked_reason'', blocked_reason),
             (U ''blocking_findings'', blocking_findings),
             (U ''non_blocking_findings'', findings_array [])])])"

definition critic_schema_document :: json where
  "critic_schema_document = JObj
     [(U ''$schema'', str_json ''http://json-schema.org/draft-07/schema#''),
      (U ''$id'', str_json ''https://agent-loop.invalid/schemas/critic-v1.schema.json''),
      (U ''title'', str_json ''agent-loop critic output v1''),
      (U ''type'', str_json ''object''), (U ''additionalProperties'', JBool False),
      (U ''required'', JArr [str_json ''review'']),
      (U ''properties'', JObj [(U ''review'', JObj [(U ''anyOf'', JArr (map review_shape all_verdicts))])]),
      (U ''definitions'', JObj [(U ''finding'', finding_schema)])]"

definition critic_schema_json :: bytes where
  "critic_schema_json = json_dumps critic_schema_document"

section \<open>Reading the envelope\<close>

definition invalid :: "ustr \<Rightarrow> exn" where
  "invalid detail = AgentLoopError INVALID_STRUCTURED_OUTPUT detail"

definition envelope_error :: "jerr \<Rightarrow> exn" where
  "envelope_error e =
     (case e of
        JDuplicate k \<Rightarrow> invalid (U ''duplicate JSON property: '' @ repr_str k)
      | JConstant c \<Rightarrow> invalid (U (''non-finite JSON number: '' @ c))
      | JSyntax \<Rightarrow> invalid (U ''invalid UTF-8 JSON: not a JSON text'')
      | JDigits \<Rightarrow> invalid (U ''invalid UTF-8 JSON: integer of more than 4300 digits'')
      | JFuel \<Rightarrow> invalid (U ''invalid UTF-8 JSON: not a JSON text''))"

definition parse_json_object :: "int \<Rightarrow> bytes \<Rightarrow> exn + (ustr \<times> json) list" where
  "parse_json_object max_bytes data =
     (if int (length data) > max_bytes
      then Inl (fail AGENT_OUTPUT_LIMIT ''JSON envelope exceeded its byte limit'')
      else case utf8_decode data of
        None \<Rightarrow> Inl (invalid (U ''invalid UTF-8 JSON: not UTF-8''))
      | Some text \<Rightarrow>
          (case json_loads text of
             Inl e \<Rightarrow> Inl (envelope_error e)
           | Inr (JObj kvs) \<Rightarrow> Inr kvs
           | Inr _ \<Rightarrow> Inl (invalid (U ''top-level JSON value must be an object''))))"

definition extract_structured_output ::
  "bytes \<Rightarrow> exn + (ustr \<times> json) list \<times> (ustr \<times> json) list" where
  "extract_structured_output envelope_data =
     rbind (parse_json_object DEFAULT_MAX_AGENT_OUTPUT_BYTES envelope_data) (\<lambda>envelope.
     if map_of envelope (U ''is_error'') = Some (JBool True)
       \<or> map_of envelope (U ''type'') = Some (JStr (U ''error''))
     then Inl (invalid (U ''Claude returned an error envelope''))
     else case map_of envelope (U ''structured_output'') of
       None \<Rightarrow> Inl (invalid (U ''Claude envelope has no top-level structured_output''))
     | Some (JObj kvs) \<Rightarrow>
         if set (map fst kvs) \<noteq> {U ''review''}
         then Inl (invalid (U ''structured_output must contain exactly the review property''))
         else (case map_of kvs (U ''review'') of
                 Some (JObj review) \<Rightarrow> Inr (envelope, review)
               | _ \<Rightarrow> Inl (invalid (U ''structured_output.review must be an object'')))
     | Some _ \<Rightarrow> Inl (invalid (U ''structured_output must be an object'')))"

section \<open>Semantic validation\<close>

definition closed_mapping :: "string list \<Rightarrow> ustr \<Rightarrow> json \<Rightarrow> exn + (ustr \<times> json) list" where
  "closed_mapping required loc value =
     (case value of
        JObj kvs \<Rightarrow>
          (let keys = map fst kvs;
               missing = filter (\<lambda>k. k \<notin> set keys) (map U required);
               unknown = filter (\<lambda>k. k \<notin> set (map U required)) keys
           in if missing \<noteq> []
              then Inl (invalid (loc @ U '' is missing properties: '' @ repr_list (sort missing)))
              else if unknown \<noteq> []
              then Inl (invalid (loc @ U '' has unknown properties: '' @ repr_list (sort (remdups unknown))))
              else Inr kvs)
      | _ \<Rightarrow> Inl (invalid (loc @ U '' must be an object'')))"

definition string_field :: "ustr \<Rightarrow> bool \<Rightarrow> bool \<Rightarrow> json \<Rightarrow> exn + ustr option" where
  "string_field loc nullable allow_empty value =
     (if value = JNull \<and> nullable then Inr None
      else case value of
        JStr s \<Rightarrow>
          if \<not> allow_empty \<and> strip s = [] then Inl (invalid (loc @ U '' cannot be empty''))
          else (case utf8_encode s of
                  None \<Rightarrow> Inl UnicodeEncodeError
                | Some b \<Rightarrow>
                    if int (length b) > DEFAULT_MAX_FIELD_BYTES
                    then Inl (invalid (loc @ U '' exceeds its UTF-8 byte limit''))
                    else Inr (Some s))
      | _ \<Rightarrow> Inl (invalid (loc @ U '' must be a string'' @ (if nullable then U '' or null'' else []))))"

text \<open>A field that is not nullable, with the code's \<open>assert ... is not None\<close>.\<close>

definition required_string :: "ustr \<Rightarrow> json \<Rightarrow> exn + ustr" where
  "required_string loc value =
     rbind (string_field loc False False value) (\<lambda>x.
     case x of None \<Rightarrow> Inl (AssertionError []) | Some s \<Rightarrow> Inr s)"

definition nullable_positive_int :: "ustr \<Rightarrow> json \<Rightarrow> exn + int option" where
  "nullable_positive_int loc value =
     (case value of
        JNull \<Rightarrow> Inr None
      | JInt i \<Rightarrow> if i \<le> 0 then Inl (invalid (loc @ U '' must be a positive integer or null'')) else Inr (Some i)
      | _ \<Rightarrow> Inl (invalid (loc @ U '' must be a positive integer or null'')))"

text \<open>\<open>^[A-Za-z0-9][A-Za-z0-9_.-]{0,63}$\<close>, matched against the whole string.\<close>

definition is_alnum :: "nat \<Rightarrow> bool" where
  "is_alnum c \<longleftrightarrow> (48 \<le> c \<and> c \<le> 57) \<or> (65 \<le> c \<and> c \<le> 90) \<or> (97 \<le> c \<and> c \<le> 122)"

definition finding_id_ok :: "ustr \<Rightarrow> bool" where
  "finding_id_ok s =
     (case s of
        [] \<Rightarrow> False
      | c # r \<Rightarrow> is_alnum c \<and> length r \<le> 63 \<and>
          list_all (\<lambda>x. is_alnum x \<or> x = 95 \<or> x = 46 \<or> x = 45) r)"

text \<open>\<open>raw[key]\<close> after \<open>_closed_mapping\<close> has made sure of the key.\<close>

definition field :: "(ustr \<times> json) list \<Rightarrow> string \<Rightarrow> json" where
  "field kvs k = the (map_of kvs (U k))"

definition check_range :: "ustr \<Rightarrow> int option \<Rightarrow> int option \<Rightarrow> exn + unit" where
  "check_range loc line_start line_end =
     (if (line_start = None) \<noteq> (line_end = None)
      then Inl (invalid (loc @ U '' line range must be wholly null or wholly specified''))
      else case (line_start, line_end) of
        (Some s, Some e) \<Rightarrow>
          if e < s then Inl (invalid (loc @ U '' line range is reversed'')) else Inr ()
      | _ \<Rightarrow> Inr ())"

definition finding_of :: "ustr \<Rightarrow> json \<Rightarrow> exn + finding" where
  "finding_of loc value =
     rbind (closed_mapping FINDING_KEYS loc value) (\<lambda>raw.
     rbind (required_string (loc @ U ''.id'') (field raw ''id'')) (\<lambda>fid.
     if \<not> finding_id_ok fid then Inl (invalid (loc @ U ''.id has an invalid format''))
     else
     rbind (required_string (loc @ U ''.severity'') (field raw ''severity'')) (\<lambda>severity.
     rbind (required_string (loc @ U ''.category'') (field raw ''category'')) (\<lambda>category.
     if severity \<notin> set (map U SEVERITY_VALUES)
     then Inl (invalid (loc @ U ''.severity is not in the closed enum''))
     else if category \<notin> set (map U CATEGORY_VALUES)
     then Inl (invalid (loc @ U ''.category is not in the closed enum''))
     else
     rbind (string_field (loc @ U ''.file'') True False (field raw ''file'')) (\<lambda>file.
     rbind (string_field (loc @ U ''.symbol'') True False (field raw ''symbol'')) (\<lambda>symb.
     rbind (nullable_positive_int (loc @ U ''.line_start'') (field raw ''line_start'')) (\<lambda>line_start.
     rbind (nullable_positive_int (loc @ U ''.line_end'') (field raw ''line_end'')) (\<lambda>line_end.
     rbind (check_range loc line_start line_end) (\<lambda>_.
     rbind (required_string (loc @ U ''.problem'') (field raw ''problem'')) (\<lambda>problem.
     rbind (required_string (loc @ U ''.evidence'') (field raw ''evidence'')) (\<lambda>evidence.
     rbind (required_string (loc @ U ''.required_fix'') (field raw ''required_fix'')) (\<lambda>required_fix.
     Inr \<lparr>f_id = fid, f_severity = severity, f_category = category, f_file = file, f_symbol = symb,
          f_line_start = line_start, f_line_end = line_end, f_problem = problem,
          f_evidence = evidence, f_required_fix = required_fix\<rparr>))))))))))))"

definition indexed :: "ustr \<Rightarrow> nat \<Rightarrow> ustr" where
  "indexed loc i = loc @ U (''['' @ dec_nat i @ '']'')"

definition findings_of :: "ustr \<Rightarrow> json \<Rightarrow> exn + finding list" where
  "findings_of loc value =
     (case value of
        JArr vs \<Rightarrow>
          if int (length vs) > DEFAULT_MAX_FINDINGS then Inl (invalid (loc @ U '' has too many findings''))
          else
            rbind (rmap (\<lambda>(i, v). finding_of (indexed loc i) v) (enumerate 0 vs)) (\<lambda>fs.
            if \<not> distinct (map f_id fs) then Inl (invalid (loc @ U '' contains duplicate finding IDs''))
            else Inr fs)
      | _ \<Rightarrow> Inl (invalid (loc @ U '' must be an array'')))"

text \<open>\<open>Verdict(raw)\<close>; None is ValueError.\<close>

definition verdict_of :: "ustr \<Rightarrow> verdict option" where
  "verdict_of s = find (\<lambda>v. U (verdict_value v) = s) all_verdicts"

text \<open>The part of \<open>validate_critic_review\<close> that ties the verdict to the other fields.\<close>

definition check_verdict ::
  "approval_context option \<Rightarrow> verdict \<Rightarrow> ustr option \<Rightarrow> finding list \<Rightarrow> exn + unit" where
  "check_verdict approval v blocked_reason blocking =
     (case v of
        LGTM \<Rightarrow>
          if blocking \<noteq> [] \<or> blocked_reason \<noteq> None
          then Inl (invalid (U ''LGTM requires no blocking findings and a null blocked_reason''))
          else (case approval of
                  None \<Rightarrow> Inr ()
                | Some a \<Rightarrow>
                    if \<not> (ap_all_validations_pass a \<and> ap_semantic_deltas_visible a \<and> ap_evidence_approval_eligible a)
                    then Inl (fail CRITIC_LGTM_WITH_FAILED_VALIDATION
                                ''LGTM contradicted locally proven approval predicates'')
                    else Inr ())
      | REVISE \<Rightarrow>
          if blocking = [] then Inl (invalid (U ''REVISE requires at least one blocking finding''))
          else if blocked_reason \<noteq> None then Inl (invalid (U ''REVISE requires a null blocked_reason''))
          else Inr ()
      | BLOCKED \<Rightarrow>
          if blocked_reason = None then Inl (invalid (U ''BLOCKED requires blocked_reason''))
          else if blocking \<noteq> [] then Inl (invalid (U ''BLOCKED cannot contain blocking findings''))
          else Inr ())"

definition validate_critic_review :: "approval_context option \<Rightarrow> json \<Rightarrow> exn + critic_review" where
  "validate_critic_review approval value =
     rbind (closed_mapping REVIEW_KEYS (U ''structured_output'') value) (\<lambda>raw.
     case field raw ''schema_version'' of
       JInt version \<Rightarrow>
         if version \<noteq> CRITIC_SCHEMA_VERSION then Inl (invalid (U ''unsupported critic schema_version''))
         else
         rbind (string_field (U ''structured_output.verdict'') False False (field raw ''verdict'')) (\<lambda>verdict_raw.
         case verdict_raw of None \<Rightarrow> Inl (invalid (U ''verdict cannot be null'')) | Some vr \<Rightarrow>
         case verdict_of vr of None \<Rightarrow> Inl (invalid (U ''verdict is not in the closed enum'')) | Some v \<Rightarrow>
         rbind (string_field (U ''structured_output.summary'') False False (field raw ''summary'')) (\<lambda>summary.
         rbind (string_field (U ''structured_output.blocked_reason'') True False (field raw ''blocked_reason'')) (\<lambda>blocked_reason.
         rbind (findings_of (U ''structured_output.blocking_findings'') (field raw ''blocking_findings'')) (\<lambda>blocking.
         rbind (findings_of (U ''structured_output.non_blocking_findings'') (field raw ''non_blocking_findings'')) (\<lambda>non_blocking.
         if \<not> distinct (map f_id (blocking @ non_blocking))
         then Inl (invalid (U ''finding IDs must be unique across both arrays''))
         else
           rbind (check_verdict approval v blocked_reason blocking) (\<lambda>_.
           case summary of
             None \<Rightarrow> Inl (AssertionError [])
           | Some s \<Rightarrow>
               Inr \<lparr>r_schema_version = version, r_verdict = v, r_summary = s,
                    r_blocked_reason = blocked_reason, r_blocking_findings = blocking,
                    r_non_blocking_findings = non_blocking\<rparr>))))))
     | _ \<Rightarrow> Inl (invalid (U ''unsupported critic schema_version'')))"

definition parse_critic_envelope ::
  "approval_context option \<Rightarrow> bytes \<Rightarrow> exn + (ustr \<times> json) list \<times> critic_review" where
  "parse_critic_envelope approval data =
     rbind (extract_structured_output data) (\<lambda>(envelope, value).
     rbind (validate_critic_review approval (JObj value)) (\<lambda>review. Inr (envelope, review)))"

section \<open>The accepted reviews\<close>

definition wf_text :: "ustr \<Rightarrow> bool" where
  "wf_text s \<longleftrightarrow> strip s \<noteq> [] \<and>
     (case utf8_encode s of None \<Rightarrow> False | Some b \<Rightarrow> int (length b) \<le> DEFAULT_MAX_FIELD_BYTES)"

definition wf_range :: "int option \<Rightarrow> int option \<Rightarrow> bool" where
  "wf_range s e \<longleftrightarrow>
     (case (s, e) of (None, None) \<Rightarrow> True | (Some i, Some j) \<Rightarrow> 0 < i \<and> i \<le> j | _ \<Rightarrow> False)"

definition wf_finding :: "finding \<Rightarrow> bool" where
  "wf_finding f \<longleftrightarrow> finding_id_ok (f_id f) \<and> wf_text (f_id f) \<and>
     f_severity f \<in> U ` set SEVERITY_VALUES \<and> wf_text (f_severity f) \<and>
     f_category f \<in> U ` set CATEGORY_VALUES \<and> wf_text (f_category f) \<and>
     pred_option wf_text (f_file f) \<and> pred_option wf_text (f_symbol f) \<and>
     wf_range (f_line_start f) (f_line_end f) \<and>
     wf_text (f_problem f) \<and> wf_text (f_evidence f) \<and> wf_text (f_required_fix f)"

definition wf_findings :: "finding list \<Rightarrow> bool" where
  "wf_findings fs \<longleftrightarrow> list_all wf_finding fs \<and> int (length fs) \<le> DEFAULT_MAX_FINDINGS"

definition wf_review :: "critic_review \<Rightarrow> bool" where
  "wf_review r \<longleftrightarrow> r_schema_version r = CRITIC_SCHEMA_VERSION \<and> wf_text (r_summary r) \<and>
     pred_option wf_text (r_blocked_reason r) \<and>
     wf_findings (r_blocking_findings r) \<and> wf_findings (r_non_blocking_findings r) \<and>
     distinct (map f_id (r_blocking_findings r @ r_non_blocking_findings r)) \<and>
     (case r_verdict r of
        LGTM \<Rightarrow> r_blocking_findings r = [] \<and> r_blocked_reason r = None
      | REVISE \<Rightarrow> r_blocking_findings r \<noteq> [] \<and> r_blocked_reason r = None
      | BLOCKED \<Rightarrow> r_blocking_findings r = [] \<and> r_blocked_reason r \<noteq> None)"

definition approval_granted :: "approval_context \<Rightarrow> bool" where
  "approval_granted a \<longleftrightarrow>
     ap_all_validations_pass a \<and> ap_semantic_deltas_visible a \<and> ap_evidence_approval_eligible a"

lemma string_field_Inr:
  "string_field loc n False v = Inr x \<longleftrightarrow>
     v = opt_str x \<and> pred_option wf_text x \<and> (x = None \<longrightarrow> n)"
  by (cases v; cases x) (auto simp: string_field_def wf_text_def opt_str_def not_less split: option.splits)

lemma required_string_Inr: "required_string loc v = Inr s \<longleftrightarrow> v = JStr s \<and> wf_text s"
  by (auto simp: required_string_def rbind_Inr_iff string_field_Inr opt_str_def split: option.splits)

lemma nullable_positive_int_Inr:
  "nullable_positive_int loc v = Inr x \<longleftrightarrow> v = opt_int x \<and> pred_option (\<lambda>i. 0 < i) x"
  by (cases v; cases x) (auto simp: nullable_positive_int_def opt_int_def)

lemma check_range_Inr:
  "pred_option (\<lambda>i. 0 < i) s \<Longrightarrow> pred_option (\<lambda>i. 0 < i) e \<Longrightarrow>
   check_range loc s e = Inr () \<longleftrightarrow> wf_range s e"
  by (cases s; cases e) (auto simp: check_range_def wf_range_def)

lemma wf_range_positive:
  "wf_range s e \<Longrightarrow> pred_option (\<lambda>i. 0 < i) s \<and> pred_option (\<lambda>i. 0 < i) e"
  by (cases s; cases e) (auto simp: wf_range_def)

definition has_keys :: "string list \<Rightarrow> json \<Rightarrow> (ustr \<times> json) list \<Rightarrow> bool" where
  "has_keys ks v kvs \<longleftrightarrow> v = JObj kvs \<and> set (map fst kvs) = U ` set ks"

lemma closed_mapping_Inr: "closed_mapping ks loc v = Inr kvs \<longleftrightarrow> has_keys ks v kvs"
  by (cases v) (auto simp: closed_mapping_def has_keys_def filter_empty_conv Let_def)

text \<open>The JSON values that stand for a finding.\<close>

definition is_finding :: "finding \<Rightarrow> json \<Rightarrow> bool" where
  "is_finding f v \<longleftrightarrow> (\<exists>kvs. has_keys FINDING_KEYS v kvs \<and>
     field kvs ''id'' = JStr (f_id f) \<and> field kvs ''severity'' = JStr (f_severity f) \<and>
     field kvs ''category'' = JStr (f_category f) \<and> field kvs ''file'' = opt_str (f_file f) \<and>
     field kvs ''symbol'' = opt_str (f_symbol f) \<and> field kvs ''line_start'' = opt_int (f_line_start f) \<and>
     field kvs ''line_end'' = opt_int (f_line_end f) \<and> field kvs ''problem'' = JStr (f_problem f) \<and>
     field kvs ''evidence'' = JStr (f_evidence f) \<and> field kvs ''required_fix'' = JStr (f_required_fix f))"

lemma if_Inl_Inr: "(if c then Inl e else m) = Inr x \<longleftrightarrow> \<not> c \<and> m = Inr x"
  by simp

lemma case_int_Inr:
  "(case j of JInt i \<Rightarrow> f i | _ \<Rightarrow> Inl e) = Inr x \<longleftrightarrow> (\<exists>i. j = JInt i \<and> f i = Inr x)"
  by (cases j) simp_all

lemma case_some_Inr:
  "(case y of None \<Rightarrow> Inl e | Some s \<Rightarrow> f s) = Inr x \<longleftrightarrow> (\<exists>s. y = Some s \<and> f s = Inr x)"
  by (cases y) simp_all

lemmas review_simps = case_int_Inr case_some_Inr rbind_Inr_iff if_Inl_Inr closed_mapping_Inr required_string_Inr string_field_Inr
  nullable_positive_int_Inr

lemma field_ok:
  "wf_text s \<Longrightarrow> required_string loc (JStr s) = Inr s"
  "wf_text s \<Longrightarrow> string_field loc n False (JStr s) = Inr (Some s)"
  "pred_option wf_text x \<Longrightarrow> string_field loc True False (opt_str x) = Inr x"
  "pred_option (\<lambda>i. 0 < i) y \<Longrightarrow> nullable_positive_int loc (opt_int y) = Inr y"
  "has_keys ks v kvs \<Longrightarrow> closed_mapping ks loc v = Inr kvs"
  by (simp_all add: review_simps) (simp add: opt_str_def)

lemma finding_of_Inr: "finding_of loc v = Inr f \<longleftrightarrow> wf_finding f \<and> is_finding f v"
proof
  assume "finding_of loc v = Inr f"
  then show "wf_finding f \<and> is_finding f v"
    by (auto simp: finding_of_def review_simps wf_finding_def is_finding_def check_range_Inr)
next
  assume *: "wf_finding f \<and> is_finding f v"
  then have r: "pred_option (\<lambda>i. 0 < i) (f_line_start f)" "pred_option (\<lambda>i. 0 < i) (f_line_end f)"
    using wf_range_positive by (auto simp: wf_finding_def)
  from * obtain kvs where k: "has_keys FINDING_KEYS v kvs"
    and F: "field kvs ''id'' = JStr (f_id f)" "field kvs ''severity'' = JStr (f_severity f)"
    "field kvs ''category'' = JStr (f_category f)" "field kvs ''file'' = opt_str (f_file f)"
    "field kvs ''symbol'' = opt_str (f_symbol f)" "field kvs ''line_start'' = opt_int (f_line_start f)"
    "field kvs ''line_end'' = opt_int (f_line_end f)" "field kvs ''problem'' = JStr (f_problem f)"
    "field kvs ''evidence'' = JStr (f_evidence f)" "field kvs ''required_fix'' = JStr (f_required_fix f)"
    by (auto simp: is_finding_def)
  have "check_range loc (f_line_start f) (f_line_end f) = Inr ()"
    using * r by (simp add: check_range_Inr wf_finding_def)
  with * r k F show "finding_of loc v = Inr f"
    by (simp add: finding_of_def field_ok wf_finding_def)
qed

lemma rmap_enumerate:
  "(\<And>i v y. h i v = Inr y \<longleftrightarrow> P y v) \<Longrightarrow>
   rmap (\<lambda>(i, v). h i v) (enumerate n vs) = Inr fs \<longleftrightarrow> list_all2 P fs vs"
proof (induction vs arbitrary: n fs)
  case (Cons v vs)
  then show ?case by (cases fs) (auto simp: rbind_Inr_iff)
qed auto

lemma findings_of_Inr:
  "findings_of loc v = Inr fs \<longleftrightarrow> wf_findings fs \<and> distinct (map f_id fs) \<and>
     (\<exists>vs. v = JArr vs \<and> list_all2 is_finding fs vs)"
proof -
  have "rmap (\<lambda>(i, v). finding_of (indexed loc i) v) (enumerate 0 vs) = Inr gs \<longleftrightarrow>
      list_all wf_finding gs \<and> list_all2 is_finding gs vs" for gs vs
  proof -
    have "list_all2 (\<lambda>f v. wf_finding f \<and> is_finding f v) gs vs \<longleftrightarrow>
        list_all wf_finding gs \<and> list_all2 is_finding gs vs"
      by (induction gs arbitrary: vs) (auto simp: list_all2_Cons1)
    then show ?thesis by (simp add: rmap_enumerate [OF finding_of_Inr])
  qed
  then show ?thesis
    by (cases v) (auto simp: findings_of_def review_simps wf_findings_def not_less
        dest: list_all2_lengthD)
qed

lemma verdict_of_Some: "verdict_of s = Some v \<longleftrightarrow> s = U (verdict_value v)"
  by (cases v) (auto simp: verdict_of_def all_verdicts_def)

lemma check_verdict_Inr:
  "check_verdict ap v br fs = Inr () \<longleftrightarrow>
     (case v of
        LGTM \<Rightarrow> fs = [] \<and> br = None \<and> pred_option approval_granted ap
      | REVISE \<Rightarrow> fs \<noteq> [] \<and> br = None
      | BLOCKED \<Rightarrow> fs = [] \<and> br \<noteq> None)"
  by (auto simp: check_verdict_def approval_granted_def split: verdict.splits option.splits)

definition is_review :: "critic_review \<Rightarrow> json \<Rightarrow> bool" where
  "is_review r v \<longleftrightarrow> (\<exists>kvs bs ns. has_keys REVIEW_KEYS v kvs \<and>
     field kvs ''schema_version'' = JInt (r_schema_version r) \<and>
     field kvs ''verdict'' = JStr (U (verdict_value (r_verdict r))) \<and>
     field kvs ''summary'' = JStr (r_summary r) \<and>
     field kvs ''blocked_reason'' = opt_str (r_blocked_reason r) \<and>
     field kvs ''blocking_findings'' = JArr bs \<and> list_all2 is_finding (r_blocking_findings r) bs \<and>
     field kvs ''non_blocking_findings'' = JArr ns \<and> list_all2 is_finding (r_non_blocking_findings r) ns)"

lemma wf_text_ascii:
  "list_all (\<lambda>c. ord c < 128 \<and> \<not> is_space (ord c)) s \<Longrightarrow> s \<noteq> [] \<Longrightarrow> length s \<le> 32768 \<Longrightarrow> wf_text (U s)"
proof -
  assume *: "list_all (\<lambda>c. ord c < 128 \<and> \<not> is_space (ord c)) s" "s \<noteq> []" "length s \<le> 32768"
  then have "utf8_encode (U s) = Some s" by (intro utf8_encode_ascii) (simp add: list_all_iff)
  moreover from * have "dropWhile is_space (U s) = U s" by (cases s) (simp_all add: U_Cons)
  with * have "strip (U s) \<noteq> []" by (cases s rule: rev_cases) (auto simp: strip_def U_append U_Cons)
  ultimately show ?thesis using * by (simp add: wf_text_def DEFAULT_MAX_FIELD_BYTES_def)
qed

lemma wf_text_literals: "wf_text (U (verdict_value v))"
  by (rule wf_text_ascii) (cases v; simp add: is_space_def)+

lemma opt_str_eq [simp]: "JStr s = opt_str x \<longleftrightarrow> x = Some s" "opt_str x = JStr s \<longleftrightarrow> x = Some s"
  by (auto simp: opt_str_def split: option.splits)

theorem validate_critic_review_Inr:
  "validate_critic_review ap v = Inr r \<longleftrightarrow> wf_review r \<and> is_review r v \<and>
     (r_verdict r = LGTM \<longrightarrow> pred_option approval_granted ap)"
proof
  assume "validate_critic_review ap v = Inr r"
  then obtain kvs version vr vd summary br bf nf where
    k: "has_keys REVIEW_KEYS v kvs" and
    F: "field kvs ''schema_version'' = JInt version" "version = CRITIC_SCHEMA_VERSION"
      "field kvs ''verdict'' = JStr vr" "verdict_of vr = Some vd"
      "string_field (U ''structured_output.summary'') False False (field kvs ''summary'') = Inr (Some summary)"
      "string_field (U ''structured_output.blocked_reason'') True False (field kvs ''blocked_reason'') = Inr br"
      "findings_of (U ''structured_output.blocking_findings'') (field kvs ''blocking_findings'') = Inr bf"
      "findings_of (U ''structured_output.non_blocking_findings'') (field kvs ''non_blocking_findings'') = Inr nf"
      "distinct (map f_id (bf @ nf))" "check_verdict ap vd br bf = Inr ()"
    and r: "r = \<lparr>r_schema_version = version, r_verdict = vd, r_summary = summary, r_blocked_reason = br,
       r_blocking_findings = bf, r_non_blocking_findings = nf\<rparr>"
    unfolding validate_critic_review_def rbind_Inr_iff if_Inl_Inr case_int_Inr case_some_Inr
      closed_mapping_Inr string_field_Inr [of "U ''structured_output.verdict''"] not_not
    by (elim exE conjE, intro that) (auto simp: opt_str_def)
  have bn: "wf_findings bf" "wf_findings nf" "\<exists>vs. field kvs ''blocking_findings'' = JArr vs \<and> list_all2 is_finding bf vs"
    "\<exists>vs. field kvs ''non_blocking_findings'' = JArr vs \<and> list_all2 is_finding nf vs"
    using F(7,8) by (auto simp: findings_of_Inr)
  have v: "case vd of LGTM \<Rightarrow> bf = [] \<and> br = None \<and> pred_option approval_granted ap
      | REVISE \<Rightarrow> bf \<noteq> [] \<and> br = None | BLOCKED \<Rightarrow> bf = [] \<and> br \<noteq> None"
    using F(10) by (simp add: check_verdict_Inr)
  have "wf_review r"
    using F(2,5,6,9) bn(1,2) v by (auto simp: r wf_review_def string_field_Inr split: verdict.splits)
  moreover have "is_review r v"
    using k F(1,3,4,5,6) bn(3,4) by (auto simp: r is_review_def string_field_Inr verdict_of_Some)
  moreover have "r_verdict r = LGTM \<longrightarrow> pred_option approval_granted ap"
    using v by (simp add: r split: verdict.splits)
  ultimately show "wf_review r \<and> is_review r v \<and> (r_verdict r = LGTM \<longrightarrow> pred_option approval_granted ap)"
    by blast
next
  assume "wf_review r \<and> is_review r v \<and> (r_verdict r = LGTM \<longrightarrow> pred_option approval_granted ap)"
  then have *: "wf_review r" "r_verdict r = LGTM \<longrightarrow> pred_option approval_granted ap"
    and "is_review r v" by auto
  then obtain kvs bs ns where k: "has_keys REVIEW_KEYS v kvs"
    and F: "field kvs ''schema_version'' = JInt (r_schema_version r)"
    "field kvs ''verdict'' = JStr (U (verdict_value (r_verdict r)))" "field kvs ''summary'' = JStr (r_summary r)"
    "field kvs ''blocked_reason'' = opt_str (r_blocked_reason r)"
    "field kvs ''blocking_findings'' = JArr bs" "field kvs ''non_blocking_findings'' = JArr ns"
    and "list_all2 is_finding (r_blocking_findings r) bs" "list_all2 is_finding (r_non_blocking_findings r) ns"
    by (auto simp: is_review_def)
  with *(1) have "findings_of loc (JArr bs) = Inr (r_blocking_findings r)"
    "findings_of loc (JArr ns) = Inr (r_non_blocking_findings r)" for loc
    by (auto simp: findings_of_Inr wf_review_def)
  moreover have "check_verdict ap (r_verdict r) (r_blocked_reason r) (r_blocking_findings r) = Inr ()"
    using * by (auto simp: check_verdict_Inr wf_review_def split: verdict.splits)
  ultimately show "validate_critic_review ap v = Inr r"
    using *(1) F
    by (simp add: validate_critic_review_def field_ok(2-5) [OF _] field_ok(5) [OF k] verdict_of_Some [THEN iffD2]
        wf_text_literals wf_review_def)
qed

section \<open>Objects written with sorted keys\<close>

lemma field_sorted:
  assumes "distinct (map fst kvs)"
  obtains kvs' where "sort_keys (JObj kvs) = JObj kvs'" and "set (map fst kvs') = set (map fst kvs)"
    and "\<And>k v. map_of kvs (U k) = Some v \<Longrightarrow> field kvs' k = sort_keys v"
proof -
  obtain kvs' where "sort_keys (JObj kvs) = JObj kvs'" and "\<forall>k. map_of kvs' k = map_option sort_keys (map_of kvs k)"
    and "set (map fst kvs') = set (map fst kvs)"
    using sort_keys_JObj [OF assms] by blast
  then show thesis using that by (simp add: field_def)
qed

lemma digits_of_length: "n < 10 ^ k \<Longrightarrow> 0 < k \<Longrightarrow> length (digits_of 10 n) \<le> k"
proof (induction k arbitrary: n)
  case (Suc k)
  show ?case
  proof (cases "n < 10")
    case True
    then show ?thesis by (simp add: digits_of.simps [of 10 n])
  next
    case False
    with Suc.prems have "n div 10 < 10 ^ k" "0 < k"
      by (auto simp: div_less_iff_less_mult mult.commute intro: gr0I)
    with Suc.IH False show ?thesis by (simp add: digits_of.simps [of 10 n])
  qed
qed simp

lemma wf_int_small: "\<bar>i\<bar> < 10 ^ 12 \<Longrightarrow> wf_int i"
proof -
  assume "\<bar>i\<bar> < 10 ^ 12"
  then have "nat \<bar>i\<bar> < 10 ^ 12" by (simp add: nat_less_iff)
  then have "length (digits_of 10 (nat \<bar>i\<bar>)) \<le> 12" by (rule digits_of_length) simp
  then show ?thesis by (simp add: wf_int_def dec_nat_def)
qed

end
