(* ===== verification/Progress.thy ===== *)
theory Progress
  imports Declassify "HOL-Library.Option_ord" "HOL-Library.Multiset"
begin

text \<open>
  \<open>src/src/agent_loop/progress.py\<close>: the normalised state of a round without success, its
  fingerprint, and the detector that compares adjacent rounds. \<open>sorted\<close> on the dataclasses
  (\<open>order=True\<close>) compares their fields as tuples; a comparison that gets to \<open>None\<close> against a
  string or an integer is a TypeError. Which pairs Python's sort compares is not modelled: a list
  with some incomparable pair is an error here; findings with distinct ids have none.
\<close>

record validation_progress =
  vp_check_id :: ustr
  vp_outcome :: ustr
  vp_transition :: ustr
  vp_regression :: bool
  vp_evidence_complete :: bool

record finding_progress =
  fp_finding_id :: ustr
  fp_severity :: ustr
  fp_category :: ustr
  fp_file :: "ustr option"
  fp_line_start :: "int option"
  fp_line_end :: "int option"
  fp_problem :: ustr
  fp_evidence :: ustr
  fp_required_fix :: ustr

record progress_state =
  ps_subject_fingerprint :: ustr
  ps_validations :: "validation_progress list"
  ps_verdict :: ustr
  ps_blocking_findings :: "finding_progress list"
  ps_blocked_reason :: "ustr option"

definition vp_key :: "validation_progress \<Rightarrow> ustr \<times> ustr \<times> ustr \<times> bool \<times> bool" where
  "vp_key v = (vp_check_id v, vp_outcome v, vp_transition v, vp_regression v, vp_evidence_complete v)"

definition fp_key ::
  "finding_progress \<Rightarrow> ustr \<times> ustr \<times> ustr \<times> ustr option \<times> int option \<times> int option \<times> ustr \<times> ustr \<times> ustr" where
  "fp_key f = (fp_finding_id f, fp_severity f, fp_category f, fp_file f, fp_line_start f, fp_line_end f,
     fp_problem f, fp_evidence f, fp_required_fix f)"

definition fp_comparable :: "finding_progress \<Rightarrow> finding_progress \<Rightarrow> bool" where
  "fp_comparable f g \<longleftrightarrow>
     (if fp_finding_id f \<noteq> fp_finding_id g \<or> fp_severity f \<noteq> fp_severity g \<or> fp_category f \<noteq> fp_category g
      then True
      else if fp_file f \<noteq> fp_file g then fp_file f \<noteq> None \<and> fp_file g \<noteq> None
      else if fp_line_start f \<noteq> fp_line_start g then fp_line_start f \<noteq> None \<and> fp_line_start g \<noteq> None
      else if fp_line_end f \<noteq> fp_line_end g then fp_line_end f \<noteq> None \<and> fp_line_end g \<noteq> None
      else True)"

definition sorted_findings :: "finding_progress list \<Rightarrow> exn + finding_progress list" where
  "sorted_findings fs =
     (if list_all (\<lambda>f. list_all (fp_comparable f) fs) fs then Inr (sort_key fp_key fs)
      else Inl (TypeError (U ''unorderable finding fields'')))"

definition finding_progress_json :: "finding_progress \<Rightarrow> json" where
  "finding_progress_json f = JObj
     [(U ''category'', JStr (fp_category f)), (U ''evidence'', JStr (fp_evidence f)),
      (U ''file'', opt_str (fp_file f)), (U ''id'', JStr (fp_finding_id f)),
      (U ''line_end'', opt_int (fp_line_end f)), (U ''line_start'', opt_int (fp_line_start f)),
      (U ''problem'', JStr (fp_problem f)), (U ''required_fix'', JStr (fp_required_fix f)),
      (U ''severity'', JStr (fp_severity f))]"

definition validation_progress_json :: "validation_progress \<Rightarrow> json" where
  "validation_progress_json v = JObj
     [(U ''check_id'', JStr (vp_check_id v)), (U ''evidence_complete'', JBool (vp_evidence_complete v)),
      (U ''outcome'', JStr (vp_outcome v)), (U ''regression'', JBool (vp_regression v)),
      (U ''transition'', JStr (vp_transition v))]"

definition progress_payload :: "progress_state \<Rightarrow> finding_progress list \<Rightarrow> json" where
  "progress_payload p fs = JObj
     [(U ''blocked_reason'', opt_str (ps_blocked_reason p)),
      (U ''blocking_findings'', JArr (map finding_progress_json fs)),
      (U ''subject_fingerprint'', JStr (ps_subject_fingerprint p)),
      (U ''validations'', JArr (map validation_progress_json (sort_key vp_key (ps_validations p)))),
      (U ''verdict'', JStr (ps_verdict p))]"

definition progress_canonical_bytes :: "progress_state \<Rightarrow> exn + bytes" where
  "progress_canonical_bytes p =
     rbind (sorted_findings (ps_blocking_findings p)) (\<lambda>fs. Inr (json_dumps (progress_payload p fs)))"

definition progress_fingerprint :: "progress_state \<Rightarrow> exn + ustr" where
  "progress_fingerprint p =
     rbind (progress_canonical_bytes p) (\<lambda>b.
     Inr (U (sha256_hex (''agent-loop-progress-v1'' @ [CHR 0x00] @ b))))"

type_synonym stall_detector = "ustr option"

definition observe :: "progress_state \<Rightarrow> stall_detector \<Rightarrow> (exn + bool) \<times> stall_detector" where
  "observe p previous =
     (case progress_fingerprint p of
        Inl e \<Rightarrow> (Inl e, previous)
      | Inr current \<Rightarrow> (Inr (previous = Some current), Some current))"

section \<open>The order of the fields\<close>

lemma vp_key_inject: "vp_key (v :: validation_progress) = vp_key w \<longleftrightarrow> v = w"
  by (cases v; cases w) (auto simp: vp_key_def)

lemma fp_key_inject: "fp_key (f :: finding_progress) = fp_key g \<longleftrightarrow> f = g"
  by (cases f; cases g) (auto simp: fp_key_def)

text \<open>Sorting forgets exactly the order of the list.\<close>

lemma sort_key_eq_iff_mset:
  assumes "\<And>x y. k x = k y \<longleftrightarrow> x = y"
  shows "sort_key k xs = sort_key k ys \<longleftrightarrow> mset xs = mset ys"
proof
  assume "sort_key k xs = sort_key k ys"
  then show "mset xs = mset ys" by (metis mset_sort)
next
  assume e: "mset xs = mset ys"
  have m: "map k (sort_key k zs) = sort (map k zs)" for zs
    by (rule properties_for_sort [symmetric]) simp_all
  have "mset (map k xs) = mset (map k ys)" using e by simp
  then have "sort (map k xs) = sort (map k ys)" by (metis properties_for_sort mset_sort sorted_sort)
  then have "map k (sort_key k xs) = map k (sort_key k ys)" by (simp add: m)
  then show "sort_key k xs = sort_key k ys"
    using assms by (simp add: inj_map_eq_map inj_def)
qed

section \<open>The canonical bytes determine the normalised state\<close>

definition wf_opt_str :: "ustr option \<Rightarrow> bool" where
  "wf_opt_str x \<longleftrightarrow> (\<forall>s. x = Some s \<longrightarrow> wf_str s)"

definition wf_finding_progress :: "finding_progress \<Rightarrow> bool" where
  "wf_finding_progress f \<longleftrightarrow> wf_str (fp_finding_id f) \<and> wf_str (fp_severity f) \<and> wf_str (fp_category f) \<and>
     wf_opt_str (fp_file f) \<and> (\<forall>i. fp_line_start f = Some i \<longrightarrow> wf_int i) \<and>
     (\<forall>i. fp_line_end f = Some i \<longrightarrow> wf_int i) \<and>
     wf_str (fp_problem f) \<and> wf_str (fp_evidence f) \<and> wf_str (fp_required_fix f)"

definition wf_validation_progress :: "validation_progress \<Rightarrow> bool" where
  "wf_validation_progress v \<longleftrightarrow> wf_str (vp_check_id v) \<and> wf_str (vp_outcome v) \<and> wf_str (vp_transition v)"

text \<open>The strings of a state are encodable: no lone surrogates.\<close>

definition wf_progress :: "progress_state \<Rightarrow> bool" where
  "wf_progress p \<longleftrightarrow> wf_str (ps_subject_fingerprint p) \<and> wf_str (ps_verdict p) \<and>
     wf_opt_str (ps_blocked_reason p) \<and>
     list_all wf_validation_progress (ps_validations p) \<and>
     list_all wf_finding_progress (ps_blocking_findings p) \<and>
     distinct (map fp_finding_id (ps_blocking_findings p))"

lemma opt_json_simps [simp]:
  "sort_keys (opt_str x) = opt_str x" "sort_keys (opt_int i) = opt_int i"
  "opt_str x = opt_str y \<longleftrightarrow> x = y" "opt_int i = opt_int j \<longleftrightarrow> i = j"
  "wf_opt_str x \<Longrightarrow> wf_json (opt_str x)" "(\<And>n. i = Some n \<Longrightarrow> wf_int n) \<Longrightarrow> wf_json (opt_int i)"
  by (auto simp: opt_str_def opt_int_def wf_opt_str_def split: option.splits)

lemma finding_json_inject:
  assumes "sort_keys (finding_progress_json f) = sort_keys (finding_progress_json g)"
  shows "f = g"
proof -
  have d: "distinct (map fst [(U ''category'', JStr (fp_category f)), (U ''evidence'', JStr (fp_evidence f)),
      (U ''file'', opt_str (fp_file f)), (U ''id'', JStr (fp_finding_id f)),
      (U ''line_end'', opt_int (fp_line_end f)), (U ''line_start'', opt_int (fp_line_start f)),
      (U ''problem'', JStr (fp_problem f)), (U ''required_fix'', JStr (fp_required_fix f)),
      (U ''severity'', JStr (fp_severity f))])" for f by simp
  note k = sort_keys_JObj_eq [OF d d assms [unfolded finding_progress_json_def]]
  show ?thesis
    using k [of "U ''category''"] k [of "U ''evidence''"] k [of "U ''file''"] k [of "U ''id''"]
      k [of "U ''line_end''"] k [of "U ''line_start''"] k [of "U ''problem''"] k [of "U ''required_fix''"]
      k [of "U ''severity''"]
    by (cases f; cases g) simp
qed

lemma validation_json_inject:
  assumes "sort_keys (validation_progress_json v) = sort_keys (validation_progress_json w)"
  shows "v = w"
proof -
  have d: "distinct (map fst [(U ''check_id'', JStr (vp_check_id v)), (U ''evidence_complete'', JBool (vp_evidence_complete v)),
      (U ''outcome'', JStr (vp_outcome v)), (U ''regression'', JBool (vp_regression v)),
      (U ''transition'', JStr (vp_transition v))])" for v by simp
  note k = sort_keys_JObj_eq [OF d d assms [unfolded validation_progress_json_def]]
  show ?thesis
    using k [of "U ''check_id''"] k [of "U ''evidence_complete''"] k [of "U ''outcome''"]
      k [of "U ''regression''"] k [of "U ''transition''"]
    by (cases v; cases w) simp
qed

lemma payload_inject:
  assumes "sort_keys (progress_payload p fs) = sort_keys (progress_payload q gs)"
  shows "ps_blocked_reason p = ps_blocked_reason q" and "fs = gs"
    and "ps_subject_fingerprint p = ps_subject_fingerprint q"
    and "sort_key vp_key (ps_validations p) = sort_key vp_key (ps_validations q)" and "ps_verdict p = ps_verdict q"
proof -
  have d: "distinct (map fst [(U ''blocked_reason'', opt_str (ps_blocked_reason p)),
      (U ''blocking_findings'', JArr (map finding_progress_json fs)),
      (U ''subject_fingerprint'', JStr (ps_subject_fingerprint p)),
      (U ''validations'', JArr (map validation_progress_json (sort_key vp_key (ps_validations p)))),
      (U ''verdict'', JStr (ps_verdict p))])" for p fs by simp
  note k = sort_keys_JObj_eq [OF d d assms [unfolded progress_payload_def]]
  show "ps_blocked_reason p = ps_blocked_reason q" using k [of "U ''blocked_reason''"] by simp
  show "ps_subject_fingerprint p = ps_subject_fingerprint q" using k [of "U ''subject_fingerprint''"] by simp
  show "ps_verdict p = ps_verdict q" using k [of "U ''verdict''"] by simp
  have inj: "map (sort_keys \<circ> h) xs = map (sort_keys \<circ> h) ys \<Longrightarrow> (\<And>x y. sort_keys (h x) = sort_keys (h y) \<Longrightarrow> x = y) \<Longrightarrow> xs = ys"
    for h :: "'a \<Rightarrow> json" and xs ys
    by (rule map_injective [of "sort_keys \<circ> h"]) (auto simp: inj_def)
  show "fs = gs"
    using k [of "U ''blocking_findings''"] by (intro inj [of finding_progress_json]) (auto dest: finding_json_inject)
  show "sort_key vp_key (ps_validations p) = sort_key vp_key (ps_validations q)"
    using k [of "U ''validations''"] by (intro inj [of validation_progress_json]) (auto dest: validation_json_inject)
qed

lemma payload_wf:
  assumes "wf_progress p" and "sorted_findings (ps_blocking_findings p) = Inr fs"
  shows "wf_json (progress_payload p fs)"
proof -
  have fs: "list_all wf_finding_progress fs"
    using assms by (auto simp: sorted_findings_def wf_progress_def list_all_iff split: if_splits)
  have f: "wf_json (finding_progress_json f)" if "wf_finding_progress f" for f
    using that by (simp add: finding_progress_json_def wf_finding_progress_def wf_str_U)
  have v: "wf_json (validation_progress_json v)" if "wf_validation_progress v" for v
    using that by (simp add: validation_progress_json_def wf_validation_progress_def wf_str_U)
  show ?thesis
    using assms(1) fs f v by (simp add: progress_payload_def wf_progress_def list_all_iff wf_str_U)
qed

end
