(* ===== verification/RunnerData.thy ===== *)
theory RunnerData
  imports Prompts Progress
begin

text \<open>
  The data of \<open>src/src/agent_loop/runner.py\<close>: the requests and answers of the author, validation
  and critic boundaries, the settings and the result of a run, the documents made of them, and the
  scans for known secrets over decoded values.

  \<open>pyobj\<close> is a decoded Python value as the scan of a tree meets it: strings, bytes, dicts as the
  list of their items, tuples and lists, and the values the scan passes over.
\<close>

datatype pyobj =
  ONone
| OBool bool
| OInt int
| OFloat time
| OStr ustr
| OBytes bytes
| OSeq "pyobj list"
| OMap "(pyobj \<times> pyobj) list"
| OOther

text \<open>A decoded JSON document as such a value.\<close>

fun obj_of_json :: "json \<Rightarrow> pyobj" where
  "obj_of_json JNull = ONone"
| "obj_of_json (JBool b) = OBool b"
| "obj_of_json (JInt i) = OInt i"
| "obj_of_json (JFloat t) = OOther"
| "obj_of_json (JStr s) = OStr s"
| "obj_of_json (JArr vs) = OSeq (map obj_of_json vs)"
| "obj_of_json (JObj kvs) = OMap (map (\<lambda>(k, v). (OStr k, obj_of_json v)) kvs)"

definition obj_opt :: "('a \<Rightarrow> pyobj) \<Rightarrow> 'a option \<Rightarrow> pyobj" where
  "obj_opt f x = (case x of None \<Rightarrow> ONone | Some y \<Rightarrow> f y)"

section \<open>Requests, answers, settings and results\<close>

record author_request =
  ar_round_number :: int
  ar_subject :: subject_manifest
  ar_prompt :: ustr
  ar_thread_id :: "ustr option"
  ar_deadline :: time

record author_turn =
  at_candidate :: subject_manifest
  at_thread_id :: ustr
  at_final_message :: ustr
  at_events :: "pyobj list"
  at_usage :: "pyobj option"
  at_observed_model :: "ustr option"
  at_observed_effort :: "ustr option"

record validation_request =
  vq_subject :: subject_manifest
  vq_baseline :: "validation_summary option"
  vq_deadline :: time

record validation_turn =
  vt_summary :: validation_summary
  vt_result_manifest :: subject_manifest
  vt_raw_log :: bytes

definition without_validation_raw :: "validation_turn \<Rightarrow> validation_turn" where
  "without_validation_raw t = t\<lparr>vt_raw_log := []\<rparr>"

record critic_request =
  cq_round_number :: int
  cq_bundle :: review_bundle
  cq_approval :: approval_context
  cq_deadline :: time

record critic_turn =
  ct_review :: critic_review
  ct_completed_at :: time
  ct_envelope :: pyobj
  ct_total_cost_usd :: "time option"
  ct_observed_model :: "ustr option"
  ct_observed_effort :: "ustr option"

record loop_settings =
  ls_max_rounds :: int
  ls_max_runtime_seconds :: time
  ls_protected_patterns :: "ustr list"
  ls_opaque_patterns :: "ustr list"
  ls_context_paths :: "bytes list"
  ls_requested_author_model :: "ustr option"
  ls_requested_author_effort :: "ustr option"
  ls_requested_critic_model :: "ustr option"
  ls_requested_critic_effort :: "ustr option"
  ls_max_raw_log_bytes :: int
  ls_limits :: limits

definition default_settings :: loop_settings where
  "default_settings =
     \<lparr>ls_max_rounds = 3, ls_max_runtime_seconds = 45 * 60, ls_protected_patterns = [],
      ls_opaque_patterns = [], ls_context_paths = [], ls_requested_author_model = None,
      ls_requested_author_effort = None, ls_requested_critic_model = None,
      ls_requested_critic_effort = None, ls_max_raw_log_bytes = 32 * 1024 * 1024,
      ls_limits = default_limits\<rparr>"

text \<open>\<open>LoopSettings.__post_init__\<close>; the \<open>isinstance\<close> test of the limits is their type here.\<close>

definition check_settings :: "loop_settings \<Rightarrow> exn + loop_settings" where
  "check_settings st =
     (if ls_max_rounds st < 1 \<or> ls_max_runtime_seconds st \<le> 0 \<or> ls_max_raw_log_bytes st \<le> 0
      then Inl (ValueError (U ''round and runtime limits must be positive''))
      else Inr st)"

record loop_result =
  lr_exit_code :: exit_code
  lr_stop_reason :: stop_reason
  lr_rounds_completed :: int
  lr_subject :: subject_manifest
  lr_thread_id :: "ustr option"
  lr_detail :: ustr

section \<open>Documents\<close>

definition obj_dict :: "(string \<times> pyobj) list \<Rightarrow> pyobj" where
  "obj_dict kvs = OMap (map (\<lambda>(k, v). (OStr (U k), v)) kvs)"

definition check_document :: "check_execution \<Rightarrow> pyobj" where
  "check_document c = obj_dict
     [(''check_id'', OStr (check_id c)), (''command'', OStr (check_command c)),
      (''started_at'', OFloat (started_at c)), (''completed_at'', OFloat (completed_at c)),
      (''exit_code'', obj_opt OInt (check_exit_code c)), (''signal'', obj_opt OInt (check_signal c)),
      (''timed_out'', OBool (timed_out c)),
      (''infrastructure_failure'', OBool (infrastructure_failure c)),
      (''process_started'', OBool (process_started c)), (''output_limited'', OBool (output_limited c)),
      (''outcome'', OStr (U (outcome_value (outcome c))))]"

text \<open>What two validation runs are compared by: everything but the times.\<close>

record check_signature =
  cs_check_id :: ustr
  cs_command :: ustr
  cs_exit_code :: "int option"
  cs_signal :: "int option"
  cs_timed_out :: bool
  cs_infrastructure_failure :: bool
  cs_process_started :: bool
  cs_output_limited :: bool
  cs_outcome :: string

definition validation_behavior_signature :: "validation_turn \<Rightarrow> check_signature list \<times> bytes" where
  "validation_behavior_signature t =
     (map (\<lambda>c. \<lparr>cs_check_id = check_id c, cs_command = check_command c,
        cs_exit_code = check_exit_code c, cs_signal = check_signal c, cs_timed_out = timed_out c,
        cs_infrastructure_failure = infrastructure_failure c, cs_process_started = process_started c,
        cs_output_limited = output_limited c, cs_outcome = outcome_value (outcome c)\<rparr>)
        (checks (vt_summary t)), vt_raw_log t)"

definition require_opaque_validation_independence :: "validation_turn \<Rightarrow> validation_turn \<Rightarrow> exn + unit" where
  "require_opaque_validation_independence authoritative counterfactual =
     (if validation_behavior_signature authoritative \<noteq> validation_behavior_signature counterfactual
      then Inl (fail REVIEW_CONTENT_WITHHELD
             ''predeclared opaque changes altered configured validation behavior'')
      else Inr ())"

definition without_opaque_entries :: "subject_manifest \<Rightarrow> path_policy \<Rightarrow> limits \<Rightarrow> exn + subject_manifest" where
  "without_opaque_entries subject pol l =
     rbind (rfilter (\<lambda>e. rbind (classify pol (entry_path e)) (\<lambda>d. Inr (d \<noteq> OPAQUE_NONSEMANTIC)))
              (entries subject)) (build_manifest l)"

text \<open>The base entries at the changed paths are put back, or the paths removed; the dict of the
  entries by path is the list of its values in insertion order.\<close>

definition put_entry :: "manifest_entry \<Rightarrow> manifest_entry list \<Rightarrow> manifest_entry list" where
  "put_entry e es =
     (if entry_path e \<in> set (map entry_path es)
      then map (\<lambda>x. if entry_path x = entry_path e then e else x) es
      else es @ [e])"

fun restore_paths :: "(bytes \<Rightarrow> manifest_entry option) \<Rightarrow> bytes list \<Rightarrow> manifest_entry list \<Rightarrow> manifest_entry list" where
  "restore_paths base [] es = es"
| "restore_paths base (p # ps) es =
     restore_paths base ps
       (case base p of Some e \<Rightarrow> put_entry e es | None \<Rightarrow> filter (\<lambda>x. entry_path x \<noteq> p) es)"

definition restore_opaque_base_entries ::
  "subject_manifest \<Rightarrow> subject_manifest \<Rightarrow> manifest_change list \<Rightarrow> limits \<Rightarrow> exn + subject_manifest" where
  "restore_opaque_base_entries base subject changes l =
     rbind (rmap change_paths changes) (\<lambda>pss.
     build_manifest l (restore_paths (entry_at base) (remdups (concat pss)) (entries subject)))"

definition finding_document :: "finding \<Rightarrow> json" where
  "finding_document f = JObj
     [(U ''id'', JStr (f_id f)), (U ''severity'', JStr (f_severity f)),
      (U ''category'', JStr (f_category f)), (U ''file'', opt_str (f_file f)),
      (U ''symbol'', opt_str (f_symbol f)), (U ''line_start'', opt_int (f_line_start f)),
      (U ''line_end'', opt_int (f_line_end f)), (U ''problem'', JStr (f_problem f)),
      (U ''evidence'', JStr (f_evidence f)), (U ''required_fix'', JStr (f_required_fix f))]"

definition review_document :: "critic_review \<Rightarrow> json" where
  "review_document r = JObj
     [(U ''schema_version'', JInt (r_schema_version r)),
      (U ''verdict'', jstr (verdict_value (r_verdict r))),
      (U ''summary'', JStr (r_summary r)),
      (U ''blocked_reason'', opt_str (r_blocked_reason r)),
      (U ''blocking_findings'', JArr (map finding_document (r_blocking_findings r))),
      (U ''non_blocking_findings'', JArr (map finding_document (r_non_blocking_findings r)))]"

definition settings_document :: "loop_settings \<Rightarrow> bool \<Rightarrow> pyobj" where
  "settings_document st retain_operator_strings = (let keep = retain_operator_strings in obj_dict
     [(''max_rounds'', OInt (ls_max_rounds st)),
      (''max_runtime_seconds'', OFloat (ls_max_runtime_seconds st)),
      (''protected_patterns'', OSeq (if keep then map OStr (ls_protected_patterns st) else [])),
      (''opaque_patterns'', OSeq (if keep then map OStr (ls_opaque_patterns st) else [])),
      (''requested_author_model'', if keep then obj_opt OStr (ls_requested_author_model st) else ONone),
      (''requested_author_effort'', if keep then obj_opt OStr (ls_requested_author_effort st) else ONone),
      (''requested_critic_model'', if keep then obj_opt OStr (ls_requested_critic_model st) else ONone),
      (''requested_critic_effort'', if keep then obj_opt OStr (ls_requested_critic_effort st) else ONone),
      (''max_raw_log_bytes'', OInt (ls_max_raw_log_bytes st)),
      (''limits'', obj_dict (map (\<lambda>(k, v). (k, OInt v)) (limit_fields (ls_limits st))))])"

section \<open>Scans for known secrets\<close>

text \<open>The loop over the stack of values still to visit; its top is the head of the list. The
  children of a value are pushed in order, so the last one is visited next.\<close>

function scan_stack :: "known_secret list \<Rightarrow> int \<Rightarrow> pyobj list \<Rightarrow> exn + bool" where
  "scan_stack secrets visited [] = Inr False"
| "scan_stack secrets visited (cur # stack) =
     (if visited + 1 > 1000000
      then Inl (fail AGENT_OUTPUT_LIMIT ''decoded model output has too many values'')
      else case cur of
        OStr s \<Rightarrow>
          (case utf8_encode s of
             None \<Rightarrow> Inr True
           | Some b \<Rightarrow> if raw_log_contains_known_secret b secrets then Inr True
                       else scan_stack secrets (visited + 1) stack)
      | OBytes b \<Rightarrow> if raw_log_contains_known_secret b secrets then Inr True
                    else scan_stack secrets (visited + 1) stack
      | OMap kvs \<Rightarrow> scan_stack secrets (visited + 1) (rev (map snd kvs) @ rev (map fst kvs) @ stack)
      | OSeq vs \<Rightarrow> scan_stack secrets (visited + 1) (rev vs @ stack)
      | _ \<Rightarrow> scan_stack secrets (visited + 1) stack)"
  by pat_completeness auto
termination by (relation "measure (\<lambda>(secrets, visited, stack). nat (1000000 - visited))") auto

definition json_tree_contains_known_secret :: "pyobj \<Rightarrow> known_secret list \<Rightarrow> exn + bool" where
  "json_tree_contains_known_secret value secrets = scan_stack secrets 0 [value]"

fun manifest_entries_contain ::
  "(ustr \<Rightarrow> exn + bytes) \<Rightarrow> known_secret list \<Rightarrow> manifest_entry list \<Rightarrow> exn + bool" where
  "manifest_entries_contain read secrets [] = Inr False"
| "manifest_entries_contain read secrets (e # es) =
     (if raw_log_contains_known_secret (entry_path e) secrets then Inr True
      else case symlink_target e of
        Some t \<Rightarrow> if raw_log_contains_known_secret t secrets then Inr True
                  else manifest_entries_contain read secrets es
      | None \<Rightarrow>
          (case blob_sha256 e of
             Some h \<Rightarrow> rbind (read h) (\<lambda>data.
               if raw_log_contains_known_secret data secrets then Inr True
               else manifest_entries_contain read secrets es)
           | None \<Rightarrow> manifest_entries_contain read secrets es))"

definition manifest_contains_known_secret ::
  "(ustr \<Rightarrow> exn + bytes) \<Rightarrow> subject_manifest \<Rightarrow> known_secret list \<Rightarrow> exn + bool" where
  "manifest_contains_known_secret read m secrets =
     rbind (manifest_to_json_bytes m) (\<lambda>encoded.
     if raw_log_contains_known_secret encoded secrets then Inr True
     else manifest_entries_contain read secrets (entries m))"

definition manifest_metadata_contains_known_secret :: "subject_manifest \<Rightarrow> known_secret list \<Rightarrow> exn + bool" where
  "manifest_metadata_contains_known_secret m secrets =
     rbind (manifest_to_json_bytes m) (\<lambda>encoded. Inr
       (raw_log_contains_known_secret encoded secrets \<or>
        list_ex (\<lambda>e. raw_log_contains_known_secret (entry_path e) secrets \<or>
          (case symlink_target e of None \<Rightarrow> False | Some t \<Rightarrow> raw_log_contains_known_secret t secrets))
          (entries m)))"

definition author_turn_contains_known_secret ::
  "(ustr \<Rightarrow> exn + bytes) \<Rightarrow> author_turn \<Rightarrow> known_secret list \<Rightarrow> exn + bool" where
  "author_turn_contains_known_secret read t secrets =
     rbind (manifest_contains_known_secret read (at_candidate t) secrets) (\<lambda>found.
     if found then Inr True
     else json_tree_contains_known_secret
       (OSeq [OStr (at_thread_id t), OStr (at_final_message t), OSeq (at_events t),
          obj_opt id (at_usage t), obj_opt OStr (at_observed_model t),
          obj_opt OStr (at_observed_effort t)]) secrets)"

definition critic_turn_contains_known_secret :: "critic_turn \<Rightarrow> known_secret list \<Rightarrow> exn + bool" where
  "critic_turn_contains_known_secret t secrets =
     json_tree_contains_known_secret
       (OSeq [ct_envelope t, obj_of_json (review_document (ct_review t)),
          obj_opt OStr (ct_observed_model t), obj_opt OStr (ct_observed_effort t)]) secrets"

definition settings_contains_known_secret :: "loop_settings \<Rightarrow> known_secret list \<Rightarrow> exn + bool" where
  "settings_contains_known_secret st secrets =
     json_tree_contains_known_secret
       (OSeq [settings_document st True, OSeq (map OBytes (ls_context_paths st))]) secrets"

section \<open>Small steps of the loop without effects\<close>

definition complete_value :: "string \<Rightarrow> bool" where
  "complete_value v \<longleftrightarrow> v \<in> {''passed'', ''failed''}"

definition progress_state_of ::
  "subject_manifest \<Rightarrow> classified_check list \<Rightarrow> critic_review \<Rightarrow> exn + progress_state" where
  "progress_state_of subject classified review =
     rbind (fingerprint subject) (\<lambda>fp. Inr
     \<lparr>ps_subject_fingerprint = fp,
      ps_validations = map (\<lambda>c.
        \<lparr>vp_check_id = cc_check_id c, vp_outcome = U (outcome_value (cc_current_outcome c)),
         vp_transition = U (transition_value (cc_transition c)), vp_regression = cc_regression c,
         vp_evidence_complete = complete_value (outcome_value (cc_current_outcome c))\<rparr>) classified,
      ps_verdict = U (verdict_value (r_verdict review)),
      ps_blocking_findings = map (\<lambda>f.
        \<lparr>fp_finding_id = f_id f, fp_severity = f_severity f, fp_category = f_category f,
         fp_file = f_file f, fp_line_start = f_line_start f, fp_line_end = f_line_end f,
         fp_problem = f_problem f, fp_evidence = f_evidence f, fp_required_fix = f_required_fix f\<rparr>)
        (r_blocking_findings review),
      ps_blocked_reason = r_blocked_reason review\<rparr>)"

definition require_observed_selection ::
  "string \<Rightarrow> ustr option \<Rightarrow> ustr option \<Rightarrow> ustr option \<Rightarrow> ustr option \<Rightarrow> exn + unit" where
  "require_observed_selection role expected_model expected_effort observed_model observed_effort =
     (if expected_model \<noteq> None \<and> observed_model \<noteq> expected_model
      then Inl (fail SANDBOX_SETUP_FAILURE (role @ '' did not report the exact requested model selection''))
      else if expected_effort \<noteq> None \<and> observed_effort \<noteq> expected_effort
      then Inl (fail SANDBOX_SETUP_FAILURE (role @ '' did not report the exact requested effort selection''))
      else Inr ())"

definition verify_raw_log_limit :: "validation_turn \<Rightarrow> loop_settings \<Rightarrow> exn + unit" where
  "verify_raw_log_limit t st =
     (if int (length (vt_raw_log t)) > ls_max_raw_log_bytes st
      then Inl (fail AGENT_OUTPUT_LIMIT ''validation raw log exceeded its retained byte limit'')
      else Inr ())"

definition verify_validation_turn :: "path_policy \<Rightarrow> subject_manifest \<Rightarrow> validation_turn \<Rightarrow> exn + unit" where
  "verify_validation_turn pol subject t =
     rbind (fingerprint subject) (\<lambda>fp.
     if summary_fingerprint (vt_summary t) \<noteq> fp
     then Inl (fail OUT_OF_BAND_CHANGE ''validation summary names a different subject fingerprint'')
     else rbind (verify_validation_mutation subject (vt_result_manifest t) pol) (\<lambda>_. Inr ()))"

fun continue_checks :: "bool \<Rightarrow> check_execution list \<Rightarrow> exn + unit" where
  "continue_checks baseline [] = Inr ()"
| "continue_checks baseline (c # cs) =
     (case outcome c of
        INFRASTRUCTURE_FAILURE \<Rightarrow>
          Inl (AgentLoopError (if baseline then BASELINE_INFRASTRUCTURE_FAILURE else VALIDATION_PROCESS_FAILURE)
            (U ''validation infrastructure failed for '' @ check_id c))
      | TIMED_OUT \<Rightarrow> Inl (AgentLoopError VALIDATION_TIMEOUT (U ''validation timed out for '' @ check_id c))
      | OUTPUT_LIMITED \<Rightarrow>
          Inl (AgentLoopError AGENT_OUTPUT_LIMIT (U ''validation output exceeded its cap for '' @ check_id c))
      | OUTCOME_PROCESS_FAILURE \<Rightarrow>
          Inl (AgentLoopError VALIDATION_PROCESS_FAILURE (U ''validation process failed for '' @ check_id c))
      | _ \<Rightarrow> continue_checks baseline cs)"

definition ensure_validation_can_continue ::
  "bool \<Rightarrow> validation_summary \<Rightarrow> validation_evidence \<Rightarrow> exn + unit" where
  "ensure_validation_can_continue baseline s ev =
     rbind (continue_checks baseline (checks s)) (\<lambda>_.
     if \<not> ve_approval_eligible ev
     then Inl (fail REVIEW_EVIDENCE_WITHHELD
            ''validation evidence is incomplete and cannot be reviewed safely'')
     else Inr ())"

section \<open>The scan of a tree\<close>

text \<open>The texts of a value, an unencodable string being \<open>None\<close>, and the number of values in it.\<close>

fun texts :: "pyobj \<Rightarrow> bytes option list" where
  "texts (OStr s) = [utf8_encode s]"
| "texts (OBytes b) = [Some b]"
| "texts (OSeq vs) = concat (map texts vs)"
| "texts (OMap kvs) = concat (map (\<lambda>(k, v). texts k @ texts v) kvs)"
| "texts _ = []"

fun values_in :: "pyobj \<Rightarrow> int" where
  "values_in (OSeq vs) = 1 + sum_list (map values_in vs)"
| "values_in (OMap kvs) = 1 + sum_list (map (\<lambda>(k, v). values_in k + values_in v) kvs)"
| "values_in _ = 1"

definition leaks :: "known_secret list \<Rightarrow> pyobj \<Rightarrow> bool" where
  "leaks secrets v \<longleftrightarrow>
     (\<exists>x \<in> set (texts v). case x of None \<Rightarrow> True | Some b \<Rightarrow> raw_log_contains_known_secret b secrets)"

lemma leaks_simps [simp]:
  "leaks S (OStr s) \<longleftrightarrow>
     (case utf8_encode s of None \<Rightarrow> True | Some b \<Rightarrow> raw_log_contains_known_secret b S)"
  "leaks S (OBytes b) \<longleftrightarrow> raw_log_contains_known_secret b S"
  "leaks S (OSeq vs) \<longleftrightarrow> (\<exists>v \<in> set vs. leaks S v)"
  "leaks S (OMap kvs) \<longleftrightarrow> (\<exists>(k, v) \<in> set kvs. leaks S k \<or> leaks S v)"
  "\<not> leaks S ONone" "\<not> leaks S (OBool t)" "\<not> leaks S (OInt i)" "\<not> leaks S (OFloat r)" "\<not> leaks S OOther"
  unfolding leaks_def by (simp_all add: case_prod_beta Bex_def bex_Un ex_disj_distrib conj_disj_distribR) blast+

lemma sum_list_rev_int: "sum_list (rev xs) = sum_list (xs :: int list)"
  by (induction xs) auto

lemma values_in_map:
  "sum_list (map (\<lambda>(k, v). values_in k + values_in v) kvs) =
     sum_list (map values_in (map fst kvs)) + sum_list (map values_in (map snd kvs))"
  by (induction kvs) auto

lemma values_in_pos: "0 < values_in v"
proof (induction v)
  case (OSeq vs)
  then have "0 \<le> sum_list (map values_in vs)" by (intro sum_list_nonneg) (auto intro: less_imp_le)
  then show ?case by simp
next
  case (OMap kvs)
  have "0 \<le> sum_list (map (\<lambda>(k, v). values_in k + values_in v) kvs)"
    by (intro sum_list_nonneg) (use OMap in \<open>force intro: add_nonneg_nonneg less_imp_le\<close>)
  then show ?case by simp
qed simp_all

abbreviation "values_on stack \<equiv> sum_list (map values_in stack)"

lemma values_on_nonneg: "0 \<le> values_on vs"
  by (intro sum_list_nonneg) (auto intro: less_imp_le [OF values_in_pos])

lemma scan_stack_sound:
  "scan_stack S n st = Inr b \<Longrightarrow> b \<longleftrightarrow> (\<exists>v \<in> set st. leaks S v)"
proof (induction S n st rule: scan_stack.induct)
  case (2 S n cur st)
  then show ?case
    by (cases cur) (fastforce simp: Bex_def image_iff split: option.splits if_splits)+
qed simp

lemma scan_stack_total:
  "scan_stack S n st = Inl e \<Longrightarrow>
     e = fail AGENT_OUTPUT_LIMIT ''decoded model output has too many values'' \<and> 1000000 < n + values_on st"
proof (induction S n st rule: scan_stack.induct)
  case (2 S n cur st)
  note nn = values_on_nonneg [of st] values_in_pos [of cur]
  show ?case
  proof (rule disjE [OF le_less_linear [of "n + 1" 1000000]])
    assume "n + 1 \<le> 1000000"
    with 2 nn show ?thesis
      by (cases cur) (auto simp: values_in_map rev_map [symmetric] sum_list_rev_int split: option.splits if_splits)
  next
    assume "1000000 < n + 1"
    with 2(10) nn show ?thesis by simp
  qed
qed simp

lemma json_tree_scan:
  "values_in v \<le> 1000000 \<Longrightarrow> json_tree_contains_known_secret v S = Inr (leaks S v)"
  "json_tree_contains_known_secret v S = Inr b \<Longrightarrow> b \<longleftrightarrow> leaks S v"
  "json_tree_contains_known_secret v S = Inl e \<Longrightarrow>
     e = fail AGENT_OUTPUT_LIMIT ''decoded model output has too many values'' \<and> 1000000 < values_in v"
proof -
  show 2: "json_tree_contains_known_secret v S = Inr b \<Longrightarrow> b \<longleftrightarrow> leaks S v" for b
    using scan_stack_sound [of S 0 "[v]" b] by (simp add: json_tree_contains_known_secret_def)
  show 3: "json_tree_contains_known_secret v S = Inl e \<Longrightarrow>
     e = fail AGENT_OUTPUT_LIMIT ''decoded model output has too many values'' \<and> 1000000 < values_in v" for e
    using scan_stack_total [of S 0 "[v]" e] by (simp add: json_tree_contains_known_secret_def)
  show "values_in v \<le> 1000000 \<Longrightarrow> json_tree_contains_known_secret v S = Inr (leaks S v)"
    using 2 3 by (cases "json_tree_contains_known_secret v S") force+
qed

section \<open>Validated again, a review is itself\<close>

lemma review_document_is_review: "is_review r (review_document r)"
proof -
  have f: "is_finding f (finding_document f)" for f
    unfolding is_finding_def finding_document_def
    by (intro exI conjI) (auto simp: has_keys_def FINDING_KEYS_def field_def)
  have fs: "list_all2 is_finding fs (map finding_document fs)" for fs
    by (simp add: list_all2_conv_all_nth f)
  show ?thesis
    unfolding is_review_def review_document_def
    by (intro exI conjI) (auto simp: has_keys_def REVIEW_KEYS_def field_def jstr_def fs)
qed

lemma review_document_round_trip:
  "validate_critic_review ap v = Inr r \<Longrightarrow> validate_critic_review ap (review_document r) = Inr r"
  by (simp add: validate_critic_review_Inr review_document_is_review)

section \<open>The small steps\<close>

lemma continue_checks_Inr:
  "continue_checks b cs = Inr u \<longleftrightarrow> (\<forall>c \<in> set cs. outcome c \<in> {PASSED, FAILED})"
  by (induction cs) (auto split: check_outcome.splits)

lemma ensure_validation_can_continue_Inr:
  "ensure_validation_can_continue b s ev = Inr u \<longleftrightarrow>
     (\<forall>c \<in> set (checks s). outcome c \<in> {PASSED, FAILED}) \<and> ve_approval_eligible ev"
  by (auto simp: ensure_validation_can_continue_def rbind_Inr_iff continue_checks_Inr)

lemma verify_validation_turn_Inr:
  "verify_validation_turn pol m t = Inr u \<longleftrightarrow>
     fingerprint m = Inr (summary_fingerprint (vt_summary t)) \<and>
     (\<exists>ps. verify_validation_mutation m (vt_result_manifest t) pol = Inr ps)"
  by (auto simp: verify_validation_turn_def rbind_Inr_iff)

end
