(* ===== verification/Runner.thy ===== *)
theory Runner
  imports RunnerData Effects
begin

text \<open>
  \<open>LoopRunner\<close> of \<open>src/src/agent_loop/runner.py\<close>: the loop over author, validation and critic.

  The boundaries the runner calls (the adapters, the journal, the clock, the integrity guard, the
  publication of a subject and the provider of secrets) are interfaces (\<open>Protocol\<close>s and callables)
  with any implementation: the record \<open>run_env\<close> holds them as operations on a world \<open>'w\<close> that may
  raise. The local variables of \<open>run\<close> that the nested function \<open>stop\<close> reads, and so survive an
  exception, are the fields of \<open>run_state\<close> next to the world.
\<close>

datatype attempt_phase = PHASE_BASELINE | PHASE_VALIDATION | PHASE_OPAQUE

text \<open>The calls of the journal, one constructor for each of its methods.\<close>

datatype journal_call =
  JPrecredentialStart subject_manifest time loop_settings
| JStart ustr subject_manifest time loop_settings
| JTaskInput ustr bool
| JSubjectInput subject_manifest bool
| JBaseline validation_turn validation_evidence
| JValidationAttempt "int option" attempt_phase subject_manifest validation_turn bytes bool bool bool bool
| JOpaqueProof "int option" subject_manifest validation_turn bool
| JAuthorAttempt int author_turn int bool
| JAuthor int author_turn subject_manifest "manifest_change list" "manifest_change list"
    "manifest_change list" subject_manifest
| JValidation int validation_turn validation_evidence "classified_check list"
| JCriticAttempt int critic_turn int bool
| JCritic int critic_turn review_bundle
| JFinish loop_result

text \<open>\<open>env_pending_metadata\<close> is present when the journal is an \<open>ArtifactRunJournal\<close>: what it
  holds back until the first scan.\<close>

record 'w run_env =
  env_author :: "author_request \<Rightarrow> ('w, author_turn) eff"
  env_validate :: "validation_request \<Rightarrow> ('w, validation_turn) eff"
  env_critic :: "critic_request \<Rightarrow> ('w, critic_turn) eff"
  env_read_blob :: "'w \<Rightarrow> ustr \<Rightarrow> exn + bytes"
  env_policy :: path_policy
  env_journal :: "journal_call \<Rightarrow> ('w, unit) eff"
  env_pending_metadata :: "pyobj option"
  env_clock :: "('w, time) eff"
  env_integrity_guard :: "subject_manifest \<Rightarrow> ('w, unit) eff"
  env_publish_subject :: "subject_manifest \<Rightarrow> ('w, unit) eff"
  env_known_secrets :: "known_secret list"
  env_secret_provider :: "('w, known_secret list) eff option"

record 'w run_state =
  rs_world :: 'w
  rs_current :: subject_manifest
  rs_thread_id :: "ustr option"
  rs_rounds_completed :: int
  rs_fatal :: fatal_latch
  rs_stall :: stall_detector
  rs_ledger :: "finding_ledger_item list"
  rs_prompt :: ustr

text \<open>An operation of a boundary within the state of the run.\<close>

definition ext :: "('w, 'a) eff \<Rightarrow> ('w run_state, 'a) eff" where
  "ext m s = (case m (rs_world s) of (r, w) \<Rightarrow> (r, s\<lparr>rs_world := w\<rparr>))"

definition get :: "('s, 's) eff" where
  "get s = (Inr s, s)"

definition modify :: "('s \<Rightarrow> 's) \<Rightarrow> ('s, unit) eff" where
  "modify f s = (Inr (), f s)"

definition reading :: "'w run_env \<Rightarrow> ((ustr \<Rightarrow> exn + bytes) \<Rightarrow> exn + 'a) \<Rightarrow> ('w run_state, 'a) eff" where
  "reading env f s = (f (env_read_blob env (rs_world s)), s)"

definition encode_utf8 :: "ustr \<Rightarrow> exn + bytes" where
  "encode_utf8 s = (case utf8_encode s of None \<Rightarrow> Inl UnicodeEncodeError | Some b \<Rightarrow> Inr b)"

text \<open>\<open>dict.fromkeys\<close> keeps the first of equal values (\<open>dedup\<close>).\<close>

definition current_known_secrets :: "'w run_env \<Rightarrow> ('w run_state, known_secret list) eff" where
  "current_known_secrets env =
     sbind (case env_secret_provider env of None \<Rightarrow> ret [] | Some provide \<Rightarrow> ext provide)
       (\<lambda>supplied. ret (dedup (env_known_secrets env @ supplied)))"

definition journal :: "'w run_env \<Rightarrow> journal_call \<Rightarrow> ('w run_state, unit) eff" where
  "journal env c = ext (env_journal env c)"

definition ensure_deadline :: "'w run_env \<Rightarrow> time \<Rightarrow> ('w run_state, unit) eff" where
  "ensure_deadline env deadline =
     sbind (ext (env_clock env)) (\<lambda>now.
     if now > deadline
     then raise (fail WALL_CLOCK_DEADLINE_EXCEEDED ''total monotonic run deadline elapsed'')
     else ret ())"

definition stop :: "'w run_env \<Rightarrow> stop_reason \<Rightarrow> ustr \<Rightarrow> ('w run_state, loop_result) eff" where
  "stop env reason detail =
     sbind get (\<lambda>s.
     let result = \<lparr>lr_exit_code = exit_code_for reason, lr_stop_reason = reason,
           lr_rounds_completed = rs_rounds_completed s, lr_subject = rs_current s,
           lr_thread_id = rs_thread_id s, lr_detail = detail\<rparr>
     in sbind (journal env (JFinish result)) (\<lambda>_. ret result))"

definition credential_failure :: "string \<Rightarrow> exn" where
  "credential_failure detail = fail CREDENTIAL_REFRESH_FAILURE detail"

section \<open>One validation run\<close>

definition journal_validation_attempt ::
  "'w run_env \<Rightarrow> loop_settings \<Rightarrow> int option \<Rightarrow> attempt_phase \<Rightarrow> subject_manifest \<Rightarrow> validation_turn \<Rightarrow>
   ('w run_state, bool) eff" where
  "journal_validation_attempt env st rnd phase expected t =
     sbind (current_known_secrets env) (\<lambda>secrets.
     let raw_withheld = raw_log_contains_known_secret (vt_raw_log t) secrets in
     sbind (lift (manifest_metadata_contains_known_secret expected secrets)) (\<lambda>input_withheld.
     sbind (lift (if input_withheld then Inr True
            else manifest_metadata_contains_known_secret (vt_result_manifest t) secrets)) (\<lambda>result_withheld.
     sbind (lift (json_tree_contains_known_secret (obj_dict
            [(''schema_version'', OInt (summary_schema_version (vt_summary t))),
             (''subject_fingerprint'', OStr (summary_fingerprint (vt_summary t))),
             (''checks'', OSeq (map check_document (checks (vt_summary t))))]) secrets)) (\<lambda>summary_withheld.
     let retained = (if raw_withheld then [] else take (nat (ls_max_raw_log_bytes st)) (vt_raw_log t)) in
     sbind (journal env (JValidationAttempt rnd phase expected t retained
            (\<not> raw_withheld \<and> length retained \<noteq> length (vt_raw_log t))
            raw_withheld result_withheld summary_withheld)) (\<lambda>_.
     if result_withheld \<or> summary_withheld
     then raise (credential_failure (''validation input, result, or summary metadata contained dedicated '' @
            ''credential bytes''))
     else ret raw_withheld)))))"

definition prove_opaque_validation_independence ::
  "'w run_env \<Rightarrow> loop_settings \<Rightarrow> time \<Rightarrow> validation_turn \<Rightarrow> subject_manifest \<Rightarrow> validation_summary \<Rightarrow>
   int option \<Rightarrow> bool \<Rightarrow> ('w run_state, unit) eff" where
  "prove_opaque_validation_independence env st deadline authoritative subject baseline rnd baseline_phase =
     sbind (ensure_deadline env deadline) (\<lambda>_.
     sbind (ext (env_validate env
        \<lparr>vq_subject = subject, vq_baseline = Some baseline, vq_deadline = deadline\<rparr>)) (\<lambda>counterfactual.
     sbind (journal_validation_attempt env st rnd PHASE_OPAQUE subject counterfactual) (\<lambda>raw_withheld.
     sbind (lift (verify_raw_log_limit counterfactual st)) (\<lambda>_.
     sbind (lift (verify_validation_turn (env_policy env) subject counterfactual)) (\<lambda>_.
     sbind (lift (classify_validations (Some baseline) (vt_summary counterfactual))) (\<lambda>classified.
     sbind (lift (fingerprint subject)) (\<lambda>fp.
     sbind (current_known_secrets env) (\<lambda>secrets.
     let evidence = declassify_validation fp classified (vt_raw_log counterfactual) secrets in
     sbind (journal env (JOpaqueProof rnd subject
        (if raw_withheld then without_validation_raw counterfactual else counterfactual)
        (validation_behavior_signature authoritative = validation_behavior_signature counterfactual))) (\<lambda>_.
     sbind (lift (ensure_validation_can_continue baseline_phase (vt_summary counterfactual) evidence)) (\<lambda>_.
     sbind (lift (require_opaque_validation_independence authoritative counterfactual)) (\<lambda>_.
     ensure_deadline env deadline)))))))))))"

section \<open>Before the first round\<close>

text \<open>The scans of the inputs, the start of the journal and the refusal of a run that would
  retain a secret.\<close>

definition open_run ::
  "'w run_env \<Rightarrow> loop_settings \<Rightarrow> time \<Rightarrow> ustr \<Rightarrow> subject_manifest \<Rightarrow> bool \<Rightarrow> ('w run_state, unit) eff" where
  "open_run env st deadline task base prestarted =
     sbind (current_known_secrets env) (\<lambda>secrets.
     sbind (lift (encode_utf8 task)) (\<lambda>encoded_task.
     let task_withheld = raw_log_contains_known_secret encoded_task secrets in
     sbind (reading env (\<lambda>read. manifest_contains_known_secret read base secrets)) (\<lambda>base_withheld.
     sbind (lift (settings_contains_known_secret st secrets)) (\<lambda>settings_withheld.
     sbind (lift (case env_pending_metadata env of None \<Rightarrow> Inr False
            | Some v \<Rightarrow> json_tree_contains_known_secret v secrets)) (\<lambda>metadata_withheld.
     let any_withheld = (task_withheld \<or> base_withheld \<or> settings_withheld \<or> metadata_withheld) in
     sbind (if prestarted then ret ()
            else sbind (if env_pending_metadata env = None then ret ()
                        else journal env (JPrecredentialStart base deadline st)) (\<lambda>_.
                 if any_withheld then ret () else journal env (JStart task base deadline st))) (\<lambda>_.
     sbind (journal env (JTaskInput task task_withheld)) (\<lambda>_.
     sbind (journal env (JSubjectInput base base_withheld)) (\<lambda>_.
     if any_withheld
     then raise (credential_failure (''run metadata, task, settings, or initial subject contained dedicated '' @
            ''credential bytes''))
     else ret ()))))))))"

text \<open>The baseline: validated here unless it was prepared, checked, journaled, and shown not to
  depend on the opaque entries of the base.\<close>

definition run_baseline ::
  "'w run_env \<Rightarrow> loop_settings \<Rightarrow> time \<Rightarrow> subject_manifest \<Rightarrow> validation_turn option \<Rightarrow>
   ('w run_state, validation_turn) eff" where
  "run_baseline env st deadline base prepared =
     sbind (ensure_deadline env deadline) (\<lambda>_.
     sbind (case prepared of Some t \<Rightarrow> ret t
            | None \<Rightarrow> ext (env_validate env
                 \<lparr>vq_subject = base, vq_baseline = None, vq_deadline = deadline\<rparr>)) (\<lambda>t.
     sbind (journal_validation_attempt env st None PHASE_BASELINE base t) (\<lambda>raw_withheld.
     sbind (lift (verify_raw_log_limit t st)) (\<lambda>_.
     sbind (lift (verify_validation_turn (env_policy env) base t)) (\<lambda>_.
     sbind (lift (classify_validations None (vt_summary t))) (\<lambda>classified.
     sbind (lift (fingerprint base)) (\<lambda>fp.
     sbind (current_known_secrets env) (\<lambda>secrets.
     let evidence = declassify_validation fp classified (vt_raw_log t) secrets in
     sbind (journal env (JBaseline (if raw_withheld then without_validation_raw t else t) evidence)) (\<lambda>_.
     sbind (lift (ensure_validation_can_continue True (vt_summary t) evidence)) (\<lambda>_.
     sbind (lift (without_opaque_entries base (env_policy env) (ls_limits st))) (\<lambda>opaque_free.
     sbind (if opaque_free \<noteq> base
            then prove_opaque_validation_independence env st deadline t opaque_free (vt_summary t) None True
            else ret ()) (\<lambda>_.
     ret t))))))))))))"

section \<open>A round\<close>

definition author_phase ::
  "'w run_env \<Rightarrow> loop_settings \<Rightarrow> time \<Rightarrow> subject_manifest \<Rightarrow> int \<Rightarrow> ('w run_state, reconciliation) eff" where
  "author_phase env st deadline base rnd =
     sbind (ensure_deadline env deadline) (\<lambda>_.
     sbind get (\<lambda>s.
     sbind (ext (env_integrity_guard env (rs_current s))) (\<lambda>_.
     sbind (lift (encode_utf8 (rs_prompt s))) (\<lambda>encoded_prompt.
     sbind (current_known_secrets env) (\<lambda>secrets.
     if raw_log_contains_known_secret encoded_prompt secrets
     then raise (credential_failure ''author prompt contained dedicated credential bytes'')
     else
     sbind (ext (env_author env
        \<lparr>ar_round_number = rnd, ar_subject = rs_current s, ar_prompt = rs_prompt s,
         ar_thread_id = rs_thread_id s, ar_deadline = deadline\<rparr>)) (\<lambda>t.
     sbind (current_known_secrets env) (\<lambda>secrets'.
     sbind (reading env (\<lambda>read. author_turn_contains_known_secret read t secrets')) (\<lambda>content_withheld.
     sbind (journal env (JAuthorAttempt rnd t (max_agent_output_bytes (ls_limits st)) content_withheld)) (\<lambda>_.
     if content_withheld
     then raise (credential_failure ''decoded author output contained dedicated credential bytes'')
     else
     sbind (lift (require_observed_selection ''Codex author'' (ls_requested_author_model st)
        (ls_requested_author_effort st) (at_observed_model t) (at_observed_effort t))) (\<lambda>_.
     if at_thread_id t = [] then raise (fail AUTHOR_PROCESS_FAILURE ''author returned no thread ID'')
     else
     sbind (case rs_thread_id s of
              None \<Rightarrow> modify (\<lambda>s. s\<lparr>rs_thread_id := Some (at_thread_id t)\<rparr>)
            | Some i \<Rightarrow> if at_thread_id t \<noteq> i
                then raise (fail GITLESS_INVOCATION_PROBE_FAILED ''author resume returned a different thread ID'')
                else ret ()) (\<lambda>_.
     sbind (ensure_deadline env deadline) (\<lambda>_.
     sbind (lift (reconcile_candidate base (at_candidate t) (env_policy env) default_limits)) (\<lambda>r.
     sbind (modify (\<lambda>s. s\<lparr>rs_current := authoritative_manifest r\<rparr>)) (\<lambda>_.
     sbind (ext (env_publish_subject env (authoritative_manifest r))) (\<lambda>_.
     sbind (ext (env_integrity_guard env (authoritative_manifest r))) (\<lambda>_.
     sbind (journal env (JAuthor rnd t (authoritative_manifest r) (semantic_changes r)
        (opaque_changes r) (discarded_changes r) base)) (\<lambda>_.
     ret r)))))))))))))))))"

definition validation_phase ::
  "'w run_env \<Rightarrow> loop_settings \<Rightarrow> time \<Rightarrow> subject_manifest \<Rightarrow> validation_turn \<Rightarrow> int \<Rightarrow> reconciliation \<Rightarrow>
   ('w run_state, validation_turn \<times> classified_check list \<times> validation_evidence) eff" where
  "validation_phase env st deadline base baseline rnd r =
     (let current = authoritative_manifest r in
     sbind (ext (env_validate env
        \<lparr>vq_subject = current, vq_baseline = Some (vt_summary baseline), vq_deadline = deadline\<rparr>)) (\<lambda>t.
     sbind (journal_validation_attempt env st (Some rnd) PHASE_VALIDATION current t) (\<lambda>raw_withheld.
     sbind (lift (verify_raw_log_limit t st)) (\<lambda>_.
     sbind (ext (env_integrity_guard env current)) (\<lambda>_.
     sbind (lift (verify_validation_turn (env_policy env) current t)) (\<lambda>_.
     sbind (lift (classify_validations (Some (vt_summary baseline)) (vt_summary t))) (\<lambda>classified.
     sbind (lift (fingerprint current)) (\<lambda>fp.
     sbind (current_known_secrets env) (\<lambda>secrets.
     let evidence = declassify_validation fp classified (vt_raw_log t) secrets in
     sbind (journal env (JValidation rnd (if raw_withheld then without_validation_raw t else t)
        evidence classified)) (\<lambda>_.
     sbind (lift (ensure_validation_can_continue False (vt_summary t) evidence)) (\<lambda>_.
     sbind (if opaque_changes r = [] then ret ()
            else sbind (lift (restore_opaque_base_entries base current (opaque_changes r) (ls_limits st)))
              (\<lambda>counterfactual.
              sbind (prove_opaque_validation_independence env st deadline t counterfactual
                 (vt_summary baseline) (Some rnd) False) (\<lambda>_.
              ext (env_integrity_guard env current)))) (\<lambda>_.
     sbind (ensure_deadline env deadline) (\<lambda>_.
     ret (t, classified, evidence))))))))))))))"

definition review_request ::
  "loop_settings \<Rightarrow> ustr \<Rightarrow> subject_manifest \<Rightarrow> reconciliation \<Rightarrow> validation_evidence \<Rightarrow>
   finding_ledger_item list \<Rightarrow> known_secret list \<Rightarrow> bundle_request" where
  "review_request st task base r evidence prior secrets =
     \<lparr>bq_task = task, bq_base = base, bq_subject = authoritative_manifest r,
      bq_semantic_changes = semantic_changes r, bq_opaque_changes = opaque_changes r,
      bq_validation = evidence, bq_protected_patterns = ls_protected_patterns st,
      bq_opaque_patterns = ls_opaque_patterns st, bq_context_paths = ls_context_paths st,
      bq_prior_findings = prior, bq_known_secrets = secrets,
      bq_sensitive_patterns = DEFAULT_SENSITIVE_PATH_PATTERNS\<rparr>"

definition approval_of :: "validation_turn \<Rightarrow> validation_evidence \<Rightarrow> approval_context" where
  "approval_of t evidence =
     \<lparr>ap_all_validations_pass = all_pass (vt_summary t), ap_semantic_deltas_visible = True,
      ap_evidence_approval_eligible = ve_approval_eligible evidence\<rparr>"

definition critic_phase ::
  "'w run_env \<Rightarrow> loop_settings \<Rightarrow> time \<Rightarrow> ustr \<Rightarrow> subject_manifest \<Rightarrow> int \<Rightarrow> reconciliation \<Rightarrow>
   validation_turn \<Rightarrow> validation_evidence \<Rightarrow> ('w run_state, critic_turn) eff" where
  "critic_phase env st deadline task base rnd r t evidence =
     sbind get (\<lambda>s.
     sbind (current_known_secrets env) (\<lambda>secrets.
     sbind (reading env (\<lambda>read. build_review_bundle read (ls_limits st)
        (review_request st task base r evidence (rs_ledger s) secrets))) (\<lambda>bundle.
     sbind (current_known_secrets env) (\<lambda>secrets'.
     sbind (lift (if raw_log_contains_known_secret (rb_encoded bundle) secrets' then Inr True
            else json_tree_contains_known_secret
              (OSeq [obj_of_json (rb_document bundle), OStr (rb_fingerprint bundle)]) secrets')) (\<lambda>bundle_withheld.
     if bundle_withheld
     then raise (credential_failure ''critic bundle contained dedicated credential bytes'')
     else
     sbind (ext (env_critic env
        \<lparr>cq_round_number = rnd, cq_bundle = bundle, cq_approval = approval_of t evidence,
         cq_deadline = deadline\<rparr>)) (\<lambda>c.
     sbind (current_known_secrets env) (\<lambda>secrets''.
     sbind (lift (critic_turn_contains_known_secret c secrets'')) (\<lambda>content_withheld.
     sbind (journal env (JCriticAttempt rnd c (max_agent_output_bytes (ls_limits st)) content_withheld)) (\<lambda>_.
     if content_withheld
     then raise (credential_failure ''decoded critic output contained dedicated credential bytes'')
     else
     sbind (lift (require_observed_selection ''Claude critic'' (ls_requested_critic_model st)
        (ls_requested_critic_effort st) (ct_observed_model c) (ct_observed_effort c))) (\<lambda>_.
     sbind get (\<lambda>s'.
     sbind (ext (env_integrity_guard env (rs_current s'))) (\<lambda>_.
     sbind (lift (validate_critic_review (Some (approval_of t evidence)) (review_document (ct_review c)))) (\<lambda>review.
     sbind (journal env (JCritic rnd (c\<lparr>ct_review := review\<rparr>) bundle)) (\<lambda>_.
     sbind (modify (\<lambda>s. s\<lparr>rs_rounds_completed := rnd\<rparr>)) (\<lambda>_.
     ret (c\<lparr>ct_review := review\<rparr>))))))))))))))))"

text \<open>What the round observes, and the detail of a stop.\<close>

definition observation_of ::
  "loop_settings \<Rightarrow> time \<Rightarrow> int \<Rightarrow> validation_turn \<Rightarrow> validation_evidence \<Rightarrow> critic_turn \<Rightarrow> bool \<Rightarrow> round_observation" where
  "observation_of st deadline rnd t evidence c repeated =
     \<lparr>round_count = rnd, max_rounds = ls_max_rounds st, all_validations_pass = all_pass (vt_summary t),
      semantic_deltas_visible = True, evidence_approval_eligible = ve_approval_eligible evidence,
      critic_verdict = Some (U (verdict_value (r_verdict (ct_review c)))),
      critic_completed_at = Some (ct_completed_at c), monotonic_deadline = deadline,
      repeated_non_success_state = repeated\<rparr>"

definition or_text :: "ustr option \<Rightarrow> string \<Rightarrow> ustr" where
  "or_text x dflt = (case x of None \<Rightarrow> U dflt | Some s \<Rightarrow> if s = [] then U dflt else s)"

definition stop_detail :: "stop_reason \<Rightarrow> critic_review \<Rightarrow> fatal_latch \<Rightarrow> ustr" where
  "stop_detail reason review fatal =
     (case reason of
        CONVERGED \<Rightarrow> U ''all validations passed and critic returned LGTM''
      | CRITIC_BLOCKED \<Rightarrow> or_text (r_blocked_reason review) ''critic blocked''
      | ROUND_CAP_REACHED \<Rightarrow> U ''maximum author rounds reached''
      | STALLED \<Rightarrow> U ''two adjacent normalized non-success states matched''
      | _ \<Rightarrow> or_text (latch_detail fatal) (reason_value reason))"

definition observe_progress :: "progress_state \<Rightarrow> ('w run_state, bool) eff" where
  "observe_progress p s = (case observe p (rs_stall s) of (r, d) \<Rightarrow> (r, s\<lparr>rs_stall := d\<rparr>))"

definition decide_round :: "round_observation \<Rightarrow> ('w run_state, decision) eff" where
  "decide_round ob =
     sbind (lift (check_observation ob)) (\<lambda>ob.
     sbind get (\<lambda>s.
     sbind (lift (decide ob (rs_fatal s))) (\<lambda>(d, fatal).
     sbind (modify (\<lambda>s. s\<lparr>rs_fatal := fatal\<rparr>)) (\<lambda>_.
     ret d))))"

definition ledger_of :: "critic_review \<Rightarrow> exn + finding_ledger_item list" where
  "ledger_of review =
     rmap (\<lambda>f. check_ledger_item \<lparr>li_finding_id = f_id f, li_required_fix = f_required_fix f,
        li_status = U ''open''\<rparr>) (r_blocking_findings review)"

text \<open>The end of a round: \<open>Some\<close> result when the run stops, \<open>None\<close> when the loop goes on.\<close>

definition conclude_phase ::
  "'w run_env \<Rightarrow> loop_settings \<Rightarrow> time \<Rightarrow> ustr \<Rightarrow> int \<Rightarrow> reconciliation \<Rightarrow> validation_turn \<Rightarrow>
   classified_check list \<Rightarrow> validation_evidence \<Rightarrow> critic_turn \<Rightarrow> ('w run_state, loop_result option) eff" where
  "conclude_phase env st deadline task rnd r t classified evidence c =
     sbind (lift (progress_state_of (authoritative_manifest r) classified (ct_review c))) (\<lambda>progress.
     sbind (observe_progress progress) (\<lambda>repeated.
     sbind (decide_round (observation_of st deadline rnd t evidence c repeated)) (\<lambda>d.
     sbind get (\<lambda>s.
     case decision_reason d of
       Some reason \<Rightarrow>
         sbind (stop env reason (stop_detail reason (ct_review c) (rs_fatal s))) (\<lambda>res. ret (Some res))
     | None \<Rightarrow>
         sbind (lift (ledger_of (ct_review c))) (\<lambda>items.
         sbind (modify (\<lambda>s. s\<lparr>rs_ledger := items\<rparr>)) (\<lambda>_.
         sbind (lift (build_revision_author_prompt task (ct_review c) evidence)) (\<lambda>prompt.
         sbind (modify (\<lambda>s. s\<lparr>rs_prompt := prompt\<rparr>)) (\<lambda>_.
         ret None))))))))"

definition run_round ::
  "'w run_env \<Rightarrow> loop_settings \<Rightarrow> time \<Rightarrow> ustr \<Rightarrow> subject_manifest \<Rightarrow> validation_turn \<Rightarrow> int \<Rightarrow>
   ('w run_state, loop_result option) eff" where
  "run_round env st deadline task base baseline rnd =
     sbind (author_phase env st deadline base rnd) (\<lambda>r.
     sbind (validation_phase env st deadline base baseline rnd r) (\<lambda>(t, classified, evidence).
     sbind (critic_phase env st deadline task base rnd r t evidence) (\<lambda>c.
     conclude_phase env st deadline task rnd r t classified evidence c)))"

section \<open>The run\<close>

definition LOOP_EXHAUSTED :: exn where
  "LOOP_EXHAUSTED = AssertionError (U ''loop exhausted without the round-cap decision'')"

fun run_rounds ::
  "'w run_env \<Rightarrow> loop_settings \<Rightarrow> time \<Rightarrow> ustr \<Rightarrow> subject_manifest \<Rightarrow> validation_turn \<Rightarrow> int list \<Rightarrow>
   ('w run_state, loop_result) eff" where
  "run_rounds env st deadline task base baseline [] = raise LOOP_EXHAUSTED"
| "run_rounds env st deadline task base baseline (n # ns) =
     sbind (run_round env st deadline task base baseline n) (\<lambda>stopped.
     case stopped of
       Some res \<Rightarrow> ret res
     | None \<Rightarrow> run_rounds env st deadline task base baseline ns)"

definition run_body ::
  "'w run_env \<Rightarrow> loop_settings \<Rightarrow> time \<Rightarrow> ustr \<Rightarrow> subject_manifest \<Rightarrow> validation_turn option \<Rightarrow> bool \<Rightarrow>
   ('w run_state, loop_result) eff" where
  "run_body env st deadline task base prepared prestarted =
     sbind (open_run env st deadline task base prestarted) (\<lambda>_.
     sbind (run_baseline env st deadline base prepared) (\<lambda>baseline.
     run_rounds env st deadline task base baseline [1..ls_max_rounds st]))"

text \<open>The scan of a typed failure's detail: a failure of the scan itself counts as a secret.\<close>

definition detail_contains_secret :: "'w run_env \<Rightarrow> ustr \<Rightarrow> ('w run_state, bool) eff" where
  "detail_contains_secret env detail =
     handle (sbind (lift (encode_utf8 detail)) (\<lambda>encoded.
             sbind (current_known_secrets env) (\<lambda>secrets.
             ret (raw_log_contains_known_secret encoded secrets))))
       (\<lambda>e. case e of AgentLoopError r d \<Rightarrow> ret True | UnicodeEncodeError \<Rightarrow> ret True | _ \<Rightarrow> raise e)"

definition on_exception :: "'w run_env \<Rightarrow> exn \<Rightarrow> ('w run_state, loop_result) eff" where
  "on_exception env e =
     (case e of
        KeyboardInterrupt \<Rightarrow> stop env USER_INTERRUPT (U ''operator interrupted the active run'')
      | AgentLoopError reason detail \<Rightarrow>
          sbind (detail_contains_secret env detail) (\<lambda>secret.
          if secret
          then stop env CREDENTIAL_REFRESH_FAILURE
                 (U ''typed failure detail was withheld because it contained credential bytes'')
          else stop env reason detail)
      | _ \<Rightarrow> stop env RUNNER_INTERNAL_ERROR (U (''unexpected internal exception: '' @ exn_name e)))"

definition initial_state :: "subject_manifest \<Rightarrow> ustr \<Rightarrow> 'w \<Rightarrow> 'w run_state" where
  "initial_state base prompt w =
     \<lparr>rs_world = w, rs_current = base, rs_thread_id = None, rs_rounds_completed = 0,
      rs_fatal = new_latch, rs_stall = None, rs_ledger = [], rs_prompt = prompt\<rparr>"

definition run ::
  "'w run_env \<Rightarrow> ustr \<Rightarrow> subject_manifest \<Rightarrow> loop_settings \<Rightarrow> validation_turn option \<Rightarrow> time option \<Rightarrow> bool \<Rightarrow>
   ('w, loop_result) eff" where
  "run env task base st prepared given_deadline prestarted =
     sbind (env_clock env) (\<lambda>started.
     let deadline = (case given_deadline of None \<Rightarrow> started + ls_max_runtime_seconds st | Some d \<Rightarrow> d) in
     if deadline < 0 then raise (ValueError (U ''monotonic deadline cannot be negative''))
     else sbind (lift (build_initial_author_prompt task)) (\<lambda>prompt w.
       case handle (run_body env st deadline task base prepared prestarted) (on_exception env)
              (initial_state base prompt w) of
         (res, s) \<Rightarrow> (res, rs_world s)))"

end
