(* ===== verification/Failures.thy ===== *)
theory Failures
  imports Runner
begin

text \<open>
  What the modelled code raises. A \<open>failure\<close> is an exception that is not a claim about the outcome
  of a run: an \<open>AgentLoopError\<close> with one of the four reasons that only \<open>decide\<close> may give, or the
  assertion after the last round. Every operation that the loop of the runner calls raises
  failures only, as long as the blob store does.
\<close>

named_theorems fails_only "the operations that raise failures only"

definition failure :: "exn \<Rightarrow> bool" where
  "failure e \<longleftrightarrow> e \<noteq> LOOP_EXHAUSTED \<and> (\<forall>r d. e = AgentLoopError r d \<longrightarrow> r \<notin> set non_fatal_reasons)"

definition safe :: "exn + 'a \<Rightarrow> bool" where
  "safe m \<longleftrightarrow> (\<forall>e. m = Inl e \<longrightarrow> failure e)"

lemma failure_simps [simp]:
  "failure (AgentLoopError r d) \<longleftrightarrow> r \<notin> set non_fatal_reasons"
  "failure (fail r t) \<longleftrightarrow> r \<notin> set non_fatal_reasons"
  "failure (ValueError m)" "failure (TypeError m)" "failure (KeyError m)" "failure (OSError m)"
  "failure (RuntimeError m)" "failure UnicodeEncodeError" "failure KeyboardInterrupt" "failure (OverflowError m)"
  "failure (AssertionError [])" "\<not> failure LOOP_EXHAUSTED"
  by (simp_all add: failure_def fail_def LOOP_EXHAUSTED_def U_def)

lemma non_fatal_set [simp]: "set non_fatal_reasons = {CONVERGED, ROUND_CAP_REACHED, STALLED, CRITIC_BLOCKED}"
  by (simp add: non_fatal_reasons_def)

lemma safe_simps [simp]: "safe (Inr x)" "safe (Inl e) \<longleftrightarrow> failure e"
  by (simp_all add: safe_def)

lemma safe_rbind [fails_only]: "safe m \<Longrightarrow> (\<And>x. safe (f x)) \<Longrightarrow> safe (rbind m f)"
  by (auto simp: safe_def rbind_Inl_iff)

lemma safe_rmap [fails_only]: "(\<And>x. x \<in> set xs \<Longrightarrow> safe (f x)) \<Longrightarrow> safe (rmap f xs)"
  by (auto simp: safe_def dest: rmap_Inl_ex)

lemma safe_rfilter [fails_only]: "(\<And>x. safe (f x)) \<Longrightarrow> safe (rfilter f xs)"
  by (induction xs) (simp_all add: safe_rbind)

lemma safe_if [fails_only]: "(b \<Longrightarrow> safe x) \<Longrightarrow> (\<not> b \<Longrightarrow> safe y) \<Longrightarrow> safe (if b then x else y)"
  by simp

lemma safe_option [fails_only]:
  "(x = None \<Longrightarrow> safe m) \<Longrightarrow> (\<And>y. x = Some y \<Longrightarrow> safe (f y)) \<Longrightarrow> safe (case x of None \<Rightarrow> m | Some y \<Rightarrow> f y)"
  by (cases x) simp_all

lemma safe_prod [fails_only]: "(\<And>a b. safe (f a b)) \<Longrightarrow> safe (case x of (a, b) \<Rightarrow> f a b)"
  by (cases x) simp

lemma safe_kind [fails_only]:
  "safe m \<Longrightarrow> safe n \<Longrightarrow> safe (case k of REGULAR \<Rightarrow> m | SYMLINK \<Rightarrow> n)"
  by (cases k) simp_all

section \<open>Paths, entries and manifests\<close>

lemma safe_validate [fails_only]: "safe (validate_subject_path p)"
  by (auto simp: validate_subject_path_def Let_def intro!: fails_only)

lemma safe_classify [fails_only]: "safe (classify pol p)"
  by (auto simp: classify_def policy_matches_def intro!: fails_only)

lemma safe_has_disposition [fails_only]: "safe (has_disposition pol d p)"
  by (auto simp: has_disposition_def intro!: fails_only)

lemma safe_dispositions [fails_only]:
  "safe (any_disposition pol d ps)" "safe (all_disposition pol d ps)"
  by (induction ps) (auto intro!: fails_only)

lemma safe_change_paths [fails_only]: "safe (change_paths c)"
  by (auto simp: change_paths_def intro!: fails_only)

lemma safe_classify_change [fails_only]: "safe (classify_change pol c)"
  by (auto simp: classify_change_def Let_def intro!: fails_only)

lemma safe_limits_loop [fails_only]: "safe (limits_loop l a es)"
  by (induction l a es rule: limits_loop.induct)
    (auto simp: entry_limit_error_def intro!: fails_only split: entry_kind.splits option.splits)

lemma safe_build_manifest [fails_only]: "safe (build_manifest l es)"
  by (auto simp: build_manifest_def check_manifest_def validate_limits_def intro!: fails_only)

lemma safe_encode_atoms [fails_only]: "safe (encode_atoms as)"
  by (auto simp: encode_atoms_def length_prefix_def intro!: fails_only)

lemma safe_fingerprint [fails_only]: "safe (fingerprint m)"
  by (auto simp: fingerprint_def canonical_bytes_def canonical_entry_def fromhex_def intro!: fails_only)

lemma safe_manifest_json [fails_only]: "safe (manifest_to_json_bytes m)"
  by (auto simp: manifest_to_json_bytes_def manifest_to_json_obj_def entry_to_json_def Let_def intro!: fails_only)

lemma safe_mk_change [fails_only]: "safe (mk_change k b a)"
  by (auto simp: mk_change_def check_change_def Let_def intro!: fails_only split: change_kind.splits option.splits)

lemma safe_pair_renames [fails_only]: "safe (pair_renames bk bs)"
  by (induction bk bs rule: pair_renames.induct) (auto intro!: fails_only split: list.splits simp: fun_upd_def)

lemma safe_diff_manifests [fails_only]: "safe (diff_manifests b c)"
  by (auto simp: diff_manifests_def modified_changes_def Let_def intro!: fails_only)

lemma safe_reconcile [fails_only]: "safe (reconcile_candidate b c pol l)"
  by (auto simp: reconcile_candidate_def check_protected_def Let_def intro!: fails_only)

section \<open>Validation\<close>

lemma safe_verify_validation_mutation [fails_only]: "safe (verify_validation_mutation s r pol)"
  by (auto simp: verify_validation_mutation_def allowed_change_def intro!: fails_only)

lemma safe_classify_validations [fails_only]: "safe (classify_validations b c)"
  by (auto simp: classify_validations_def classify_one_def Let_def intro!: fails_only)

lemma safe_verify_validation_turn [fails_only]: "safe (verify_validation_turn pol m t)"
  by (auto simp: verify_validation_turn_def intro!: fails_only)

lemma safe_verify_raw_log_limit [fails_only]: "safe (verify_raw_log_limit t st)"
  by (auto simp: verify_raw_log_limit_def)

lemma safe_continue [fails_only]: "safe (ensure_validation_can_continue b s ev)"
proof -
  have "safe (continue_checks b cs)" for cs by (induction cs) (auto split: check_outcome.splits)
  then show ?thesis by (auto simp: ensure_validation_can_continue_def intro!: fails_only)
qed

lemma safe_independence [fails_only]: "safe (require_opaque_validation_independence a c)"
  by (auto simp: require_opaque_validation_independence_def)

lemma safe_opaque_manifests [fails_only]:
  "safe (without_opaque_entries m pol l)" "safe (restore_opaque_base_entries b m cs l)"
  by (auto simp: without_opaque_entries_def restore_opaque_base_entries_def intro!: fails_only)

section \<open>Scans\<close>

lemma safe_tree_scan [fails_only]: "safe (json_tree_contains_known_secret v S)"
  using json_tree_scan(3) [of v S] by (auto simp: safe_def)

lemma safe_settings_scan [fails_only]:
  "safe (settings_contains_known_secret st S)" "safe (critic_turn_contains_known_secret c S)"
  by (simp_all add: settings_contains_known_secret_def critic_turn_contains_known_secret_def fails_only)

lemma safe_metadata_scan [fails_only]: "safe (manifest_metadata_contains_known_secret m S)"
  by (auto simp: manifest_metadata_contains_known_secret_def intro!: fails_only)

lemma safe_manifest_scan:
  assumes "\<And>h. safe (read h)"
  shows "safe (manifest_contains_known_secret read m S)" "safe (author_turn_contains_known_secret read t S)"
proof -
  have "safe (manifest_entries_contain read S es)" for es
    by (induction es) (auto intro!: fails_only assms)
  then show m: "safe (manifest_contains_known_secret read m S)" for m
    by (auto simp: manifest_contains_known_secret_def intro!: fails_only)
  show "safe (author_turn_contains_known_secret read t S)"
    by (auto simp: author_turn_contains_known_secret_def intro!: fails_only m)
qed

lemma safe_encode_utf8 [fails_only]: "safe (encode_utf8 s)"
  by (auto simp: encode_utf8_def split: option.splits)

section \<open>The review and its bundle\<close>

lemma safe_verify_blobs: "(\<And>h. safe (read h)) \<Longrightarrow> safe (verify_manifest_blobs read m)"
  by (auto simp: verify_manifest_blobs_def verify_entry_def intro!: fails_only)

lemma safe_optional_json [fails_only]: "(\<And>x. safe (f x)) \<Longrightarrow> safe (optional_json f y)"
  by (auto simp: optional_json_def intro!: fails_only)

lemma safe_content_sha256 [fails_only]: "safe (content_sha256 e)"
  by (auto simp: content_sha256_def intro!: fails_only)

lemma safe_seal [fails_only]: "r \<notin> set non_fatal_reasons \<Longrightarrow> safe (seal_bundle l r v)"
  by (auto simp: seal_bundle_def Let_def)

lemma safe_build_review_bundle:
  assumes r: "\<And>h. safe (read h)"
  shows "safe (build_review_bundle read l q)"
proof -
  have d: "safe (review_descriptor read S P e)" for S P e
    by (auto simp: review_descriptor_def withheld_def intro!: fails_only r)
  have c: "safe (context_loop (review_descriptor read S P) look ps)" for S P look ps
    by (induction ps) (auto intro!: fails_only d)
  have k: "safe (change_descriptor read S P x)" for S P x
    by (auto simp: change_descriptor_def intro!: fails_only d)
  have o: "safe (opaque_descriptor x)" for x
    by (auto simp: opaque_descriptor_def opaque_item_def intro!: fails_only)
  have t: "safe (check_task l (bq_task q))" by (auto simp: check_task_def intro!: fails_only)
  show ?thesis
    unfolding build_review_bundle_def
    by (auto intro!: fails_only safe_verify_blobs r c k o t simp: size_reason_def split: if_splits)
qed

lemma failure_invalid [simp]: "failure (invalid t)"
  by (simp add: invalid_def)

lemma safe_closed_mapping [fails_only]: "safe (closed_mapping ks loc v)"
  by (cases v) (auto simp: closed_mapping_def Let_def)

lemma safe_fields [fails_only]:
  "safe (string_field loc n a v)" "safe (required_string loc v)" "safe (nullable_positive_int loc v)"
proof -
  show s: "safe (string_field loc n a v)" for n a
    by (cases v) (auto simp: string_field_def split: option.splits)
  show "safe (required_string loc v)" by (auto simp: required_string_def intro!: fails_only s)
  show "safe (nullable_positive_int loc v)" by (cases v) (auto simp: nullable_positive_int_def)
qed

lemma safe_finding_of [fails_only]: "safe (finding_of loc v)"
  by (auto simp: finding_of_def check_range_def intro!: fails_only split: option.splits)

lemma safe_findings_of [fails_only]: "safe (findings_of loc v)"
  by (cases v) (auto simp: findings_of_def intro!: fails_only)

lemma safe_validate_critic_review [fails_only]: "safe (validate_critic_review ap v)"
proof -
  have "safe (check_verdict ap d b fs)" for d b fs
    by (cases d) (auto simp: check_verdict_def split: option.splits)
  then show ?thesis
    by (auto simp: validate_critic_review_def intro!: fails_only split: json.splits)
qed

section \<open>The end of a round\<close>

lemma safe_progress_state [fails_only]: "safe (progress_state_of m ks r)"
  by (auto simp: progress_state_of_def intro!: fails_only)

lemma safe_observe: "safe (fst (observe p d))"
proof -
  have "safe (progress_fingerprint p)"
    by (auto simp: progress_fingerprint_def progress_canonical_bytes_def sorted_findings_def intro!: fails_only)
  then show ?thesis by (auto simp: observe_def safe_def split: sum.splits)
qed

lemma safe_check_observation [fails_only]: "safe (check_observation ob)"
  by (auto simp: check_observation_def)

lemma safe_decide [fails_only]: "safe (decide ob l)"
  by (auto simp: decide_def latch_late_critic_def latch_contradicted_lgtm_def latch_def intro!: fails_only)

lemma safe_ledger_of [fails_only]: "safe (ledger_of r)"
  by (auto simp: ledger_of_def check_ledger_item_def intro!: fails_only)

lemma safe_revision_prompt [fails_only]: "safe (build_revision_author_prompt t r v)"
  by (auto simp: build_revision_author_prompt_def Let_def)

lemma safe_selection [fails_only]: "safe (require_observed_selection role a b c d)"
  by (auto simp: require_observed_selection_def)

end
