(* ===== verification/RunnerProofs.thy ===== *)
theory RunnerProofs
  imports Failures
begin

text \<open>
  What a run of the loop guarantees. The boundaries are arbitrary: they may change their world in
  any way and raise at any call. The runner's own steps are shown to keep an invariant of its state
  whatever the boundaries do, and the phases of a round are described by the calls that were made
  and answered.
\<close>

section \<open>Weakest preconditions\<close>

definition wp :: "('s, 'a) eff \<Rightarrow> ('a \<Rightarrow> 's \<Rightarrow> bool) \<Rightarrow> (exn \<Rightarrow> 's \<Rightarrow> bool) \<Rightarrow> 's \<Rightarrow> bool" where
  "wp m Q E s \<longleftrightarrow> (case m s of (Inl e, s') \<Rightarrow> E e s' | (Inr x, s') \<Rightarrow> Q x s')"

lemma wp_simps:
  "wp (ret x) Q E s \<longleftrightarrow> Q x s" "wp (raise e) Q E s \<longleftrightarrow> E e s"
  "wp get Q' E s \<longleftrightarrow> Q' s s" "wp (modify g) P E s \<longleftrightarrow> P () (g s)"
  "wp (sbind m f) Q E s \<longleftrightarrow> wp m (\<lambda>x. wp (f x) Q E) E s"
  "wp (lift r) Q E s \<longleftrightarrow> (case r of Inl e \<Rightarrow> E e s | Inr x \<Rightarrow> Q x s)"
  by (auto simp: wp_def get_def modify_def sbind_def split: sum.splits prod.splits)

lemma wp_handle: "wp (handle m h) Q E s \<longleftrightarrow> wp m Q (\<lambda>e. wp (h e) Q E) s"
  by (auto simp: wp_def handle_def split: sum.splits prod.splits)

lemma wp_mono:
  "wp m Q E s \<Longrightarrow> (\<And>x s'. Q x s' \<Longrightarrow> Q' x s') \<Longrightarrow> (\<And>e s'. E e s' \<Longrightarrow> E' e s') \<Longrightarrow> wp m Q' E' s"
  by (auto simp: wp_def split: sum.splits prod.splits)

lemma wp_Inr: "wp m Q E s \<Longrightarrow> m s = (Inr x, s') \<Longrightarrow> Q x s'"
  by (simp add: wp_def)

section \<open>The boundaries\<close>

definition raises_failures :: "('w, 'a) eff \<Rightarrow> bool" where
  "raises_failures m \<longleftrightarrow> (\<forall>w e w'. m w = (Inl e, w') \<longrightarrow> failure e)"

text \<open>No boundary raises one of the reasons that only the decision of a round gives.\<close>

definition faithful :: "'w run_env \<Rightarrow> bool" where
  "faithful env \<longleftrightarrow>
     (\<forall>q. raises_failures (env_author env q)) \<and> (\<forall>q. raises_failures (env_validate env q)) \<and>
     (\<forall>q. raises_failures (env_critic env q)) \<and> (\<forall>c. raises_failures (env_journal env c)) \<and>
     raises_failures (env_clock env) \<and> (\<forall>m. raises_failures (env_integrity_guard env m)) \<and>
     (\<forall>m. raises_failures (env_publish_subject env m)) \<and>
     (\<forall>p. env_secret_provider env = Some p \<longrightarrow> raises_failures p) \<and>
     (\<forall>w h. safe (env_read_blob env w h))"

text \<open>What the constructor of \<open>SubjectManifest\<close> makes sure of.\<close>

definition wf_candidates :: "'w run_env \<Rightarrow> bool" where
  "wf_candidates env \<longleftrightarrow> (\<forall>q w t w'. env_author env q w = (Inr t, w') \<longrightarrow> wf_manifest (at_candidate t))"

section \<open>Steps that change the world only\<close>

definition world_op :: "'w run_env \<Rightarrow> ('w run_state, 'a) eff \<Rightarrow> bool" where
  "world_op env m \<longleftrightarrow> (\<forall>s r s'. m s = (r, s') \<longrightarrow> (\<exists>w. s' = s\<lparr>rs_world := w\<rparr>) \<and>
     (\<forall>e. r = Inl e \<longrightarrow> faithful env \<longrightarrow> failure e))"

named_theorems world_ops "the steps that change the world only"

lemma same_world: "\<exists>w. s = s\<lparr>rs_world := w\<rparr>"
  by (rule exI [of _ "rs_world s"]) simp

lemma world_op_basic [world_ops]:
  "world_op env (ret x)" "failure e \<Longrightarrow> world_op env (raise e)" "safe r \<Longrightarrow> world_op env (lift r)"
  by (auto simp: world_op_def safe_def same_world)

lemma world_op_sbind [world_ops]:
  assumes m: "world_op env m" and f: "\<And>x. world_op env (f x)"
  shows "world_op env (sbind m f)"
  unfolding world_op_def
proof (intro allI impI)
  fix s r s' assume b: "sbind m f s = (r, s')"
  obtain r1 s1 where m1: "m s = (r1, s1)" by fastforce
  obtain w1 where w1: "s1 = s\<lparr>rs_world := w1\<rparr>" and e1: "\<And>e. r1 = Inl e \<Longrightarrow> faithful env \<Longrightarrow> failure e"
    using m m1 unfolding world_op_def by metis
  show "(\<exists>w. s' = s\<lparr>rs_world := w\<rparr>) \<and> (\<forall>e. r = Inl e \<longrightarrow> faithful env \<longrightarrow> failure e)"
  proof (cases r1)
    case (Inl e)
    with b m1 w1 e1 show ?thesis by (auto simp: sbind_def)
  next
    case (Inr x)
    with b m1 have "f x s1 = (r, s')" by (simp add: sbind_def)
    with f [of x] w1 show ?thesis unfolding world_op_def by fastforce
  qed
qed

lemma world_op_ext [world_ops]: "(faithful env \<Longrightarrow> raises_failures m) \<Longrightarrow> world_op env (ext m)"
  by (auto simp: world_op_def ext_def raises_failures_def split: prod.splits)

lemma world_op_if [world_ops]:
  "(b \<Longrightarrow> world_op env m) \<Longrightarrow> (\<not> b \<Longrightarrow> world_op env n) \<Longrightarrow> world_op env (if b then m else n)"
  by simp

lemma world_op_option [world_ops]:
  "(x = None \<Longrightarrow> world_op env m) \<Longrightarrow> (\<And>y. x = Some y \<Longrightarrow> world_op env (f y)) \<Longrightarrow>
     world_op env (case x of None \<Rightarrow> m | Some y \<Rightarrow> f y)"
  by (cases x) simp_all

lemma world_op_get [world_ops]: "(\<And>s. world_op env (f s)) \<Longrightarrow> world_op env (sbind get f)"
  by (auto simp: world_op_def sbind_def get_def)

lemma world_op_reading [world_ops]:
  assumes "\<And>read. (\<And>h. safe (read h)) \<Longrightarrow> safe (f read)"
  shows "world_op env (reading env f)"
proof -
  have "safe (f (env_read_blob env w))" if "faithful env" for w
    using that by (intro assms) (simp add: faithful_def)
  then show ?thesis by (auto simp: world_op_def reading_def safe_def same_world)
qed

lemma faithfulD:
  "faithful env \<Longrightarrow> raises_failures (env_author env q)" "faithful env \<Longrightarrow> raises_failures (env_validate env v)"
  "faithful env \<Longrightarrow> raises_failures (env_critic env c)" "faithful env \<Longrightarrow> raises_failures (env_journal env j)"
  "faithful env \<Longrightarrow> raises_failures (env_clock env)" "faithful env \<Longrightarrow> raises_failures (env_integrity_guard env m)"
  "faithful env \<Longrightarrow> raises_failures (env_publish_subject env m)"
  "faithful env \<Longrightarrow> env_secret_provider env = Some p \<Longrightarrow> raises_failures p"
  by (simp_all add: faithful_def)

lemma failure_credential [simp]: "failure (credential_failure t)"
  by (simp add: credential_failure_def)

lemma world_op_secrets [world_ops]: "world_op env (current_known_secrets env)"
  by (auto simp: current_known_secrets_def intro!: world_ops faithfulD)

lemma world_op_journal [world_ops]: "world_op env (journal env c)"
  by (auto simp: journal_def intro!: world_ops faithfulD)

lemma world_op_deadline [world_ops]: "world_op env (ensure_deadline env t)"
  by (auto simp: ensure_deadline_def intro!: world_ops faithfulD)

lemma world_op_guard [world_ops]:
  "world_op env (ext (env_integrity_guard env m))" "world_op env (ext (env_publish_subject env m))"
  "world_op env (ext (env_validate env v))"
  by (auto intro!: world_ops faithfulD)

lemma world_op_stop [world_ops]: "world_op env (stop env r d)"
  by (auto simp: stop_def Let_def intro!: world_ops)

lemma world_op_attempt [world_ops]: "world_op env (journal_validation_attempt env st n ph m t)"
  by (auto simp: journal_validation_attempt_def Let_def intro!: world_ops fails_only)

lemma world_op_prove [world_ops]:
  "world_op env (prove_opaque_validation_independence env st dl a m b n ph)"
  by (auto simp: prove_opaque_validation_independence_def Let_def intro!: world_ops fails_only)

lemma world_op_open_run [world_ops]: "world_op env (open_run env st dl task base pre)"
  unfolding open_run_def Let_def
  by (auto intro!: world_ops fails_only safe_manifest_scan split: option.split)

lemma world_op_baseline [world_ops]: "world_op env (run_baseline env st dl base prepared)"
  unfolding run_baseline_def Let_def
  by (auto intro!: world_ops fails_only)

section \<open>The invariant of the run\<close>

definition protected_kept :: "'w run_env \<Rightarrow> subject_manifest \<Rightarrow> subject_manifest \<Rightarrow> bool" where
  "protected_kept env base m \<longleftrightarrow> wf_manifest m \<and>
     (\<forall>p. disposition (env_policy env) p = PROTECTED \<longrightarrow> entry_at m p = entry_at base p)"

definition run_inv :: "'w run_env \<Rightarrow> subject_manifest \<Rightarrow> loop_settings \<Rightarrow> 'w run_state \<Rightarrow> bool" where
  "run_inv env base st s \<longleftrightarrow>
     (wf_candidates env \<longrightarrow> wf_manifest base \<longrightarrow> protected_kept env base (rs_current s)) \<and>
     0 \<le> rs_rounds_completed s \<and> rs_rounds_completed s \<le> ls_max_rounds st"

definition bad :: "'w run_env \<Rightarrow> subject_manifest \<Rightarrow> loop_settings \<Rightarrow> exn \<Rightarrow> 'w run_state \<Rightarrow> bool" where
  "bad env base st e s \<longleftrightarrow> (faithful env \<longrightarrow> failure e) \<and> run_inv env base st s"

lemma run_inv_simps [simp]:
  "run_inv env base st (s\<lparr>rs_world := w\<rparr>) \<longleftrightarrow> run_inv env base st s"
  "run_inv env base st (s\<lparr>rs_thread_id := i\<rparr>) \<longleftrightarrow> run_inv env base st s"
  "run_inv env base st (s\<lparr>rs_fatal := l\<rparr>) \<longleftrightarrow> run_inv env base st s"
  "run_inv env base st (s\<lparr>rs_stall := d\<rparr>) \<longleftrightarrow> run_inv env base st s"
  "run_inv env base st (s\<lparr>rs_ledger := g\<rparr>) \<longleftrightarrow> run_inv env base st s"
  "run_inv env base st (s\<lparr>rs_prompt := p\<rparr>) \<longleftrightarrow> run_inv env base st s"
  by (simp_all add: run_inv_def)

lemma wp_sbindI: "wp m (\<lambda>x. wp (f x) Q E) E s \<Longrightarrow> wp (sbind m f) Q E s"
  by (simp add: wp_simps)

lemma wp_ifI: "(b \<Longrightarrow> wp m Q E s) \<Longrightarrow> (\<not> b \<Longrightarrow> wp n Q E s) \<Longrightarrow> wp (if b then m else n) Q E s"
  by simp

lemma wp_optionI:
  "(x = None \<Longrightarrow> wp m Q E s) \<Longrightarrow> (\<And>y. x = Some y \<Longrightarrow> wp (f y) Q E s) \<Longrightarrow>
     wp (case x of None \<Rightarrow> m | Some y \<Rightarrow> f y) Q E s"
  by (cases x) simp_all

lemma wp_retI: "Q x s \<Longrightarrow> wp (ret x) Q E s"
  by (simp add: wp_simps)

lemma wp_getI: "Q s s \<Longrightarrow> wp get Q E s"
  by (simp add: wp_simps)

lemma wp_modifyI: "Q () (f s) \<Longrightarrow> wp (modify f) Q E s"
  by (simp add: wp_simps)

lemma wp_raiseI: "failure e \<Longrightarrow> run_inv env base st s \<Longrightarrow> wp (raise e) Q (bad env base st) s"
  by (simp add: wp_simps bad_def)

lemma wp_liftI:
  "safe r \<Longrightarrow> run_inv env base st s \<Longrightarrow> (\<And>x. r = Inr x \<Longrightarrow> Q x s) \<Longrightarrow> wp (lift r) Q (bad env base st) s"
  by (auto simp: wp_simps bad_def safe_def split: sum.splits)

lemma wp_extI:
  "(faithful env \<Longrightarrow> raises_failures m) \<Longrightarrow> run_inv env base st s \<Longrightarrow>
     (\<And>x w. m (rs_world s) = (Inr x, w) \<Longrightarrow> Q x (s\<lparr>rs_world := w\<rparr>)) \<Longrightarrow> wp (ext m) Q (bad env base st) s"
  by (auto simp: wp_def ext_def bad_def raises_failures_def split: prod.splits sum.splits)

lemma wp_readingI:
  "(\<And>read. (\<And>h. safe (read h)) \<Longrightarrow> safe (f read)) \<Longrightarrow> run_inv env base st s \<Longrightarrow>
     (\<And>x. f (env_read_blob env (rs_world s)) = Inr x \<Longrightarrow> Q x s) \<Longrightarrow> wp (reading env f) Q (bad env base st) s"
  using world_op_reading [of f env, unfolded world_op_def, rule_format, of s]
  by (auto simp: wp_def reading_def bad_def split: sum.splits)

lemma wp_world:
  assumes "world_op env m" and "run_inv env base st s" and "\<And>x w. Q x (s\<lparr>rs_world := w\<rparr>)"
  shows "wp m Q (bad env base st) s"
proof -
  obtain r s' where m: "m s = (r, s')" by fastforce
  with assms(1) obtain w where "s' = s\<lparr>rs_world := w\<rparr>" "\<And>e. r = Inl e \<Longrightarrow> faithful env \<Longrightarrow> failure e"
    unfolding world_op_def by metis
  with m assms(2,3) show ?thesis by (cases r) (auto simp: wp_def bad_def)
qed

lemmas wp_worlds = wp_world [OF world_op_secrets] wp_world [OF world_op_journal] wp_world [OF world_op_deadline]
  wp_world [OF world_op_attempt] wp_world [OF world_op_prove]

lemmas wp_intros = wp_sbindI wp_ifI wp_optionI wp_retI wp_getI wp_modifyI wp_worlds wp_extI wp_liftI wp_readingI wp_raiseI

section \<open>The author's turn\<close>

definition authored :: "'w run_env \<Rightarrow> subject_manifest \<Rightarrow> reconciliation \<Rightarrow> bool" where
  "authored env base r \<longleftrightarrow> (\<exists>q w t w'. env_author env q w = (Inr t, w') \<and>
     reconcile_candidate base (at_candidate t) (env_policy env) default_limits = Inr r)"

lemma authoredI:
  "env_author env q w = (Inr t, w') \<Longrightarrow>
     reconcile_candidate base (at_candidate t) (env_policy env) default_limits = Inr r \<Longrightarrow> authored env base r"
  unfolding authored_def by blast

lemma authored_protected:
  assumes "authored env base r" and "wf_candidates env" and "wf_manifest base"
  shows "protected_kept env base (authoritative_manifest r)"
proof -
  obtain q w t w' where t: "env_author env q w = (Inr t, w')"
    and r: "reconcile_candidate base (at_candidate t) (env_policy env) default_limits = Inr r"
    using assms(1) unfolding authored_def by blast
  have c: "wf_manifest (at_candidate t)" using assms(2) t unfolding wf_candidates_def by blast
  note R = reconcile_Inr [OF assms(3) c r]
  show ?thesis
    using R(1,2) unfolding protected_kept_def R(4) touches_protected_def kept_at_def by auto metis
qed

lemma run_inv_current:
  "run_inv env base st s \<Longrightarrow> authored env base r \<Longrightarrow> run_inv env base st (s\<lparr>rs_current := authoritative_manifest r\<rparr>)"
  by (auto simp: run_inv_def authored_protected)

lemma author_phase_wp:
  assumes "run_inv env base st s"
  shows "wp (author_phase env st dl base n)
    (\<lambda>r s'. run_inv env base st s' \<and> rs_current s' = authoritative_manifest r \<and> authored env base r \<and>
       rs_fatal s' = rs_fatal s \<and> rs_rounds_completed s' = rs_rounds_completed s)
    (bad env base st) s"
  unfolding author_phase_def
  by (intro wp_intros fails_only safe_manifest_scan faithfulD failure_credential)
    (auto simp: assms intro!: run_inv_current intro: authoredI)

section \<open>Validation\<close>

definition validated ::
  "'w run_env \<Rightarrow> time \<Rightarrow> validation_turn \<Rightarrow> subject_manifest \<Rightarrow> validation_turn \<Rightarrow> bool" where
  "validated env dl baseline m t \<longleftrightarrow>
     (\<exists>w w'. env_validate env
        \<lparr>vq_subject = m, vq_baseline = Some (vt_summary baseline), vq_deadline = dl\<rparr> w = (Inr t, w')) \<and>
     fingerprint m = Inr (summary_fingerprint (vt_summary t)) \<and>
     (\<exists>ps. verify_validation_mutation m (vt_result_manifest t) (env_policy env) = Inr ps) \<and>
     (\<forall>c \<in> set (checks (vt_summary t)). outcome c \<in> {PASSED, FAILED})"

lemma validatedI:
  "env_validate env \<lparr>vq_subject = m, vq_baseline = Some (vt_summary b), vq_deadline = dl\<rparr> w = (Inr t, w') \<Longrightarrow>
     verify_validation_turn (env_policy env) m t = Inr () \<Longrightarrow>
     ensure_validation_can_continue False (vt_summary t) ev = Inr () \<Longrightarrow> validated env dl b m t"
  unfolding validated_def verify_validation_turn_Inr ensure_validation_can_continue_Inr by blast

lemma validation_phase_wp:
  assumes "run_inv env base st s"
  shows "wp (validation_phase env st dl base b n r)
    (\<lambda>(t, ks, ev) s'. (\<exists>w. s' = s\<lparr>rs_world := w\<rparr>) \<and> validated env dl b (authoritative_manifest r) t \<and>
       ve_approval_eligible ev)
    (bad env base st) s"
  unfolding validation_phase_def Let_def
  by (intro wp_intros fails_only faithfulD)
    (auto simp: assms ensure_validation_can_continue_Inr intro!: validatedI)

section \<open>The critic's turn\<close>

lemma is_finding_inject: "is_finding f v \<Longrightarrow> is_finding g v \<Longrightarrow> f = g"
proof -
  have opt: "(opt_str x = opt_str y) = (x = y)" "(opt_int i = opt_int j) = (i = j)" for x y i j
    by (auto simp: opt_str_def opt_int_def split: option.splits)
  show "is_finding f v \<Longrightarrow> is_finding g v \<Longrightarrow> f = g"
    unfolding is_finding_def has_keys_def by (cases f; cases g) (auto simp: opt)
qed

lemma findings_inject: "list_all2 is_finding fs vs \<Longrightarrow> list_all2 is_finding gs vs \<Longrightarrow> fs = gs"
  by (metis (no_types, lifting) is_finding_inject list_all2_conv_all_nth nth_equalityI)

lemma review_document_unique: "validate_critic_review ap (review_document q) = Inr r \<Longrightarrow> r = q"
proof -
  assume v: "validate_critic_review ap (review_document q) = Inr r"
  have opt: "(opt_str x = opt_str y) = (x = y)" for x y
    by (auto simp: opt_str_def split: option.splits)
  have verdict: "(verdict_value x = verdict_value y) = (x = y)" for x y
    by (cases x; cases y) simp_all
  from v have r: "is_review r (review_document q)" and "r_schema_version r = CRITIC_SCHEMA_VERSION"
    by (simp_all add: validate_critic_review_Inr wf_review_def)
  with review_document_is_review [of q] show "r = q"
    unfolding is_review_def has_keys_def by (cases r; cases q) (auto simp: opt verdict dest: findings_inject)
qed

definition reviewed ::
  "'w run_env \<Rightarrow> loop_settings \<Rightarrow> time \<Rightarrow> ustr \<Rightarrow> subject_manifest \<Rightarrow> int \<Rightarrow> reconciliation \<Rightarrow>
   validation_turn \<Rightarrow> validation_evidence \<Rightarrow> critic_turn \<Rightarrow> bool" where
  "reviewed env st dl task base n r t ev c \<longleftrightarrow>
     (\<exists>w0 prior secrets bundle w w'.
        build_review_bundle (env_read_blob env w0) (ls_limits st)
          (review_request st task base r ev prior secrets) = Inr bundle \<and>
        env_critic env \<lparr>cq_round_number = n, cq_bundle = bundle, cq_approval = approval_of t ev,
          cq_deadline = dl\<rparr> w = (Inr c, w')) \<and>
     validate_critic_review (Some (approval_of t ev)) (review_document (ct_review c)) = Inr (ct_review c)"

lemma reviewedI:
  "build_review_bundle (env_read_blob env w0) (ls_limits st)
      (review_request st task base r ev prior secrets) = Inr bundle \<Longrightarrow>
     env_critic env \<lparr>cq_round_number = n, cq_bundle = bundle, cq_approval = approval_of t ev,
        cq_deadline = dl\<rparr> w = (Inr c, w') \<Longrightarrow>
     validate_critic_review (Some (approval_of t ev)) (review_document (ct_review c)) = Inr q \<Longrightarrow>
     reviewed env st dl task base n r t ev (c\<lparr>ct_review := q\<rparr>)"
  using review_document_unique unfolding reviewed_def by fastforce

lemma critic_phase_wp:
  assumes "run_inv env base st s" and "1 \<le> n" "n \<le> ls_max_rounds st"
  shows "wp (critic_phase env st dl task base n r t ev)
    (\<lambda>c s'. (\<exists>w. s' = s\<lparr>rs_world := w, rs_rounds_completed := n\<rparr>) \<and> reviewed env st dl task base n r t ev c)
    (bad env base st) s"
  unfolding critic_phase_def
  by (intro wp_intros fails_only safe_build_review_bundle faithfulD failure_credential)
    (auto simp: assms intro: reviewedI)

section \<open>The end of a round\<close>

definition result_ok :: "'w run_env \<Rightarrow> subject_manifest \<Rightarrow> loop_settings \<Rightarrow> loop_result \<Rightarrow> bool" where
  "result_ok env base st res \<longleftrightarrow>
     (wf_candidates env \<longrightarrow> wf_manifest base \<longrightarrow> protected_kept env base (lr_subject res)) \<and>
     0 \<le> lr_rounds_completed res \<and> lr_rounds_completed res \<le> ls_max_rounds st \<and>
     lr_exit_code res = exit_code_for (lr_stop_reason res)"

lemma stop_wp:
  assumes "run_inv env base st s"
    and "\<And>w res. result_ok env base st res \<Longrightarrow> lr_stop_reason res = reason \<Longrightarrow> lr_detail res = detail \<Longrightarrow>
      lr_subject res = rs_current s \<Longrightarrow> lr_rounds_completed res = rs_rounds_completed s \<Longrightarrow> Q res (s\<lparr>rs_world := w\<rparr>)"
  shows "wp (stop env reason detail) Q (bad env base st) s"
  unfolding stop_def Let_def
  by (intro wp_intros) (use assms in \<open>auto simp: result_ok_def run_inv_def\<close>)

text \<open>What a decision that is not a latched failure says about the round.\<close>

definition decision_grounds :: "round_observation \<Rightarrow> stop_reason \<Rightarrow> bool" where
  "decision_grounds ob reason \<longleftrightarrow>
     (reason = CONVERGED \<longrightarrow> succeeded ob) \<and>
     (reason = CRITIC_BLOCKED \<longrightarrow> critic_verdict ob = Some (U ''BLOCKED'')) \<and>
     (reason = ROUND_CAP_REACHED \<longrightarrow> max_rounds ob \<le> round_count ob) \<and>
     (reason = STALLED \<longrightarrow> repeated_non_success_state ob)"

lemma decide_round_facts:
  assumes "check_observation ob = Inr ob" and "latch_reason l = None" and "decide ob l = Inr (d, l')"
  shows "decision_reason d = Some reason \<Longrightarrow> decision_grounds ob reason"
    and "decision_reason d = None \<Longrightarrow> latch_reason l' = None \<and> round_count ob < max_rounds ob"
proof -
  obtain l2 where l2: "decide ob l = Inr (ordered_decision ob l, l2)"
    and r: "latch_reason l2 = None \<longleftrightarrow> latch_reason l = None \<and> \<not> late ob \<and> \<not> contradicted ob"
    using decide_ordered_decision [OF assms(1)] by metis
  have d: "d = ordered_decision ob l" "l' = l2" using assms(3) l2 by simp_all
  show "decision_reason d = Some reason \<Longrightarrow> decision_grounds ob reason"
    using assms(2) unfolding d by (auto simp: decision_defs decision_grounds_def split: if_splits option.splits)
  show "decision_reason d = None \<Longrightarrow> latch_reason l' = None \<and> round_count ob < max_rounds ob"
    using assms(2) r unfolding d by (auto simp: decision_defs split: if_splits option.splits)
qed

lemma observe_progress_wp:
  "run_inv env base st s \<Longrightarrow> (\<And>b d. Q b (s\<lparr>rs_stall := d\<rparr>)) \<Longrightarrow> wp (observe_progress p) Q (bad env base st) s"
  using safe_observe [of p "rs_stall s"]
  by (auto simp: wp_def observe_progress_def bad_def safe_def split: prod.splits sum.splits)

lemma decide_round_wp:
  assumes "run_inv env base st s" and "latch_reason (rs_fatal s) = None"
    and "\<And>d l. (\<And>reason. decision_reason d = Some reason \<Longrightarrow> decision_grounds ob reason) \<Longrightarrow>
      (decision_reason d = None \<Longrightarrow> latch_reason l = None \<and> round_count ob < max_rounds ob) \<Longrightarrow>
      Q d (s\<lparr>rs_fatal := l\<rparr>)"
  shows "wp (decide_round ob) Q (bad env base st) s"
proof -
  have c: "ob' = ob" if "check_observation ob = Inr ob'" for ob'
    using that by (auto simp: check_observation_def split: if_splits)
  note facts = decide_round_facts [OF _ assms(2)]
  show ?thesis
    unfolding decide_round_def case_prod_beta
  proof (intro wp_intros fails_only)
    fix ob' x
    assume ob: "check_observation ob = Inr ob'" and d: "decide ob' (rs_fatal s) = Inr x"
    have o': "check_observation ob = Inr ob" using ob c by simp
    have d': "decide ob (rs_fatal s) = Inr (fst x, snd x)" using d c [OF ob] by simp
    show "Q (fst x) (s\<lparr>rs_fatal := snd x\<rparr>)"
      by (rule assms(3)) (use facts [OF o' d'] in blast)+
  qed (use assms(1) in simp_all)
qed

lemma conclude_phase_wp:
  assumes "run_inv env base st s" and "latch_reason (rs_fatal s) = None"
  shows "wp (conclude_phase env st dl task n r t ks ev c)
    (\<lambda>x s'. run_inv env base st s' \<and>
       (case x of
          None \<Rightarrow> latch_reason (rs_fatal s') = None \<and> n < ls_max_rounds st
        | Some res \<Rightarrow> result_ok env base st res \<and> lr_subject res = rs_current s \<and>
            lr_rounds_completed res = rs_rounds_completed s \<and>
            (\<exists>repeated. decision_grounds (observation_of st dl n t ev c repeated) (lr_stop_reason res))))
    (bad env base st) s"
  unfolding conclude_phase_def
  by (intro wp_intros observe_progress_wp decide_round_wp stop_wp fails_only)
    (use assms in \<open>auto simp: observation_of_def\<close>)

section \<open>A round and the loop\<close>

text \<open>What was asked and answered in the round that stopped the run, and the ground of the stop.\<close>

definition concluded ::
  "'w run_env \<Rightarrow> loop_settings \<Rightarrow> time \<Rightarrow> ustr \<Rightarrow> subject_manifest \<Rightarrow> loop_result \<Rightarrow> bool" where
  "concluded env st dl task base res \<longleftrightarrow>
     (\<exists>n r b t ev c repeated.
        1 \<le> n \<and> n \<le> ls_max_rounds st \<and> lr_rounds_completed res = n \<and>
        authored env base r \<and> lr_subject res = authoritative_manifest r \<and>
        validated env dl b (lr_subject res) t \<and> ve_approval_eligible ev \<and>
        reviewed env st dl task base n r t ev c \<and>
        decision_grounds (observation_of st dl n t ev c repeated) (lr_stop_reason res))"

definition round_post ::
  "'w run_env \<Rightarrow> loop_settings \<Rightarrow> time \<Rightarrow> ustr \<Rightarrow> subject_manifest \<Rightarrow> int \<Rightarrow> loop_result option \<Rightarrow>
   'w run_state \<Rightarrow> bool" where
  "round_post env st dl task base n x s \<longleftrightarrow> run_inv env base st s \<and>
     (case x of
        None \<Rightarrow> latch_reason (rs_fatal s) = None \<and> n < ls_max_rounds st
      | Some res \<Rightarrow> result_ok env base st res \<and> concluded env st dl task base res)"

lemma review_wp:
  assumes "run_inv env base st s" and "latch_reason (rs_fatal s) = None" and n: "1 \<le> n" "n \<le> ls_max_rounds st"
    and r: "rs_current s = authoritative_manifest r" "authored env base r"
    and v: "validated env dl b (authoritative_manifest r) t" "ve_approval_eligible ev"
  shows "wp (sbind (critic_phase env st dl task base n r t ev) (conclude_phase env st dl task n r t ks ev))
    (round_post env st dl task base n) (bad env base st) s"
proof (intro wp_sbindI, rule wp_mono [OF critic_phase_wp [OF assms(1) n]], clarify)
  fix c w
  assume c: "reviewed env st dl task base n r t ev c"
  let ?s = "s\<lparr>rs_world := w, rs_rounds_completed := n\<rparr>"
  have s: "run_inv env base st ?s" "latch_reason (rs_fatal ?s) = None"
    using assms(1,2) n by (simp_all add: run_inv_def)
  have "concluded env st dl task base res" if "lr_subject res = rs_current ?s" "lr_rounds_completed res = n"
    "decision_grounds (observation_of st dl n t ev c repeated) (lr_stop_reason res)" for res repeated
    unfolding concluded_def
    by (rule exI [of _ n], rule exI [of _ r], rule exI [of _ b], rule exI [of _ t], rule exI [of _ ev],
        rule exI [of _ c], rule exI [of _ repeated]) (use that n r v c in simp)
  then show "wp (conclude_phase env st dl task n r t ks ev c)
      (round_post env st dl task base n) (bad env base st) ?s"
    by (intro wp_mono [OF conclude_phase_wp [OF s, of dl task n r t ks ev c]])
      (auto simp: round_post_def split: option.splits)
qed simp

lemma run_round_wp:
  assumes "run_inv env base st s" and "latch_reason (rs_fatal s) = None" and n: "1 \<le> n" "n \<le> ls_max_rounds st"
  shows "wp (run_round env st dl task base b n) (round_post env st dl task base n) (bad env base st) s"
  unfolding run_round_def
proof (intro wp_sbindI, rule wp_mono [OF author_phase_wp [OF assms(1)]])
  fix r s1
  assume "run_inv env base st s1 \<and> rs_current s1 = authoritative_manifest r \<and> authored env base r \<and>
    rs_fatal s1 = rs_fatal s \<and> rs_rounds_completed s1 = rs_rounds_completed s"
  then have s1: "run_inv env base st s1" "rs_current s1 = authoritative_manifest r" "authored env base r"
    "latch_reason (rs_fatal s1) = None" using assms(2) by simp_all
  show "wp (sbind (validation_phase env st dl base b n r)
      (\<lambda>(t, ks, ev). sbind (critic_phase env st dl task base n r t ev) (conclude_phase env st dl task n r t ks ev)))
    (round_post env st dl task base n) (bad env base st) s1"
    by (intro wp_sbindI wp_mono [OF validation_phase_wp [OF s1(1)]])
      (use s1 n in \<open>auto intro!: review_wp\<close>)
qed simp

lemma run_rounds_wp:
  assumes "run_inv env base st s" and "latch_reason (rs_fatal s) = None"
    and "1 \<le> i" "i \<le> ls_max_rounds st"
  shows "wp (run_rounds env st dl task base b [i..ls_max_rounds st])
    (\<lambda>res s'. result_ok env base st res \<and> concluded env st dl task base res) (bad env base st) s"
  using assms
proof (induction "nat (ls_max_rounds st - i)" arbitrary: i s rule: less_induct)
  case less
  have u: "[i..ls_max_rounds st] = i # [i + 1..ls_max_rounds st]"
    using less.prems(4) by (simp add: upto_rec1)
  show ?case
    unfolding u run_rounds.simps
  proof (intro wp_sbindI, rule wp_mono [OF run_round_wp [OF less.prems]])
    fix x s'
    assume x: "round_post env st dl task base i x s'"
    show "wp (case x of None \<Rightarrow> run_rounds env st dl task base b [i + 1..ls_max_rounds st] | Some res \<Rightarrow> ret res)
      (\<lambda>res s'. result_ok env base st res \<and> concluded env st dl task base res) (bad env base st) s'"
    proof (cases x)
      case None
      with x less.prems show ?thesis by (simp add: less.hyps round_post_def)
    next
      case (Some res)
      with x show ?thesis by (simp add: wp_simps round_post_def)
    qed
  qed simp
qed

section \<open>The run\<close>

lemma run_body_wp:
  assumes "run_inv env base st s" and "latch_reason (rs_fatal s) = None" and "1 \<le> ls_max_rounds st"
  shows "wp (run_body env st dl task base prepared pre)
    (\<lambda>res s'. result_ok env base st res \<and> concluded env st dl task base res) (bad env base st) s"
  unfolding run_body_def
  by (intro wp_sbindI wp_world [OF world_op_open_run] wp_world [OF world_op_baseline] run_rounds_wp)
    (use assms in simp_all)

lemma world_op_detail [world_ops]: "world_op env (detail_contains_secret env d)"
proof -
  let ?m = "sbind (lift (encode_utf8 d)) (\<lambda>encoded. sbind (current_known_secrets env)
    (\<lambda>secrets. ret (raw_log_contains_known_secret encoded secrets)))"
  have "world_op env ?m" by (auto intro!: world_ops fails_only)
  then show ?thesis
    unfolding world_op_def detail_contains_secret_def handle_def
    by (force split: sum.splits prod.splits exn.splits)
qed

lemma on_exception_wp:
  assumes "bad env base st e s"
  shows "wp (on_exception env e)
    (\<lambda>res s'. result_ok env base st res \<and> (faithful env \<longrightarrow> lr_stop_reason res \<notin> set non_fatal_reasons))
    (bad env base st) s"
proof -
  have i: "run_inv env base st s" and f: "faithful env \<Longrightarrow> failure e" using assms by (auto simp: bad_def)
  show ?thesis
    by (cases e; simp only: on_exception_def exn.case)
      (intro stop_wp wp_sbindI wp_ifI wp_world [OF world_op_detail]; use i f in simp)+
qed

lemma run_inv_initial: "1 \<le> ls_max_rounds st \<Longrightarrow> run_inv env base st (initial_state base prompt w)"
  by (simp add: run_inv_def initial_state_def protected_kept_def)

definition run_post :: "'w run_env \<Rightarrow> loop_settings \<Rightarrow> time \<Rightarrow> ustr \<Rightarrow> subject_manifest \<Rightarrow> loop_result \<Rightarrow> bool" where
  "run_post env st dl task base res \<longleftrightarrow> result_ok env base st res \<and>
     (concluded env st dl task base res \<or> (faithful env \<longrightarrow> lr_stop_reason res \<notin> set non_fatal_reasons))"

lemma handled_run_wp:
  assumes "1 \<le> ls_max_rounds st"
  shows "wp (handle (run_body env st dl task base prepared pre) (on_exception env))
    (\<lambda>res s'. run_post env st dl task base res) (bad env base st) (initial_state base prompt w)"
  unfolding wp_handle
  by (rule wp_mono [OF run_body_wp [OF run_inv_initial [OF assms] _ assms]])
    (auto simp: initial_state_def new_latch_def run_post_def intro: wp_mono [OF on_exception_wp])

lemma run_result:
  assumes "check_settings st = Inr st" and r: "run env task base st prepared given pre w = (Inr res, w')"
  shows "\<exists>dl. (\<forall>d. given = Some d \<longrightarrow> dl = d) \<and> run_post env st dl task base res"
proof -
  have m: "1 \<le> ls_max_rounds st" using assms(1) by (auto simp: check_settings_def split: if_splits)
  obtain started w1 where "env_clock env w = (Inr started, w1)"
    using r by (auto simp: run_def sbind_Inr_iff)
  define dl where "dl = (case given of None \<Rightarrow> started + ls_max_runtime_seconds st | Some d \<Rightarrow> d)"
  obtain prompt s' where
    "handle (run_body env st dl task base prepared pre) (on_exception env) (initial_state base prompt w1) = (Inr res, s')"
    using r \<open>env_clock env w = (Inr started, w1)\<close>
    by (auto simp: run_def sbind_def Let_def dl_def [symmetric] split: if_splits sum.splits prod.splits)
  then have "run_post env st dl task base res" by (rule wp_Inr [OF handled_run_wp [OF m]])
  then show ?thesis by (intro exI [of _ dl]) (simp add: dl_def)
qed

section \<open>What leaves the runner was scanned\<close>

lemma scan_dedup [simp]:
  "raw_log_contains_known_secret b (dedup S) \<longleftrightarrow> raw_log_contains_known_secret b S"
  by (simp add: raw_log_contains_known_secret_def list_ex_iff)

lemma leaks_dedup [simp]: "leaks (dedup S) v \<longleftrightarrow> leaks S v"
  by (simp add: leaks_def cong: option.case_cong)

text \<open>What is in a request to the author or to the critic is free of the secrets.\<close>

definition clean_prompt :: "known_secret list \<Rightarrow> author_request \<Rightarrow> bool" where
  "clean_prompt S q \<longleftrightarrow> (\<exists>b. utf8_encode (ar_prompt q) = Some b \<and> \<not> raw_log_contains_known_secret b S)"

definition clean_bundle :: "known_secret list \<Rightarrow> critic_request \<Rightarrow> bool" where
  "clean_bundle S q \<longleftrightarrow> \<not> raw_log_contains_known_secret (rb_encoded (cq_bundle q)) S \<and>
     \<not> leaks S (obj_of_json (rb_document (cq_bundle q)))"

text \<open>The secrets that are known in a world: those of the environment and, where it has a provider,
  those that the provider has just returned, leaving this world.\<close>

definition known_at :: "'w run_env \<Rightarrow> known_secret list \<Rightarrow> 'w \<Rightarrow> bool" where
  "known_at env S w \<longleftrightarrow>
     (case env_secret_provider env of
        None \<Rightarrow> S = env_known_secrets env
      | Some provide \<Rightarrow> (\<exists>w0 supplied. provide w0 = (Inr supplied, w) \<and> S = env_known_secrets env @ supplied))"

text \<open>Two environments that differ only in the models' answers to requests that are not clean of the
  secrets known at the moment of the question. A question asked in a world that the provider has
  not just left counts as not clean.\<close>

definition same_on_clean :: "'w run_env \<Rightarrow> 'w run_env \<Rightarrow> bool" where
  "same_on_clean env env' \<longleftrightarrow>
     env' = env\<lparr>env_author := env_author env', env_critic := env_critic env'\<rparr> \<and>
     (\<forall>q w S. known_at env S w \<longrightarrow> clean_prompt S q \<longrightarrow> env_author env' q w = env_author env q w) \<and>
     (\<forall>q w S. known_at env S w \<longrightarrow> clean_bundle S q \<longrightarrow> env_critic env' q w = env_critic env q w)"

lemma known_secrets_at:
  assumes "current_known_secrets env s = (Inr S, s')"
  shows "\<exists>S'. known_at env S' (rs_world s') \<and> S = dedup S'"
proof (cases "env_secret_provider env")
  case None
  then show ?thesis using assms by (simp add: current_known_secrets_def known_at_def)
next
  case (Some provide)
  then obtain supplied where "provide (rs_world s) = (Inr supplied, rs_world s')"
    "S = dedup (env_known_secrets env @ supplied)"
    using assms by (auto simp: current_known_secrets_def ext_def sbind_def split: sum.splits prod.splits)
  with Some show ?thesis
    by (intro exI [of _ "env_known_secrets env @ supplied"]) (auto simp: known_at_def)
qed

lemma sbind_run_cong: "(\<And>x s'. m s = (Inr x, s') \<Longrightarrow> f x s' = g x s') \<Longrightarrow> sbind m f s = sbind m g s"
  by (simp add: sbind_def split: sum.splits prod.splits)

lemma sbind_ext_cong: "m (rs_world s) = n (rs_world s) \<Longrightarrow> sbind (ext m) f s = sbind (ext n) f s"
  by (simp add: sbind_def ext_def)

lemma same_fields:
  assumes "same_on_clean env env'"
  shows "env_integrity_guard env' = env_integrity_guard env" "env_publish_subject env' = env_publish_subject env"
    "env_validate env' = env_validate env" "env_policy env' = env_policy env"
    "env_pending_metadata env' = env_pending_metadata env" "env_clock env' = env_clock env"
    "env_journal env' = env_journal env" "env_known_secrets env' = env_known_secrets env"
    "env_secret_provider env' = env_secret_provider env" "env_read_blob env' = env_read_blob env"
  using assms by (cases env; cases env'; simp add: same_on_clean_def)+

lemma same_ops:
  assumes "same_on_clean env env'"
  shows "current_known_secrets env' = current_known_secrets env" "journal env' = journal env"
    "ensure_deadline env' = ensure_deadline env" "stop env' = stop env" "reading env' = reading env"
proof -
  note f = same_fields [OF assms]
  show c: "current_known_secrets env' = current_known_secrets env" and j: "journal env' = journal env"
    and "ensure_deadline env' = ensure_deadline env" and "reading env' = reading env"
    by (intro HOL.ext; simp add: f current_known_secrets_def journal_def ensure_deadline_def reading_def)+
  show "stop env' = stop env" by (intro HOL.ext) (simp add: stop_def j)
qed

lemma same_validation:
  assumes "same_on_clean env env'"
  shows "journal_validation_attempt env' = journal_validation_attempt env"
    and "prove_opaque_validation_independence env' = prove_opaque_validation_independence env"
    and "open_run env' = open_run env" and "run_baseline env' = run_baseline env"
    and "validation_phase env' = validation_phase env" and "conclude_phase env' = conclude_phase env"
    and "on_exception env' = on_exception env"
proof -
  note f = same_fields [OF assms] same_ops [OF assms]
  show j: "journal_validation_attempt env' = journal_validation_attempt env"
    by (intro HOL.ext) (simp only: journal_validation_attempt_def f)
  show p: "prove_opaque_validation_independence env' = prove_opaque_validation_independence env"
    by (intro HOL.ext) (simp only: prove_opaque_validation_independence_def f j)
  show "open_run env' = open_run env" by (intro HOL.ext) (simp only: open_run_def f)
  show "run_baseline env' = run_baseline env" by (intro HOL.ext) (simp only: run_baseline_def f j p)
  show "validation_phase env' = validation_phase env" by (intro HOL.ext) (simp only: validation_phase_def f j p)
  show "conclude_phase env' = conclude_phase env" by (intro HOL.ext) (simp only: conclude_phase_def f)
  show "on_exception env' = on_exception env"
    by (intro HOL.ext) (simp only: on_exception_def detail_contains_secret_def f)
qed

lemma same_author_phase:
  assumes "same_on_clean env env'"
  shows "author_phase env' = author_phase env"
proof -
  note f = same_fields [OF assms] same_ops [OF assms]
  have a: "env_author env' q (rs_world s') = env_author env q (rs_world s')"
    if "encode_utf8 (ar_prompt q) = Inr b" "current_known_secrets env s = (Inr S, s')"
      "\<not> raw_log_contains_known_secret b S" for q b S s s'
    using assms known_secrets_at [OF that(2)] that
    by (auto simp: same_on_clean_def clean_prompt_def encode_utf8_def split: option.splits)
  have "author_phase env' st dl base n s = author_phase env st dl base n s" for st dl base n s
    unfolding author_phase_def f
    by (intro sbind_run_cong if_cong refl) (auto intro!: sbind_ext_cong a simp: get_def)
  then show ?thesis by (intro HOL.ext) simp
qed

lemma same_critic_phase:
  assumes "same_on_clean env env'"
  shows "critic_phase env' = critic_phase env"
proof -
  note f = same_fields [OF assms] same_ops [OF assms]
  have c: "env_critic env' q (rs_world s') = env_critic env q (rs_world s')"
    if k: "current_known_secrets env s = (Inr S, s')"
      and i: "(if raw_log_contains_known_secret (rb_encoded (cq_bundle q)) S then Inr True
        else json_tree_contains_known_secret (OSeq [obj_of_json (rb_document (cq_bundle q)), OStr h]) S) = Inr False"
    for q h S s s'
  proof -
    obtain S' where S': "known_at env S' (rs_world s')" "S = dedup S'"
      using known_secrets_at [OF k] by blast
    then have "clean_bundle S' q"
      using i json_tree_scan(2) [of "OSeq [obj_of_json (rb_document (cq_bundle q)), OStr h]" S False]
      by (auto simp: clean_bundle_def split: if_splits)
    then show ?thesis using assms S' by (auto simp: same_on_clean_def)
  qed
  have "critic_phase env' st dl task base n r t ev s = critic_phase env st dl task base n r t ev s"
    for st dl task base n r t ev s
    unfolding critic_phase_def f
    by (intro sbind_run_cong if_cong refl) (auto intro!: sbind_ext_cong c)
  then show ?thesis by (intro HOL.ext) simp
qed

lemma same_run:
  assumes "same_on_clean env env'"
  shows "run env' = run env"
proof -
  note f = same_validation [OF assms] same_author_phase [OF assms] same_critic_phase [OF assms]
  have r: "run_round env' = run_round env" by (intro HOL.ext) (simp only: run_round_def f)
  have rs: "run_rounds env' st dl task base b ns = run_rounds env st dl task base b ns" for st dl task base b ns
    by (induction ns) (simp_all add: r)
  have "run_body env' = run_body env" by (intro HOL.ext) (simp only: run_body_def f rs)
  then show ?thesis
    by (intro HOL.ext) (simp only: run_def f same_fields [OF assms])
qed

section \<open>Failures are reported without secrets\<close>

lemma detail_scanned:
  assumes "detail_contains_secret env d s = (Inr False, s')"
  shows "\<exists>b secrets s1. utf8_encode d = Some b \<and> current_known_secrets env s = (Inr secrets, s1) \<and>
    \<not> raw_log_contains_known_secret b secrets"
  using assms
  by (auto simp: detail_contains_secret_def handle_def sbind_def encode_utf8_def
      split: sum.splits prod.splits exn.splits option.splits)

lemma stop_Inr:
  "stop env reason detail s = (Inr res, s') \<Longrightarrow> lr_stop_reason res = reason \<and> lr_detail res = detail"
  by (auto simp: stop_def Let_def sbind_Inr_iff get_def)

lemma on_exception_withholds:
  assumes "on_exception env (AgentLoopError reason d) s = (Inr res, s')"
  shows "lr_stop_reason res = CREDENTIAL_REFRESH_FAILURE \<and>
      lr_detail res = U ''typed failure detail was withheld because it contained credential bytes'' \<or>
    lr_stop_reason res = reason \<and> lr_detail res = d \<and>
      (\<exists>b secrets s1. utf8_encode d = Some b \<and> current_known_secrets env s = (Inr secrets, s1) \<and>
        \<not> raw_log_contains_known_secret b secrets)"
proof -
  obtain secret s1 where s1: "detail_contains_secret env d s = (Inr secret, s1)"
    and r: "(if secret
          then stop env CREDENTIAL_REFRESH_FAILURE
                 (U ''typed failure detail was withheld because it contained credential bytes'')
          else stop env reason d) s1 = (Inr res, s')"
    using assms by (auto simp: on_exception_def sbind_Inr_iff)
  show ?thesis
  proof (cases secret)
    case True
    then show ?thesis using r stop_Inr by simp blast
  next
    case False
    then have "detail_contains_secret env d s = (Inr False, s1)" using s1 by simp
    note detail_scanned [OF this]
    moreover have "lr_stop_reason res = reason \<and> lr_detail res = d" using r False by (auto dest: stop_Inr)
    ultimately show ?thesis by blast
  qed
qed

end
