(* ===== verification/Samples.thy ===== *)
theory Samples
  imports Reconcile ManifestJson Blobs
begin

text \<open>
  Concrete manifests, a concrete policy and what the operations do on them: the inputs at which
  the witnesses of the properties apply the theorems.
\<close>

definition sample_entry :: "bytes \<Rightarrow> bytes \<Rightarrow> manifest_entry" where
  "sample_entry path data =
     \<lparr>entry_path = path, entry_kind = REGULAR, entry_mode = REGULAR_MODE,
      entry_size = Some (int (length data)), blob_sha256 = Some (U (sha256_hex data)),
      symlink_target = None, target_sha256 = None\<rparr>"

definition sample_manifest :: "(bytes \<times> bytes) list \<Rightarrow> subject_manifest" where
  "sample_manifest files =
     \<lparr>entries = map (\<lambda>(p, d). sample_entry p d) files, schema_version = SUBJECT_SCHEMA_VERSION\<rparr>"

lemma wf_sample_entry: "valid_path p \<Longrightarrow> wf_entry (sample_entry p d)"
  by (simp add: wf_entry_cases sample_entry_def)

lemma wf_sample_manifest:
  assumes "sorted (map fst files)" "distinct (map fst files)" "list_all valid_path (map fst files)"
    and "\<not> containment_loop [] (map fst files)"
  shows "wf_manifest (sample_manifest files)"
proof -
  have "manifest_paths (sample_manifest files) = map fst files"
    by (simp add: manifest_paths_def sample_manifest_def sample_entry_def o_def split_def)
  then show ?thesis
    using assms containment_loop_iff [of "map fst files" "[]"]
    by (auto simp: wf_manifest_def check_manifest_Inr list_all_iff wf_sample_entry sample_manifest_def)
qed

definition sample_base :: subject_manifest where
  "sample_base = sample_manifest [(''AGENTS.md'', ''rules''), (''a.txt'', ''hi'')]"

definition sample_candidate :: subject_manifest where
  "sample_candidate = sample_manifest [(''AGENTS.md'', ''rules''), (''a.txt'', ''hello''), (''build/x'', ''o'')]"

text \<open>A candidate that edits a protected file.\<close>

definition sample_attack :: subject_manifest where
  "sample_attack = sample_manifest [(''AGENTS.md'', ''anything''), (''a.txt'', ''hello'')]"

definition sample_policy :: path_policy where
  "sample_policy = default_policy\<lparr>discard_only_patterns := [''build/**'']\<rparr>"

lemma wf_samples: "wf_manifest sample_base" "wf_manifest sample_candidate" "wf_manifest sample_attack"
  unfolding sample_base_def sample_candidate_def sample_attack_def
  by (rule wf_sample_manifest; simp add: valid_path_iff proper_ancestors_def)+

lemmas sample_defs = sample_base_def sample_candidate_def sample_attack_def sample_manifest_def sample_entry_def

lemma sample_diff:
  "diff_manifests sample_base sample_candidate = Inr
     [\<lparr>change_kind = MODIFY, before = Some (sample_entry ''a.txt'' ''hi''), after = Some (sample_entry ''a.txt'' ''hello'')\<rparr>,
      \<lparr>change_kind = CREATE, before = None, after = Some (sample_entry ''build/x'' ''o'')\<rparr>]"
  by (simp add: diff_manifests_def sample_defs Let_def manifest_paths_def map_filter_simps entry_at_def
      modified_changes_def added_by_identity_def change_sort_key_def)

lemma sample_classify:
  "classify sample_policy ''a.txt'' = Inr SEMANTIC"
  "classify sample_policy ''build/x'' = Inr DISCARD_ONLY"
  "classify sample_policy ''AGENTS.md'' = Inr PROTECTED"
  by (simp_all add: classify_def validate_subject_path_def has_bad_component_def is_git_path_def
      policy_matches_def sample_policy_def default_policy_def DEFAULT_PROTECTED_PATTERNS_def
      component_glob_match_def glob_parts.simps fnmatchcase_def fn_translate.simps(2) suffix_def)

lemma sample_disposition:
  "disposition sample_policy ''a.txt'' = SEMANTIC" "disposition sample_policy ''build/x'' = DISCARD_ONLY"
  "disposition sample_policy ''AGENTS.md'' = PROTECTED"
  using sample_classify by (simp_all add: classify_Inr)

lemma sample_kept:
  "build_manifest default_limits (filter (\<lambda>e. disposition sample_policy (entry_path e) \<noteq> DISCARD_ONLY)
     (entries sample_candidate)) = Inr (sample_manifest [(''AGENTS.md'', ''rules''), (''a.txt'', ''hello'')])"
  by (simp add: sample_defs sample_disposition build_manifest_def check_manifest_def manifest_paths_def
      proper_ancestors_def validate_limits_def default_limits_def)

lemma sample_untouched: "\<not> touches_protected sample_policy sample_base sample_candidate"
proof -
  have "disposition sample_policy p \<noteq> PROTECTED" if "entry_at sample_base p \<noteq> entry_at sample_candidate p" for p
  proof -
    have "p = ''a.txt'' \<or> p = ''build/x''"
      using that by (auto simp: entry_at_def sample_defs split: if_splits)
    then show ?thesis by (elim disjE) (simp_all add: sample_disposition)
  qed
  then show ?thesis unfolding touches_protected_def by blast
qed

lemma sample_touched: "touches_protected sample_policy sample_base sample_attack"
  unfolding touches_protected_def
  by (rule exI [of _ "''AGENTS.md''"]) (simp add: sample_disposition entry_at_def sample_defs)

lemma sample_reconcile: "\<exists>r. reconcile_candidate sample_base sample_candidate sample_policy default_limits = Inr r"
  using reconcile_succeeds [OF wf_samples(1,2) sample_untouched sample_kept] .

section \<open>Fingerprints, JSON and scans\<close>

lemma digest_raw_length: "digest h \<Longrightarrow> length (digest_raw h) = 32"
  using fromhex_digest [of h] by (auto simp: digest_raw_def)

lemma sample_fits: "list_all fits (manifest_atoms sample_base)"
  by (simp add: manifest_atoms_def entry_atoms_def common_atoms_def sample_defs fits_def U64_MAX_def
      CANONICAL_DOMAIN_def SUBJECT_SCHEMA_VERSION_def mode_octal digest_raw_length dec_int_def dec_nat_def
      digits_of.simps)

lemma sample_fingerprint: "\<exists>h. fingerprint sample_base = Inr h"
  using sample_fits wf_manifestD(4) [OF wf_samples(1)] canonical_bytes_Inr [of sample_base]
  by (simp add: fingerprint_Inr list_all_iff)

lemma sample_json: "\<exists>bs. manifest_to_json_bytes sample_base = Inr bs"
proof -
  obtain h where "fingerprint sample_base = Inr h" using sample_fingerprint by blast
  then show ?thesis
    by (simp add: manifest_to_json_bytes_def manifest_to_json_obj_def entry_to_json_def sample_defs)
qed

lemma sample_sizes: "\<forall>e \<in> set (entries sample_base). \<forall>n. entry_size e = Some n \<longrightarrow> wf_int n"
  by (simp add: sample_defs wf_int_def dec_nat_def digits_of.simps)

lemma sample_limits: "validate_limits default_limits sample_base = Inr ()"
  by (simp add: validate_limits_def sample_defs default_limits_def)

lemma check_default_limits: "check_limits default_limits = Inr default_limits"
  by (simp add: check_limits_def limit_fields_def default_limits_def MAX_BUNDLE_BYTES_def
      DEFAULT_REVIEW_CONTEXT_TOKENS_def DEFAULT_MAX_ESTIMATED_INPUT_TOKENS_def DEFAULT_RESERVED_OUTPUT_TOKENS_def)

definition sample_scan :: "scan_record list" where
  "sample_scan =
     [\<lparr>scan_path = ''b.txt'', scan_kind = REGULAR, scan_mode = REGULAR_MODE, scan_payload = ''hi''\<rparr>,
      \<lparr>scan_path = ''a'', scan_kind = SYMLINK, scan_mode = SYMLINK_MODE, scan_payload = ''b.txt''\<rparr>]"

lemma sample_scan_builds:
  "\<exists>m s. build_manifest_from_scan default_limits put_blob sample_scan (new_store default_limits) = (Inr m, s)"
proof -
  let ?h = "U (sha256_hex ''hi'')" and ?t = "U (sha256_hex ''b.txt'')"
  let ?e = "\<lparr>entry_path = ''b.txt'', entry_kind = REGULAR, entry_mode = REGULAR_MODE, entry_size = Some 2,
    blob_sha256 = Some ?h, symlink_target = None, target_sha256 = None\<rparr>"
  let ?f = "\<lparr>entry_path = ''a'', entry_kind = SYMLINK, entry_mode = SYMLINK_MODE, entry_size = None,
    blob_sha256 = None, symlink_target = Some ''b.txt'', target_sha256 = Some ?t\<rparr>"
  have "check_entry ?e = Inr ?e" "check_entry ?f = Inr ?f"
    by (simp_all add: check_entry_Inr wf_entry_cases valid_path_iff)
  then show ?thesis
    by (simp add: build_manifest_from_scan_def sample_scan_def scan_entry_def symlink_entry_def put_blob_def
        new_store_def default_limits_def sbind_def build_manifest_def check_manifest_def manifest_paths_def
        proper_ancestors_def validate_limits_def Let_def)
qed

end
