(* ===== verification/JsonLength.thy ===== *)
theory JsonLength
  imports JsonRoundtrip "HOL-Library.Multiset"
begin

text \<open>A bound on the length of what \<open>json.dumps\<close> writes.\<close>

fun weight :: "json \<Rightarrow> nat" where
  "weight JNull = 4"
| "weight (JBool b) = 5"
| "weight (JInt i) = length (dec_int i)"
| "weight (JFloat t) = length t"
| "weight (JStr s) = 2 + 12 * length s"
| "weight (JArr vs) = 2 + sum_list (map (\<lambda>v. 1 + weight v) vs)"
| "weight (JObj kvs) = 2 + sum_list (map (\<lambda>(k, v). 4 + 12 * length k + weight v) kvs)"

lemma escape_char_length: "length (escape_char c) \<le> 12"
  by (simp add: escape_char_def hex4_def)

lemma dump_str_length: "length (dump_str s) \<le> 2 + 12 * length s"
proof -
  have "length (concat (map escape_char s)) \<le> 12 * length s"
    by (induction s) (use escape_char_length in \<open>auto simp: add_mono\<close>)
  then show ?thesis by (simp add: dump_str_def)
qed

lemma join_with_length: "length (join_with [c] xs) \<le> sum_list (map (\<lambda>x. 1 + length x) xs)"
  by (induction xs rule: induct_list012) auto

lemma sum_list_sort_key: "sum_list (map f (sort_key k xs)) = sum_list (map (f :: 'a \<Rightarrow> nat) xs)"
  by (metis mset_map mset_sort sum_mset_sum_list)

lemma weight_sort_keys: "weight (sort_keys v) = weight v"
proof (induction v rule: sort_keys.induct)
  case (1 vs)
  then have "map (\<lambda>v. 1 + weight (sort_keys v)) vs = map (\<lambda>v. 1 + weight v) vs" by simp
  then show ?case by (simp add: o_def del: map_eq_conv)
next
  case (2 kvs)
  then have "map (\<lambda>(k, v). 4 + 12 * length k + weight (sort_keys v)) kvs =
      map (\<lambda>(k, v). 4 + 12 * length k + weight v) kvs" by (intro map_cong refl) auto
  then have "sum_list (map (\<lambda>(k, v). 4 + 12 * length k + weight (sort_keys v)) kvs) =
      sum_list (map (\<lambda>(k, v). 4 + 12 * length k + weight v) kvs)" by (rule arg_cong)
  then show ?case by (simp add: o_def case_prod_beta' sum_list_sort_key)
qed simp_all

lemma dump_value_length: "length (dump_value v) \<le> weight v"
proof (induction v rule: dump_value.induct)
  case (6 vs)
  have "sum_list (map (\<lambda>x. 1 + length x) (map dump_value vs)) \<le> sum_list (map (\<lambda>v. 1 + weight v) vs)"
    using 6 by (auto intro!: sum_list_mono simp: o_def)
  with join_with_length [of "CHR '',''" "map dump_value vs"] show ?case by simp
next
  case (7 kvs)
  have "length (dump_str k @ '':'' @ dump_value v) + 1 \<le> 4 + 12 * length k + weight v" if "(k, v) \<in> set kvs" for k v
    using 7 [OF that refl] dump_str_length [of k] by simp
  then have "sum_list (map (\<lambda>x. 1 + length x) (map (\<lambda>(k, v). dump_str k @ '':'' @ dump_value v) kvs)) \<le>
      sum_list (map (\<lambda>(k, v). 4 + 12 * length k + weight v) kvs)"
    unfolding map_map by (intro sum_list_mono) force
  with join_with_length [of "CHR '',''" "map (\<lambda>(k, v). dump_str k @ '':'' @ dump_value v) kvs"] show ?case
    by simp
qed (use dump_str_length in simp_all)

lemma json_dumps_length: "length (json_dumps v) \<le> weight v"
  using dump_value_length [of "sort_keys v"] by (simp add: json_dumps_def weight_sort_keys)

end
