(* ===== verification/RunnerSamples.thy ===== *)
theory RunnerSamples
  imports RunnerProofs Samples JsonLength
begin

text \<open>
  A run that converges: one round on an empty subject, with boundaries that answer at once. It is
  the input at which the properties of the loop are applied.
\<close>

section \<open>The boundaries\<close>

definition nothing :: subject_manifest where
  "nothing = \<lparr>entries = [], schema_version = SUBJECT_SCHEMA_VERSION\<rparr>"

definition nothing_hash :: ustr where
  "nothing_hash = (case fingerprint nothing of Inr h \<Rightarrow> h | Inl e \<Rightarrow> [])"

definition sample_check :: check_execution where
  "sample_check =
     \<lparr>check_id = U ''unit'', check_command = U ''make test'', started_at = 0, completed_at = 1,
      check_exit_code = Some 0, check_signal = None, timed_out = False, infrastructure_failure = False,
      process_started = True, output_limited = False\<rparr>"

definition sample_validation :: validation_turn where
  "sample_validation =
     \<lparr>vt_summary = \<lparr>summary_schema_version = 1, summary_fingerprint = nothing_hash, checks = [sample_check]\<rparr>,
      vt_result_manifest = nothing, vt_raw_log = ''ok''\<rparr>"

definition sample_review :: critic_review where
  "sample_review =
     \<lparr>r_schema_version = 1, r_verdict = LGTM, r_summary = U ''fine'', r_blocked_reason = None,
      r_blocking_findings = [], r_non_blocking_findings = []\<rparr>"

definition sample_env :: "unit run_env" where
  "sample_env =
     \<lparr>env_author = (\<lambda>q. ret \<lparr>at_candidate = nothing, at_thread_id = U ''t'', at_final_message = U ''ok'',
        at_events = [], at_usage = None, at_observed_model = None, at_observed_effort = None\<rparr>),
      env_validate = (\<lambda>q. ret sample_validation),
      env_critic = (\<lambda>q. ret \<lparr>ct_review = sample_review, ct_completed_at = 1, ct_envelope = OMap [],
        ct_total_cost_usd = None, ct_observed_model = None, ct_observed_effort = None\<rparr>),
      env_read_blob = (\<lambda>w h. Inl (KeyError h)),
      env_policy = default_policy, env_journal = (\<lambda>c. ret ()), env_pending_metadata = None,
      env_clock = ret 0, env_integrity_guard = (\<lambda>m. ret ()), env_publish_subject = (\<lambda>m. ret ()),
      env_known_secrets = [], env_secret_provider = None\<rparr>"

lemma nothing_fingerprint: "fingerprint nothing = Inr nothing_hash" "length nothing_hash = 64"
proof -
  have "\<exists>h. fingerprint nothing = Inr h \<and> length h = 64"
    by (simp add: fingerprint_def canonical_bytes_def nothing_def encode_atoms_def length_prefix_def
        CANONICAL_DOMAIN_def U64_MAX_def SUBJECT_SCHEMA_VERSION_def U_def
        dec_int_def dec_nat_def digits_of.simps)
  then show "fingerprint nothing = Inr nothing_hash" "length nothing_hash = 64"
    by (auto simp: nothing_hash_def)
qed

lemma sample_faithful: "faithful sample_env" "wf_candidates sample_env"
  by (simp_all add: faithful_def wf_candidates_def sample_env_def raises_failures_def wf_manifest_def nothing_def
      check_manifest_def manifest_paths_def)

section \<open>The run\<close>

abbreviation sample_run :: "(unit, loop_result) eff" where
  "sample_run \<equiv> run sample_env (U ''task'') nothing default_settings None (Some 10) False"

lemma scan_nothing [simp]: "\<not> raw_log_contains_known_secret b []"
  by (simp add: raw_log_contains_known_secret_def)

lemma ext_ret: "ext (ret x) s = (Inr x, s)"
  by (simp add: ext_def)

lemma sample_fields:
  "env_author sample_env q = ret \<lparr>at_candidate = nothing, at_thread_id = U ''t'', at_final_message = U ''ok'',
     at_events = [], at_usage = None, at_observed_model = None, at_observed_effort = None\<rparr>"
  "env_validate sample_env v = ret sample_validation"
  "env_critic sample_env c = ret \<lparr>ct_review = sample_review, ct_completed_at = 1, ct_envelope = OMap [],
        ct_total_cost_usd = None, ct_observed_model = None, ct_observed_effort = None\<rparr>"
  "env_policy sample_env = default_policy" "env_pending_metadata sample_env = None"
  "env_clock sample_env = ret 0" "env_integrity_guard sample_env m = ret ()"
  "env_publish_subject sample_env m = ret ()"
  by (simp_all add: sample_env_def)

lemma sample_ops:
  "current_known_secrets sample_env = ret []" "journal sample_env j = ret ()"
  "0 \<le> dl \<Longrightarrow> ensure_deadline sample_env dl = ret ()"
  by (rule HOL.ext; simp add: current_known_secrets_def journal_def ensure_deadline_def sample_env_def ext_ret
      dedup_def sbind_def)+

lemma nothing_json: "\<exists>b. manifest_to_json_bytes nothing = Inr b"
  using nothing_fingerprint
  by (simp add: manifest_to_json_bytes_def manifest_to_json_obj_def nothing_def)

lemma nothing_scans:
  "manifest_contains_known_secret read nothing [] = Inr False"
  "manifest_metadata_contains_known_secret nothing [] = Inr False"
  using nothing_json
  by (auto simp: manifest_contains_known_secret_def manifest_metadata_contains_known_secret_def)
    (simp_all add: nothing_def)

lemma tree_scan_clean: "values_in v \<le> 1000000 \<Longrightarrow> \<not> leaks [] v \<Longrightarrow> json_tree_contains_known_secret v [] = Inr False"
  by (simp add: json_tree_scan)

lemma settings_scan: "settings_contains_known_secret default_settings [] = Inr False"
  unfolding settings_contains_known_secret_def
  by (rule tree_scan_clean)
    (simp_all add: settings_document_def default_settings_def obj_dict_def obj_opt_def limit_fields_def Let_def
      utf8_encode_ascii)

lemma sample_opens: "open_run sample_env default_settings 10 (U ''task'') nothing False s = (Inr (), s)"
  by (simp add: open_run_def sample_ops sample_fields encode_utf8_def utf8_encode_ascii settings_scan Let_def
      reading_def nothing_scans sbind_def)

definition sample_evidence :: validation_evidence where
  "sample_evidence =
     \<lparr>ve_schema_version = 1, ve_subject_fingerprint = nothing_hash, ve_approval_eligible = True,
      ve_checks = [\<lparr>ev_check_id = U ''unit'', ev_exit_code = Some 0, ev_signal = None,
        ev_baseline_outcome = Some (U ''passed''), ev_current_outcome = U ''passed'',
        ev_transition = U ''pass_to_pass'', ev_regression = False, ev_evidence_complete = True\<rparr>]\<rparr>"

definition sample_classified :: "classified_check list" where
  "sample_classified =
     [\<lparr>cc_check_id = U ''unit'', cc_command = U ''make test'', cc_baseline_outcome = Some PASSED,
       cc_current_outcome = PASSED, cc_transition = PASS_TO_PASS, cc_regression = False,
       cc_exit_code = Some 0, cc_signal = None\<rparr>]"

lemma nothing_hash_ascii: "\<exists>b. utf8_encode nothing_hash = Some b"
proof -
  obtain b where "nothing_hash = U (sha256_hex b)"
    using nothing_fingerprint(1) by (auto simp: fingerprint_def rbind_Inr_iff dest: sym)
  then show ?thesis using utf8_encode_ascii [of "sha256_hex b"] sha256_hex_ascii by (auto simp: list_all_iff)
qed

lemma sample_attempt:
  "journal_validation_attempt sample_env default_settings n ph nothing sample_validation s = (Inr False, s)"
proof -
  obtain b where "utf8_encode nothing_hash = Some b" using nothing_hash_ascii by blast
  then have "json_tree_contains_known_secret (obj_dict
            [(''schema_version'', OInt (summary_schema_version (vt_summary sample_validation))),
             (''subject_fingerprint'', OStr (summary_fingerprint (vt_summary sample_validation))),
             (''checks'', OSeq (map check_document (checks (vt_summary sample_validation))))]) [] = Inr False"
    by (intro tree_scan_clean)
      (simp_all add: sample_validation_def obj_dict_def check_document_def sample_check_def obj_opt_def outcome_def
        utf8_encode_ascii)
  moreover have "vt_result_manifest sample_validation = nothing" by (simp add: sample_validation_def)
  ultimately show ?thesis
    by (simp add: journal_validation_attempt_def sample_ops Let_def nothing_scans sbind_def del: scan_stack.simps)
qed

lemma sample_validation_checks:
  "verify_raw_log_limit sample_validation default_settings = Inr ()"
  "verify_validation_turn default_policy nothing sample_validation = Inr ()"
  "\<exists>ks. classify_validations None (vt_summary sample_validation) = Inr ks \<and> list_all ev_evidence_complete (map evidence_of ks)"
  "classify_validations (Some (vt_summary sample_validation)) (vt_summary sample_validation) = Inr sample_classified"
  "ve_approval_eligible ev \<Longrightarrow> ensure_validation_can_continue b (vt_summary sample_validation) ev = Inr ()"
  "declassify_validation nothing_hash sample_classified raw [] = sample_evidence"
  "all_pass (vt_summary sample_validation)"
proof -
  show "verify_validation_turn default_policy nothing sample_validation = Inr ()"
    using nothing_fingerprint
    by (simp add: verify_validation_turn_def sample_validation_def verify_validation_mutation_def diff_manifests_def
        nothing_def manifest_paths_def modified_changes_def added_by_identity_def Let_def)
qed (auto simp: sample_validation_def verify_raw_log_limit_def default_settings_def classify_validations_def
    classify_one_def sample_check_def outcome_def Let_def evidence_of_def sample_classified_def
    has_infrastructure_failure_def comparable_sequences_def ensure_validation_can_continue_Inr
    declassify_validation_def sample_evidence_def VALIDATION_SCHEMA_VERSION_def all_pass_def)

lemma nothing_opaque: "without_opaque_entries nothing default_policy default_limits = Inr nothing"
  by (simp add: without_opaque_entries_def nothing_def build_manifest_def check_manifest_def manifest_paths_def
      validate_limits_def default_limits_def)

lemma sample_baseline:
  "run_baseline sample_env default_settings 10 nothing None s = (Inr sample_validation, s)"
proof -
  obtain ks where ks: "classify_validations None (vt_summary sample_validation) = Inr ks"
    "list_all ev_evidence_complete (map evidence_of ks)"
    using sample_validation_checks(3) by blast
  then have "ve_approval_eligible (declassify_validation h ks raw [])" for h raw
    by (simp add: declassify_validation_def Let_def)
  then show ?thesis
    using ks
    by (simp add: run_baseline_def sample_ops sample_fields sbind_def ext_ret sample_attempt sample_validation_checks(1,2,5)
        nothing_fingerprint nothing_opaque Let_def default_settings_def [THEN arg_cong [where f = ls_limits]])
qed

definition nothing_reconciled :: reconciliation where
  "nothing_reconciled =
     \<lparr>candidate_delta = [], authoritative_manifest = nothing, authoritative_delta = [],
      semantic_changes = [], opaque_changes = [], discarded_changes = []\<rparr>"

lemma nothing_reconciles: "reconcile_candidate nothing nothing default_policy default_limits = Inr nothing_reconciled"
  by (simp add: reconcile_candidate_def diff_manifests_def nothing_def build_manifest_def check_manifest_def
      manifest_paths_def validate_limits_def default_limits_def modified_changes_def added_by_identity_def
      nothing_reconciled_def Let_def)

lemma no_selection: "require_observed_selection role None None a b = Inr ()"
  by (simp add: require_observed_selection_def)

definition sample_prompt :: ustr where
  "sample_prompt = (case build_initial_author_prompt (U ''task'') of Inr p \<Rightarrow> p | Inl e \<Rightarrow> [])"

lemma sample_settings:
  "ls_limits default_settings = default_limits" "ls_max_rounds default_settings = 3"
  "ls_requested_author_model default_settings = None" "ls_requested_author_effort default_settings = None"
  "ls_requested_critic_model default_settings = None" "ls_requested_critic_effort default_settings = None"
  "ls_protected_patterns default_settings = []" "ls_opaque_patterns default_settings = []"
  "ls_context_paths default_settings = []"
  by (simp_all add: default_settings_def)

lemma sample_prompt_ok:
  "build_initial_author_prompt (U ''task'') = Inr sample_prompt" "\<exists>b. utf8_encode sample_prompt = Some b"
proof -
  let ?j = "json_dumps (JObj [(U ''task'', JStr (U ''task''))])"
  have a: "list_all (\<lambda>c. ord c < 128) ?j"
    by (simp add: json_dumps_def dump_str_def escape_char_def U_def)
  have "\<exists>p. build_initial_author_prompt (U ''task'') = Inr p \<and> (\<exists>b. utf8_encode p = Some b)"
    unfolding build_initial_author_prompt_def
    using a by (simp add: utf8_encode_ascii DEFAULT_MAX_FIELD_BYTES_def)
  then show "build_initial_author_prompt (U ''task'') = Inr sample_prompt" "\<exists>b. utf8_encode sample_prompt = Some b"
    by (auto simp: sample_prompt_def)
qed

lemma sample_author:
  assumes "rs_prompt s = sample_prompt" "rs_thread_id s = None" "rs_current s = nothing"
  shows "author_phase sample_env default_settings 10 nothing n s =
    (Inr nothing_reconciled, s\<lparr>rs_thread_id := Some (U ''t''), rs_current := nothing\<rparr>)"
proof -
  obtain b where b: "utf8_encode sample_prompt = Some b" using sample_prompt_ok by blast
  have "json_tree_contains_known_secret (OSeq [OStr (U ''t''), OStr (U ''ok''), OSeq [], obj_opt id None, obj_opt OStr None,
      obj_opt OStr None]) [] = Inr False"
    by (intro tree_scan_clean) (simp_all add: obj_opt_def utf8_encode_ascii)
  then show ?thesis
    by (simp add: author_phase_def sample_ops sample_fields sbind_def ext_ret get_def modify_def assms encode_utf8_def b
        reading_def author_turn_contains_known_secret_def nothing_scans no_selection sample_settings
        nothing_reconciles nothing_reconciled_def [THEN arg_cong [where f = authoritative_manifest]]
        del: scan_stack.simps)
qed

lemma nothing_reconciled_fields:
  "authoritative_manifest nothing_reconciled = nothing" "semantic_changes nothing_reconciled = []"
  "opaque_changes nothing_reconciled = []"
  by (simp_all add: nothing_reconciled_def)

lemma sample_eligible: "ve_approval_eligible sample_evidence"
  by (simp add: sample_evidence_def)

lemma sample_validates:
  "validation_phase sample_env default_settings 10 nothing sample_validation n nothing_reconciled s =
    (Inr (sample_validation, sample_classified, sample_evidence), s)"
  by (simp add: validation_phase_def sample_ops sample_fields sbind_def ext_ret sample_attempt
      sample_validation_checks(1,2,4,6) sample_validation_checks(5) [OF sample_eligible]
      nothing_reconciled_fields nothing_fingerprint Let_def)

definition sample_request :: bundle_request where
  "sample_request = review_request default_settings (U ''task'') nothing nothing_reconciled sample_evidence [] []"

lemma sample_document:
  "weight (bundle_document sample_request nothing_hash nothing_hash [] [] [] []) \<le> 64000"
  "values_in (obj_of_json (bundle_document sample_request nothing_hash nothing_hash [] [] [] [])) \<le> 1000"
  "\<not> leaks [] (obj_of_json (bundle_document sample_request nothing_hash nothing_hash [] [] [] []))"
proof -
  obtain b where b: "utf8_encode nothing_hash = Some b" using nothing_hash_ascii by blast
  note defs = bundle_document_def sample_request_def review_request_def jstr_def DATA_HANDLING_def
    evidence_to_json_obj_def sample_evidence_def check_evidence_json_def opt_int_def opt_str_def sample_settings
  show "weight (bundle_document sample_request nothing_hash nothing_hash [] [] [] []) \<le> 64000"
    using nothing_fingerprint(2) by (simp add: defs dec_int_def dec_nat_def digits_of.simps)
  show "values_in (obj_of_json (bundle_document sample_request nothing_hash nothing_hash [] [] [] [])) \<le> 1000"
    by (simp add: defs)
  show "\<not> leaks [] (obj_of_json (bundle_document sample_request nothing_hash nothing_hash [] [] [] []))"
    by (simp add: defs b utf8_encode_ascii)
qed

lemma sample_bundle:
  "\<exists>bundle. build_review_bundle read default_limits sample_request = Inr bundle \<and>
     rb_document bundle = bundle_document sample_request nothing_hash nothing_hash [] [] [] [] \<and>
     (\<exists>h. rb_fingerprint bundle = U (sha256_hex h))"
proof -
  let ?d = "bundle_document sample_request nothing_hash nothing_hash [] [] [] []"
  have q: "bq_task sample_request = U ''task''" "bq_subject sample_request = nothing" "bq_base sample_request = nothing"
    "ve_subject_fingerprint (bq_validation sample_request) = nothing_hash" "bq_semantic_changes sample_request = []"
    "bq_opaque_changes sample_request = []" "bq_prior_findings sample_request = []" "bq_context_paths sample_request = []"
    by (simp_all add: sample_request_def review_request_def nothing_reconciled_fields sample_evidence_def sample_settings)
  have "length (json_dumps ?d) \<le> 64000" using json_dumps_length [of ?d] sample_document(1) by linarith
  then show ?thesis
    by (simp add: build_review_bundle_def check_task_def q utf8_encode_ascii nothing_fingerprint verify_manifest_blobs_def
        seal_bundle_def default_limits_def MAX_BUNDLE_BYTES_def DEFAULT_MAX_ESTIMATED_INPUT_TOKENS_def
        DEFAULT_RESERVED_OUTPUT_TOKENS_def DEFAULT_REVIEW_CONTEXT_TOKENS_def Let_def)
      (simp add: nothing_def, blast)
qed

definition sample_critic_turn :: critic_turn where
  "sample_critic_turn =
     \<lparr>ct_review = sample_review, ct_completed_at = 1, ct_envelope = OMap [], ct_total_cost_usd = None,
      ct_observed_model = None, ct_observed_effort = None\<rparr>"

lemma sample_critic_fields:
  "ct_review sample_critic_turn = sample_review" "ct_observed_model sample_critic_turn = None"
  "ct_observed_effort sample_critic_turn = None" "sample_critic_turn\<lparr>ct_review := sample_review\<rparr> = sample_critic_turn"
  by (simp_all add: sample_critic_turn_def)

lemma sample_approval:
  "approval_of sample_validation sample_evidence =
     \<lparr>ap_all_validations_pass = True, ap_semantic_deltas_visible = True, ap_evidence_approval_eligible = True\<rparr>"
  by (simp add: approval_of_def sample_validation_checks(7) sample_eligible)

lemma strip_fine: "strip (U ''fine'') \<noteq> []"
  by (simp add: strip_def is_space_def U_def)

lemma sample_review_accepted:
  "validate_critic_review (Some (approval_of sample_validation sample_evidence)) (review_document sample_review) =
    Inr sample_review"
  unfolding validate_critic_review_Inr sample_approval
  by (simp add: review_document_is_review wf_review_def sample_review_def CRITIC_SCHEMA_VERSION_def wf_findings_def
      approval_granted_def wf_text_def utf8_encode_ascii DEFAULT_MAX_FIELD_BYTES_def DEFAULT_MAX_FINDINGS_def
      strip_fine)

lemma sample_critic_scan: "critic_turn_contains_known_secret sample_critic_turn [] = Inr False"
  unfolding critic_turn_contains_known_secret_def
  by (intro tree_scan_clean)
    (simp_all add: sample_critic_turn_def sample_review_def review_document_def jstr_def opt_str_def obj_opt_def
      utf8_encode_ascii)

lemma sample_reviews:
  assumes "rs_ledger s = []" "rs_current s = nothing"
  shows "critic_phase sample_env default_settings 10 (U ''task'') nothing n nothing_reconciled sample_validation
      sample_evidence s = (Inr sample_critic_turn, s\<lparr>rs_rounds_completed := n\<rparr>)"
proof -
  obtain bd h where b: "build_review_bundle (env_read_blob sample_env (rs_world s)) default_limits sample_request = Inr bd"
    and d: "rb_document bd = bundle_document sample_request nothing_hash nothing_hash [] [] [] []"
    and h: "rb_fingerprint bd = U (sha256_hex h)"
    using sample_bundle by blast
  have "utf8_encode (U (sha256_hex h)) = Some (sha256_hex h)"
    using utf8_encode_ascii sha256_hex_ascii by (simp add: list_all_iff)
  then have j: "json_tree_contains_known_secret (OSeq [obj_of_json (rb_document bd), OStr (rb_fingerprint bd)]) [] = Inr False"
    using sample_document(2,3) by (intro tree_scan_clean) (simp_all add: d h)
  show ?thesis
    using b j
    by (simp add: critic_phase_def sample_ops sample_fields sbind_def ext_ret get_def modify_def assms reading_def
        sample_settings sample_request_def no_selection
        sample_critic_turn_def [symmetric] sample_critic_scan sample_critic_fields sample_review_accepted
        del: scan_stack.simps)
qed

lemma sample_progress:
  "\<exists>p. progress_state_of nothing sample_classified sample_review = Inr p \<and>
     (\<exists>h. observe p None = (Inr False, Some h))"
  by (auto simp: progress_state_of_def nothing_fingerprint observe_def progress_fingerprint_def
      progress_canonical_bytes_def sorted_findings_def sample_review_def)

lemma sample_concludes:
  assumes "rs_stall s = None" "rs_fatal s = new_latch" "rs_current s = nothing" "rs_thread_id s = Some (U ''t'')"
    "rs_rounds_completed s = 1"
  shows "\<exists>s'. conclude_phase sample_env default_settings 10 (U ''task'') 1 nothing_reconciled sample_validation
      sample_classified sample_evidence sample_critic_turn s =
    (Inr (Some \<lparr>lr_exit_code = SUCCESS, lr_stop_reason = CONVERGED, lr_rounds_completed = 1, lr_subject = nothing,
       lr_thread_id = Some (U ''t''), lr_detail = U ''all validations passed and critic returned LGTM''\<rparr>), s')"
proof -
  obtain p h where p: "progress_state_of nothing sample_classified sample_review = Inr p" "observe p None = (Inr False, Some h)"
    using sample_progress by blast
  let ?ob = "observation_of default_settings 10 1 sample_validation sample_evidence sample_critic_turn False"
  have ob: "check_observation ?ob = Inr ?ob"
    by (simp add: check_observation_Inr observation_of_def sample_critic_turn_def sample_review_def sample_settings)
  obtain l where l: "decide ?ob new_latch = Inr (ordered_decision ?ob new_latch, l)"
    using decide_ordered_decision [OF ob] by blast
  have d: "decision_reason (ordered_decision ?ob new_latch) = Some CONVERGED"
    by (simp add: decision_defs new_latch_def observation_of_def late_def contradicted_def approved_def succeeded_def
        sample_critic_turn_def sample_review_def sample_validation_checks(7) sample_eligible)
  show ?thesis
    by (simp add: conclude_phase_def sbind_def nothing_reconciled_fields p sample_critic_fields observe_progress_def assms
        decide_round_def ob l d get_def modify_def stop_def sample_ops stop_detail_def)
qed

lemma sample_converges:
  "sample_run () = (Inr \<lparr>lr_exit_code = SUCCESS, lr_stop_reason = CONVERGED, lr_rounds_completed = 1,
     lr_subject = nothing, lr_thread_id = Some (U ''t''),
     lr_detail = U ''all validations passed and critic returned LGTM''\<rparr>, ())"
proof -
  have u: "[1..3] = [1, 2, 3 :: int]" by (simp add: upto.simps)
  let ?s0 = "initial_state nothing sample_prompt ()"
  let ?s1 = "?s0\<lparr>rs_thread_id := Some (U ''t''), rs_current := nothing, rs_rounds_completed := 1\<rparr>"
  obtain s' where c: "conclude_phase sample_env default_settings 10 (U ''task'') 1 nothing_reconciled sample_validation
      sample_classified sample_evidence sample_critic_turn ?s1 =
    (Inr (Some \<lparr>lr_exit_code = SUCCESS, lr_stop_reason = CONVERGED, lr_rounds_completed = 1, lr_subject = nothing,
       lr_thread_id = Some (U ''t''), lr_detail = U ''all validations passed and critic returned LGTM''\<rparr>), s')"
    using sample_concludes [of ?s1] by (auto simp: initial_state_def)
  have i: "rs_prompt ?s0 = sample_prompt" "rs_thread_id ?s0 = None" "rs_current ?s0 = nothing" "rs_ledger ?s0 = []"
    by (simp_all add: initial_state_def)
  have r: "run_round sample_env default_settings 10 (U ''task'') nothing sample_validation 1 ?s0 =
    (Inr (Some \<lparr>lr_exit_code = SUCCESS, lr_stop_reason = CONVERGED, lr_rounds_completed = 1, lr_subject = nothing,
       lr_thread_id = Some (U ''t''), lr_detail = U ''all validations passed and critic returned LGTM''\<rparr>), s')"
    using c by (simp add: run_round_def sbind_def sample_author i sample_validates sample_reviews)
  show ?thesis
    by (simp add: run_def sbind_def sample_fields sample_prompt_ok(1) Let_def handle_def run_body_def sample_opens
        sample_baseline sample_settings u r)
qed

end
