(* ===== verification/ValidationBatch.thy ===== *)
theory ValidationBatch
  imports Complex_Main Schemas
begin

text \<open>
  \<open>src/src/agent_loop/validation_batch.py\<close>: the protocol between the runner and the process that
  executes the checks inside the sandbox. Both documents are parsed as hostile input. Python's
  \<open>==\<close> between a JSON value and an integer also holds for \<open>true\<close> and for a float of that value;
  the model keeps this (\<open>py_eq_int\<close>).
\<close>

section \<open>Comparison of a JSON value with an integer\<close>

text \<open>The decimal number that a JSON float literal writes.\<close>

definition float_decimal :: "bytes \<Rightarrow> rat" where
  "float_decimal t =
     (let neg = (t \<noteq> [] \<and> hd t = CHR ''-''); u = U (if neg then tl t else t);
          (ip, r) = scan_digits u; (fr, r1) = scan_fraction r; (ex, r2) = scan_exponent r1;
          fds = tl fr; eneg = (2 \<le> length ex \<and> ex ! 1 = 45);
          eds = filter is_dec_digit (tl ex);
          m = of_nat (value_of 10 (map (\<lambda>c. c - 48) (ip @ fds)));
          k = value_of 10 (map (\<lambda>c. c - 48) eds);
          q = m / 10 ^ length fds * (if eneg then 1 / 10 ^ k else 10 ^ k)
      in if neg then - q else q)"

text \<open>The nearest double is \<open>i\<close>: exact for \<open>\<bar>i\<bar> < 2 ^ 52\<close>, where the code uses it.\<close>

definition float_eq_int :: "bytes \<Rightarrow> int \<Rightarrow> bool" where
  "float_eq_int t i =
     (let q = float_decimal t; a = nat \<bar>i\<bar>; p = 2 ^ (length (digits_of 2 a) - 1);
          hi = of_nat p / 2 ^ 53; lo = (if a = p then hi / 2 else hi);
          q' = (if i < 0 then - q else q)
      in if i = 0 then \<bar>q\<bar> \<le> 1 / 2 ^ 1075
         else of_nat a - lo \<le> q' \<and> q' \<le> of_nat a + hi)"

definition py_eq_int :: "json \<Rightarrow> int \<Rightarrow> bool" where
  "py_eq_int v i =
     (case v of
        JInt j \<Rightarrow> j = i
      | JBool b \<Rightarrow> (if b then 1 else 0) = i
      | JFloat t \<Rightarrow> float_eq_int t i
      | _ \<Rightarrow> False)"

section \<open>The documents\<close>

definition DEFAULT_MAX_RUNTIME_SECONDS :: int where "DEFAULT_MAX_RUNTIME_SECONDS = 45 * 60"
definition DEFAULT_MAX_RAW_LOG_BYTES :: int where "DEFAULT_MAX_RAW_LOG_BYTES = 32 * 1024 * 1024"
definition MAX_VALIDATION_CHECKS :: int where "MAX_VALIDATION_CHECKS = 128"

definition MAX_VALIDATION_BATCH_RESULT_BYTES :: int where
  "MAX_VALIDATION_BATCH_RESULT_BYTES = ((DEFAULT_MAX_RAW_LOG_BYTES + 2) div 3) * 4 + 2 * 1024 * 1024"

record batch_check =
  b_check_id :: ustr
  b_command :: ustr
  b_timeout_ms :: int
  b_output_max_bytes :: int

record batch_request =
  b_checks :: "batch_check list"
  b_max_raw_output_bytes :: int

record batch_record =
  b_index :: int
  b_returncode :: int
  b_timed_out :: bool
  b_output_limited :: bool
  b_process_started :: bool
  b_duration_ms :: int
  b_stdout :: bytes
  b_stderr :: bytes

definition batch_json :: "int \<Rightarrow> bytes \<Rightarrow> exn + json" where
  "batch_json maximum data =
     (if int (length data) > maximum
      then Inl (ValueError (U ''validation-batch protocol input exceeded its byte limit''))
      else case utf8_decode data of
        None \<Rightarrow> Inl (ValueError (U ''validation-batch input is not strict UTF-8 JSON''))
      | Some text \<Rightarrow>
          (case json_loads text of
             Inl e \<Rightarrow> Inl (ValueError (U ''validation-batch input is not strict UTF-8 JSON''))
           | Inr (JObj kvs) \<Rightarrow> Inr (JObj kvs)
           | Inr v \<Rightarrow> Inl (ValueError (U ''validation-batch input must be an object''))))"

definition closed_object :: "string list \<Rightarrow> bytes \<Rightarrow> json \<Rightarrow> exn + (ustr \<times> json) list" where
  "closed_object keys loc value =
     (case value of
        JObj kvs \<Rightarrow>
          if set (map fst kvs) \<noteq> U ` set keys
          then Inl (ValueError (U (loc @ '' is not one closed object''))) else Inr kvs
      | _ \<Rightarrow> Inl (ValueError (U (loc @ '' is not one closed object''))))"

definition bounded_integer :: "int \<Rightarrow> int \<Rightarrow> string \<Rightarrow> json \<Rightarrow> exn + int" where
  "bounded_integer minimum maximum loc value =
     (case value of
        JInt i \<Rightarrow>
          if \<not> (minimum \<le> i \<and> i \<le> maximum)
          then Inl (ValueError (U (loc @ '' is outside its integer bound''))) else Inr i
      | _ \<Rightarrow> Inl (ValueError (U (loc @ '' is outside its integer bound''))))"

definition bounded_text :: "int \<Rightarrow> string \<Rightarrow> json \<Rightarrow> exn + ustr" where
  "bounded_text maximum loc value =
     (case value of
        JStr s \<Rightarrow>
          if s = [] \<or> 0 \<in> set s then Inl (ValueError (U (loc @ '' is empty or unsafe'')))
          else (case utf8_encode s of
                  None \<Rightarrow> Inl (ValueError (U (loc @ '' is not strict UTF-8 text'')))
                | Some b \<Rightarrow>
                    if int (length b) > maximum
                    then Inl (ValueError (U (loc @ '' exceeded its byte bound''))) else Inr s)
      | _ \<Rightarrow> Inl (ValueError (U (loc @ '' is empty or unsafe''))))"

section \<open>The request\<close>

definition batch_check_json :: "batch_check \<Rightarrow> json" where
  "batch_check_json c = JObj
     [(U ''check_id'', JStr (b_check_id c)), (U ''command'', JStr (b_command c)),
      (U ''timeout_ms'', JInt (b_timeout_ms c)), (U ''output_max_bytes'', JInt (b_output_max_bytes c))]"

definition batch_request_json :: "batch_request \<Rightarrow> json" where
  "batch_request_json r = JObj
     [(U ''schema_version'', JInt 1), (U ''kind'', JStr (U ''validation_batch_request'')),
      (U ''max_raw_output_bytes'', JInt (b_max_raw_output_bytes r)),
      (U ''checks'', JArr (map batch_check_json (b_checks r)))]"

definition parse_batch_check :: "nat \<Rightarrow> json \<Rightarrow> exn + batch_check" where
  "parse_batch_check i value =
     rbind (closed_object [''check_id'', ''command'', ''timeout_ms'', ''output_max_bytes'']
              (''validation-batch check '' @ dec_nat i) value) (\<lambda>raw.
     rbind (bounded_text 256 ''validation check ID'' (field raw ''check_id'')) (\<lambda>cid.
     rbind (bounded_text DEFAULT_MAX_FIELD_BYTES ''validation command'' (field raw ''command'')) (\<lambda>cmd.
     rbind (bounded_integer 1 (DEFAULT_MAX_RUNTIME_SECONDS * 1000) ''timeout_ms'' (field raw ''timeout_ms'')) (\<lambda>t.
     rbind (bounded_integer 1 DEFAULT_MAX_AGENT_OUTPUT_BYTES ''output_max_bytes'' (field raw ''output_max_bytes'')) (\<lambda>n.
     Inr \<lparr>b_check_id = cid, b_command = cmd, b_timeout_ms = t, b_output_max_bytes = n\<rparr>)))))"

definition parse_validation_batch_request :: "bytes \<Rightarrow> exn + batch_request" where
  "parse_validation_batch_request data =
     rbind (batch_json DEFAULT_MAX_AGENT_OUTPUT_BYTES data) (\<lambda>value.
     rbind (closed_object [''schema_version'', ''kind'', ''max_raw_output_bytes'', ''checks'']
              ''validation-batch request'' value) (\<lambda>raw.
     if \<not> py_eq_int (field raw ''schema_version'') 1
       \<or> field raw ''kind'' \<noteq> JStr (U ''validation_batch_request'')
     then Inl (ValueError (U ''unsupported validation-batch request identity''))
     else case field raw ''checks'' of
       JArr vs \<Rightarrow>
         if \<not> (1 \<le> int (length vs) \<and> int (length vs) \<le> MAX_VALIDATION_CHECKS)
         then Inl (ValueError (U ''validation-batch check count is outside its bound''))
         else
           rbind (rmap (\<lambda>(i, v). parse_batch_check i v) (enumerate 0 vs)) (\<lambda>checks.
           if \<not> distinct (map b_check_id checks)
           then Inl (ValueError (U ''validation-batch check IDs are not unique''))
           else
             rbind (bounded_integer 1 DEFAULT_MAX_RAW_LOG_BYTES ''max_raw_output_bytes''
                      (field raw ''max_raw_output_bytes'')) (\<lambda>maximum.
             Inr \<lparr>b_checks = checks, b_max_raw_output_bytes = maximum\<rparr>))
     | _ \<Rightarrow> Inl (ValueError (U ''validation-batch check count is outside its bound''))))"

definition encode_validation_batch_request :: "batch_request \<Rightarrow> exn + bytes" where
  "encode_validation_batch_request r =
     (let encoded = json_dumps (batch_request_json r) @ [CHR 0x0A]
      in rbind (parse_validation_batch_request encoded) (\<lambda>_. Inr encoded))"

section \<open>The result\<close>

definition canonical_b64 :: "int \<Rightarrow> string \<Rightarrow> json \<Rightarrow> exn + bytes" where
  "canonical_b64 maximum loc value =
     (case value of
        JStr s \<Rightarrow>
          (case ascii_encode s of
             None \<Rightarrow> Inl (ValueError (U (loc @ '' is not canonical base64'')))
           | Some encoded \<Rightarrow>
               (case b64decode encoded of
                  None \<Rightarrow> Inl (ValueError (U (loc @ '' is not canonical base64'')))
                | Some decoded \<Rightarrow>
                    if b64encode decoded \<noteq> encoded \<or> int (length decoded) > maximum
                    then Inl (ValueError (U (loc @ '' is non-canonical or oversized'')))
                    else Inr decoded))
      | _ \<Rightarrow> Inl (ValueError (U (loc @ '' is not base64 text''))))"

definition batch_record_json :: "batch_record \<Rightarrow> json" where
  "batch_record_json r = JObj
     [(U ''index'', JInt (b_index r)), (U ''returncode'', JInt (b_returncode r)),
      (U ''timed_out'', JBool (b_timed_out r)), (U ''output_limited'', JBool (b_output_limited r)),
      (U ''process_started'', JBool (b_process_started r)), (U ''duration_ms'', JInt (b_duration_ms r)),
      (U ''stdout_b64'', JStr (U (b64encode (b_stdout r)))),
      (U ''stderr_b64'', JStr (U (b64encode (b_stderr r))))]"

definition batch_result_json :: "batch_record list \<Rightarrow> json" where
  "batch_result_json rs = JObj
     [(U ''schema_version'', JInt 1), (U ''kind'', JStr (U ''validation_batch_result'')),
      (U ''records'', JArr (map batch_record_json rs))]"

definition encode_validation_batch_result :: "batch_record list \<Rightarrow> exn + bytes" where
  "encode_validation_batch_result rs =
     (let encoded = json_dumps (batch_result_json rs) @ [CHR 0x0A]
      in if int (length encoded) > MAX_VALIDATION_BATCH_RESULT_BYTES
         then Inl (ValueError (U ''validation-batch result exceeded its protocol bound''))
         else Inr encoded)"

definition RECORD_KEYS :: "string list" where
  "RECORD_KEYS =
     [''index'', ''returncode'', ''timed_out'', ''output_limited'', ''process_started'',
      ''duration_ms'', ''stdout_b64'', ''stderr_b64'']"

definition is_true :: "json \<Rightarrow> bool" where
  "is_true v \<longleftrightarrow> v = JBool True"

definition is_bool :: "json \<Rightarrow> bool" where
  "is_bool v \<longleftrightarrow> v = JBool True \<or> v = JBool False"

text \<open>One record: \<open>i\<close> is its position and \<open>used\<close> the bytes of output before it.\<close>

definition parse_batch_record :: "int \<Rightarrow> nat \<Rightarrow> int \<Rightarrow> json \<Rightarrow> exn + batch_record" where
  "parse_batch_record max_raw i used value =
     rbind (closed_object RECORD_KEYS (''validation-batch result '' @ dec_nat i) value) (\<lambda>raw.
     if \<not> py_eq_int (field raw ''index'') (int i)
     then Inl (ValueError (U ''validation-batch result indexes are not sequential''))
     else if \<not> (is_bool (field raw ''timed_out'') \<and> is_bool (field raw ''output_limited'') \<and>
                is_bool (field raw ''process_started''))
     then Inl (ValueError (U ''validation-batch terminal flags are not booleans''))
     else
     rbind (canonical_b64 max_raw ''stdout'' (field raw ''stdout_b64'')) (\<lambda>out.
     rbind (canonical_b64 max_raw ''stderr'' (field raw ''stderr_b64'')) (\<lambda>err.
     if \<not> is_true (field raw ''process_started'') \<and>
        (\<not> is_true (field raw ''timed_out'') \<or> is_true (field raw ''output_limited'')
         \<or> \<not> py_eq_int (field raw ''returncode'') 0 \<or> \<not> py_eq_int (field raw ''duration_ms'') 0
         \<or> out \<noteq> [] \<or> err \<noteq> [])
     then Inl (ValueError (U ''an unstarted validation check has contradictory evidence''))
     else if used + int (length out) + int (length err) > max_raw
     then Inl (ValueError (U ''validation-batch raw output exceeded its bound''))
     else
     rbind (bounded_integer (- 255) 255 ''returncode'' (field raw ''returncode'')) (\<lambda>rc.
     rbind (bounded_integer 0 (DEFAULT_MAX_RUNTIME_SECONDS * 1000 + 10000) ''duration_ms''
              (field raw ''duration_ms'')) (\<lambda>dur.
     Inr \<lparr>b_index = int i, b_returncode = rc, b_timed_out = is_true (field raw ''timed_out''),
          b_output_limited = is_true (field raw ''output_limited''),
          b_process_started = is_true (field raw ''process_started''), b_duration_ms = dur,
          b_stdout = out, b_stderr = err\<rparr>)))))"

definition output_bytes :: "batch_record \<Rightarrow> int" where
  "output_bytes r = int (length (b_stdout r)) + int (length (b_stderr r))"

fun parse_batch_records :: "int \<Rightarrow> nat \<Rightarrow> int \<Rightarrow> json list \<Rightarrow> exn + batch_record list" where
  "parse_batch_records max_raw i used [] = Inr []"
| "parse_batch_records max_raw i used (v # vs) =
     rbind (parse_batch_record max_raw i used v) (\<lambda>r.
     rbind (parse_batch_records max_raw (Suc i) (used + output_bytes r) vs) (\<lambda>rs. Inr (r # rs)))"

definition terminal_record :: "batch_record \<Rightarrow> bool" where
  "terminal_record r \<longleftrightarrow> b_timed_out r \<or> b_output_limited r \<or> b_returncode r < 0 \<or> b_returncode r \<in> {126, 127}"

definition parse_validation_batch_result :: "int \<Rightarrow> int \<Rightarrow> bytes \<Rightarrow> exn + batch_record list" where
  "parse_validation_batch_result expected_checks max_raw data =
     rbind (batch_json MAX_VALIDATION_BATCH_RESULT_BYTES data) (\<lambda>value.
     rbind (closed_object [''schema_version'', ''kind'', ''records''] ''validation-batch result'' value) (\<lambda>raw.
     if \<not> py_eq_int (field raw ''schema_version'') 1
       \<or> field raw ''kind'' \<noteq> JStr (U ''validation_batch_result'')
     then Inl (ValueError (U ''unsupported validation-batch result identity''))
     else case field raw ''records'' of
       JArr vs \<Rightarrow>
         if \<not> (1 \<le> int (length vs) \<and> int (length vs) \<le> expected_checks)
         then Inl (ValueError (U ''validation-batch result count is outside its bound''))
         else
           rbind (parse_batch_records max_raw 0 0 vs) (\<lambda>rs.
           if int (length rs) < expected_checks \<and> \<not> terminal_record (last rs)
           then Inl (ValueError (U ''validation-batch result is an unterminated successful prefix''))
           else Inr rs)
     | _ \<Rightarrow> Inl (ValueError (U ''validation-batch result count is outside its bound''))))"

lemma batch_json_dumps:
  assumes "wf_json (JObj kvs)" and "int (length (json_dumps (JObj kvs) @ [CHR 0x0A])) \<le> maximum"
  shows "batch_json maximum (json_dumps (JObj kvs) @ [CHR 0x0A]) = Inr (sort_keys (JObj kvs))"
proof -
  have "list_all (\<lambda>c. ord c < 128) (json_dumps (JObj kvs) @ [CHR 0x0A])"
    using json_dumps_ascii [OF assms(1)] by (simp add: list_all_iff)
  then show ?thesis
    using assms json_roundtrip_line [OF assms(1)] by (simp add: batch_json_def utf8_decode_ascii)
qed

section \<open>The readers are sound and invert the writers\<close>

definition wf_bounded_text :: "int \<Rightarrow> ustr \<Rightarrow> bool" where
  "wf_bounded_text maximum s \<longleftrightarrow> s \<noteq> [] \<and> 0 \<notin> set s \<and>
     (case utf8_encode s of None \<Rightarrow> False | Some b \<Rightarrow> int (length b) \<le> maximum)"

definition wf_batch_check :: "batch_check \<Rightarrow> bool" where
  "wf_batch_check c \<longleftrightarrow> wf_bounded_text 256 (b_check_id c) \<and>
     wf_bounded_text DEFAULT_MAX_FIELD_BYTES (b_command c) \<and>
     1 \<le> b_timeout_ms c \<and> b_timeout_ms c \<le> DEFAULT_MAX_RUNTIME_SECONDS * 1000 \<and>
     1 \<le> b_output_max_bytes c \<and> b_output_max_bytes c \<le> DEFAULT_MAX_AGENT_OUTPUT_BYTES"

definition wf_batch_request :: "batch_request \<Rightarrow> bool" where
  "wf_batch_request r \<longleftrightarrow> b_checks r \<noteq> [] \<and> int (length (b_checks r)) \<le> MAX_VALIDATION_CHECKS \<and>
     distinct (map b_check_id (b_checks r)) \<and> list_all wf_batch_check (b_checks r) \<and>
     1 \<le> b_max_raw_output_bytes r \<and> b_max_raw_output_bytes r \<le> DEFAULT_MAX_RAW_LOG_BYTES"

definition wf_batch_record :: "batch_record \<Rightarrow> bool" where
  "wf_batch_record r \<longleftrightarrow> - 255 \<le> b_returncode r \<and> b_returncode r \<le> 255 \<and> 0 \<le> b_duration_ms r \<and>
     b_duration_ms r \<le> DEFAULT_MAX_RUNTIME_SECONDS * 1000 + 10000 \<and>
     (\<not> b_process_started r \<longrightarrow> b_timed_out r \<and> \<not> b_output_limited r \<and> b_returncode r = 0 \<and>
        b_duration_ms r = 0 \<and> b_stdout r = [] \<and> b_stderr r = [])"

text \<open>A record after which no other check runs: the time or the output ran out, the process was killed
  by a signal, or its command could not be run.\<close>

definition ends_batch :: "batch_record \<Rightarrow> bool" where
  "ends_batch r \<longleftrightarrow>
     b_timed_out r \<or> b_output_limited r \<or> b_returncode r < 0 \<or> b_returncode r = 126 \<or> b_returncode r = 127"

definition wf_batch_result :: "int \<Rightarrow> int \<Rightarrow> batch_record list \<Rightarrow> bool" where
  "wf_batch_result expected_checks max_raw rs \<longleftrightarrow> rs \<noteq> [] \<and> int (length rs) \<le> expected_checks \<and>
     map b_index rs = map int [0..<length rs] \<and> list_all wf_batch_record rs \<and>
     (\<Sum>r \<leftarrow> rs. output_bytes r) \<le> max_raw \<and>
     (int (length rs) < expected_checks \<longrightarrow> ends_batch (last rs))"

lemma terminal_ends: "terminal_record r \<longleftrightarrow> ends_batch r"
  by (simp add: terminal_record_def ends_batch_def)

text \<open>
  What the bytes of an answer have to say, read as JSON: an object with exactly three keys, the
  version, the kind and one object for each record with exactly eight keys, which hold the values of
  the record; the numbers of the version and of the record in the sense of Python's \<open>==\<close>.
\<close>

definition states_record :: "batch_record \<Rightarrow> json \<Rightarrow> bool" where
  "states_record r v \<longleftrightarrow>
     (\<exists>kvs. has_keys [''index'', ''returncode'', ''timed_out'', ''output_limited'', ''process_started'',
          ''duration_ms'', ''stdout_b64'', ''stderr_b64''] v kvs \<and>
        py_eq_int (field kvs ''index'') (b_index r) \<and> field kvs ''returncode'' = JInt (b_returncode r) \<and>
        field kvs ''timed_out'' = JBool (b_timed_out r) \<and> field kvs ''output_limited'' = JBool (b_output_limited r) \<and>
        field kvs ''process_started'' = JBool (b_process_started r) \<and>
        field kvs ''duration_ms'' = JInt (b_duration_ms r) \<and>
        field kvs ''stdout_b64'' = JStr (U (b64encode (b_stdout r))) \<and>
        field kvs ''stderr_b64'' = JStr (U (b64encode (b_stderr r))))"

definition states_result :: "bytes \<Rightarrow> batch_record list \<Rightarrow> bool" where
  "states_result data rs \<longleftrightarrow> int (length data) \<le> MAX_VALIDATION_BATCH_RESULT_BYTES \<and>
     (\<exists>text v kvs vs. utf8_decode data = Some text \<and> json_loads text = Inr v \<and>
        has_keys [''schema_version'', ''kind'', ''records''] v kvs \<and>
        py_eq_int (field kvs ''schema_version'') 1 \<and> field kvs ''kind'' = JStr (U ''validation_batch_result'') \<and>
        field kvs ''records'' = JArr vs \<and> list_all2 states_record rs vs)"

lemma bounded_text_Inr: "bounded_text m l v = Inr s \<longleftrightarrow> v = JStr s \<and> wf_bounded_text m s"
  by (cases v) (auto simp: bounded_text_def wf_bounded_text_def split: option.splits)

lemma bounded_integer_Inr: "bounded_integer a b l v = Inr i \<longleftrightarrow> v = JInt i \<and> a \<le> i \<and> i \<le> b"
  by (cases v) (auto simp: bounded_integer_def)

lemma closed_object_Inr: "closed_object ks l v = Inr kvs \<longleftrightarrow> has_keys ks v kvs"
  by (cases v) (auto simp: closed_object_def has_keys_def)

lemma case_arr_Inr:
  "(case j of JArr vs \<Rightarrow> f vs | _ \<Rightarrow> Inl e) = Inr x \<longleftrightarrow> (\<exists>vs. j = JArr vs \<and> f vs = Inr x)"
  by (cases j) simp_all

lemma parse_batch_check_Inr:
  "parse_batch_check i v = Inr c \<longleftrightarrow> wf_batch_check c \<and>
     (\<exists>kvs. has_keys [''check_id'', ''command'', ''timeout_ms'', ''output_max_bytes''] v kvs \<and>
        field kvs ''check_id'' = JStr (b_check_id c) \<and> field kvs ''command'' = JStr (b_command c) \<and>
        field kvs ''timeout_ms'' = JInt (b_timeout_ms c) \<and>
        field kvs ''output_max_bytes'' = JInt (b_output_max_bytes c))"
  by (cases c) (auto simp: parse_batch_check_def rbind_Inr_iff closed_object_Inr bounded_text_Inr
      bounded_integer_Inr wf_batch_check_def)

lemma batch_check_round_trip:
  assumes "wf_batch_check c"
  shows "parse_batch_check i (sort_keys (batch_check_json c)) = Inr c"
proof -
  let ?kvs = "[(U ''check_id'', JStr (b_check_id c)), (U ''command'', JStr (b_command c)),
      (U ''timeout_ms'', JInt (b_timeout_ms c)), (U ''output_max_bytes'', JInt (b_output_max_bytes c))]"
  have "distinct (map fst ?kvs)" by simp
  then obtain kvs where "sort_keys (JObj ?kvs) = JObj kvs" "set (map fst kvs) = set (map fst ?kvs)"
    and "\<And>k v. map_of ?kvs (U k) = Some v \<Longrightarrow> field kvs k = sort_keys v"
    by (rule field_sorted) blast
  then show ?thesis
    using assms unfolding parse_batch_check_Inr batch_check_json_def has_keys_def
    by (intro conjI exI [of _ kvs]) simp_all
qed

lemma parse_request_wf:
  assumes "parse_validation_batch_request data = Inr r"
  shows "wf_batch_request r"
proof -
  obtain vs checks m where *: "1 \<le> int (length vs)" "int (length vs) \<le> MAX_VALIDATION_CHECKS"
    "rmap (\<lambda>(i, v). parse_batch_check i v) (enumerate 0 vs) = Inr checks" "distinct (map b_check_id checks)"
    "1 \<le> m" "m \<le> DEFAULT_MAX_RAW_LOG_BYTES" "r = \<lparr>b_checks = checks, b_max_raw_output_bytes = m\<rparr>"
    using assms
    by (auto simp: parse_validation_batch_request_def rbind_Inr_iff bounded_integer_Inr if_Inl_Inr case_arr_Inr)
  have "list_all2 (\<lambda>x c. (case x of (i, v) \<Rightarrow> parse_batch_check i v) = Inr c) (enumerate 0 vs) checks"
    using *(3) by (simp add: rmap_Inr_iff)
  then have "length checks = length vs" "list_all wf_batch_check checks"
    by (auto simp: list_all2_conv_all_nth list_all_length nth_enumerate_eq parse_batch_check_Inr)
  with * show ?thesis by (auto simp: wf_batch_request_def)
qed

lemma wf_bounded_text_str: "wf_bounded_text m s \<Longrightarrow> wf_str s"
  using utf8_encode_None_iff [of s] by (auto simp: wf_bounded_text_def wf_str_def list_all_iff split: option.splits)

lemma wf_batch_check_json: "wf_batch_check c \<Longrightarrow> wf_json (batch_check_json c)"
  by (auto simp: batch_check_json_def wf_batch_check_def wf_str_U DEFAULT_MAX_RUNTIME_SECONDS_def
      DEFAULT_MAX_AGENT_OUTPUT_BYTES_def intro!: wf_int_small dest: wf_bounded_text_str)

theorem batch_request_round_trip:
  assumes "wf_batch_request r"
    and "int (length (json_dumps (batch_request_json r) @ [CHR 0x0A])) \<le> DEFAULT_MAX_AGENT_OUTPUT_BYTES"
  shows "\<exists>b. encode_validation_batch_request r = Inr b \<and> parse_validation_batch_request b = Inr r"
proof -
  let ?kvs = "[(U ''schema_version'', JInt 1), (U ''kind'', JStr (U ''validation_batch_request'')),
      (U ''max_raw_output_bytes'', JInt (b_max_raw_output_bytes r)),
      (U ''checks'', JArr (map batch_check_json (b_checks r)))]"
  note w = assms(1) [unfolded wf_batch_request_def]
  have wf: "wf_json (JObj ?kvs)"
    using w by (auto simp: wf_str_U DEFAULT_MAX_RAW_LOG_BYTES_def list_all_iff wf_batch_check_json
        intro!: wf_int_small)
  have B: "batch_json DEFAULT_MAX_AGENT_OUTPUT_BYTES (json_dumps (batch_request_json r) @ [CHR 0x0A])
      = Inr (sort_keys (JObj ?kvs))"
    using batch_json_dumps [OF wf] assms(2) by (simp add: batch_request_json_def)
  have "distinct (map fst ?kvs)" by simp
  then obtain kvs where k: "sort_keys (JObj ?kvs) = JObj kvs" "set (map fst kvs) = set (map fst ?kvs)"
    and F: "\<And>k v. map_of ?kvs (U k) = Some v \<Longrightarrow> field kvs k = sort_keys v"
    by (rule field_sorted) blast
  have C: "rmap (\<lambda>(i, v). parse_batch_check i v) (enumerate n (map sort_keys (map batch_check_json cs))) = Inr cs"
    if "list_all wf_batch_check cs" for n cs
    using that by (induction cs arbitrary: n) (auto simp: batch_check_round_trip)
  have keys: "closed_object [''schema_version'', ''kind'', ''max_raw_output_bytes'', ''checks'']
      ''validation-batch request'' (JObj kvs) = Inr kvs"
    using k(2) by (auto simp: closed_object_Inr has_keys_def)
  have fields: "field kvs ''schema_version'' = JInt 1" "field kvs ''kind'' = JStr (U ''validation_batch_request'')"
    "field kvs ''checks'' = JArr (map sort_keys (map batch_check_json (b_checks r)))"
    "field kvs ''max_raw_output_bytes'' = JInt (b_max_raw_output_bytes r)"
    by (simp_all add: F)
  have m: "bounded_integer 1 DEFAULT_MAX_RAW_LOG_BYTES l (JInt (b_max_raw_output_bytes r)) = Inr (b_max_raw_output_bytes r)" for l
    using w by (simp add: bounded_integer_Inr)
  have ne: "1 \<le> int (length (b_checks r))" using w by (cases "b_checks r") auto
  have "parse_validation_batch_request (json_dumps (batch_request_json r) @ [CHR 0x0A]) = Inr r"
    using w ne unfolding parse_validation_batch_request_def B k(1) rbind_simps keys fields
    by (simp add: py_eq_int_def C [simplified] m)
  then show ?thesis by (simp add: encode_validation_batch_request_def)
qed

lemma canonical_b64_Inr:
  "canonical_b64 m l v = Inr d \<longleftrightarrow> v = JStr (U (b64encode d)) \<and> int (length d) \<le> m"
proof
  assume "canonical_b64 m l v = Inr d"
  then show "v = JStr (U (b64encode d)) \<and> int (length d) \<le> m"
    by (auto simp: canonical_b64_def split: json.splits option.splits if_splits dest: ascii_encode_Some)
next
  assume *: "v = JStr (U (b64encode d)) \<and> int (length d) \<le> m"
  have "ascii_encode (U (b64encode d)) = Some (b64encode d)"
    by (rule ascii_encode_U) (auto simp: list_all_iff dest: b64encode_ascii)
  with * show "canonical_b64 m l v = Inr d" by (simp add: canonical_b64_def)
qed

lemma py_eq_JInt [simp]: "py_eq_int (JInt j) i \<longleftrightarrow> j = i"
  by (simp add: py_eq_int_def)

lemma is_bool_true: "is_bool v \<Longrightarrow> v = JBool (is_true v)"
  by (auto simp: is_bool_def is_true_def)

lemma parse_batch_record_Inr:
  assumes "0 \<le> u"
  shows "parse_batch_record m i u v = Inr r \<longleftrightarrow>
    wf_batch_record r \<and> b_index r = int i \<and> u + output_bytes r \<le> m \<and> states_record r v"
proof
  assume "parse_batch_record m i u v = Inr r"
  then show "wf_batch_record r \<and> b_index r = int i \<and> u + output_bytes r \<le> m \<and> states_record r v"
    by (auto simp: parse_batch_record_def rbind_Inr_iff if_Inl_Inr bounded_integer_Inr closed_object_Inr canonical_b64_Inr
        wf_batch_record_def output_bytes_def states_record_def RECORD_KEYS_def [symmetric] dest!: is_bool_true)
next
  assume *: "wf_batch_record r \<and> b_index r = int i \<and> u + output_bytes r \<le> m \<and> states_record r v"
  then obtain kvs where k: "has_keys RECORD_KEYS v kvs"
    and x: "py_eq_int (field kvs ''index'') (int i)"
    and f: "field kvs ''returncode'' = JInt (b_returncode r)"
      "field kvs ''timed_out'' = JBool (b_timed_out r)" "field kvs ''output_limited'' = JBool (b_output_limited r)"
      "field kvs ''process_started'' = JBool (b_process_started r)" "field kvs ''duration_ms'' = JInt (b_duration_ms r)"
      "field kvs ''stdout_b64'' = JStr (U (b64encode (b_stdout r)))"
      "field kvs ''stderr_b64'' = JStr (U (b64encode (b_stderr r)))"
    unfolding states_record_def RECORD_KEYS_def [symmetric] by auto
  have k': "closed_object RECORD_KEYS l v = Inr kvs" for l using k by (simp add: closed_object_Inr)
  have c: "canonical_b64 m l (JStr (U (b64encode (b_stdout r)))) = Inr (b_stdout r)"
    "canonical_b64 m l (JStr (U (b64encode (b_stderr r)))) = Inr (b_stderr r)" for l
    using * assms by (simp_all add: canonical_b64_Inr output_bytes_def)
  have n: "bounded_integer (- 255) 255 l (JInt (b_returncode r)) = Inr (b_returncode r)"
    "bounded_integer 0 (DEFAULT_MAX_RUNTIME_SECONDS * 1000 + 10000) l (JInt (b_duration_ms r)) = Inr (b_duration_ms r)" for l
    using * by (simp_all add: bounded_integer_Inr wf_batch_record_def)
  show "parse_batch_record m i u v = Inr r"
    unfolding parse_batch_record_def k' rbind_simps f c n
    using * x by (cases r) (auto simp: is_bool_def is_true_def wf_batch_record_def output_bytes_def)
qed

lemma parse_batch_records_Inr:
  "0 \<le> u \<Longrightarrow> parse_batch_records m i u vs = Inr rs \<longleftrightarrow>
     list_all wf_batch_record rs \<and> map b_index rs = map int [i..<i + length rs] \<and>
     (rs \<noteq> [] \<longrightarrow> u + (\<Sum>r \<leftarrow> rs. output_bytes r) \<le> m) \<and> list_all2 states_record rs vs"
proof (induction vs arbitrary: i u rs)
  case (Cons v vs)
  have o': "0 \<le> output_bytes x" for x by (simp add: output_bytes_def)
  show ?case
  proof (cases rs)
    case (Cons r rs')
    have s: "0 \<le> (\<Sum>r \<leftarrow> rs'. output_bytes r)" by (intro sum_list_nonneg) (auto simp: o')
    have "parse_batch_records m i u (v # vs) = Inr rs \<longleftrightarrow>
        parse_batch_record m i u v = Inr r \<and> parse_batch_records m (Suc i) (u + output_bytes r) vs = Inr rs'"
      by (auto simp: Cons rbind_Inr_iff)
    also have "\<dots> \<longleftrightarrow> (wf_batch_record r \<and> b_index r = int i \<and> u + output_bytes r \<le> m \<and> states_record r v) \<and>
        (list_all wf_batch_record rs' \<and> map b_index rs' = map int [Suc i..<Suc i + length rs'] \<and>
         (rs' \<noteq> [] \<longrightarrow> u + output_bytes r + (\<Sum>r \<leftarrow> rs'. output_bytes r) \<le> m) \<and> list_all2 states_record rs' vs)"
      using parse_batch_record_Inr [OF Cons.prems, of m i v r] Cons.IH [of "u + output_bytes r" "Suc i" rs']
        Cons.prems o' [of r] by simp
    also have "\<dots> \<longleftrightarrow> list_all wf_batch_record rs \<and> map b_index rs = map int [i..<i + length rs] \<and>
        (rs \<noteq> [] \<longrightarrow> u + (\<Sum>r \<leftarrow> rs. output_bytes r) \<le> m) \<and> list_all2 states_record rs (v # vs)"
      using s by (cases rs') (auto simp: Cons upt_conv_Cons simp del: upt_Suc)
    finally show ?thesis .
  qed (simp add: rbind_Inr_iff)
qed auto

text \<open>
  So the reader accepts exactly the answers that are within their bounds and that the bytes state.
\<close>

theorem parse_result_Inr:
  assumes "0 \<le> m"
  shows "parse_validation_batch_result n m data = Inr rs \<longleftrightarrow> wf_batch_result n m rs \<and> states_result data rs"
proof -
  have j: "batch_json MAX_VALIDATION_BATCH_RESULT_BYTES data = Inr v \<longleftrightarrow>
      int (length data) \<le> MAX_VALIDATION_BATCH_RESULT_BYTES \<and>
      (\<exists>text. utf8_decode data = Some text \<and> json_loads text = Inr v) \<and> (\<exists>kvs. v = JObj kvs)" for v
    by (auto simp: batch_json_def split: option.splits sum.splits json.splits)
  have "parse_validation_batch_result n m data = Inr rs \<longleftrightarrow>
      int (length data) \<le> MAX_VALIDATION_BATCH_RESULT_BYTES \<and>
      (\<exists>text v kvs vs. utf8_decode data = Some text \<and> json_loads text = Inr v \<and>
        has_keys [''schema_version'', ''kind'', ''records''] v kvs \<and>
        py_eq_int (field kvs ''schema_version'') 1 \<and> field kvs ''kind'' = JStr (U ''validation_batch_result'') \<and>
        field kvs ''records'' = JArr vs \<and> 1 \<le> int (length vs) \<and> int (length vs) \<le> n \<and>
        parse_batch_records m 0 0 vs = Inr rs \<and> (int (length rs) < n \<longrightarrow> ends_batch (last rs)))"
    by (auto simp: parse_validation_batch_result_def rbind_Inr_iff if_Inl_Inr case_arr_Inr j closed_object_Inr terminal_ends
        has_keys_def)
  also have "\<dots> \<longleftrightarrow> wf_batch_result n m rs \<and> states_result data rs"
  proof -
    have "1 \<le> int (length vs) \<and> int (length vs) \<le> n \<and> parse_batch_records m 0 0 vs = Inr rs \<and>
        (int (length rs) < n \<longrightarrow> ends_batch (last rs)) \<longleftrightarrow> wf_batch_result n m rs \<and> list_all2 states_record rs vs" for vs
      unfolding wf_batch_result_def parse_batch_records_Inr [OF order.refl]
      using list_all2_lengthD [of states_record rs vs] by (cases rs) auto
    then show ?thesis unfolding states_result_def by blast
  qed
  finally show ?thesis .
qed

lemma parse_batch_record_round_trip:
  assumes "wf_batch_record r" and "b_index r = int i" and "u + output_bytes r \<le> m" and "0 \<le> u"
  shows "parse_batch_record m i u (sort_keys (batch_record_json r)) = Inr r"
proof -
  let ?kvs = "[(U ''index'', JInt (b_index r)), (U ''returncode'', JInt (b_returncode r)),
      (U ''timed_out'', JBool (b_timed_out r)), (U ''output_limited'', JBool (b_output_limited r)),
      (U ''process_started'', JBool (b_process_started r)), (U ''duration_ms'', JInt (b_duration_ms r)),
      (U ''stdout_b64'', JStr (U (b64encode (b_stdout r)))),
      (U ''stderr_b64'', JStr (U (b64encode (b_stderr r))))]"
  have "distinct (map fst ?kvs)" by simp
  then obtain kvs where k: "sort_keys (JObj ?kvs) = JObj kvs" "set (map fst kvs) = set (map fst ?kvs)"
    and F: "\<And>k v. map_of ?kvs (U k) = Some v \<Longrightarrow> field kvs k = sort_keys v"
    by (rule field_sorted) blast
  have fields: "field kvs ''index'' = JInt (int i)" "field kvs ''returncode'' = JInt (b_returncode r)"
    "field kvs ''timed_out'' = JBool (b_timed_out r)" "field kvs ''output_limited'' = JBool (b_output_limited r)"
    "field kvs ''process_started'' = JBool (b_process_started r)"
    "field kvs ''duration_ms'' = JInt (b_duration_ms r)"
    "field kvs ''stdout_b64'' = JStr (U (b64encode (b_stdout r)))"
    "field kvs ''stderr_b64'' = JStr (U (b64encode (b_stderr r)))"
    by (simp_all add: F assms(2))
  have c: "closed_object RECORD_KEYS l (JObj kvs) = Inr kvs" for l
    using k(2) by (auto simp: closed_object_Inr has_keys_def RECORD_KEYS_def)
  have o': "canonical_b64 m l (JStr (U (b64encode (b_stdout r)))) = Inr (b_stdout r)"
    "canonical_b64 m l (JStr (U (b64encode (b_stderr r)))) = Inr (b_stderr r)" for l
    using assms(3,4) by (simp_all add: canonical_b64_Inr output_bytes_def)
  have n: "bounded_integer (- 255) 255 l (JInt (b_returncode r)) = Inr (b_returncode r)"
    "bounded_integer 0 (DEFAULT_MAX_RUNTIME_SECONDS * 1000 + 10000) l (JInt (b_duration_ms r)) = Inr (b_duration_ms r)" for l
    using assms(1) by (simp_all add: bounded_integer_Inr wf_batch_record_def)
  show ?thesis
    unfolding parse_batch_record_def batch_record_json_def k(1) c rbind_simps fields o' n
    using assms by (cases r) (auto simp: is_bool_def is_true_def wf_batch_record_def output_bytes_def)
qed

lemma parse_batch_records_round_trip:
  assumes "list_all wf_batch_record rs" and "map b_index rs = map int [i..<i + length rs]"
    and "u + (\<Sum>r \<leftarrow> rs. output_bytes r) \<le> m" and "0 \<le> u"
  shows "parse_batch_records m i u (map sort_keys (map batch_record_json rs)) = Inr rs"
  using assms
proof (induction rs arbitrary: i u)
  case (Cons r rs)
  have o': "0 \<le> output_bytes x" for x by (simp add: output_bytes_def)
  then have s: "0 \<le> (\<Sum>r \<leftarrow> rs. output_bytes r)" by (intro sum_list_nonneg) auto
  have i: "b_index r = int i" "map b_index rs = map int [Suc i..<Suc i + length rs]"
    using Cons.prems(2) by (simp_all add: upt_conv_Cons del: upt_Suc)
  have "parse_batch_record m i u (sort_keys (batch_record_json r)) = Inr r"
    using Cons.prems s i by (intro parse_batch_record_round_trip) auto
  moreover have "parse_batch_records m (Suc i) (u + output_bytes r) (map sort_keys (map batch_record_json rs)) = Inr rs"
    using Cons.prems i o' [of r] by (intro Cons.IH) (auto simp: algebra_simps)
  ultimately show ?case by simp
qed simp

lemma wf_batch_record_json: "wf_batch_record r \<Longrightarrow> 0 \<le> b_index r \<Longrightarrow> b_index r < 10 ^ 12 \<Longrightarrow> wf_json (batch_record_json r)"
  by (auto simp: batch_record_json_def wf_batch_record_def wf_str_U DEFAULT_MAX_RUNTIME_SECONDS_def
      intro!: wf_int_small)

theorem batch_result_round_trip:
  assumes w: "wf_batch_result n m rs" and n: "n \<le> MAX_VALIDATION_CHECKS"
    and e: "encode_validation_batch_result rs = Inr b"
  shows "parse_validation_batch_result n m b = Inr rs"
proof -
  let ?kvs = "[(U ''schema_version'', JInt 1), (U ''kind'', JStr (U ''validation_batch_result'')),
      (U ''records'', JArr (map batch_record_json rs))]"
  note w' = w [unfolded wf_batch_result_def]
  have b: "b = json_dumps (batch_result_json rs) @ [CHR 0x0A]"
    and len: "int (length b) \<le> MAX_VALIDATION_BATCH_RESULT_BYTES"
    using e by (auto simp: encode_validation_batch_result_def Let_def split: if_splits)
  have "0 \<le> b_index r \<and> b_index r < 10 ^ 12" if "r \<in> set rs" for r
  proof -
    from that have "b_index r \<in> set (map int [0..<length rs])" using w' by (metis list.set_map imageI)
    then show ?thesis using w' n by (auto simp: MAX_VALIDATION_CHECKS_def)
  qed
  then have wf: "wf_json (JObj ?kvs)"
    using w' by (auto simp: wf_str_U list_all_iff intro!: wf_int_small wf_batch_record_json)
  have B: "batch_json MAX_VALIDATION_BATCH_RESULT_BYTES b = Inr (sort_keys (JObj ?kvs))"
    using batch_json_dumps [OF wf] len by (simp add: b batch_result_json_def)
  have "distinct (map fst ?kvs)" by simp
  then obtain kvs where k: "sort_keys (JObj ?kvs) = JObj kvs" "set (map fst kvs) = set (map fst ?kvs)"
    and F: "\<And>k v. map_of ?kvs (U k) = Some v \<Longrightarrow> field kvs k = sort_keys v"
    by (rule field_sorted) blast
  have keys: "closed_object [''schema_version'', ''kind'', ''records''] ''validation-batch result'' (JObj kvs) = Inr kvs"
    using k(2) by (auto simp: closed_object_Inr has_keys_def)
  have fields: "field kvs ''schema_version'' = JInt 1" "field kvs ''kind'' = JStr (U ''validation_batch_result'')"
    "field kvs ''records'' = JArr (map sort_keys (map batch_record_json rs))"
    by (simp_all add: F)
  have R: "parse_batch_records m 0 0 (map sort_keys (map batch_record_json rs)) = Inr rs"
    using w' by (intro parse_batch_records_round_trip) auto
  have ne: "1 \<le> int (length rs)" using w' by (cases rs) auto
  show ?thesis
    using w' ne R unfolding parse_validation_batch_result_def B k(1) rbind_simps keys fields
    by (auto simp: terminal_ends)
qed

text \<open>\<open>true\<close> is accepted where the protocol has the integer 1.\<close>

lemma boolean_version_accepted:
  "py_eq_int (JBool True) 1" "py_eq_int (JBool False) 0"
  by (simp_all add: py_eq_int_def)

end
