(* ===== verification/DiagnosticPatch.thy ===== *)
theory DiagnosticPatch
  imports ManifestDiff ManifestJson Blobs Schemas
begin

text \<open>
  \<open>src/src/agent_loop/diagnostic_patch.py\<close>: the bounded JSONL projection of the delta of two
  manifests. \<open>read\<close> is the \<open>read_blob\<close> of the blob store. The \<open>isinstance\<close> tests of the
  arguments are their types here.
\<close>

section \<open>Exceptions that are turned into a patch failure\<close>

text \<open>\<open>except (KeyError, OSError, TypeError, ValueError)\<close>; UnicodeEncodeError is a ValueError.\<close>

fun projection_error :: "exn \<Rightarrow> bool" where
  "projection_error (KeyError m) = True"
| "projection_error (OSError m) = True"
| "projection_error (TypeError m) = True"
| "projection_error (ValueError m) = True"
| "projection_error UnicodeEncodeError = True"
| "projection_error _ = False"

text \<open>\<open>str(exc)\<close>; the text of a codec error is the library's and fixed here.\<close>

fun exn_text :: "exn \<Rightarrow> ustr" where
  "exn_text (AgentLoopError r d) = error_str r d"
| "exn_text (KeyError m) = repr_str m"
| "exn_text (ValueError m) = m"
| "exn_text (TypeError m) = m"
| "exn_text (OSError m) = m"
| "exn_text (RuntimeError m) = m"
| "exn_text (AssertionError m) = m"
| "exn_text UnicodeEncodeError = U ''surrogates not allowed''"
| "exn_text KeyboardInterrupt = []"
| "exn_text (OverflowError m) = m"

definition as_patch_failure :: "string \<Rightarrow> exn + 'a \<Rightarrow> exn + 'a" where
  "as_patch_failure what r =
     (case r of
        Inl e \<Rightarrow>
          if projection_error e
          then Inl (AgentLoopError DIAGNOSTIC_PATCH_FAILURE (U what @ exn_text e))
          else Inl e
      | Inr x \<Rightarrow> Inr x)"

section \<open>The records\<close>

definition patch_descriptor :: "manifest_entry \<Rightarrow> exn + json" where
  "patch_descriptor e =
     (let common =
        [(U ''path_b64'', JStr (path_to_b64 (entry_path e))),
         (U ''path_display'', JStr (display_path (entry_path e))),
         (U ''kind'', jstr (entry_kind_value (entry_kind e))),
         (U ''mode'', jstr (oct6 (entry_mode e)))]
      in case entry_kind e of
           REGULAR \<Rightarrow> Inr (JObj (common @
             [(U ''size'', json_opt_int (entry_size e)),
              (U ''blob_sha256'', json_opt_str (blob_sha256 e))]))
         | SYMLINK \<Rightarrow>
             (case symlink_target e of
                None \<Rightarrow> Inl (AssertionError [])
              | Some t \<Rightarrow> Inr (JObj (common @
                  [(U ''target_b64'', JStr (path_to_b64 t)),
                   (U ''target_sha256'', json_opt_str (target_sha256 e))]))))"

definition is_binary :: "bytes \<Rightarrow> bool" where
  "is_binary data \<longleftrightarrow> contains [CHR 0x00] data \<or> utf8_decode data = None"

definition regular_bytes :: "(ustr \<Rightarrow> exn + bytes) \<Rightarrow> manifest_entry \<Rightarrow> exn + bytes" where
  "regular_bytes read e =
     (if entry_kind e \<noteq> REGULAR then Inl (AssertionError [])
      else case blob_sha256 e of None \<Rightarrow> Inl (AssertionError []) | Some h \<Rightarrow> read h)"

fun any_binary :: "(ustr \<Rightarrow> exn + bytes) \<Rightarrow> manifest_entry list \<Rightarrow> exn + bool" where
  "any_binary read [] = Inr False"
| "any_binary read (e # es) =
     rbind (regular_bytes read e) (\<lambda>d. if is_binary d then Inr True else any_binary read es)"

definition content_changed :: "manifest_change \<Rightarrow> exn + bool" where
  "content_changed c =
     (if change_kind c \<in> {CREATE, DELETE} then Inr True
      else case (before c, after c) of
        (Some b, Some a) \<Rightarrow>
          if entry_kind b \<noteq> entry_kind a then Inr True
          else rbind (content_sha256 b) (\<lambda>x. rbind (content_sha256 a) (\<lambda>y. Inr (x \<noteq> y)))
      | _ \<Rightarrow> Inr True)"

definition executable_option :: "manifest_entry option \<Rightarrow> bool" where
  "executable_option x = (case x of None \<Rightarrow> False | Some e \<Rightarrow> executable e)"

definition change_aspects :: "(ustr \<Rightarrow> exn + bytes) \<Rightarrow> manifest_change \<Rightarrow> exn + string list" where
  "change_aspects read c =
     (let es = (case before c of None \<Rightarrow> [] | Some b \<Rightarrow> [b]) @ (case after c of None \<Rightarrow> [] | Some a \<Rightarrow> [a]);
          regulars = filter (\<lambda>e. entry_kind e = REGULAR) es;
          first = (if change_kind c = RENAME then [''rename-equivalent''] else []) @
                  (if list_ex (\<lambda>e. entry_kind e = SYMLINK) es then [''symlink''] else [])
      in rbind (content_changed c) (\<lambda>changed.
         rbind (if regulars \<noteq> [] \<and> changed
                then rbind (any_binary read regulars) (\<lambda>b. Inr [if b then ''binary'' else ''content''])
                else Inr []) (\<lambda>content.
         let aspects = first @ content @
               (if executable_option (before c) \<noteq> executable_option (after c)
                then [''executable-mode''] else [])
         in Inr (if aspects = [] then [''metadata''] else aspects))))"

definition optional_descriptor :: "manifest_entry option \<Rightarrow> exn + json" where
  "optional_descriptor x = (case x of None \<Rightarrow> Inr JNull | Some e \<Rightarrow> patch_descriptor e)"

definition patch_record :: "(ustr \<Rightarrow> exn + bytes) \<Rightarrow> manifest_change \<Rightarrow> exn + json" where
  "patch_record read c =
     rbind (change_aspects read c) (\<lambda>aspects.
     rbind (optional_descriptor (before c)) (\<lambda>b.
     rbind (optional_descriptor (after c)) (\<lambda>a.
     Inr (JObj [(U ''operation'', jstr (change_kind_value (change_kind c))),
                (U ''aspects'', JArr (map jstr aspects)), (U ''before'', b), (U ''after'', a)]))))"

definition json_line :: "json \<Rightarrow> bytes" where
  "json_line v = json_dumps v @ [CHR 0x0A]"

definition patch_header :: "ustr \<Rightarrow> ustr \<Rightarrow> nat \<Rightarrow> json" where
  "patch_header base_fp cand_fp n = JObj
     [(U ''format'', jstr ''agent-loop-diagnostic-patch''), (U ''version'', JInt 1),
      (U ''base_fingerprint'', JStr base_fp), (U ''candidate_fingerprint'', JStr cand_fp),
      (U ''change_count'', JInt (int n))]"

fun patch_lines ::
  "(ustr \<Rightarrow> exn + bytes) \<Rightarrow> int \<Rightarrow> int \<Rightarrow> manifest_change list \<Rightarrow> exn + bytes list" where
  "patch_lines read max_bytes used [] = Inr []"
| "patch_lines read max_bytes used (c # cs) =
     rbind (as_patch_failure ''could not project canonical change: ''
              (rbind (patch_record read c) (\<lambda>v. Inr (json_line v)))) (\<lambda>line.
     if used + int (length line) > max_bytes
     then Inl (fail DIAGNOSTIC_PATCH_FAILURE ''diagnostic patch exceeds max_bytes'')
     else rbind (patch_lines read max_bytes (used + int (length line)) cs) (\<lambda>ls. Inr (line # ls)))"

definition render_diagnostic_patch ::
  "(ustr \<Rightarrow> exn + bytes) \<Rightarrow> int \<Rightarrow> subject_manifest \<Rightarrow> subject_manifest \<Rightarrow> exn + bytes" where
  "render_diagnostic_patch read max_bytes base candidate =
     (if max_bytes \<le> 0 then Inl (ValueError (U ''max_bytes must be a positive integer''))
      else if max_bytes > MAX_BUNDLE_BYTES
      then Inl (ValueError (U ''diagnostic patch max_bytes exceeds the frozen 8 MiB ceiling''))
      else
        rbind (as_patch_failure ''blob verification failed: ''
                 (rbind (verify_manifest_blobs read base) (\<lambda>_. verify_manifest_blobs read candidate))) (\<lambda>_.
        rbind (diff_manifests base candidate) (\<lambda>changes.
        rbind (fingerprint base) (\<lambda>bf.
        rbind (fingerprint candidate) (\<lambda>cf.
        let header = json_line (patch_header bf cf (length changes))
        in if int (length header) > max_bytes
           then Inl (fail DIAGNOSTIC_PATCH_FAILURE ''diagnostic patch exceeds max_bytes'')
           else rbind (patch_lines read max_bytes (int (length header)) changes) (\<lambda>ls.
                Inr (concat (header # ls))))))))"

section \<open>A line per change, and nothing is lost\<close>

lemma patch_descriptor_entry: "patch_descriptor e = entry_to_json e"
  by (simp add: patch_descriptor_def entry_to_json_def)

lemma as_patch_failure_Inr [simp]: "as_patch_failure w r = Inr x \<longleftrightarrow> r = Inr x"
  by (auto simp: as_patch_failure_def split: sum.splits)

lemma as_patch_failure_Inl: "as_patch_failure w r = Inl e \<Longrightarrow> \<not> projection_error e"
  by (auto simp: as_patch_failure_def split: sum.splits if_splits)

lemma patch_lines_Inr:
  assumes "patch_lines read m u cs = Inr ls" and "u \<le> m"
  shows "list_all2 (\<lambda>c l. \<exists>v. patch_record read c = Inr v \<and> l = json_line v) cs ls"
    and "u + int (length (concat ls)) \<le> m"
  using assms
proof (induction read m u cs arbitrary: ls rule: patch_lines.induct)
  case (2 read m u c cs)
  { case 1 then show ?case using 2 by (auto simp: rbind_Inr_iff if_distrib split: if_split_asm)
  next case 2 then show ?case using "2.IH"(2) by (fastforce simp: rbind_Inr_iff split: if_split_asm) }
qed simp_all

text \<open>No newline inside a line, so that the lines are found again by splitting at newlines.\<close>

lemma hex4_printable: "x \<in> set (hex4 n) \<Longrightarrow> 48 \<le> ord x"
proof -
  have "48 \<le> ord (digit (m mod 16))" for m by (simp add: of_char_digit)
  then show "x \<in> set (hex4 n) \<Longrightarrow> 48 \<le> ord x" by (auto simp del: mod_mod_trivial simp: hex4_def)
qed

lemma escape_char_printable: "x \<in> set (escape_char c) \<Longrightarrow> 32 \<le> ord x"
  using hex4_printable [of x] by (auto simp: escape_char_def split: if_splits) fastforce+

lemma dump_value_printable: "wf_json v \<Longrightarrow> x \<in> set (dump_value v) \<Longrightarrow> 32 \<le> ord x"
proof (induction v arbitrary: x)
  case (JInt i)
  then show ?case
    using dec_nat_digits [of x "nat i"] dec_nat_digits [of x "nat (- i)"]
    by (auto simp: dec_int_def is_dec_digit_def split: if_splits)
next
  case (JArr vs)
  then show ?case using set_join_with [of "'',''" "map dump_value vs"] by fastforce
next
  case (JObj kvs)
  have s: "x \<in> set (dump_str k) \<Longrightarrow> 32 \<le> ord x" for k x
    by (auto simp: dump_str_def dest: escape_char_printable)
  have "32 \<le> ord x" if "(k, v) \<in> set kvs" "x \<in> set (dump_str k @ '':'' @ dump_value v)" for k v x
    using that s JObj by fastforce
  then show ?case
    using JObj.prems(2)
      set_join_with [of "'',''" "map (\<lambda>(k, v). dump_str k @ '':'' @ dump_value v) kvs"] by fastforce
qed (auto simp: dump_str_def dest: escape_char_printable split: if_splits)

lemma split_json_lines:
  "\<forall>v \<in> set vs. wf_json v \<Longrightarrow>
   split_on (CHR 0x0A) (concat (map json_line vs)) = map json_dumps vs @ [[]]"
proof (induction vs)
  case (Cons v vs)
  have "CHR 0x0A \<notin> set (json_dumps v)"
    using dump_value_printable [OF wf_sort_keys, of v "CHR 0x0A"] Cons.prems by (auto simp: json_dumps_def)
  with Cons show ?case by (simp add: json_line_def split_on_append)
qed simp


text \<open>What a change says is read back from its record.\<close>

definition entry_option_from_json :: "json \<Rightarrow> exn + manifest_entry option" where
  "entry_option_from_json v =
     (case v of JNull \<Rightarrow> Inr None | _ \<Rightarrow> rbind (entry_from_json v) (\<lambda>e. Inr (Some e)))"

definition sized :: "manifest_entry option \<Rightarrow> bool" where
  "sized x \<longleftrightarrow> (\<forall>e. x = Some e \<longrightarrow> wf_entry e \<and> (\<forall>n. entry_size e = Some n \<longrightarrow> wf_int n))"

lemma optional_descriptor_round_trip:
  assumes "sized x" and "optional_descriptor x = Inr v"
  shows "entry_option_from_json (sort_keys v) = Inr x" and "wf_json v"
proof -
  have "entry_option_from_json (sort_keys v) = Inr x \<and> wf_json v"
  proof (cases x)
    case None
    with assms show ?thesis by (auto simp: optional_descriptor_def entry_option_from_json_def)
  next
    case (Some e)
    then have e: "wf_entry e" "\<forall>n. entry_size e = Some n \<longrightarrow> wf_int n" using assms(1) by (auto simp: sized_def)
    have v: "entry_to_json e = Inr v" using assms(2) by (simp add: Some optional_descriptor_def patch_descriptor_entry)
    have "entry_from_json (sort_keys v) = Inr e" by (rule entry_round_trip [OF e(1)]) (simp add: v)
    then show ?thesis
      using entry_to_json_wf [OF e(1) v e(2)]
      by (auto simp: Some entry_option_from_json_def entry_from_json_def split: json.splits)
  qed
  then show "entry_option_from_json (sort_keys v) = Inr x" and "wf_json v" by auto
qed

definition shows_change :: "manifest_change \<Rightarrow> json \<Rightarrow> bool" where
  "shows_change c v \<longleftrightarrow> (\<exists>kvs. v = JObj kvs \<and>
     field kvs ''operation'' = JStr (U (change_kind_value (change_kind c))) \<and>
     entry_option_from_json (field kvs ''before'') = Inr (before c) \<and>
     entry_option_from_json (field kvs ''after'') = Inr (after c))"

lemma patch_record_shows:
  assumes "patch_record read c = Inr v" and "sized (before c)" and "sized (after c)"
  shows "shows_change c (sort_keys v)" and "wf_json v"
proof -
  obtain aspects b a where b: "optional_descriptor (before c) = Inr b" and a: "optional_descriptor (after c) = Inr a"
    and v: "v = JObj [(U ''operation'', jstr (change_kind_value (change_kind c))),
                (U ''aspects'', JArr (map jstr aspects)), (U ''before'', b), (U ''after'', a)]" (is "v = JObj ?kvs")
    using assms(1) by (auto simp: patch_record_def rbind_Inr_iff)
  note B = optional_descriptor_round_trip [OF assms(2) b] and A = optional_descriptor_round_trip [OF assms(3) a]
  show "wf_json v" using A(2) B(2) by (auto simp: v jstr_def wf_str_U)
  have "distinct (map fst ?kvs)" by simp
  then obtain kvs where k: "sort_keys (JObj ?kvs) = JObj kvs"
    and F: "\<And>k v. map_of ?kvs (U k) = Some v \<Longrightarrow> field kvs k = sort_keys v"
    by (rule field_sorted) blast
  have "field kvs ''operation'' = JStr (U (change_kind_value (change_kind c)))"
    "field kvs ''before'' = sort_keys b" "field kvs ''after'' = sort_keys a"
    by (simp_all add: F jstr_def)
  then show "shows_change c (sort_keys v)"
    unfolding shows_change_def v k using A(1) B(1) by simp
qed


section \<open>The patch of a delta\<close>

definition sized_manifest :: "subject_manifest \<Rightarrow> bool" where
  "sized_manifest m \<longleftrightarrow> (\<forall>e \<in> set (entries m). \<forall>n. entry_size e = Some n \<longrightarrow> wf_int n)"

lemma delta_entries:
  assumes "wf_manifest b" "wf_manifest c" "diff_manifests b c = Inr ds" and "d \<in> set ds"
  shows "before d = Some e \<Longrightarrow> e \<in> set (entries b)" and "after d = Some e \<Longrightarrow> e \<in> set (entries c)"
proof -
  note X = diff_manifests_Inr [OF assms(1-3), unfolded exact_delta_def] and S = entry_at_Some [OF wf_manifestD(3) [folded manifest_paths_def]]
  show "e \<in> set (entries b)" if "before d = Some e"
    using X assms(4) that S [OF assms(1), of "entry_path e" e]
    by (fastforce simp: change_path_defs says_def dest!: bspec [of _ _ d] bspec [of _ _ "entry_path e"])
  show "e \<in> set (entries c)" if "after d = Some e"
    using X assms(4) that S [OF assms(2), of "entry_path e" e]
    by (fastforce simp: change_path_defs says_def dest!: bspec [of _ _ d] bspec [of _ _ "entry_path e"])
qed

lemma delta_sized:
  assumes "wf_manifest b" "wf_manifest c" "sized_manifest b" "sized_manifest c"
    and "diff_manifests b c = Inr ds" and "d \<in> set ds"
  shows "sized (before d)" and "sized (after d)"
  using assms delta_entries [OF assms(1,2,5,6)] wf_manifestD(4) [OF assms(1)] wf_manifestD(4) [OF assms(2)]
  by (auto simp: sized_def sized_manifest_def)

lemma wf_patch_header: "digest f \<Longrightarrow> digest g \<Longrightarrow> wf_int (int n) \<Longrightarrow> wf_json (patch_header f g n)"
  by (simp add: patch_header_def jstr_def wf_str_U wf_str_digest wf_int_small)

theorem render_lossless:
  assumes wf: "wf_manifest b" "wf_manifest c" "sized_manifest b" "sized_manifest c"
    and r: "render_diagnostic_patch read m b c = Inr data"
  obtains ds bf cf ls where "diff_manifests b c = Inr ds" "fingerprint b = Inr bf" "fingerprint c = Inr cf"
    and "int (length data) \<le> m" and "m \<le> MAX_BUNDLE_BYTES"
    and "split_on (CHR 0x0A) data = json_dumps (patch_header bf cf (length ds)) # ls @ [[]]"
    and "list_all2 (\<lambda>d l. \<exists>v. json_loads (U l) = Inr v \<and> shows_change d v) ds ls"
proof -
  obtain ds bf cf ls where d: "diff_manifests b c = Inr ds" and f: "fingerprint b = Inr bf" "fingerprint c = Inr cf"
    and h: "int (length (json_line (patch_header bf cf (length ds)))) \<le> m" and m: "m \<le> MAX_BUNDLE_BYTES"
    and ls: "patch_lines read m (int (length (json_line (patch_header bf cf (length ds))))) ds = Inr ls"
    and data: "data = json_line (patch_header bf cf (length ds)) @ concat ls"
    using r by (auto simp: render_diagnostic_patch_def rbind_Inr_iff Let_def split: if_split_asm)
  note L = patch_lines_Inr [OF ls h]
  have R: "list_all2 (\<lambda>d v. shows_change d (sort_keys v) \<and> wf_json v) ds vs"
    if "list_all2 (\<lambda>d v. patch_record read d = Inr v) ds vs" for vs
    using that patch_record_shows delta_sized [OF wf d]
    by (auto elim!: list.rel_mono_strong)
  obtain vs where vs: "list_all2 (\<lambda>d v. patch_record read d = Inr v) ds vs" and ls': "ls = map json_line vs"
  proof -
    have "\<exists>vs. list_all2 (\<lambda>d v. patch_record read d = Inr v) ds vs \<and> ls = map json_line vs"
      using L(1) by (induction ds ls rule: list_all2_induct) (auto intro: exI [of _ "_ # _"])
    then show thesis using that by blast
  qed
  have wfv: "\<forall>v \<in> set vs. wf_json v" using R [OF vs] by (auto simp: list_all2_conv_all_nth in_set_conv_nth)
  have dl: "int (length data) \<le> m" using L(2) by (simp add: data)
  have len: "length ls \<le> length data"
  proof -
    have "length vs \<le> length (concat (map json_line vs))" by (induction vs) (auto simp: json_line_def)
    then show ?thesis by (simp add: data ls')
  qed
  have "length ds = length ls" using list_all2_lengthD [OF L(1)] .
  then have "wf_int (int (length ds))"
    using dl len m by (intro wf_int_small) (simp add: MAX_BUNDLE_BYTES_def)
  then have wfh: "wf_json (patch_header bf cf (length ds))"
    using f by (intro wf_patch_header) (auto dest: fingerprint_digest)
  have "split_on (CHR 0x0A) data = json_dumps (patch_header bf cf (length ds)) # map json_dumps vs @ [[]]"
    using split_json_lines [of "patch_header bf cf (length ds) # vs"] wfh wfv by (simp add: data ls')
  moreover have "list_all2 (\<lambda>d l. \<exists>v. json_loads (U l) = Inr v \<and> shows_change d v) ds (map json_dumps vs)"
    using R [OF vs] by (auto simp: list_all2_map2 json_roundtrip elim!: list.rel_mono_strong)
  ultimately show thesis using that d f dl m by blast
qed


section \<open>The only failure of a verified delta is its size\<close>

definition entry_ok :: "(ustr \<Rightarrow> exn + bytes) \<Rightarrow> manifest_entry option \<Rightarrow> bool" where
  "entry_ok read x \<longleftrightarrow> (\<forall>e. x = Some e \<longrightarrow> wf_entry e \<and>
     (entry_kind e = REGULAR \<longrightarrow> (\<exists>d. regular_bytes read e = Inr d)))"

lemma any_binary_total:
  "\<forall>e \<in> set es. \<exists>d. regular_bytes read e = Inr d \<Longrightarrow> \<exists>x. any_binary read es = Inr x"
  by (induction es) (auto simp: rbind_def split: sum.splits)

lemma content_changed_total:
  assumes "entry_ok read (before c)" "entry_ok read (after c)"
  shows "\<exists>x. content_changed c = Inr x"
proof -
  have "\<exists>h. content_sha256 e = Inr h" if "before c = Some e \<or> after c = Some e" for e
    using that assms wf_entry_content [of e] by (auto simp: entry_ok_def)
  note h = this
  show ?thesis
  proof (cases "before c"; cases "after c")
    fix x y
    assume c: "before c = Some x" "after c = Some y"
    from h c obtain hx hy where "content_sha256 x = Inr hx" "content_sha256 y = Inr hy" by blast
    with c show ?thesis by (auto simp: content_changed_def)
  qed (auto simp: content_changed_def)
qed

lemma patch_record_total:
  assumes "entry_ok read (before c)" "entry_ok read (after c)"
  shows "\<exists>v. patch_record read c = Inr v"
proof -
  let ?es = "(case before c of None \<Rightarrow> [] | Some b \<Rightarrow> [b]) @ (case after c of None \<Rightarrow> [] | Some a \<Rightarrow> [a])"
  have "\<exists>x. any_binary read (filter (\<lambda>e. entry_kind e = REGULAR) ?es) = Inr x"
    using assms by (intro any_binary_total) (auto simp: entry_ok_def split: option.splits)
  moreover obtain changed where "content_changed c = Inr changed" using content_changed_total [OF assms] by blast
  ultimately have "\<exists>as. change_aspects read c = Inr as"
    unfolding change_aspects_def Let_def by (cases changed) (auto simp: rbind_def)
  moreover have "\<exists>v. optional_descriptor x = Inr v" if "entry_ok read x" for x
    using that by (auto simp: optional_descriptor_def entry_ok_def patch_descriptor_entry
        split: option.splits elim: entry_round_trip)
  from this [OF assms(1)] this [OF assms(2)] obtain a b where
    "optional_descriptor (before c) = Inr a" "optional_descriptor (after c) = Inr b" by blast
  ultimately show ?thesis by (auto simp: patch_record_def)
qed

lemma patch_lines_total:
  assumes "\<forall>c \<in> set cs. \<exists>v. patch_record read c = Inr v"
  shows "(\<exists>ls. patch_lines read m u cs = Inr ls) \<or>
    patch_lines read m u cs = Inl (fail DIAGNOSTIC_PATCH_FAILURE ''diagnostic patch exceeds max_bytes'')"
  using assms
proof (induction cs arbitrary: u)
  case (Cons c cs)
  then obtain v where "patch_record read c = Inr v" by auto
  then show ?case
    using Cons.IH [of "u + int (length (json_line v))"] Cons.prems
    by (auto simp: as_patch_failure_def)
qed simp

theorem render_total:
  assumes wf: "wf_manifest b" "wf_manifest c"
    and v: "verify_manifest_blobs read b = Inr ()" "verify_manifest_blobs read c = Inr ()"
    and m: "0 < m" "m \<le> MAX_BUNDLE_BYTES" and f: "fingerprint b = Inr bf" "fingerprint c = Inr cf"
  shows "(\<exists>data. render_diagnostic_patch read m b c = Inr data) \<or>
    render_diagnostic_patch read m b c = Inl (fail DIAGNOSTIC_PATCH_FAILURE ''diagnostic patch exceeds max_bytes'')"
proof -
  obtain ds where d: "diff_manifests b c = Inr ds" using diff_manifests_exact [OF wf] by blast
  have ok: "entry_ok read (Some e)" if "e \<in> set (entries n)" "wf_manifest n" "verify_manifest_blobs read n = Inr ()" for e n
    using that verify_manifest_blobs_Inr [OF that(2), of read] wf_manifestD(4) [OF that(2)]
    by (fastforce simp: entry_ok_def regular_bytes_def)
  have "\<forall>x \<in> set ds. \<exists>v. patch_record read x = Inr v"
  proof
    fix x
    assume x: "x \<in> set ds"
    have "entry_ok read (before x)"
      using delta_entries(1) [OF wf d x] ok [OF _ wf(1) v(1)] by (cases "before x") (auto simp: entry_ok_def)
    moreover have "entry_ok read (after x)"
      using delta_entries(2) [OF wf d x] ok [OF _ wf(2) v(2)] by (cases "after x") (auto simp: entry_ok_def)
    ultimately show "\<exists>v. patch_record read x = Inr v" by (rule patch_record_total)
  qed
  note T = patch_lines_total [OF this, of m "int (length (json_line (patch_header bf cf (length ds))))"]
  show ?thesis
  proof (cases "m < int (length (json_line (patch_header bf cf (length ds))))")
    case True
    then show ?thesis using m d f v by (simp add: render_diagnostic_patch_def as_patch_failure_def Let_def)
  next
    case False
    then show ?thesis
      using T m d f v by (elim disjE exE) (simp_all add: render_diagnostic_patch_def as_patch_failure_def Let_def)
  qed
qed

end
