(* ===== verification/Config.thy ===== *)
theory Config
  imports Policy
begin

text \<open>
  \<open>src/src/agent_loop/config.py\<close>: the checked project configuration, and the policy that
  \<open>workflow.py\<close> makes of it for a run (\<open>config_policy\<close>). \<open>pyval\<close> is a Python object
  as \<open>tomllib\<close> builds it (or as a caller passes it), \<open>POther\<close> a float, date or time: the code
  only tests that it is neither a string, an integer, a list nor a dict. A dict is an association
  list with distinct keys. Reading the file and parsing TOML are library and system calls and
  not modelled.
\<close>

datatype pyval =
  PNone
| PStr ustr
| PInt int
| PBool bool
| PList "pyval list"
| PDict "(ustr \<times> pyval) list"
| POther

section \<open>Paths of the standard library\<close>

text \<open>\<open>PurePosixPath(s).parts\<close>.\<close>

definition posix_parts :: "ustr \<Rightarrow> ustr list" where
  "posix_parts s =
     (let slashes = length (takeWhile (\<lambda>c. c = 47) s);
          root = (if slashes = 0 then [] else if slashes = 2 then [U ''//''] else [U ''/'']);
          rel = dropWhile (\<lambda>c. c = 47) s
      in root @ filter (\<lambda>x. x \<noteq> [] \<and> x \<noteq> U ''.'') (split_on 47 rel))"

text \<open>\<open>os.path.normpath\<close>.\<close>

fun norm_comps :: "bool \<Rightarrow> ustr list \<Rightarrow> ustr list \<Rightarrow> ustr list" where
  "norm_comps rooted acc [] = rev acc"
| "norm_comps rooted acc (c # cs) =
     (if c = [] \<or> c = U ''.'' then norm_comps rooted acc cs
      else if c \<noteq> U ''..'' \<or> (\<not> rooted \<and> acc = []) \<or> (acc \<noteq> [] \<and> hd acc = U ''..'')
      then norm_comps rooted (c # acc) cs
      else norm_comps rooted (tl acc) cs)"

definition normpath :: "ustr \<Rightarrow> ustr" where
  "normpath s =
     (if s = [] then U ''.''
      else
        let slashes = length (takeWhile (\<lambda>c. c = 47) s);
            root = (if slashes = 0 then [] else if slashes = 2 then U ''//'' else U ''/'');
            p = root @ join_with [47] (norm_comps (slashes \<noteq> 0) [] (split_on 47 s))
        in if p = [] then U ''.'' else p)"

section \<open>The configuration\<close>

definition DEFAULT_AUTHOR_MODEL :: string where "DEFAULT_AUTHOR_MODEL = ''gpt-5.4''"
definition DEFAULT_AUTHOR_EFFORT :: string where "DEFAULT_AUTHOR_EFFORT = ''high''"
definition DEFAULT_CRITIC_MODEL :: string where "DEFAULT_CRITIC_MODEL = ''claude-opus-4-6''"
definition DEFAULT_CRITIC_EFFORT :: string where "DEFAULT_CRITIC_EFFORT = ''medium''"
definition DEFAULT_CREDENTIAL_ID :: string where "DEFAULT_CREDENTIAL_ID = ''default''"
definition DEFAULT_MAX_ROUNDS :: int where "DEFAULT_MAX_ROUNDS = 3"
definition DEFAULT_RUNTIME_SECONDS :: int where "DEFAULT_RUNTIME_SECONDS = 45 * 60"
definition DEFAULT_AUTHOR_TIMEOUT_SECONDS :: int where "DEFAULT_AUTHOR_TIMEOUT_SECONDS = 15 * 60"
definition DEFAULT_CRITIC_TIMEOUT_SECONDS :: int where "DEFAULT_CRITIC_TIMEOUT_SECONDS = 10 * 60"
definition DEFAULT_VALIDATION_TIMEOUT_SECONDS :: int where "DEFAULT_VALIDATION_TIMEOUT_SECONDS = 10 * 60"
definition MAX_CONFIG_LIST_ITEMS :: nat where "MAX_CONFIG_LIST_ITEMS = 256"

definition CONFIG_KEYS :: "string list" where
  "CONFIG_KEYS =
     [''schema_version'', ''checks'', ''protected_paths'', ''protected_opt_in_paths'',
      ''discard_only_paths'', ''opaque_nonsemantic_paths'', ''review_context_paths'',
      ''read_only_toolchain_mounts'', ''author_model'', ''author_effort'', ''critic_model'',
      ''critic_effort'', ''codex_credential_id'', ''claude_credential_id'', ''max_rounds'',
      ''max_runtime_seconds'', ''author_timeout_seconds'', ''critic_timeout_seconds'',
      ''validation_timeout_seconds'', ''limits'']"

definition LIMIT_KEYS :: "string list" where
  "LIMIT_KEYS = map fst (limit_fields default_limits)"

record project_config =
  pc_schema_version :: int
  pc_checks :: "ustr list"
  pc_protected_paths :: "ustr list"
  pc_protected_opt_in_paths :: "ustr list"
  pc_discard_only_paths :: "ustr list"
  pc_opaque_nonsemantic_paths :: "ustr list"
  pc_review_context_paths :: "ustr list"
  pc_read_only_toolchain_mounts :: "ustr list"
  pc_author_model :: "ustr option"
  pc_author_effort :: "ustr option"
  pc_critic_model :: "ustr option"
  pc_critic_effort :: "ustr option"
  pc_codex_credential_id :: "ustr option"
  pc_claude_credential_id :: "ustr option"
  pc_max_rounds :: int
  pc_max_runtime_seconds :: int
  pc_author_timeout_seconds :: int
  pc_critic_timeout_seconds :: int
  pc_validation_timeout_seconds :: int
  pc_limits :: limits

definition check_config :: "project_config \<Rightarrow> exn + project_config" where
  "check_config c =
     (if pc_schema_version c \<noteq> 1
      then Inl (ValueError (U ''unsupported project configuration schema_version''))
      else case find (\<lambda>(name, v). v \<le> 0)
          [(''max_rounds'', pc_max_rounds c), (''max_runtime_seconds'', pc_max_runtime_seconds c),
           (''author_timeout_seconds'', pc_author_timeout_seconds c),
           (''critic_timeout_seconds'', pc_critic_timeout_seconds c),
           (''validation_timeout_seconds'', pc_validation_timeout_seconds c)] of
        Some (name, v) \<Rightarrow> Inl (ValueError (U (name @ '' must be a positive integer'')))
      | None \<Rightarrow>
          if pc_author_timeout_seconds c > pc_max_runtime_seconds c
          then Inl (ValueError (U ''author timeout cannot exceed total runtime''))
          else if pc_critic_timeout_seconds c > pc_max_runtime_seconds c
          then Inl (ValueError (U ''critic timeout cannot exceed total runtime''))
          else if pc_validation_timeout_seconds c > pc_max_runtime_seconds c
          then Inl (ValueError (U ''validation timeout cannot exceed total runtime''))
          else Inr c)"

section \<open>The fields\<close>

definition strict_keys :: "string list \<Rightarrow> string \<Rightarrow> (ustr \<times> pyval) list \<Rightarrow> exn + unit" where
  "strict_keys allowed loc value =
     (let unknown = filter (\<lambda>k. k \<notin> set (map U allowed)) (map fst value)
      in if unknown \<noteq> []
         then Inl (ValueError (U (''unknown '' @ loc @ '' keys: '') @ repr_list (sort (remdups unknown))))
         else Inr ())"

fun str_items :: "pyval list \<Rightarrow> ustr list option" where
  "str_items [] = Some []"
| "str_items (v # vs) =
     (case v of PStr s \<Rightarrow> map_option ((#) s) (str_items vs) | _ \<Rightarrow> None)"

definition check_item :: "string \<Rightarrow> ustr \<Rightarrow> exn + unit" where
  "check_item name item =
     (if item = [] \<or> 0 \<in> set item
      then Inl (ValueError (U (name @ '' contains an empty, NUL, or oversized value'')))
      else case utf8_encode item of
        None \<Rightarrow> Inl UnicodeEncodeError
      | Some b \<Rightarrow>
          if length b > 32768
          then Inl (ValueError (U (name @ '' contains an empty, NUL, or oversized value'')))
          else Inr ())"

definition strings :: "string \<Rightarrow> pyval \<Rightarrow> exn + ustr list" where
  "strings name value =
     (case (case value of PList vs \<Rightarrow> str_items vs | _ \<Rightarrow> None) of
        None \<Rightarrow> Inl (ValueError (U (name @ '' must be an array of strings'')))
      | Some result \<Rightarrow>
          if length result > MAX_CONFIG_LIST_ITEMS
          then Inl (ValueError (U (name @ '' exceeds its item-count bound'')))
          else
            rbind (rmap (check_item name) result) (\<lambda>_.
            if \<not> distinct result then Inl (ValueError (U (name @ '' contains duplicates'')))
            else Inr result))"

definition check_path_pattern :: "string \<Rightarrow> ustr \<Rightarrow> exn + unit" where
  "check_path_pattern name pattern =
     (case utf8_encode pattern of
        None \<Rightarrow> Inl UnicodeEncodeError
      | Some encoded \<Rightarrow>
          let parts = posix_parts pattern
          in if length encoded > DEFAULT_MAX_PATH_BYTES \<or> length parts > DEFAULT_MAX_PATH_DEPTH
             then Inl (ValueError (U (name @ '' exceeds the path-pattern bound'')))
             else if prefix (U ''/'') pattern \<or> 92 \<in> set pattern
             then Inl (ValueError (U (name @ '' patterns must be relative POSIX paths'')))
             else if list_ex (\<lambda>p. p = [] \<or> p = U ''.'' \<or> p = U ''..'') parts
             then Inl (ValueError (U (name @ '' contains an ambiguous path component'')))
             else Inr ())"

definition patterns :: "string \<Rightarrow> pyval \<Rightarrow> exn + ustr list" where
  "patterns name value =
     rbind (strings name value) (\<lambda>result.
     rbind (rmap (check_path_pattern name) result) (\<lambda>_. Inr result))"

definition is_git_opt_in :: "ustr \<Rightarrow> bool" where
  "is_git_opt_in path \<longleftrightarrow> path = U ''.git'' \<or> prefix (U ''.git/'') path \<or> suffix (U ''/.git'') path
     \<or> contains (U ''/.git/'') path"

definition check_opt_in :: "ustr \<Rightarrow> exn + unit" where
  "check_opt_in path =
     (if list_ex (\<lambda>c. c \<in> set path) (U ''*?['')
      then Inl (ValueError (U ''protected_opt_in_paths must contain exact paths''))
      else if is_git_opt_in path
      then Inl (ValueError (U ''protected_opt_in_paths cannot select a Git control path''))
      else Inr ())"

definition protected_opt_ins :: "pyval \<Rightarrow> exn + ustr list" where
  "protected_opt_ins value =
     rbind (patterns ''protected_opt_in_paths'' value) (\<lambda>result.
     rbind (rmap check_opt_in result) (\<lambda>_. Inr result))"

text \<open>\<open>^[A-Za-z0-9][A-Za-z0-9_.-]{0,127}$\<close>, matched against the whole string.\<close>

definition safe_identifier :: "ustr \<Rightarrow> bool" where
  "safe_identifier s =
     (let alnum = (\<lambda>c. (48 \<le> c \<and> c \<le> 57) \<or> (65 \<le> c \<and> c \<le> 90) \<or> (97 \<le> c \<and> c \<le> (122::nat)))
      in case s of
        [] \<Rightarrow> False
      | c # r \<Rightarrow> alnum c \<and> length r \<le> 127 \<and> list_all (\<lambda>x. alnum x \<or> x = 95 \<or> x = 46 \<or> x = 45) r)"

definition optional_string :: "string \<Rightarrow> bool \<Rightarrow> pyval \<Rightarrow> exn + ustr option" where
  "optional_string name ident value =
     (case value of
        PNone \<Rightarrow> Inr None
      | PStr s \<Rightarrow>
          if s = [] \<or> 0 \<in> set s
          then Inl (ValueError (U (name @ '' must be a non-empty string or absent'')))
          else (case utf8_encode s of
                  None \<Rightarrow> Inl UnicodeEncodeError
                | Some b \<Rightarrow>
                    if length b > 256 then Inl (ValueError (U (name @ '' exceeds its byte limit'')))
                    else if ident \<and> \<not> safe_identifier s
                    then Inl (ValueError (U (name @ '' is not a safe identifier'')))
                    else Inr (Some s))
      | _ \<Rightarrow> Inl (ValueError (U (name @ '' must be a non-empty string or absent''))))"

definition positive_int :: "string \<Rightarrow> int \<Rightarrow> pyval \<Rightarrow> exn + int" where
  "positive_int name dflt value =
     (case value of
        PNone \<Rightarrow> Inr dflt
      | PInt i \<Rightarrow>
          if i \<le> 0 then Inl (ValueError (U (name @ '' must be a positive integer''))) else Inr i
      | _ \<Rightarrow> Inl (ValueError (U (name @ '' must be a positive integer''))))"

section \<open>The limits\<close>

text \<open>\<open>replace(limits, key=v)\<close> without the check of the constructor.\<close>

definition set_limit :: "string \<Rightarrow> int \<Rightarrow> limits \<Rightarrow> limits" where
  "set_limit k v l =
     (if k = ''max_files'' then l\<lparr>max_files := v\<rparr>
      else if k = ''max_file_bytes'' then l\<lparr>max_file_bytes := v\<rparr>
      else if k = ''max_total_subject_bytes'' then l\<lparr>max_total_subject_bytes := v\<rparr>
      else if k = ''max_path_bytes'' then l\<lparr>max_path_bytes := v\<rparr>
      else if k = ''max_path_depth'' then l\<lparr>max_path_depth := v\<rparr>
      else if k = ''max_bundle_bytes'' then l\<lparr>max_bundle_bytes := v\<rparr>
      else if k = ''max_estimated_input_tokens'' then l\<lparr>max_estimated_input_tokens := v\<rparr>
      else if k = ''reserved_output_tokens'' then l\<lparr>reserved_output_tokens := v\<rparr>
      else if k = ''max_findings'' then l\<lparr>max_findings := v\<rparr>
      else if k = ''max_field_bytes'' then l\<lparr>max_field_bytes := v\<rparr>
      else if k = ''max_agent_output_bytes'' then l\<lparr>max_agent_output_bytes := v\<rparr>
      else if k = ''max_raw_log_bytes'' then l\<lparr>max_raw_log_bytes := v\<rparr>
      else if k = ''workspace_bytes'' then l\<lparr>workspace_bytes := v\<rparr>
      else if k = ''memory_max_bytes'' then l\<lparr>memory_max_bytes := v\<rparr>
      else if k = ''tasks_max'' then l\<lparr>tasks_max := v\<rparr>
      else if k = ''limit_fsize_bytes'' then l\<lparr>limit_fsize_bytes := v\<rparr>
      else if k = ''limit_nofile'' then l\<lparr>limit_nofile := v\<rparr>
      else l)"

definition weakens :: "string \<Rightarrow> int \<Rightarrow> bool" where
  "weakens k v =
     (if k = ''reserved_output_tokens'' then v < reserved_output_tokens default_limits
      else v > the (map_of (limit_fields default_limits) k))"

definition name_of :: "ustr \<Rightarrow> string" where
  "name_of k = map char_of k"

fun limit_overrides :: "(ustr \<times> pyval) list \<Rightarrow> limits \<Rightarrow> exn + limits" where
  "limit_overrides [] l = Inr l"
| "limit_overrides ((k, v) # kvs) l =
     (case v of
        PInt i \<Rightarrow>
          if i \<le> 0 then Inl (ValueError (U ''limits.'' @ k @ U '' must be a positive integer''))
          else if weakens (name_of k) i
          then Inl (ValueError (U ''limits.'' @ k @ U '' may only tighten the version-1 default''))
          else limit_overrides kvs (set_limit (name_of k) i l)
      | _ \<Rightarrow> Inl (ValueError (U ''limits.'' @ k @ U '' must be a positive integer'')))"

definition limits_of :: "pyval \<Rightarrow> exn + limits" where
  "limits_of value =
     (case value of
        PNone \<Rightarrow> check_limits default_limits
      | PDict kvs \<Rightarrow>
          rbind (strict_keys LIMIT_KEYS ''limits'' kvs) (\<lambda>_.
          rbind (check_limits default_limits) (\<lambda>defaults.
          rbind (limit_overrides kvs defaults) check_limits))
      | _ \<Rightarrow> Inl (ValueError (U ''limits must be a table'')))"

section \<open>The whole mapping\<close>

definition raw_get :: "(ustr \<times> pyval) list \<Rightarrow> string \<Rightarrow> pyval \<Rightarrow> pyval" where
  "raw_get raw k d = (case map_of raw (U k) of None \<Rightarrow> d | Some v \<Rightarrow> v)"

definition check_mount :: "ustr \<Rightarrow> exn + unit" where
  "check_mount mount =
     (if \<not> prefix (U ''/'') mount \<or> mount = U ''/'' \<or> prefix (U ''//'') mount
       \<or> normpath mount \<noteq> mount \<or> U ''..'' \<in> set (posix_parts mount)
      then Inl (ValueError (U ''toolchain mounts must be normalized absolute paths''))
      else Inr ())"

definition project_config_from_mapping :: "(ustr \<times> pyval) list \<Rightarrow> exn + project_config" where
  "project_config_from_mapping raw =
     rbind (strict_keys CONFIG_KEYS ''top-level configuration'' raw) (\<lambda>_.
     case raw_get raw ''schema_version'' (PInt 1) of
       PInt version \<Rightarrow>
         rbind (patterns ''protected_paths'' (raw_get raw ''protected_paths'' (PList []))) (\<lambda>extra.
         let prot = dedup (map U DEFAULT_PROTECTED_PATTERNS @ extra)
         in if length prot > MAX_CONFIG_LIST_ITEMS
            then Inl (ValueError (U ''protected_paths exceeds its item-count bound''))
            else
         rbind (strings ''read_only_toolchain_mounts'' (raw_get raw ''read_only_toolchain_mounts'' (PList []))) (\<lambda>mounts.
         rbind (rmap check_mount mounts) (\<lambda>_.
         rbind (strings ''checks'' (raw_get raw ''checks'' (PList []))) (\<lambda>checks.
         rbind (protected_opt_ins (raw_get raw ''protected_opt_in_paths'' (PList []))) (\<lambda>opt_ins.
         rbind (patterns ''discard_only_paths'' (raw_get raw ''discard_only_paths'' (PList []))) (\<lambda>discard.
         rbind (patterns ''opaque_nonsemantic_paths'' (raw_get raw ''opaque_nonsemantic_paths'' (PList []))) (\<lambda>opaque.
         rbind (patterns ''review_context_paths'' (raw_get raw ''review_context_paths'' (PList []))) (\<lambda>context_paths.
         rbind (optional_string ''author_model'' False (raw_get raw ''author_model'' (PStr (U DEFAULT_AUTHOR_MODEL)))) (\<lambda>am.
         rbind (optional_string ''author_effort'' False (raw_get raw ''author_effort'' (PStr (U DEFAULT_AUTHOR_EFFORT)))) (\<lambda>ae.
         rbind (optional_string ''critic_model'' False (raw_get raw ''critic_model'' (PStr (U DEFAULT_CRITIC_MODEL)))) (\<lambda>cm.
         rbind (optional_string ''critic_effort'' False (raw_get raw ''critic_effort'' (PStr (U DEFAULT_CRITIC_EFFORT)))) (\<lambda>ce.
         rbind (optional_string ''codex_credential_id'' True
                  (raw_get raw ''codex_credential_id'' (PStr (U DEFAULT_CREDENTIAL_ID)))) (\<lambda>cx.
         rbind (optional_string ''claude_credential_id'' True
                  (raw_get raw ''claude_credential_id'' (PStr (U DEFAULT_CREDENTIAL_ID)))) (\<lambda>cl.
         rbind (positive_int ''max_rounds'' DEFAULT_MAX_ROUNDS (raw_get raw ''max_rounds'' PNone)) (\<lambda>rounds.
         rbind (positive_int ''max_runtime_seconds'' DEFAULT_RUNTIME_SECONDS
                  (raw_get raw ''max_runtime_seconds'' PNone)) (\<lambda>runtime.
         rbind (positive_int ''author_timeout_seconds'' DEFAULT_AUTHOR_TIMEOUT_SECONDS
                  (raw_get raw ''author_timeout_seconds'' PNone)) (\<lambda>at.
         rbind (positive_int ''critic_timeout_seconds'' DEFAULT_CRITIC_TIMEOUT_SECONDS
                  (raw_get raw ''critic_timeout_seconds'' PNone)) (\<lambda>ct.
         rbind (positive_int ''validation_timeout_seconds'' DEFAULT_VALIDATION_TIMEOUT_SECONDS
                  (raw_get raw ''validation_timeout_seconds'' PNone)) (\<lambda>vt.
         rbind (limits_of (raw_get raw ''limits'' PNone)) (\<lambda>l.
         check_config
           \<lparr>pc_schema_version = version, pc_checks = checks, pc_protected_paths = prot,
            pc_protected_opt_in_paths = opt_ins, pc_discard_only_paths = discard,
            pc_opaque_nonsemantic_paths = opaque, pc_review_context_paths = context_paths,
            pc_read_only_toolchain_mounts = mounts, pc_author_model = am, pc_author_effort = ae,
            pc_critic_model = cm, pc_critic_effort = ce, pc_codex_credential_id = cx,
            pc_claude_credential_id = cl, pc_max_rounds = rounds, pc_max_runtime_seconds = runtime,
            pc_author_timeout_seconds = at, pc_critic_timeout_seconds = ct,
            pc_validation_timeout_seconds = vt, pc_limits = l\<rparr>))))))))))))))))))))
     | _ \<Rightarrow> Inl (ValueError (U ''schema_version must be an integer'')))"

section \<open>What an accepted configuration guarantees\<close>

lemma str_items_Some: "str_items vs = Some ss \<longleftrightarrow> vs = map PStr ss"
  by (induction vs arbitrary: ss) (auto split: pyval.splits)

lemma rmap_unit_Inr: "(\<exists>us. rmap f xs = Inr us) \<longleftrightarrow> (\<forall>x \<in> set xs. \<exists>u. f x = Inr u)"
  by (induction xs) (auto simp: rbind_def split: sum.splits)

lemma rbind_unit_Inr: "rbind (rmap f xs) (\<lambda>_. m) = Inr y \<longleftrightarrow> (\<forall>x \<in> set xs. \<exists>u. f x = Inr u) \<and> m = Inr y"
  using rmap_unit_Inr [of f xs] by (auto simp: rbind_Inr_iff)

lemma strings_Inr:
  "strings name v = Inr ss \<longleftrightarrow> v = PList (map PStr ss) \<and> length ss \<le> MAX_CONFIG_LIST_ITEMS \<and>
     distinct ss \<and> (\<forall>s \<in> set ss. \<exists>u. check_item name s = Inr u)"
proof (cases "\<exists>ts. v = PList (map PStr ts)")
  case True
  then obtain ts where v: "v = PList (map PStr ts)" by blast
  have "str_items (map PStr ts) = Some ts" by (simp add: str_items_Some)
  moreover have "map PStr ts = map PStr ss \<longleftrightarrow> ts = ss" by (simp add: inj_map_eq_map inj_def)
  ultimately show ?thesis by (auto simp: v strings_def rbind_unit_Inr not_less)
next
  case False
  then have "(case v of PList vs \<Rightarrow> str_items vs | _ \<Rightarrow> None) = None"
    by (auto simp: str_items_Some split: pyval.splits intro: ccontr)
  with False show ?thesis by (auto simp: strings_def)
qed

lemma patterns_Inr:
  "patterns name v = Inr ss \<longleftrightarrow> strings name v = Inr ss \<and> (\<forall>s \<in> set ss. \<exists>u. check_path_pattern name s = Inr u)"
  by (auto simp: patterns_def rbind_Inr_iff [of "strings name v"] rbind_unit_Inr)

lemma protected_opt_ins_Inr:
  "protected_opt_ins v = Inr ss \<longleftrightarrow> patterns ''protected_opt_in_paths'' v = Inr ss \<and>
     (\<forall>s \<in> set ss. \<exists>u. check_opt_in s = Inr u)"
  by (auto simp: protected_opt_ins_def rbind_Inr_iff [of "patterns _ v"] rbind_unit_Inr)

text \<open>\<open>tighter k d\<close>: the limits that keep or tighten every default.\<close>

definition tightened :: "limits \<Rightarrow> bool" where
  "tightened l \<longleftrightarrow> list_all (\<lambda>(k, v). 0 < v \<and> \<not> weakens k v) (limit_fields l)"

lemma tightened_default: "tightened default_limits"
  by (simp add: tightened_def limit_fields_def weakens_def default_limits_def MAX_BUNDLE_BYTES_def
      DEFAULT_MAX_ESTIMATED_INPUT_TOKENS_def DEFAULT_RESERVED_OUTPUT_TOKENS_def)

lemma tightened_set: "tightened l \<Longrightarrow> 0 < v \<Longrightarrow> \<not> weakens k v \<Longrightarrow> tightened (set_limit k v l)"
  unfolding tightened_def set_limit_def limit_fields_def by simp auto

lemma limit_overrides_tightened: "limit_overrides kvs l = Inr m \<Longrightarrow> tightened l \<Longrightarrow> tightened m"
proof (induction kvs l arbitrary: m rule: limit_overrides.induct)
  case (2 k v kvs l)
  then show ?case by (auto simp: tightened_set split: pyval.splits if_splits)
qed simp

lemma limits_of_Inr:
  assumes "limits_of v = Inr l"
  shows "tightened l" and "check_limits l = Inr l"
  using assms limit_overrides_tightened tightened_default
  by (fastforce simp: limits_of_def rbind_Inr_iff check_limits_Inr split: pyval.splits)+

section \<open>Paths of an accepted configuration\<close>

definition plain_component :: "ustr \<Rightarrow> bool" where
  "plain_component c \<longleftrightarrow> c \<noteq> [] \<and> c \<noteq> U ''.'' \<and> c \<noteq> U ''..'' \<and> 47 \<notin> set c"

lemma norm_comps_plain:
  "\<forall>c \<in> set acc. plain_component c \<Longrightarrow> \<forall>c \<in> set cs. 47 \<notin> set c \<Longrightarrow>
   \<forall>c \<in> set (norm_comps True acc cs). plain_component c"
proof (induction cs arbitrary: acc)
  case (Cons c cs)
  note IH = Cons.IH
  have tail: "\<forall>c \<in> set cs. 47 \<notin> set c" "47 \<notin> set c" using Cons.prems(2) by auto
  have h: "acc = [] \<or> hd acc \<noteq> U ''..''"
    using Cons.prems(1) by (cases acc) (auto simp: plain_component_def)
  show ?case
  proof (cases "c = [] \<or> c = U ''.''")
    case True
    then have "norm_comps True acc (c # cs) = norm_comps True acc cs" by simp
    with IH [OF Cons.prems(1) tail(1)] show ?thesis by simp
  next
    case skip: False
    show ?thesis
    proof (cases "c = U ''..''")
      case True
      then have "\<not> (c \<noteq> U ''..'' \<or> \<not> True \<and> acc = [] \<or> acc \<noteq> [] \<and> hd acc = U ''..'')" using h by blast
      then have e: "norm_comps True acc (c # cs) = norm_comps True (tl acc) cs"
        by (simp only: norm_comps.simps skip if_False)
      have "\<forall>c \<in> set (tl acc). plain_component c" using Cons.prems(1) by (cases acc) auto
      from IH [OF this tail(1)] show ?thesis unfolding e .
    next
      case False
      then have e: "norm_comps True acc (c # cs) = norm_comps True (c # acc) cs" using skip by simp
      have "\<forall>x \<in> set (c # acc). plain_component x"
        using Cons.prems(1) skip False tail(2) by (simp add: plain_component_def)
      from IH [OF this tail(1)] show ?thesis unfolding e .
    qed
  qed
qed simp

text \<open>A mount is an absolute path whose components are all plain.\<close>

lemma check_mount_Inr:
  assumes "check_mount m = Inr u"
  shows "\<exists>ks. ks \<noteq> [] \<and> m = U ''/'' @ join_with [47] ks \<and> (\<forall>k \<in> set ks. plain_component k)"
proof -
  have m: "prefix (U ''/'') m" "m \<noteq> U ''/''" "\<not> prefix (U ''//'') m" "normpath m = m"
    using assms by (auto simp: check_mount_def split: if_splits)
  then obtain r where r: "m = 47 # r" by (auto simp: U_def prefix_def)
  with m(3) have "takeWhile (\<lambda>c. c = 47) m = [47]" by (cases r) (auto simp: U_def)
  then have "m = U ''/'' @ join_with [47] (norm_comps True [] (split_on 47 m))"
    using m(4) r by (auto simp: normpath_def Let_def U_def split: if_splits)
  moreover from this m(2) have "norm_comps True [] (split_on 47 m) \<noteq> []" by auto
  moreover have "\<forall>k \<in> set (norm_comps True [] (split_on 47 m)). plain_component k"
    by (rule norm_comps_plain) (auto dest: split_on_no_sep)
  ultimately show ?thesis by blast
qed

lemma posix_parts_relative:
  "\<not> prefix (U ''/'') p \<Longrightarrow> posix_parts p = filter (\<lambda>x. x \<noteq> [] \<and> x \<noteq> U ''.'') (split_on 47 p)"
  by (cases p) (auto simp: posix_parts_def Let_def U_def)

definition safe_pattern :: "ustr \<Rightarrow> bool" where
  "safe_pattern p \<longleftrightarrow> p \<noteq> [] \<and> 0 \<notin> set p \<and> 92 \<notin> set p \<and> \<not> prefix (U ''/'') p \<and>
     U ''..'' \<notin> set (split_on 47 p) \<and> (\<exists>b. utf8_encode p = Some b \<and> length b \<le> DEFAULT_MAX_PATH_BYTES)"

lemma patterns_safe:
  assumes "patterns name v = Inr ss" and "p \<in> set ss"
  shows "safe_pattern p"
proof -
  have c: "check_item name p = Inr ()" "check_path_pattern name p = Inr ()"
    using assms by (auto simp: patterns_Inr strings_Inr)
  then have r: "\<not> prefix (U ''/'') p"
    by (auto simp: check_path_pattern_def Let_def split: option.splits if_splits)
  show ?thesis
    using c r posix_parts_relative [OF r]
    by (auto simp: safe_pattern_def check_item_def check_path_pattern_def Let_def list_ex_iff
        split: option.splits if_splits)
qed

lemma opt_in_no_git:
  assumes "check_opt_in p = Inr u"
  shows "U ''.git'' \<notin> set (split_on 47 p)" and "\<forall>c \<in> set (U ''*?[''). c \<notin> set p"
proof -
  have c: "\<not> is_git_opt_in p" "\<forall>c \<in> set (U ''*?[''). c \<notin> set p"
    using assms by (auto simp: check_opt_in_def list_ex_iff split: if_splits)
  then show "\<forall>c \<in> set (U ''*?[''). c \<notin> set p" by blast
  show "U ''.git'' \<notin> set (split_on 47 p)"
  proof
    assume "U ''.git'' \<in> set (split_on 47 p)"
    then obtain xs ys where "split_on 47 p = xs @ U ''.git'' # ys" by (meson split_list)
    then have p: "p = join_with [47] (xs @ U ''.git'' # ys)" using join_split_on [of 47 p] by simp
    have sl: "U ''.git/'' = U ''.git'' @ [47]" "U ''/.git'' = 47 # U ''.git''" "U ''/.git/'' = 47 # U ''.git'' @ [47]"
      by (simp_all add: U_def)
    have "is_git_opt_in p"
      unfolding p join_with_middle is_git_opt_in_def sl
      by (auto simp: prefix_def suffix_def contains_append)
    with c(1) show False ..
  qed
qed

section \<open>The configuration as a whole\<close>

lemma check_config_Inr:
  "check_config x = Inr c \<longleftrightarrow> c = x \<and> pc_schema_version c = 1 \<and> 0 < pc_max_rounds c \<and>
     0 < pc_max_runtime_seconds c \<and> 0 < pc_author_timeout_seconds c \<and> 0 < pc_critic_timeout_seconds c \<and>
     0 < pc_validation_timeout_seconds c \<and> pc_author_timeout_seconds c \<le> pc_max_runtime_seconds c \<and>
     pc_critic_timeout_seconds c \<le> pc_max_runtime_seconds c \<and>
     pc_validation_timeout_seconds c \<le> pc_max_runtime_seconds c"
  by (auto simp: check_config_def split: option.splits if_splits)

lemma if_Inl: "(if b then Inl e else m) = Inr x \<longleftrightarrow> \<not> b \<and> m = Inr x"
  by simp

lemma case_PInt_Inr:
  "(case v of PInt i \<Rightarrow> f i | _ \<Rightarrow> Inl e) = Inr x \<longleftrightarrow> (\<exists>i. v = PInt i \<and> f i = Inr x)"
  by (cases v) simp_all

lemma config_parts:
  assumes "project_config_from_mapping raw = Inr c"
  shows "\<exists>extra. patterns ''protected_paths'' (raw_get raw ''protected_paths'' (PList [])) = Inr extra \<and>
       pc_protected_paths c = dedup (map U DEFAULT_PROTECTED_PATTERNS @ extra)"
    and "\<forall>m \<in> set (pc_read_only_toolchain_mounts c). \<exists>u. check_mount m = Inr u"
    and "protected_opt_ins (raw_get raw ''protected_opt_in_paths'' (PList [])) = Inr (pc_protected_opt_in_paths c)"
    and "patterns ''discard_only_paths'' (raw_get raw ''discard_only_paths'' (PList [])) = Inr (pc_discard_only_paths c)"
    and "patterns ''opaque_nonsemantic_paths'' (raw_get raw ''opaque_nonsemantic_paths'' (PList [])) =
       Inr (pc_opaque_nonsemantic_paths c)"
    and "patterns ''review_context_paths'' (raw_get raw ''review_context_paths'' (PList [])) =
       Inr (pc_review_context_paths c)"
    and "limits_of (raw_get raw ''limits'' PNone) = Inr (pc_limits c)"
    and "check_config c = Inr c"
proof -
  note d = assms [unfolded project_config_from_mapping_def Let_def rbind_unit_Inr rbind_Inr_iff [of "strict_keys _ _ _"]
      case_PInt_Inr if_Inl rbind_Inr_iff [of "patterns _ _"] rbind_Inr_iff [of "strings _ _"]
      rbind_Inr_iff [of "protected_opt_ins _"] rbind_Inr_iff [of "optional_string _ _ _"]
      rbind_Inr_iff [of "positive_int _ _ _"] rbind_Inr_iff [of "limits_of _"] check_config_Inr]
  from d show "\<exists>extra. patterns ''protected_paths'' (raw_get raw ''protected_paths'' (PList [])) = Inr extra \<and>
       pc_protected_paths c = dedup (map U DEFAULT_PROTECTED_PATTERNS @ extra)" by (elim exE conjE) simp
  from d show "\<forall>m \<in> set (pc_read_only_toolchain_mounts c). \<exists>u. check_mount m = Inr u" by (elim exE conjE) simp
  from d show "protected_opt_ins (raw_get raw ''protected_opt_in_paths'' (PList [])) = Inr (pc_protected_opt_in_paths c)"
    by (elim exE conjE) simp
  from d show "patterns ''discard_only_paths'' (raw_get raw ''discard_only_paths'' (PList [])) = Inr (pc_discard_only_paths c)"
    by (elim exE conjE) simp
  from d show "patterns ''opaque_nonsemantic_paths'' (raw_get raw ''opaque_nonsemantic_paths'' (PList [])) =
       Inr (pc_opaque_nonsemantic_paths c)" by (elim exE conjE) simp
  from d show "patterns ''review_context_paths'' (raw_get raw ''review_context_paths'' (PList [])) =
       Inr (pc_review_context_paths c)" by (elim exE conjE) simp
  from d show "limits_of (raw_get raw ''limits'' PNone) = Inr (pc_limits c)" by (elim exE conjE) simp
  from d show "check_config c = Inr c" unfolding check_config_Inr by (elim exE conjE) simp
qed

section \<open>The policy of a run\<close>

text \<open>The policy that the workflow builds from the configuration of the project.\<close>

definition config_policy :: "project_config \<Rightarrow> exn + path_policy" where
  "config_policy c =
     policy_from_strings (pc_protected_paths c) (pc_discard_only_paths c) (pc_opaque_nonsemantic_paths c)
       (pc_protected_opt_in_paths c)"

text \<open>A byte below 128 in the UTF-8 form of a string is a character of the string.\<close>

lemma utf8_char_ascii: "utf8_char c = Some bs \<Longrightarrow> b \<in> set bs \<Longrightarrow> b < 128 \<Longrightarrow> b = c"
  by (auto simp: utf8_char_def split: if_splits)

lemma utf8_nats_ascii: "utf8_nats s = Some bs \<Longrightarrow> b \<in> set bs \<Longrightarrow> b < 128 \<Longrightarrow> b \<in> set s"
  by (induction s arbitrary: bs) (auto split: option.splits dest: utf8_char_ascii)

lemma utf8_encode_special:
  assumes "utf8_encode s = Some bs" and "set (U ''*?['') \<inter> set s = {}"
  shows "set bs \<inter> set ''*?['' = {}"
proof -
  obtain ns where ns: "utf8_nats s = Some ns" and bs: "bs = map char_of ns" using assms(1) by (auto simp: utf8_encode_def)
  have "x \<notin> set ''*?[''" if m: "x \<in> set bs" for x
  proof
    assume x: "x \<in> set ''*?[''"
    obtain b where b: "b \<in> set ns" "x = char_of b" using m by (auto simp: bs)
    then have "of_char x = b" using utf8_nats_bytes [OF ns b(1)] by simp
    moreover have "of_char x \<in> set (U ''*?['')" "of_char x < (128 :: nat)" using x by (auto simp: U_def)
    ultimately show False using utf8_nats_ascii [OF ns b(1)] assms(2) by auto
  qed
  then show ?thesis by blast
qed

lemma glob_exact: "\<forall>q \<in> set qs. set q \<inter> set ''*?['' = {} \<Longrightarrow> glob ps qs \<longleftrightarrow> ps = qs"
proof (induction qs arbitrary: ps)
  case Nil
  then show ?case by (simp add: glob_Nil_iff)
next
  case (Cons q qs)
  have q: "set q \<inter> set ''*?['' = {}" using Cons.prems by simp
  then have "q \<noteq> ''**''" by auto
  then show ?case using Cons by (auto simp: glob_one_iff fnmatchcase_plain [OF q])
qed

lemma split_on_subset: "w \<in> set (split_on c s) \<Longrightarrow> set w \<subseteq> set s"
proof (induction s arbitrary: w)
  case (Cons x s)
  obtain v vs where v: "split_on c s = v # vs" by (cases "split_on c s") simp_all
  show ?case using Cons.IH [of v] Cons.IH [of w] Cons.prems v by (auto split: if_splits)
qed simp

text \<open>So an exact pattern matches only the path that it is.\<close>

lemma matches_any_exact:
  assumes "\<forall>q \<in> set qs. set q \<inter> set ''*?['' = {}"
  shows "matches_any qs p \<longleftrightarrow> p \<in> set qs"
proof -
  have "glob (split_on CHR ''/'' p) (split_on CHR ''/'' q) \<longleftrightarrow> p = q" if "q \<in> set qs" for q
    using that assms split_on_subset [of _ "CHR ''/''" q]
    by (subst glob_exact) (auto simp: split_on_inject)
  then show ?thesis by (auto simp: matches_any_def)
qed

lemma encode_patterns_Inr: "encode_patterns vs = Inr bs \<longleftrightarrow> list_all2 (\<lambda>v b. utf8_encode v = Some b) vs bs"
  unfolding encode_patterns_def rmap_Inr_iff by (intro arg_cong [of _ _ "\<lambda>P. list_all2 P vs bs"] HOL.ext) (auto split: option.splits)

lemma encoded_pattern:
  assumes "encode_patterns vs = Inr bs"
  shows "b \<in> set bs \<longleftrightarrow> (\<exists>v \<in> set vs. utf8_encode v = Some b)"
proof -
  have "list_all2 (\<lambda>v b. utf8_encode v = Some b) vs bs" using assms by (simp add: encode_patterns_Inr)
  then show ?thesis by (induction rule: list_all2_induct) auto
qed

lemma default_patterns_ascii: "d \<in> set DEFAULT_PROTECTED_PATTERNS \<Longrightarrow> utf8_encode (U d) = Some d"
  by (rule utf8_encode_ascii) (auto simp: DEFAULT_PROTECTED_PATTERNS_def)

lemma default_patterns_safe: "d \<in> set DEFAULT_PROTECTED_PATTERNS \<Longrightarrow> safe_pattern (U d)"
  unfolding safe_pattern_def using default_patterns_ascii [of d]
  by (auto simp: DEFAULT_PROTECTED_PATTERNS_def DEFAULT_MAX_PATH_BYTES_def U_def)

text \<open>What the policy of an accepted configuration does to a path that a default pattern protects.\<close>

lemma config_policy_protects:
  assumes "project_config_from_mapping raw = Inr c" and "config_policy c = Inr pol" and "valid_path p"
    and "matches_any DEFAULT_PROTECTED_PATTERNS p"
  shows "classify pol p = Inr PROTECTED \<or>
    ''.git'' \<notin> set (split_on CHR ''/'' p) \<and> (\<exists>x \<in> set (pc_protected_opt_in_paths c). utf8_encode x = Some p)"
proof -
  obtain prot opt where pol: "encode_patterns (pc_protected_paths c) = Inr prot" "protected_patterns pol = prot"
    "encode_patterns (pc_protected_opt_in_paths c) = Inr opt" "protected_opt_in_patterns pol = opt"
    using assms(2) by (auto simp: config_policy_def policy_from_strings_def rbind_Inr_iff check_policy_def)
  obtain extra where "pc_protected_paths c = dedup (map U DEFAULT_PROTECTED_PATTERNS @ extra)"
    using config_parts(1) [OF assms(1)] by blast
  then have "set DEFAULT_PROTECTED_PATTERNS \<subseteq> set prot"
    using encoded_pattern [OF pol(1)] default_patterns_ascii by auto
  then have m: "matches_any prot p" using assms(4) by (auto simp: matches_any_def)
  have e: "matches_any opt p \<longleftrightarrow> p \<in> set opt"
  proof (rule matches_any_exact, rule ballI)
    fix q assume "q \<in> set opt"
    then obtain x where x: "x \<in> set (pc_protected_opt_in_paths c)" "utf8_encode x = Some q"
      using encoded_pattern [OF pol(3)] by blast
    have "set (U ''*?['') \<inter> set x = {}"
      using config_parts(3) [OF assms(1)] x(1) opt_in_no_git(2) unfolding protected_opt_ins_Inr by blast
    then show "set q \<inter> set ''*?['' = {}" by (rule utf8_encode_special [OF x(2)])
  qed
  show ?thesis
    using m e encoded_pattern [OF pol(3), of p] by (auto simp: classify_valid [OF assms(3)] disposition_def pol)
qed

section \<open>The limits of an accepted configuration\<close>

text \<open>Every limit is positive and at most its default; the output that is reserved is at least its
  default.\<close>

definition limits_tight :: "limits \<Rightarrow> bool" where
  "limits_tight l \<longleftrightarrow>
     (\<forall>f \<in> {max_files, max_file_bytes, max_total_subject_bytes, max_path_bytes, max_path_depth, max_bundle_bytes,
        max_estimated_input_tokens, max_findings, max_field_bytes, max_agent_output_bytes, max_raw_log_bytes,
        workspace_bytes, memory_max_bytes, tasks_max, limit_fsize_bytes, limit_nofile}.
        0 < f l \<and> f l \<le> f default_limits) \<and>
     0 < reserved_output_tokens l \<and> reserved_output_tokens default_limits \<le> reserved_output_tokens l"

lemma tightened_limits: "tightened l \<Longrightarrow> limits_tight l"
  by (simp add: tightened_def limits_tight_def limit_fields_def weakens_def)

end
