(* ===== verification/ProtocolSamples.thy ===== *)
theory ProtocolSamples
  imports RunnerSamples ValidationBatch DiagnosticPatch Config
begin

text \<open>
  Concrete documents of the configuration and of the validation batch, accepted by their readers:
  the inputs at which the properties of these components are applied. And two places where a
  reader takes more than the rest of the program does.
\<close>

section \<open>A configuration\<close>

lemma empty_patterns: "patterns n (PList []) = Inr []" "strings n (PList []) = Inr []" "protected_opt_ins (PList []) = Inr []"
  by (simp_all add: patterns_def strings_def MAX_CONFIG_LIST_ITEMS_def protected_opt_ins_def)

lemma pattern_accepted:
  assumes "list_all (\<lambda>c. ord c < 128) p" and "p \<noteq> []" "length p \<le> 100" "0 \<notin> set (U p)" "92 \<notin> set (U p)"
    "\<not> prefix (U ''/'') (U p)" "list_all (\<lambda>c. c \<noteq> U ''..'') (split_on 47 (U p))" "length (posix_parts (U p)) \<le> 100"
  shows "patterns n (PList [PStr (U p)]) = Inr [U p]"
proof -
  have e: "utf8_encode (U p) = Some p" using assms(1) by (rule utf8_encode_ascii)
  have "list_all (\<lambda>c. \<not> (c = [] \<or> c = U ''.'' \<or> c = U ''..'')) (posix_parts (U p))"
    using assms(7) posix_parts_relative [OF assms(6)] by (auto simp: list_all_iff)
  then have "check_path_pattern n (U p) = Inr ()"
    using e assms by (auto simp: check_path_pattern_def DEFAULT_MAX_PATH_BYTES_def DEFAULT_MAX_PATH_DEPTH_def list_ex_iff
      list_all_iff Let_def)
  moreover have "check_item n (U p) = Inr ()" using e assms by (simp add: check_item_def)
  ultimately show ?thesis by (simp add: patterns_def strings_def MAX_CONFIG_LIST_ITEMS_def)
qed

lemma sample_pattern: "patterns n (PList [PStr (U ''ci/**'')]) = Inr [U ''ci/**'']"
  by (rule pattern_accepted) (simp_all add: U_def posix_parts_def)

text \<open>The configuration takes a pattern in a spelling that \<open>PathPolicy\<close> refuses: the loader checks the
  components that \<open>PurePosixPath\<close> leaves, the policy those of the raw pattern.\<close>

lemma config_accepts_uncanonical_pattern:
  "patterns n (PList [PStr (U ''./a'')]) = Inr [U ''./a''] \<and>
   (\<exists>e. policy_from_strings [] [U ''./a''] [] [] = Inl e)"
proof -
  have "utf8_encode (U ''./a'') = Some ''./a''" by (simp add: utf8_encode_ascii)
  then have "\<exists>e. policy_from_strings [] [U ''./a''] [] [] = Inl e"
    by (simp add: policy_from_strings_def encode_patterns_def check_policy_def check_patterns_def validate_pattern_def
        has_bad_component_def MAX_PATH_POLICY_PATTERNS_def)
  moreover have "patterns n (PList [PStr (U ''./a'')]) = Inr [U ''./a'']"
    by (rule pattern_accepted) (simp_all add: U_def posix_parts_def)
  ultimately show ?thesis by blast
qed

lemma identifier_ok:
  "list_all (\<lambda>c. ord c < 128) s \<Longrightarrow> s \<noteq> [] \<Longrightarrow> length s \<le> 200 \<Longrightarrow> 0 \<notin> set (U s) \<Longrightarrow>
    (i \<Longrightarrow> safe_identifier (U s)) \<Longrightarrow> optional_string n i (PStr (U s)) = Inr (Some (U s))"
  by (simp add: optional_string_def utf8_encode_ascii)

definition sample_config :: "(ustr \<times> pyval) list" where
  "sample_config = [(U ''protected_paths'', PList [PStr (U ''ci/**'')]), (U ''max_rounds'', PInt 5)]"

lemma length_dedup: "length (dedup xs) \<le> length xs"
  using length_remdups_leq [of "rev xs"] by (simp add: dedup_def)

lemma sample_config_accepted: "\<exists>c. project_config_from_mapping sample_config = Inr c"
proof -
  have d: "safe_identifier (U DEFAULT_CREDENTIAL_ID)" by code_simp
  have ids: "optional_string n i (PStr (U s)) = Inr (Some (U s))"
    if "s \<in> {DEFAULT_AUTHOR_MODEL, DEFAULT_AUTHOR_EFFORT, DEFAULT_CRITIC_MODEL, DEFAULT_CRITIC_EFFORT}" "\<not> i" for n i s
    by (rule identifier_ok)
      (use that in \<open>auto simp: U_def DEFAULT_AUTHOR_MODEL_def DEFAULT_AUTHOR_EFFORT_def DEFAULT_CRITIC_MODEL_def DEFAULT_CRITIC_EFFORT_def\<close>)
  have cid: "optional_string n i (PStr (U DEFAULT_CREDENTIAL_ID)) = Inr (Some (U DEFAULT_CREDENTIAL_ID))" for n i
    by (rule identifier_ok) (simp_all add: d, simp_all add: DEFAULT_CREDENTIAL_ID_def U_def)
  have g: "raw_get sample_config k v = (if k = ''protected_paths'' then PList [PStr (U ''ci/**'')]
      else if k = ''max_rounds'' then PInt 5 else v)" for k v
    by (simp add: raw_get_def sample_config_def)
  have s: "strict_keys CONFIG_KEYS t sample_config = Inr ()" for t
    by (simp add: strict_keys_def sample_config_def CONFIG_KEYS_def Let_def)
  have n: "length (dedup (map U DEFAULT_PROTECTED_PATTERNS @ [U ''ci/**''])) \<le> MAX_CONFIG_LIST_ITEMS"
    using length_dedup [of "map U DEFAULT_PROTECTED_PATTERNS @ [U ''ci/**'']"]
    by (simp add: MAX_CONFIG_LIST_ITEMS_def DEFAULT_PROTECTED_PATTERNS_def)
  show ?thesis
    unfolding project_config_from_mapping_def s g
    using n
    by (simp add: sample_pattern empty_patterns ids cid positive_int_def limits_of_def check_default_limits check_config_def
        DEFAULT_RUNTIME_SECONDS_def DEFAULT_AUTHOR_TIMEOUT_SECONDS_def DEFAULT_CRITIC_TIMEOUT_SECONDS_def
        DEFAULT_VALIDATION_TIMEOUT_SECONDS_def Let_def)
qed

section \<open>A validation batch\<close>

definition sample_batch :: batch_request where
  "sample_batch =
     \<lparr>b_checks = [\<lparr>b_check_id = U ''unit'', b_command = U ''make test'', b_timeout_ms = 1000,
        b_output_max_bytes = 4096\<rparr>], b_max_raw_output_bytes = 4096\<rparr>"

lemma sample_batch_wf:
  "wf_batch_request sample_batch"
  "int (length (json_dumps (batch_request_json sample_batch) @ [CHR 0x0A])) \<le> DEFAULT_MAX_AGENT_OUTPUT_BYTES"
proof -
  have "weight (batch_request_json sample_batch) \<le> 10000"
    by (simp add: batch_request_json_def sample_batch_def batch_check_json_def dec_int_def dec_nat_def digits_of.simps)
  with json_dumps_length [of "batch_request_json sample_batch"]
  show "int (length (json_dumps (batch_request_json sample_batch) @ [CHR 0x0A])) \<le> DEFAULT_MAX_AGENT_OUTPUT_BYTES"
    by (simp add: DEFAULT_MAX_AGENT_OUTPUT_BYTES_def)
  show "wf_batch_request sample_batch"
    by (simp add: wf_batch_request_def sample_batch_def wf_batch_check_def wf_bounded_text_def utf8_encode_ascii
        MAX_VALIDATION_CHECKS_def DEFAULT_MAX_RAW_LOG_BYTES_def DEFAULT_MAX_FIELD_BYTES_def
        DEFAULT_MAX_RUNTIME_SECONDS_def DEFAULT_MAX_AGENT_OUTPUT_BYTES_def)
      (simp add: U_def)
qed

definition sample_records :: "batch_record list" where
  "sample_records =
     [\<lparr>b_index = 0, b_returncode = 0, b_timed_out = False, b_output_limited = False, b_process_started = True,
       b_duration_ms = 5, b_stdout = ''ok'', b_stderr = []\<rparr>]"

lemma sample_records_wf:
  "wf_batch_result 1 10 sample_records" "\<exists>b. encode_validation_batch_result sample_records = Inr b"
proof -
  have "length (b64encode ''ok'') \<le> 4" by (simp add: b64encode_def)
  then have "weight (batch_result_json sample_records) \<le> 10000"
    by (simp add: batch_result_json_def sample_records_def batch_record_json_def dec_int_def dec_nat_def digits_of.simps)
      (simp add: b64encode_def)
  with json_dumps_length [of "batch_result_json sample_records"]
  show "\<exists>b. encode_validation_batch_result sample_records = Inr b"
    by (simp add: encode_validation_batch_result_def MAX_VALIDATION_BATCH_RESULT_BYTES_def DEFAULT_MAX_RAW_LOG_BYTES_def Let_def)
  show "wf_batch_result 1 10 sample_records"
    by (simp add: wf_batch_result_def sample_records_def wf_batch_record_def DEFAULT_MAX_RUNTIME_SECONDS_def output_bytes_def)
qed

section \<open>A review with a lone surrogate\<close>

text \<open>JSON can write a string that UTF-8 cannot encode. The validator of reviews then raises
  \<open>UnicodeEncodeError\<close> and not the typed refusal of every other malformed field, so the run ends as
  an internal error of the runner.\<close>

definition surrogate_review :: critic_review where
  "surrogate_review = sample_review\<lparr>r_summary := [0xD800]\<rparr>"

lemma lone_surrogate_is_untyped:
  "validate_critic_review ap (review_document surrogate_review) = Inl UnicodeEncodeError"
proof -
  have s: "string_field loc False False (JStr [0xD800]) = Inl UnicodeEncodeError" for loc
  proof -
    have "utf8_encode [0xD800] = None" by (simp add: utf8_encode_None_iff scalar_def is_surrogate_def)
    then show ?thesis by (simp add: string_field_def strip_def is_space_def)
  qed
  have v: "string_field loc False False (JStr (U ''LGTM'')) = Inr (Some (U ''LGTM''))" for loc
    using wf_text_literals [of LGTM] by (simp add: field_ok(2))
  have l: "verdict_of (U ''LGTM'') = Some LGTM" by (simp add: verdict_of_Some)
  have k: "closed_mapping REVIEW_KEYS loc (review_document surrogate_review) =
      Inr (case review_document surrogate_review of JObj kvs \<Rightarrow> kvs | _ \<Rightarrow> [])" for loc
    by (simp add: closed_mapping_Inr has_keys_def review_document_def REVIEW_KEYS_def)
  show ?thesis
    unfolding validate_critic_review_def k
    by (simp add: review_document_def surrogate_review_def sample_review_def field_def jstr_def s v l
        CRITIC_SCHEMA_VERSION_def)
qed

end
