(* ===== verification/CodexEvents.thy ===== *)
theory CodexEvents
  imports Schemas
begin

text \<open>
  The event stream of the author in \<open>src/src/agent_loop/codex_client.py\<close>: the parser of one
  complete turn (\<open>parse_codex_jsonl\<close>), the facts taken from an unsuccessful one
  (\<open>_nonzero_codex_jsonl_facts\<close>) and the classification of the process result.

  A decoded event is the list of the items of its dict; \<open>event.get(key)\<close> is \<open>dict_get\<close>, where an
  absent key and \<open>null\<close> are the same. The checks that an argument has its type are the types here.
\<close>

section \<open>Identifiers and bounds\<close>

definition MAX_JSONL_EVENTS :: int where "MAX_JSONL_EVENTS = 100000"
definition MAX_JSONL_LINE_BYTES :: int where "MAX_JSONL_LINE_BYTES = 2 * 1024 * 1024"

definition alnum :: "nat \<Rightarrow> bool" where
  "alnum c \<longleftrightarrow> (48 \<le> c \<and> c \<le> 57) \<or> (65 \<le> c \<and> c \<le> 90) \<or> (97 \<le> c \<and> c \<le> 122)"

definition lower_alnum :: "nat \<Rightarrow> bool" where
  "lower_alnum c \<longleftrightarrow> (48 \<le> c \<and> c \<le> 57) \<or> (97 \<le> c \<and> c \<le> 122)"

text \<open>\<open>fullmatch\<close> of a pattern \<open>[first][rest]{0,n}\<close>.\<close>

definition token_match :: "(nat \<Rightarrow> bool) \<Rightarrow> (nat \<Rightarrow> bool) \<Rightarrow> nat \<Rightarrow> ustr \<Rightarrow> bool" where
  "token_match first rest n s = (case s of [] \<Rightarrow> False | c # r \<Rightarrow> first c \<and> list_all rest r \<and> length r \<le> n)"

definition is_model_id :: "ustr \<Rightarrow> bool" where
  "is_model_id = token_match alnum (\<lambda>c. alnum c \<or> c \<in> set (U ''._:/-'')) 255"

definition is_effort :: "ustr \<Rightarrow> bool" where
  "is_effort = token_match lower_alnum (\<lambda>c. lower_alnum c \<or> c \<in> set (U ''_-'')) 63"

definition is_thread_id :: "ustr \<Rightarrow> bool" where
  "is_thread_id = token_match alnum (\<lambda>c. alnum c \<or> c \<in> set (U ''_-'')) 255"

definition validate_thread_id :: "ustr \<Rightarrow> exn + ustr" where
  "validate_thread_id i =
     (if is_thread_id i then Inr i else Inl (ValueError (U ''Codex thread ID is missing or unsafe'')))"

section \<open>One event\<close>

definition invalid_protocol :: "string \<Rightarrow> exn" where
  "invalid_protocol detail = fail AUTHOR_PROCESS_FAILURE detail"

definition dict_get :: "(ustr \<times> json) list \<Rightarrow> string \<Rightarrow> json" where
  "dict_get kvs k = (case map_of kvs (U k) of None \<Rightarrow> JNull | Some v \<Rightarrow> v)"

definition event_object :: "bytes \<Rightarrow> exn + (ustr \<times> json) list" where
  "event_object line =
     (case utf8_decode line of
        None \<Rightarrow> Inl (invalid_protocol ''Codex emitted malformed or duplicate-key JSONL'')
      | Some text \<Rightarrow>
          (case json_loads text of
             Inl e \<Rightarrow> Inl (invalid_protocol ''Codex emitted malformed or duplicate-key JSONL'')
           | Inr (JObj kvs) \<Rightarrow> Inr kvs
           | Inr v \<Rightarrow> Inl (invalid_protocol ''Codex JSONL event must be an object with string keys'')))"

text \<open>The type of an event, empty where the code finds it \<open>missing or invalid\<close>.\<close>

definition event_type :: "(ustr \<times> json) list \<Rightarrow> ustr" where
  "event_type e = (case dict_get e ''type'' of JStr s \<Rightarrow> s | _ \<Rightarrow> [])"

definition bounded_fact :: "string \<Rightarrow> json \<Rightarrow> exn + ustr option" where
  "bounded_fact name value =
     (case value of
        JNull \<Rightarrow> Inr None
      | JStr s \<Rightarrow>
          if s = [] \<or> 0 \<in> set s then Inl (invalid_protocol (''Codex '' @ name @ '' metadata is invalid''))
          else (case utf8_encode s of
                  None \<Rightarrow> Inl (invalid_protocol (''Codex '' @ name @ '' metadata is invalid''))
                | Some b \<Rightarrow>
                    if 256 < length b then Inl (invalid_protocol (''Codex '' @ name @ '' metadata exceeds its bound''))
                    else Inr (Some s))
      | _ \<Rightarrow> Inl (invalid_protocol (''Codex '' @ name @ '' metadata is invalid'')))"

definition coalesce_fact :: "string \<Rightarrow> ustr option \<Rightarrow> ustr option \<Rightarrow> exn + ustr option" where
  "coalesce_fact name current observed =
     (case observed of
        None \<Rightarrow> Inr current
      | Some x \<Rightarrow>
          if current \<noteq> None \<and> current \<noteq> observed
          then Inl (invalid_protocol (''Codex reported contradictory '' @ name @ '' metadata''))
          else Inr observed)"

record codex_usage =
  input_tokens :: int
  cached_input_tokens :: int
  output_tokens :: int
  reasoning_output_tokens :: int

definition usage_count :: "(ustr \<times> json) list \<Rightarrow> string \<Rightarrow> bool \<Rightarrow> exn + int" where
  "usage_count value name required =
     (let bad = Inl (invalid_protocol (''Codex usage field '' @ name @ '' is invalid''))
      in case dict_get value name of
           JNull \<Rightarrow> if required then bad else Inr 0
         | JInt i \<Rightarrow> if i < 0 then bad else Inr i
         | _ \<Rightarrow> bad)"

definition usage_of :: "json \<Rightarrow> exn + codex_usage" where
  "usage_of value =
     (case value of
        JObj kvs \<Rightarrow>
          rbind (usage_count kvs ''input_tokens'' True) (\<lambda>i.
          rbind (usage_count kvs ''cached_input_tokens'' False) (\<lambda>c.
          rbind (usage_count kvs ''output_tokens'' True) (\<lambda>out.
          rbind (usage_count kvs ''reasoning_output_tokens'' False) (\<lambda>r.
          Inr \<lparr>input_tokens = i, cached_input_tokens = c, output_tokens = out, reasoning_output_tokens = r\<rparr>))))
      | _ \<Rightarrow> Inl (invalid_protocol ''Codex turn.completed event omitted usage''))"

definition COMMAND_SANDBOX_SETUP_FAILURE_MARKERS :: "string list" where
  "COMMAND_SANDBOX_SETUP_FAILURE_MARKERS =
     [''bwrap: No permissions to create a new namespace'',
      ''bwrap: Can'' @ [CHR 0x27] @ ''t create file at /workspace/.git: Is a directory'',
      ''bwrap: Can'' @ [CHR 0x27] @ ''t create file at /workspace/.codex: Is a directory'',
      ''failed to create synthetic bubblewrap mount registry'',
      ''permission profiles requiring direct runtime enforcement are incompatible with '' @
      ''--use-legacy-landlock'']"

text \<open>The condition under which \<open>_reject_command_sandbox_setup_failure\<close> does not return early.\<close>

definition sandbox_setup_failed :: "(ustr \<times> json) list \<Rightarrow> bool" where
  "sandbox_setup_failed item \<longleftrightarrow>
     dict_get item ''type'' = JStr (U ''command_execution'') \<and> dict_get item ''status'' = JStr (U ''failed'') \<and>
     (case (dict_get item ''exit_code'', dict_get item ''aggregated_output'') of
        (JInt code, JStr output) \<Rightarrow>
          code \<noteq> 0 \<and> list_ex (\<lambda>marker. contains (U marker) output) COMMAND_SANDBOX_SETUP_FAILURE_MARKERS
      | _ \<Rightarrow> False)"

definition reject_command_sandbox_setup_failure :: "(ustr \<times> json) list \<Rightarrow> exn + unit" where
  "reject_command_sandbox_setup_failure item =
     (if sandbox_setup_failed item
      then Inl (fail SANDBOX_SETUP_FAILURE ''Codex command sandbox could not initialize'')
      else Inr ())"

definition MODEL_REROUTE_PREFIX :: string where "MODEL_REROUTE_PREFIX = ''model rerouted: ''"

definition is_reroute :: "(ustr \<times> json) list \<Rightarrow> bool" where
  "is_reroute item \<longleftrightarrow> dict_get item ''type'' = JStr (U ''error'') \<and>
     (case dict_get item ''message'' of JStr m \<Rightarrow> prefix (U MODEL_REROUTE_PREFIX) m | _ \<Rightarrow> False)"

section \<open>One turn\<close>

record codex_turn_result =
  tr_thread_id :: ustr
  tr_final_message :: ustr
  tr_usage :: codex_usage
  tr_observed_model :: "ustr option"
  tr_observed_effort :: "ustr option"
  tr_event_json :: "bytes list"
  tr_completed_at :: time

text \<open>The local variables of the loop over the events.\<close>

record jsonl_state =
  js_thread_id :: "ustr option"
  js_final_message :: "ustr option"
  js_usage :: "codex_usage option"
  js_model :: "ustr option"
  js_effort :: "ustr option"
  js_completed :: int
  js_events :: "bytes list"

definition jsonl_start :: jsonl_state where
  "jsonl_start = \<lparr>js_thread_id = None, js_final_message = None, js_usage = None, js_model = None,
     js_effort = None, js_completed = 0, js_events = []\<rparr>"

definition agent_message :: "(ustr \<times> json) list \<Rightarrow> exn + ustr" where
  "agent_message item =
     (case dict_get item ''text'' of
        JStr text \<Rightarrow>
          if 0 \<in> set text then Inl (invalid_protocol ''Codex agent message is invalid'')
          else (case utf8_encode text of
                  None \<Rightarrow> Inl (invalid_protocol ''Codex agent message is invalid'')
                | Some b \<Rightarrow>
                    if int (length b) > DEFAULT_MAX_FIELD_BYTES
                    then Inl (invalid_protocol ''Codex final message exceeds max_field_bytes'')
                    else Inr text)
      | _ \<Rightarrow> Inl (invalid_protocol ''Codex agent message is invalid''))"

definition on_item_completed :: "(ustr \<times> json) list \<Rightarrow> jsonl_state \<Rightarrow> exn + jsonl_state" where
  "on_item_completed event s =
     (case dict_get event ''item'' of
        JObj item \<Rightarrow>
          rbind (reject_command_sandbox_setup_failure item) (\<lambda>_.
          if is_reroute item then Inl (invalid_protocol ''Codex server rerouted the requested model'')
          else if dict_get item ''type'' = JStr (U ''agent_message'')
          then rbind (agent_message item) (\<lambda>text. Inr (s\<lparr>js_final_message := Some text\<rparr>))
          else Inr s)
      | _ \<Rightarrow> Inl (invalid_protocol ''Codex item.completed event has no item object''))"

definition on_event :: "(ustr \<times> json) list \<Rightarrow> jsonl_state \<Rightarrow> exn + jsonl_state" where
  "on_event event s =
     (let kind = event_type event
      in if kind = U ''thread.started''
      then if js_thread_id s \<noteq> None then Inl (invalid_protocol ''Codex emitted multiple thread.started events'')
        else (case dict_get event ''thread_id'' of
                JStr i \<Rightarrow> if is_thread_id i then Inr (s\<lparr>js_thread_id := Some i\<rparr>)
                  else Inl (invalid_protocol ''Codex thread.started event has no valid thread ID'')
              | _ \<Rightarrow> Inl (invalid_protocol ''Codex thread.started event has no valid thread ID''))
      else if kind = U ''item.completed'' then on_item_completed event s
      else if kind = U ''turn.completed''
      then if js_completed s + 1 > 1 then Inl (invalid_protocol ''Codex emitted multiple turn.completed events'')
        else rbind (usage_of (dict_get event ''usage'')) (\<lambda>u.
          Inr (s\<lparr>js_completed := js_completed s + 1, js_usage := Some u\<rparr>))
      else if kind = U ''turn.failed'' \<or> kind = U ''error''
      then Inl (invalid_protocol ''Codex reported an unsuccessful author turn'')
      else Inr s)"

text \<open>\<open>event.get("reasoning_effort", event.get("effort"))\<close>: the default is for an absent key only.\<close>

definition effort_value :: "(ustr \<times> json) list \<Rightarrow> json" where
  "effort_value event =
     (case map_of event (U ''reasoning_effort'') of None \<Rightarrow> dict_get event ''effort'' | Some v \<Rightarrow> v)"

definition reports_selection :: "(ustr \<times> json) list \<Rightarrow> bool" where
  "reports_selection event \<longleftrightarrow> event_type event \<in> {U ''thread.started'', U ''turn.started'', U ''turn.completed''}"

definition observe_selection :: "(ustr \<times> json) list \<Rightarrow> jsonl_state \<Rightarrow> exn + jsonl_state" where
  "observe_selection event s =
     (if reports_selection event
      then rbind (bounded_fact ''model'' (dict_get event ''model'')) (\<lambda>m.
        rbind (coalesce_fact ''model'' (js_model s) m) (\<lambda>m'.
        rbind (bounded_fact ''effort'' (effort_value event)) (\<lambda>e.
        rbind (coalesce_fact ''effort'' (js_effort s) e) (\<lambda>e'.
        Inr (s\<lparr>js_model := m', js_effort := e'\<rparr>)))))
      else Inr s)"

fun jsonl_loop :: "nat \<Rightarrow> bytes list \<Rightarrow> jsonl_state \<Rightarrow> exn + jsonl_state" where
  "jsonl_loop index [] s = Inr s"
| "jsonl_loop index (line # rest) s =
     rbind (event_object line) (\<lambda>event.
     if event_type event = [] then Inl (invalid_protocol ''Codex JSONL event type is missing or invalid'')
     else if index = 0 \<and> event_type event \<noteq> U ''thread.started''
     then Inl (invalid_protocol ''Codex JSONL must start with thread.started'')
     else rbind (on_event event (s\<lparr>js_events := js_events s @ [line]\<rparr>)) (\<lambda>s1.
     rbind (observe_selection event s1) (\<lambda>s2.
     jsonl_loop (Suc index) rest s2)))"

text \<open>The lines of the stream: an empty last line and one trailing carriage return are dropped.\<close>

definition raw_lines :: "bytes \<Rightarrow> bytes list" where
  "raw_lines data =
     (let ls = split_on (CHR 0x0A) data in if last ls = [] then butlast ls else ls)"

definition strip_cr :: "bytes \<Rightarrow> bytes" where
  "strip_cr l = (if l \<noteq> [] \<and> last l = CHR 0x0D then butlast l else l)"

definition canonical_line :: "bytes \<Rightarrow> exn + bytes" where
  "canonical_line l =
     (if CHR 0x0D \<in> set (strip_cr l)
      then Inl (invalid_protocol ''Codex JSONL contains a non-canonical line ending'')
      else Inr (strip_cr l))"

definition positive :: "string \<Rightarrow> int \<Rightarrow> exn + unit" where
  "positive name v = (if v \<le> 0 then Inl (ValueError (U (name @ '' must be a positive integer''))) else Inr ())"

definition finish_turn :: "ustr option \<Rightarrow> time \<Rightarrow> jsonl_state \<Rightarrow> exn + codex_turn_result" where
  "finish_turn expected_thread_id completed s =
     (case js_thread_id s of
        None \<Rightarrow> Inl (invalid_protocol ''Codex JSONL omitted thread.started'')
      | Some i \<Rightarrow>
          if expected_thread_id \<noteq> None \<and> expected_thread_id \<noteq> Some i
          then Inl (invalid_protocol ''Codex resume returned a different thread ID'')
          else (case js_final_message s of
                  None \<Rightarrow> Inl (invalid_protocol ''Codex JSONL omitted the final agent message'')
                | Some m \<Rightarrow>
                    (case js_usage s of
                       None \<Rightarrow> Inl (invalid_protocol ''Codex JSONL omitted turn.completed usage'')
                     | Some u \<Rightarrow>
                         if js_completed s \<noteq> 1
                         then Inl (invalid_protocol ''Codex JSONL omitted turn.completed usage'')
                         else Inr \<lparr>tr_thread_id = i, tr_final_message = m, tr_usage = u,
                           tr_observed_model = js_model s, tr_observed_effort = js_effort s,
                           tr_event_json = js_events s, tr_completed_at = completed\<rparr>)))"

definition parse_codex_jsonl ::
  "bytes \<Rightarrow> ustr option \<Rightarrow> int \<Rightarrow> int \<Rightarrow> int \<Rightarrow> time \<Rightarrow> exn + codex_turn_result" where
  "parse_codex_jsonl data expected_thread_id max_bytes max_events max_line_bytes completed =
     rbind (positive ''max_bytes'' max_bytes) (\<lambda>_.
     rbind (positive ''max_events'' max_events) (\<lambda>_.
     rbind (positive ''max_line_bytes'' max_line_bytes) (\<lambda>_.
     if int (length data) > max_bytes
     then Inl (fail AGENT_OUTPUT_LIMIT ''Codex JSONL exceeded its byte limit'')
     else rbind (case expected_thread_id of None \<Rightarrow> Inr () | Some i \<Rightarrow> rbind (validate_thread_id i) (\<lambda>_. Inr ())) (\<lambda>_.
     if completed < 0
     then Inl (ValueError (U ''completed_at must be a finite non-negative monotonic timestamp''))
     else rbind (rmap canonical_line (raw_lines data)) (\<lambda>lines.
     if lines = [] \<or> int (length lines) > max_events
     then Inl (invalid_protocol ''Codex JSONL has an invalid event count'')
     else if list_ex (\<lambda>l. l = [] \<or> int (length l) > max_line_bytes) lines
     then Inl (invalid_protocol ''Codex JSONL contains an empty or oversized event'')
     else rbind (jsonl_loop 0 lines jsonl_start) (finish_turn expected_thread_id completed))))))"

section \<open>What an accepted turn consists of\<close>

type_synonym event = "(ustr \<times> json) list"

definition is_kind :: "string \<Rightarrow> event \<Rightarrow> bool" where
  "is_kind k e \<longleftrightarrow> event_type e = U k"

definition item_of :: "event \<Rightarrow> (ustr \<times> json) list" where
  "item_of e = (case dict_get e ''item'' of JObj item \<Rightarrow> item | _ \<Rightarrow> [])"

text \<open>No failure, no reroute and no command without its sandbox.\<close>

definition harmless :: "event \<Rightarrow> bool" where
  "harmless e \<longleftrightarrow> event_type e \<noteq> [] \<and> \<not> is_kind ''turn.failed'' e \<and> \<not> is_kind ''error'' e \<and>
     (is_kind ''item.completed'' e \<longrightarrow> \<not> sandbox_setup_failed (item_of e) \<and> \<not> is_reroute (item_of e))"

definition is_message :: "event \<Rightarrow> bool" where
  "is_message e \<longleftrightarrow> is_kind ''item.completed'' e \<and> dict_get (item_of e) ''type'' = JStr (U ''agent_message'')"

definition messages :: "event list \<Rightarrow> json list" where
  "messages es = map (\<lambda>e. dict_get (item_of e) ''text'') (filter is_message es)"

definition reported :: "(event \<Rightarrow> json) \<Rightarrow> event list \<Rightarrow> ustr set" where
  "reported f es = {x. \<exists>e \<in> set es. reports_selection e \<and> f e = JStr x}"

definition stream_ok :: "event list \<Rightarrow> jsonl_state \<Rightarrow> bool" where
  "stream_ok es s \<longleftrightarrow>
     list_all harmless es \<and> list_all2 (\<lambda>l e. event_object l = Inr e) (js_events s) es \<and>
     (es \<noteq> [] \<longrightarrow> is_kind ''thread.started'' (hd es)) \<and>
     (case js_thread_id s of
        None \<Rightarrow> filter (is_kind ''thread.started'') es = []
      | Some i \<Rightarrow> is_thread_id i \<and>
          (\<exists>e. filter (is_kind ''thread.started'') es = [e] \<and> dict_get e ''thread_id'' = JStr i)) \<and>
     js_completed s = int (length (filter (is_kind ''turn.completed'') es)) \<and>
     (case js_usage s of
        None \<Rightarrow> filter (is_kind ''turn.completed'') es = []
      | Some u \<Rightarrow> \<exists>e. filter (is_kind ''turn.completed'') es = [e] \<and> usage_of (dict_get e ''usage'') = Inr u) \<and>
     (case js_final_message s of None \<Rightarrow> messages es = [] | Some m \<Rightarrow> messages es \<noteq> [] \<and> last (messages es) = JStr m) \<and>
     reported (\<lambda>e. dict_get e ''model'') es = set_option (js_model s) \<and>
     reported effort_value es = set_option (js_effort s)"

lemma stream_ok_start: "stream_ok [] jsonl_start"
  by (simp add: stream_ok_def jsonl_start_def messages_def reported_def)

lemma U_neq: "U x = U y \<longleftrightarrow> x = y"
  by simp

lemmas kind_simps = is_kind_def harmless_def is_message_def item_of_def

text \<open>What \<open>on_event\<close> did, by the kind of the event.\<close>

lemma on_item_completed_Inr:
  assumes "on_item_completed e s = Inr s'"
  shows "\<not> sandbox_setup_failed (item_of e) \<and> \<not> is_reroute (item_of e) \<and>
    (if dict_get (item_of e) ''type'' = JStr (U ''agent_message'')
     then \<exists>m. dict_get (item_of e) ''text'' = JStr m \<and> s' = s\<lparr>js_final_message := Some m\<rparr> else s' = s)"
  using assms
  by (auto simp: on_item_completed_def item_of_def reject_command_sandbox_setup_failure_def agent_message_def rbind_Inr_iff
      split: json.splits if_splits option.splits)

lemma on_event_Inr:
  assumes "on_event e s = Inr s'" and "event_type e \<noteq> []"
  shows "harmless e"
    and "js_events s' = js_events s" "js_model s' = js_model s" "js_effort s' = js_effort s"
    and "if is_kind ''thread.started'' e then js_thread_id s = None \<and>
        (\<exists>i. dict_get e ''thread_id'' = JStr i \<and> is_thread_id i \<and> js_thread_id s' = Some i)
      else js_thread_id s' = js_thread_id s"
    and "if is_kind ''turn.completed'' e then js_completed s \<le> 0 \<and> js_completed s' = js_completed s + 1 \<and>
        (\<exists>u. usage_of (dict_get e ''usage'') = Inr u \<and> js_usage s' = Some u)
      else js_completed s' = js_completed s \<and> js_usage s' = js_usage s"
    and "if is_message e then \<exists>m. dict_get (item_of e) ''text'' = JStr m \<and> js_final_message s' = Some m
      else js_final_message s' = js_final_message s"
  using assms on_item_completed_Inr [of e s s']
  by (auto simp: on_event_def Let_def is_kind_def harmless_def is_message_def rbind_Inr_iff split: if_splits json.splits)

lemma bounded_fact_Inr: "bounded_fact name v = Inr x \<Longrightarrow> (x = None \<longleftrightarrow> v = JNull) \<and> (\<forall>y. x = Some y \<longleftrightarrow> v = JStr y)"
  by (auto simp: bounded_fact_def split: json.splits if_splits option.splits)

lemma coalesce_fact_Inr:
  "coalesce_fact name c x = Inr y \<Longrightarrow> set_option y = set_option c \<union> set_option x"
  by (auto simp: coalesce_fact_def split: option.splits if_splits)

lemma reported_append: "reported f (es @ [e]) = reported f es \<union> (if reports_selection e then {x. f e = JStr x} else {})"
  by (auto simp: reported_def)

lemma observe_selection_Inr:
  assumes "observe_selection e s = Inr s'"
  shows "s' = s\<lparr>js_model := js_model s', js_effort := js_effort s'\<rparr>"
    and "set_option (js_model s') = set_option (js_model s) \<union>
      (if reports_selection e then {x. dict_get e ''model'' = JStr x} else {})"
    and "set_option (js_effort s') = set_option (js_effort s) \<union>
      (if reports_selection e then {x. effort_value e = JStr x} else {})"
proof -
  have *: "set_option x = {y. v = JStr y}" if "bounded_fact name v = Inr x" for name v x
    using bounded_fact_Inr [OF that] by (cases x) auto
  show "s' = s\<lparr>js_model := js_model s', js_effort := js_effort s'\<rparr>"
    and "set_option (js_model s') = set_option (js_model s) \<union>
      (if reports_selection e then {x. dict_get e ''model'' = JStr x} else {})"
    and "set_option (js_effort s') = set_option (js_effort s) \<union>
      (if reports_selection e then {x. effort_value e = JStr x} else {})"
    using assms by (auto simp: observe_selection_def rbind_Inr_iff dest!: coalesce_fact_Inr * split: if_splits)
qed

lemma stream_ok_step:
  assumes "stream_ok es s" and "event_object line = Inr e" and "event_type e \<noteq> []"
    and "es = [] \<longrightarrow> is_kind ''thread.started'' e"
    and "on_event e (s\<lparr>js_events := js_events s @ [line]\<rparr>) = Inr s1" and "observe_selection e s1 = Inr s2"
  shows "stream_ok (es @ [e]) s2"
proof -
  note ev = on_event_Inr [OF assms(5,3)] and ob = observe_selection_Inr [OF assms(6)]
  have f: "js_thread_id s2 = js_thread_id s1" "js_completed s2 = js_completed s1" "js_usage s2 = js_usage s1"
    "js_final_message s2 = js_final_message s1" "js_events s2 = js_events s1"
    by (subst ob(1); simp)+
  note S = assms(1) [unfolded stream_ok_def]
  have "list_all harmless (es @ [e]) \<and> list_all2 (\<lambda>l e. event_object l = Inr e) (js_events s2) (es @ [e])"
    using S ev(1,2) assms(2) f by (simp add: list_all2_appendI)
  moreover have "is_kind ''thread.started'' (hd (es @ [e]))"
    using S assms(4) by (cases es) auto
  moreover have "case js_thread_id s2 of
        None \<Rightarrow> filter (is_kind ''thread.started'') (es @ [e]) = []
      | Some i \<Rightarrow> is_thread_id i \<and>
          (\<exists>e'. filter (is_kind ''thread.started'') (es @ [e]) = [e'] \<and> dict_get e' ''thread_id'' = JStr i)"
    using S ev(5) f by (auto split: if_splits option.splits)
  moreover have "js_completed s2 = int (length (filter (is_kind ''turn.completed'') (es @ [e]))) \<and>
     (case js_usage s2 of
        None \<Rightarrow> filter (is_kind ''turn.completed'') (es @ [e]) = []
      | Some u \<Rightarrow> \<exists>e'. filter (is_kind ''turn.completed'') (es @ [e]) = [e'] \<and> usage_of (dict_get e' ''usage'') = Inr u)"
    using S ev(6) f by (auto split: if_splits option.splits)
  moreover have "case js_final_message s2 of None \<Rightarrow> messages (es @ [e]) = []
      | Some m \<Rightarrow> messages (es @ [e]) \<noteq> [] \<and> last (messages (es @ [e])) = JStr m"
    using S ev(7) f by (auto simp: messages_def split: if_splits option.splits)
  moreover have "reported (\<lambda>e. dict_get e ''model'') (es @ [e]) = set_option (js_model s2) \<and>
     reported effort_value (es @ [e]) = set_option (js_effort s2)"
    using S ob(2,3) ev(3,4) by (simp add: reported_append)
  ultimately show ?thesis unfolding stream_ok_def by blast
qed

lemma jsonl_loop_ok:
  "stream_ok es s \<Longrightarrow> n = length es \<Longrightarrow> jsonl_loop n lines s = Inr s' \<Longrightarrow>
     \<exists>es'. stream_ok (es @ es') s' \<and> js_events s' = js_events s @ lines"
proof (induction n lines s arbitrary: es rule: jsonl_loop.induct)
  case (1 n s)
  then show ?case by (intro exI [of _ "[]"]) simp
next
  case (2 n line rest s)
  obtain e s1 s2 where e: "event_object line = Inr e" "event_type e \<noteq> []"
    "n = 0 \<longrightarrow> is_kind ''thread.started'' e"
    and s1: "on_event e (s\<lparr>js_events := js_events s @ [line]\<rparr>) = Inr s1"
    and s2: "observe_selection e s1 = Inr s2" and rest: "jsonl_loop (Suc n) rest s2 = Inr s'"
    using "2"(4) by (auto simp: rbind_Inr_iff is_kind_def split: if_splits)
  have ok: "stream_ok (es @ [e]) s2"
    using e "2"(3) by (intro stream_ok_step [OF "2"(2) e(1,2) _ s1 s2]) simp
  have c: "\<not> (n = 0 \<and> event_type e \<noteq> U ''thread.started'')" using e(3) unfolding is_kind_def by blast
  have "\<exists>es'. stream_ok ((es @ [e]) @ es') s' \<and> js_events s' = js_events s2 @ rest"
    using "2"(3) by (intro "2.IH" [OF e(2) c ok _ rest]) simp
  moreover have "js_events s2 = js_events s @ [line]"
    using on_event_Inr(2) [OF s1 e(2)] observe_selection_Inr(1) [OF s2]
    by (metis jsonl_state.select_convs(7) jsonl_state.surjective jsonl_state.update_convs(4,5,7))
  ultimately show ?case by (metis append.assoc append_Cons append_Nil)
qed

text \<open>An accepted turn: its lines are those of the stream, in order; it starts the expected thread once,
  completes once and ends in a message; nothing in it failed; and what it says of the selected model
  is what every event that reports it says.\<close>

definition accepted_turn :: "ustr option \<Rightarrow> bytes \<Rightarrow> codex_turn_result \<Rightarrow> bool" where
  "accepted_turn expected data r \<longleftrightarrow>
     rmap canonical_line (raw_lines data) = Inr (tr_event_json r) \<and>
     (expected = None \<or> expected = Some (tr_thread_id r)) \<and> is_thread_id (tr_thread_id r) \<and>
     (\<exists>es. list_all2 (\<lambda>l e. event_object l = Inr e) (tr_event_json r) es \<and> list_all harmless es \<and>
        filter (is_kind ''thread.started'') es = [hd es] \<and>
        dict_get (hd es) ''thread_id'' = JStr (tr_thread_id r) \<and>
        (\<exists>e. filter (is_kind ''turn.completed'') es = [e] \<and> usage_of (dict_get e ''usage'') = Inr (tr_usage r)) \<and>
        messages es \<noteq> [] \<and> last (messages es) = JStr (tr_final_message r) \<and>
        reported (\<lambda>e. dict_get e ''model'') es = set_option (tr_observed_model r) \<and>
        reported effort_value es = set_option (tr_observed_effort r))"

lemma parse_codex_jsonl_accepted:
  assumes "parse_codex_jsonl data expected mb me ml t = Inr r"
  shows "accepted_turn expected data r"
proof -
  obtain ls s where ls: "rmap canonical_line (raw_lines data) = Inr ls" "ls \<noteq> []"
    and loop: "jsonl_loop 0 ls jsonl_start = Inr s" and fin: "finish_turn expected t s = Inr r"
    using assms by (auto simp: parse_codex_jsonl_def rbind_Inr_iff split: if_splits)
  obtain es where ok: "stream_ok es s" and ev: "js_events s = ls"
    using jsonl_loop_ok [OF stream_ok_start _ loop] by (auto simp: jsonl_start_def)
  have r: "js_thread_id s = Some (tr_thread_id r)" "js_final_message s = Some (tr_final_message r)"
    "js_usage s = Some (tr_usage r)" "js_model s = tr_observed_model r" "js_effort s = tr_observed_effort r"
    "js_events s = tr_event_json r" "expected = None \<or> expected = Some (tr_thread_id r)"
    using fin by (auto simp: finish_turn_def split: option.splits if_splits)
  have ne: "es \<noteq> []" using ok ls(2) ev by (auto simp: stream_ok_def)
  obtain e where e: "filter (is_kind ''thread.started'') es = [e]" "dict_get e ''thread_id'' = JStr (tr_thread_id r)"
    and i: "is_thread_id (tr_thread_id r)"
    using ok r by (auto simp: stream_ok_def)
  have "hd es = e" using e(1) ok ne by (cases es) (auto simp: stream_ok_def)
  with ok r e i ls(1) ev show ?thesis unfolding accepted_turn_def stream_ok_def by auto
qed

end
