(* ===== verification/CodexResult.thy ===== *)
theory CodexResult
  imports CodexEvents
begin

text \<open>
  The classification of the author's process result in \<open>src/src/agent_loop/codex_client.py\<close>:
  \<open>_nonzero_codex_jsonl_facts\<close> and \<open>classify_codex_process_result\<close>. What an unsuccessful process
  wrote is untrusted; only facts of a fixed vocabulary are taken from it.
\<close>

section \<open>The facts of an unsuccessful turn\<close>

definition REAUTHENTICATION_FAILURE_MARKERS :: "string list" where
  "REAUTHENTICATION_FAILURE_MARKERS =
     [''refresh token was revoked'', ''refresh_token_invalidated'', ''token_revoked'',
      ''please log out and sign in again'']"

definition CODEX_REAUTHENTICATION_FAILURE_DETAIL :: string where
  "CODEX_REAUTHENTICATION_FAILURE_DETAIL =
     ''Codex vendor session ended; run `codex login` once, then rerun. '' @
     ''No `agent-loop auth` command is required.''"

text \<open>\<open>str.lower\<close> as far as it decides whether an ASCII text is contained: besides the letters
  \<open>A\<close> to \<open>Z\<close> two characters have lower case forms with ASCII letters (the Kelvin sign and the
  dotted capital I).\<close>

definition lower_char :: "nat \<Rightarrow> ustr" where
  "lower_char c =
     (if 65 \<le> c \<and> c \<le> 90 then [c + 32] else if c = 8490 then [107] else if c = 304 then [105, 775] else [c])"

definition lower_str :: "ustr \<Rightarrow> ustr" where
  "lower_str s = concat (map lower_char s)"

definition valid_failure_message :: "json \<Rightarrow> bool" where
  "valid_failure_message v =
     (case v of
        JStr s \<Rightarrow> 0 \<notin> set s \<and>
          (case utf8_encode s of None \<Rightarrow> False | Some b \<Rightarrow> int (length b) \<le> DEFAULT_MAX_FIELD_BYTES)
      | _ \<Rightarrow> False)"

text \<open>The exact shapes of the two events that report a failure.\<close>

definition failure_shape_ok :: "(ustr \<times> json) list \<Rightarrow> bool" where
  "failure_shape_ok event =
     (if event_type event = U ''turn.failed''
      then set (map fst event) = {U ''type'', U ''error''} \<and>
        (case dict_get event ''error'' of
           JObj error \<Rightarrow> set (map fst error) = {U ''message''} \<and> valid_failure_message (dict_get error ''message'')
         | _ \<Rightarrow> False)
      else if event_type event = U ''error''
      then set (map fst event) = {U ''type'', U ''message''} \<and> valid_failure_message (dict_get event ''message'')
      else True)"

definition requires_reauthentication :: "(ustr \<times> json) list \<Rightarrow> bool" where
  "requires_reauthentication event \<longleftrightarrow> event_type event = U ''turn.failed'' \<and>
     (case dict_get event ''error'' of
        JObj error \<Rightarrow>
          (case dict_get error ''message'' of
             JStr m \<Rightarrow> list_ex (\<lambda>marker. contains (U marker) (lower_str m)) REAUTHENTICATION_FAILURE_MARKERS
           | _ \<Rightarrow> False)
      | _ \<Rightarrow> False)"

type_synonym turn_facts = "string \<times> string \<times> string \<times> bool"

definition unverified_facts :: turn_facts where
  "unverified_facts = (''invalid'', ''unverified'', ''unverified'', False)"

text \<open>The events of the lines, \<open>None\<close> when one of them is malformed or has no type.\<close>

fun typed_events :: "bytes list \<Rightarrow> (ustr \<times> json) list list option" where
  "typed_events [] = Some []"
| "typed_events (line # rest) =
     (case event_object line of
        Inl e \<Rightarrow> None
      | Inr event \<Rightarrow> if event_type event = [] then None else map_option ((#) event) (typed_events rest))"

definition facts_of_events :: "ustr option \<Rightarrow> (ustr \<times> json) list list \<Rightarrow> turn_facts" where
  "facts_of_events expected_thread_id events =
     (let started = filter (\<lambda>e. event_type e = U ''thread.started'') events;
          failed = filter (\<lambda>e. event_type e = U ''turn.failed'') events;
          last_event = last events
      in if event_type (hd events) \<noteq> U ''thread.started'' then (''invalid'', ''false'', ''unverified'', False)
      else if length started \<noteq> 1 then unverified_facts
      else (case dict_get (hd started) ''thread_id'' of
              JStr i \<Rightarrow>
                if \<not> is_thread_id i then unverified_facts
                else if expected_thread_id \<noteq> None \<and> expected_thread_id \<noteq> Some i then unverified_facts
                else if \<not> list_all failure_shape_ok events then unverified_facts
                else if failed \<noteq> [] \<and> (length failed \<noteq> 1 \<or> event_type last_event \<noteq> U ''turn.failed'')
                then unverified_facts
                else (''valid'', ''true'',
                      (if event_type last_event = U ''turn.failed'' then ''turn.failed''
                       else if event_type last_event = U ''error'' then ''error'' else ''none''),
                      requires_reauthentication last_event)
            | _ \<Rightarrow> unverified_facts))"

definition nonzero_codex_jsonl_facts :: "bytes \<Rightarrow> ustr option \<Rightarrow> int \<Rightarrow> exn + turn_facts" where
  "nonzero_codex_jsonl_facts data expected_thread_id max_bytes =
     rbind (positive ''max_bytes'' max_bytes) (\<lambda>_.
     rbind (case expected_thread_id of None \<Rightarrow> Inr () | Some i \<Rightarrow> rbind (validate_thread_id i) (\<lambda>_. Inr ())) (\<lambda>_.
     if int (length data) > max_bytes then Inr (''over_limit'', ''unverified'', ''unverified'', False)
     else if data = [] then Inr (''empty'', ''false'', ''none'', False)
     else (let ls = map strip_cr (raw_lines data)
       in if ls = [] \<or> int (length ls) > MAX_JSONL_EVENTS then Inr unverified_facts
       else if list_ex (\<lambda>l. l = [] \<or> CHR 0x0D \<in> set l \<or> int (length l) > MAX_JSONL_LINE_BYTES) ls
       then Inr unverified_facts
       else (case typed_events ls of
               None \<Rightarrow> Inr unverified_facts
             | Some events \<Rightarrow> Inr (facts_of_events expected_thread_id events)))))"

section \<open>The process result\<close>

record process_result =
  pr_returncode :: int
  pr_stdout :: bytes
  pr_stderr :: bytes
  pr_started_at :: time
  pr_completed_at :: time
  pr_timed_out :: bool
  pr_output_limited :: bool

definition unsuccessful_detail :: "int \<Rightarrow> string \<Rightarrow> string \<Rightarrow> string \<Rightarrow> bool \<Rightarrow> string" where
  "unsuccessful_detail code protocol started terminal stderr_present =
     ''Codex process exited unsuccessfully ('' @ dec_int code @ ''; stdout_protocol='' @ protocol @
     ''; thread_started='' @ started @ ''; terminal_event='' @ terminal @
     ''; stderr_present='' @ (if stderr_present then ''true'' else ''false'') @ '')''"

definition classify_codex_process_result ::
  "process_result \<Rightarrow> ustr option \<Rightarrow> int \<Rightarrow> exn + codex_turn_result" where
  "classify_codex_process_result r expected_thread_id max_bytes =
     rbind (positive ''max_bytes'' max_bytes) (\<lambda>_.
     if pr_output_limited r \<or> int (length (pr_stdout r)) + int (length (pr_stderr r)) > max_bytes
     then Inl (fail AGENT_OUTPUT_LIMIT ''Codex output exceeded its byte limit'')
     else if pr_timed_out r then Inl (fail AUTHOR_TIMEOUT ''Codex exceeded the outer author timeout'')
     else if pr_returncode r \<noteq> 0
     then rbind (nonzero_codex_jsonl_facts (pr_stdout r) expected_thread_id max_bytes)
       (\<lambda>(protocol, started, terminal, reauthenticate).
       if reauthenticate then Inl (fail CREDENTIAL_REFRESH_FAILURE CODEX_REAUTHENTICATION_FAILURE_DETAIL)
       else Inl (fail AUTHOR_PROCESS_FAILURE
         (unsuccessful_detail (pr_returncode r) protocol started terminal (pr_stderr r \<noteq> []))))
     else parse_codex_jsonl (pr_stdout r) expected_thread_id max_bytes MAX_JSONL_EVENTS MAX_JSONL_LINE_BYTES
       (pr_completed_at r))"

section \<open>The vocabulary of failures\<close>

text \<open>Everything the error of an unsuccessful process can say: its exit status, whether it wrote to its
  standard error, and one word each of three fixed lists.\<close>

fun fixed_words :: "turn_facts \<Rightarrow> bool" where
  "fixed_words (protocol, started, terminal, r) \<longleftrightarrow>
     protocol \<in> {''valid'', ''invalid'', ''empty'', ''over_limit''} \<and> started \<in> {''true'', ''false'', ''unverified''} \<and>
     terminal \<in> {''none'', ''error'', ''turn.failed'', ''unverified''}"

definition failure_details :: "int \<Rightarrow> string set" where
  "failure_details code =
     {unsuccessful_detail code protocol started terminal stderr_present | protocol started terminal stderr_present.
        fixed_words (protocol, started, terminal, False)}"

lemma fixed_words_literals:
  "fixed_words unverified_facts" "fixed_words (''invalid'', ''false'', ''unverified'', False)"
  "fixed_words (''over_limit'', ''unverified'', ''unverified'', False)" "fixed_words (''empty'', ''false'', ''none'', False)"
  "fixed_words (''valid'', ''true'', if a then ''turn.failed'' else if b then ''error'' else ''none'', r)"
  by (simp_all add: unverified_facts_def)

lemma fixed_words_branches:
  "fixed_words x \<Longrightarrow> fixed_words y \<Longrightarrow> fixed_words (if c then x else y)"
  "(\<And>s. fixed_words (f s)) \<Longrightarrow> fixed_words z \<Longrightarrow> fixed_words (case v of JStr s \<Rightarrow> f s | _ \<Rightarrow> z)"
  by (simp, cases v) auto

lemma facts_vocabulary: "fixed_words (facts_of_events expected es)"
  unfolding facts_of_events_def Let_def by (intro fixed_words_branches fixed_words_literals)

lemma nonzero_facts_vocabulary:
  assumes "nonzero_codex_jsonl_facts data expected mb = Inr f"
  shows "fixed_words f"
  using assms fixed_words_literals facts_vocabulary
  by (auto simp only: nonzero_codex_jsonl_facts_def Let_def rbind_Inr_iff sum.inject sum.distinct
      split: if_splits option.splits)

lemma nonzero_facts_no_error:
  assumes "0 < mb" and "pred_option is_thread_id expected"
  shows "nonzero_codex_jsonl_facts data expected mb \<noteq> Inl e"
proof -
  have "(case expected of None \<Rightarrow> Inr () | Some i \<Rightarrow> rbind (validate_thread_id i) (\<lambda>_. Inr ())) = Inr ()"
    using assms(2) by (cases expected) (simp_all add: validate_thread_id_def)
  with assms(1) show ?thesis
    by (simp add: nonzero_codex_jsonl_facts_def positive_def Let_def split: option.split)
qed

lemma classify_failure:
  assumes "pr_returncode r \<noteq> 0" and "0 < mb" and "pred_option is_thread_id expected"
  shows "\<exists>reason d. classify_codex_process_result r expected mb = Inl (fail reason d) \<and>
    (reason = AUTHOR_PROCESS_FAILURE \<and> d \<in> failure_details (pr_returncode r) \<or>
     reason = AGENT_OUTPUT_LIMIT \<and> d = ''Codex output exceeded its byte limit'' \<or>
     reason = AUTHOR_TIMEOUT \<and> d = ''Codex exceeded the outer author timeout'' \<or>
     reason = CREDENTIAL_REFRESH_FAILURE \<and> d = CODEX_REAUTHENTICATION_FAILURE_DETAIL)"
proof -
  obtain p t e a where f: "nonzero_codex_jsonl_facts (pr_stdout r) expected mb = Inr (p, t, e, a)"
    using nonzero_facts_no_error [OF assms(2,3)] by (metis sum.exhaust prod_cases4)
  have d: "unsuccessful_detail (pr_returncode r) p t e b \<in> failure_details (pr_returncode r)" for b
  proof -
    have "fixed_words (p, t, e, False)" using nonzero_facts_vocabulary [OF f] by (simp only: fixed_words.simps)
    then show ?thesis unfolding failure_details_def by blast
  qed
  have c: "classify_codex_process_result r expected mb =
    (if pr_output_limited r \<or> int (length (pr_stdout r)) + int (length (pr_stderr r)) > mb
     then Inl (fail AGENT_OUTPUT_LIMIT ''Codex output exceeded its byte limit'')
     else if pr_timed_out r then Inl (fail AUTHOR_TIMEOUT ''Codex exceeded the outer author timeout'')
     else if a then Inl (fail CREDENTIAL_REFRESH_FAILURE CODEX_REAUTHENTICATION_FAILURE_DETAIL)
     else Inl (fail AUTHOR_PROCESS_FAILURE (unsuccessful_detail (pr_returncode r) p t e (pr_stderr r \<noteq> []))))"
    using assms(1,2) unfolding classify_codex_process_result_def positive_def f by simp
  show ?thesis
  proof (cases "pr_output_limited r \<or> int (length (pr_stdout r)) + int (length (pr_stderr r)) > mb")
    case False
    with d show ?thesis unfolding c by (cases "pr_timed_out r"; cases a) (simp_all, blast+)
  qed (simp add: c, blast)
qed

end
