(* ===== verification/CodexRollout.thy ===== *)
theory CodexRollout
  imports CodexEvents Sha256
begin

text \<open>
  The persisted rollout of an author thread in \<open>src/src/agent_loop/codex_client.py\<close>:
  \<open>parse_codex_rollout_selection\<close> walks the history of the thread, which grows by one turn with each
  round, and takes from it the model and the effort that the last turn really used. The history is
  bound to the one accepted before by its turn IDs and by a digest of its bytes.
\<close>

section \<open>Bounds and vocabulary\<close>

definition MAX_ROLLOUT_BYTES :: int where "MAX_ROLLOUT_BYTES = 64 * 1024 * 1024"
definition MAX_ROLLOUT_EVENTS :: int where "MAX_ROLLOUT_EVENTS = 200000"
definition MAX_ROLLOUT_LINE_BYTES :: int where "MAX_ROLLOUT_LINE_BYTES = DEFAULT_MAX_AGENT_OUTPUT_BYTES"
definition SUPPORTED_CODEX_VERSION :: string where "SUPPORTED_CODEX_VERSION = ''0.144.6''"

text \<open>\<open>_UUID.fullmatch\<close>.\<close>

definition is_uuid :: "bytes \<Rightarrow> bool" where
  "is_uuid b \<longleftrightarrow> map length (split_on (CHR ''-'') b) = [8, 4, 4, 4, 12] \<and>
     list_all (\<lambda>c. is_hex_lower (ord c) \<or> c = CHR ''-'') b"

definition ROLLOUT_ITEM_TYPES :: "string list" where
  "ROLLOUT_ITEM_TYPES =
     [''session_meta'', ''response_item'', ''inter_agent_communication'',
      ''inter_agent_communication_metadata'', ''compacted'', ''turn_context'', ''world_state'', ''event_msg'']"

definition ROLLOUT_EVENT_TYPES :: "string list" where
  "ROLLOUT_EVENT_TYPES =
     [''item_completed'', ''token_count'', ''thread_goal_updated'', ''thread_rolled_back'', ''turn_aborted'',
      ''task_started'', ''task_complete'', ''thread_settings_applied'', ''user_message'', ''agent_message'',
      ''agent_reasoning'', ''agent_reasoning_raw_content'', ''entered_review_mode'', ''exited_review_mode'',
      ''patch_apply_end'', ''context_compacted'', ''mcp_tool_call_end'', ''web_search_end'',
      ''image_generation_end'', ''sub_agent_activity'']"

definition FORBIDDEN_CONTROL_CONTEXT_MARKERS :: "bytes list" where
  "FORBIDDEN_CONTROL_CONTEXT_MARKERS =
     [''<apps_instructions>'', ''<plugins_instructions>'', ''<skills_instructions>'', ''request_plugin_install'',
      ''tool_search'']"

record rollout_prefix_witness =
  rw_byte_length :: int
  rw_sha256 :: bytes

definition check_prefix_witness :: "rollout_prefix_witness \<Rightarrow> exn + rollout_prefix_witness" where
  "check_prefix_witness w =
     (if rw_byte_length w \<le> 0 \<or> length (rw_sha256 w) \<noteq> 32
      then Inl (ValueError (U ''Codex rollout prefix witness is invalid'')) else Inr w)"

record selection_evidence =
  se_turn_id :: ustr
  se_model :: ustr
  se_effort :: ustr
  se_turn_ids :: "ustr list"
  se_rollout_prefix :: rollout_prefix_witness

section \<open>The lifecycle events of a turn\<close>

text \<open>A turn ID that is a canonical UUID.\<close>

definition uuid_text :: "json \<Rightarrow> ustr option" where
  "uuid_text v =
     (case v of
        JStr s \<Rightarrow> (case ascii_encode s of None \<Rightarrow> None | Some b \<Rightarrow> if is_uuid b then Some s else None)
      | _ \<Rightarrow> None)"

definition lifecycle_error :: exn where
  "lifecycle_error = invalid_protocol ''Codex rollout lifecycle metadata is invalid''"

definition canonical_rollout_turn_id :: "json \<Rightarrow> exn + ustr" where
  "canonical_rollout_turn_id v = (case uuid_text v of None \<Rightarrow> Inl lifecycle_error | Some s \<Rightarrow> Inr s)"

definition nonnegative_integer :: "json \<Rightarrow> bool" where
  "nonnegative_integer v = (case v of JInt i \<Rightarrow> 0 \<le> i | _ \<Rightarrow> False)"

definition bounded_rollout_text :: "json \<Rightarrow> int \<Rightarrow> bool \<Rightarrow> bool" where
  "bounded_rollout_text v maximum allow_empty =
     (case v of
        JStr s \<Rightarrow> 0 \<notin> set s \<and> (allow_empty \<or> s \<noteq> []) \<and>
          (case utf8_encode s of None \<Rightarrow> False | Some b \<Rightarrow> int (length b) \<le> maximum)
      | _ \<Rightarrow> False)"

text \<open>The closed set of keys of a payload: all the required ones, and none but the allowed.\<close>

definition keys_between :: "string list \<Rightarrow> string list \<Rightarrow> (ustr \<times> json) list \<Rightarrow> bool" where
  "keys_between required optional payload \<longleftrightarrow>
     list_all (\<lambda>k. U k \<in> set (map fst payload)) required \<and>
     list_all (\<lambda>k. k \<in> set (map U (required @ optional))) (map fst payload)"

definition present :: "(ustr \<times> json) list \<Rightarrow> string \<Rightarrow> bool" where
  "present payload k \<longleftrightarrow> U k \<in> set (map fst payload)"

text \<open>\<open>v in {"default", "plan"}\<close>: a list or a dict cannot be hashed.\<close>

definition known_mode :: "json \<Rightarrow> exn + bool" where
  "known_mode v =
     (case v of
        JArr vs \<Rightarrow> Inl (TypeError (U ''unhashable type: '' @ [39] @ U ''list'' @ [39]))
      | JObj kvs \<Rightarrow> Inl (TypeError (U ''unhashable type: '' @ [39] @ U ''dict'' @ [39]))
      | _ \<Rightarrow> Inr (v \<in> {JStr (U ''default''), JStr (U ''plan'')}))"

definition lifecycle_turn_id :: "(ustr \<times> json) list \<Rightarrow> bool \<Rightarrow> exn + ustr" where
  "lifecycle_turn_id payload completed =
     (let wrong =
        (if completed
         then \<not> keys_between [''type'', ''turn_id'', ''last_agent_message'']
                [''completed_at'', ''duration_ms'', ''time_to_first_token_ms''] payload
            \<or> (dict_get payload ''last_agent_message'' \<noteq> JNull \<and>
               \<not> bounded_rollout_text (dict_get payload ''last_agent_message'') DEFAULT_MAX_FIELD_BYTES True)
            \<or> list_ex (\<lambda>k. present payload k \<and> \<not> nonnegative_integer (dict_get payload k))
                [''completed_at'', ''duration_ms'', ''time_to_first_token_ms'']
         else \<not> keys_between [''type'', ''turn_id'', ''model_context_window'', ''collaboration_mode_kind'']
                [''trace_id'', ''started_at''] payload
            \<or> (present payload ''trace_id'' \<and> \<not> bounded_rollout_text (dict_get payload ''trace_id'') 256 False)
            \<or> (present payload ''started_at'' \<and> \<not> nonnegative_integer (dict_get payload ''started_at''))
            \<or> (dict_get payload ''model_context_window'' \<noteq> JNull \<and>
               \<not> nonnegative_integer (dict_get payload ''model_context_window'')))
      in if wrong then Inl lifecycle_error
         else rbind (if completed then Inr True else known_mode (dict_get payload ''collaboration_mode_kind'')) (\<lambda>known.
           if \<not> known then Inl lifecycle_error else canonical_rollout_turn_id (dict_get payload ''turn_id'')))"

section \<open>One item of the history\<close>

text \<open>The local variables of the loop.\<close>

record rollout_state =
  ro_selections :: "(ustr \<times> (ustr \<times> ustr)) list"
  ro_distinct :: "ustr list"
  ro_completed :: "ustr list"
  ro_started :: "ustr list"
  ro_active :: "ustr option"
  ro_contexts :: int
  ro_metas :: int

definition rollout_start :: rollout_state where
  "rollout_start = \<lparr>ro_selections = [], ro_distinct = [], ro_completed = [], ro_started = [],
     ro_active = None, ro_contexts = 0, ro_metas = 0\<rparr>"

definition rollout_metadata_error :: exn where
  "rollout_metadata_error = invalid_protocol ''Codex rollout event metadata is invalid''"

text \<open>A line as its item type and payload.\<close>

definition rollout_line :: "int \<Rightarrow> bytes \<Rightarrow> exn + bytes" where
  "rollout_line max_line_bytes l =
     (if CHR 0x0D \<in> set (strip_cr l)
      then Inl (invalid_protocol ''Codex rollout contains a non-canonical line ending'')
      else if strip_cr l = [] \<or> int (length (strip_cr l)) > max_line_bytes
      then Inl (invalid_protocol ''Codex rollout contains an empty or oversized event'')
      else Inr (strip_cr l))"

definition rollout_item :: "bytes \<Rightarrow> exn + (ustr \<times> (ustr \<times> json) list)" where
  "rollout_item line =
     rbind (event_object line) (\<lambda>event.
     if set (map fst event) \<noteq> {U ''timestamp'', U ''type'', U ''payload''}
     then Inl (invalid_protocol ''Codex rollout event has an invalid envelope'')
     else (case (dict_get event ''timestamp'', dict_get event ''payload'') of
             (JStr t, JObj payload) \<Rightarrow>
               (case utf8_encode t of
                  None \<Rightarrow> Inl rollout_metadata_error
                | Some b \<Rightarrow>
                    if t = [] \<or> 0 \<in> set t \<or> 128 < length b \<or> event_type event = []
                    then Inl rollout_metadata_error
                    else Inr (event_type event, payload))
           | _ \<Rightarrow> Inl rollout_metadata_error))"

definition check_rollout_item :: "nat \<Rightarrow> bytes \<Rightarrow> ustr \<Rightarrow> (ustr \<times> json) list \<Rightarrow> exn + unit" where
  "check_rollout_item index line kind payload =
     (if kind \<notin> set (map U ROLLOUT_ITEM_TYPES)
      then Inl (invalid_protocol ''Codex rollout item type is unsupported'')
      else if index = 0 \<and> kind \<noteq> U ''session_meta''
      then Inl (invalid_protocol ''Codex rollout must start with session metadata'')
      else if kind = U ''response_item'' \<and> dict_get payload ''role'' = JStr (U ''developer'') \<and>
        list_ex (\<lambda>marker. contains marker (lower line)) FORBIDDEN_CONTROL_CONTEXT_MARKERS
      then Inl (invalid_protocol ''Codex rollout contains forbidden skill, plugin, or app instructions'')
      else Inr ())"

definition on_session_meta :: "ustr \<Rightarrow> nat \<Rightarrow> (ustr \<times> json) list \<Rightarrow> rollout_state \<Rightarrow> exn + rollout_state" where
  "on_session_meta thread index payload s =
     (if ro_metas s + 1 \<noteq> 1 \<or> index \<noteq> 0
      then Inl (invalid_protocol ''Codex rollout has ambiguous session metadata'')
      else if dict_get payload ''id'' \<noteq> JStr thread \<or> dict_get payload ''session_id'' \<noteq> JStr thread
        \<or> dict_get payload ''cli_version'' \<noteq> JStr (U SUPPORTED_CODEX_VERSION)
      then Inl (invalid_protocol ''Codex rollout session metadata does not match the turn'')
      else Inr (s\<lparr>ro_metas := ro_metas s + 1\<rparr>))"

definition on_event_msg :: "(ustr \<times> json) list \<Rightarrow> rollout_state \<Rightarrow> exn + rollout_state" where
  "on_event_msg payload s =
     (case dict_get payload ''type'' of
        JStr kind \<Rightarrow>
          if kind \<notin> set (map U ROLLOUT_EVENT_TYPES)
          then Inl (invalid_protocol ''Codex rollout event type is unsupported'')
          else if kind = U ''turn_aborted'' \<or> kind = U ''thread_rolled_back''
          then Inl (invalid_protocol ''Codex rollout contains a rejected history transition'')
          else if kind = U ''task_started''
          then rbind (lifecycle_turn_id payload False) (\<lambda>i.
            if ro_active s \<noteq> None \<or> i \<in> set (ro_started s)
            then Inl (invalid_protocol ''Codex rollout turn lifecycle is ambiguous'')
            else Inr (s\<lparr>ro_active := Some i, ro_contexts := 0, ro_started := ro_started s @ [i]\<rparr>))
          else if kind = U ''task_complete''
          then rbind (lifecycle_turn_id payload True) (\<lambda>i.
            if ro_active s \<noteq> Some i \<or> ro_contexts s < 1
            then Inl (invalid_protocol ''Codex rollout turn lifecycle is incomplete'')
            else Inr (s\<lparr>ro_completed := ro_completed s @ [i], ro_active := None, ro_contexts := 0\<rparr>))
          else Inr s
      | _ \<Rightarrow> Inl (invalid_protocol ''Codex rollout event type is unsupported''))"

definition record_selection :: "ustr \<Rightarrow> ustr \<times> ustr \<Rightarrow> rollout_state \<Rightarrow> exn + rollout_state" where
  "record_selection i selection s =
     (let prior = map_of (ro_selections s) i
      in if prior \<noteq> None \<and> prior \<noteq> Some selection
      then Inl (invalid_protocol ''Codex rollout contradicts selection metadata within a turn'')
      else if ro_distinct s \<noteq> [] \<and> last (ro_distinct s) = i then Inr s
      else if prior \<noteq> None
      then Inl (invalid_protocol ''Codex rollout has non-contiguous turn selection metadata'')
      else Inr (s\<lparr>ro_selections := ro_selections s @ [(i, selection)], ro_distinct := ro_distinct s @ [i]\<rparr>))"

definition on_turn_context :: "(ustr \<times> json) list \<Rightarrow> rollout_state \<Rightarrow> exn + rollout_state" where
  "on_turn_context payload s =
     rbind (bounded_fact ''rollout model'' (dict_get payload ''model'')) (\<lambda>model.
     rbind (bounded_fact ''rollout effort'' (dict_get payload ''effort'')) (\<lambda>effort.
     case (uuid_text (dict_get payload ''turn_id''), model, effort) of
       (Some i, Some m, Some e) \<Rightarrow>
         if \<not> is_model_id m \<or> \<not> is_effort e
         then Inl (invalid_protocol ''Codex rollout selection metadata is invalid'')
         else if ro_active s \<noteq> Some i
         then Inl (invalid_protocol ''Codex rollout selection is outside its turn lifecycle'')
         else record_selection i (m, e) (s\<lparr>ro_contexts := ro_contexts s + 1\<rparr>)
     | _ \<Rightarrow> Inl (invalid_protocol ''Codex rollout selection metadata is invalid'')))"

definition rollout_step :: "ustr \<Rightarrow> int \<Rightarrow> nat \<Rightarrow> bytes \<Rightarrow> rollout_state \<Rightarrow> exn + rollout_state" where
  "rollout_step thread max_line_bytes index raw s =
     rbind (rollout_line max_line_bytes raw) (\<lambda>line.
     rbind (rollout_item line) (\<lambda>(kind, payload).
     rbind (check_rollout_item index line kind payload) (\<lambda>_.
     if kind = U ''session_meta'' then on_session_meta thread index payload s
     else if kind = U ''event_msg'' then on_event_msg payload s
     else if kind = U ''turn_context'' then on_turn_context payload s
     else Inr s)))"

fun rollout_loop :: "ustr \<Rightarrow> int \<Rightarrow> nat \<Rightarrow> bytes list \<Rightarrow> rollout_state \<Rightarrow> exn + rollout_state" where
  "rollout_loop thread ml index [] s = Inr s"
| "rollout_loop thread ml index (l # ls) s = rbind (rollout_step thread ml index l s) (rollout_loop thread ml (Suc index) ls)"

section \<open>The selection of the last turn\<close>

definition check_previous_turns :: "ustr list \<Rightarrow> exn + unit" where
  "check_previous_turns previous =
     (if previous = [] \<or> \<not> distinct previous \<or> list_ex (\<lambda>i. uuid_text (JStr i) = None) previous
      then Inl (ValueError (U ''expected previous Codex turn IDs are invalid'')) else Inr ())"

definition preserves_prefix :: "rollout_prefix_witness \<Rightarrow> bytes \<Rightarrow> bool" where
  "preserves_prefix w data \<longleftrightarrow>
     (let n = nat (rw_byte_length w)
      in n < length data \<and> data ! (n - 1) = CHR 0x0A \<and> sha256 (take n data) = rw_sha256 w)"

definition check_advance :: "ustr list option \<Rightarrow> ustr list \<Rightarrow> exn + unit" where
  "check_advance previous ids =
     (case previous of
        None \<Rightarrow> if length ids \<noteq> 1
          then Inl (invalid_protocol ''Codex first-turn rollout has ambiguous turn history'') else Inr ()
      | Some ps \<Rightarrow> if length ids \<noteq> length ps + 1 \<or> butlast ids \<noteq> ps
          then Inl (invalid_protocol ''Codex rollout did not advance by exactly one author turn'') else Inr ())"

definition finish_rollout :: "bytes \<Rightarrow> ustr list option \<Rightarrow> rollout_state \<Rightarrow> exn + selection_evidence" where
  "finish_rollout data previous s =
     (let ids = ro_distinct s
      in if ro_metas s \<noteq> 1 then Inl (invalid_protocol ''Codex rollout omitted session metadata'')
      else if ro_active s \<noteq> None then Inl (invalid_protocol ''Codex rollout ended inside an author turn'')
      else if ids = [] then Inl (invalid_protocol ''Codex rollout omitted turn selection metadata'')
      else if ids \<noteq> ro_completed s
      then Inl (invalid_protocol ''Codex rollout lifecycle does not bind its turn selections'')
      else rbind (check_advance previous ids) (\<lambda>_.
      case map_of (ro_selections s) (last ids) of
        None \<Rightarrow> Inl (KeyError (last ids))
      | Some (m, e) \<Rightarrow>
          rbind (check_prefix_witness \<lparr>rw_byte_length = int (length data), rw_sha256 = sha256 data\<rparr>) (\<lambda>w.
          Inr \<lparr>se_turn_id = last ids, se_model = m, se_effort = e, se_turn_ids = ids, se_rollout_prefix = w\<rparr>)))"

definition parse_codex_rollout_selection ::
  "bytes \<Rightarrow> ustr \<Rightarrow> ustr list option \<Rightarrow> rollout_prefix_witness option \<Rightarrow> int \<Rightarrow> int \<Rightarrow> int \<Rightarrow>
   exn + selection_evidence" where
  "parse_codex_rollout_selection data thread previous witness max_bytes max_events max_line_bytes =
     rbind (validate_thread_id thread) (\<lambda>_.
     if (previous = None) \<noteq> (witness = None)
     then Inl (ValueError (U ''Codex resume requires history and prefix witnesses together''))
     else rbind (case previous of None \<Rightarrow> Inr () | Some ps \<Rightarrow> check_previous_turns ps) (\<lambda>_.
     rbind (positive ''max_bytes'' max_bytes) (\<lambda>_.
     rbind (positive ''max_events'' max_events) (\<lambda>_.
     rbind (positive ''max_line_bytes'' max_line_bytes) (\<lambda>_.
     if int (length data) > max_bytes
     then Inl (fail AGENT_OUTPUT_LIMIT ''Codex rollout exceeded its byte limit'')
     else if data = [] \<or> last data \<noteq> CHR 0x0A
     then Inl (invalid_protocol ''Codex rollout does not end at a durable line boundary'')
     else if (case witness of None \<Rightarrow> False | Some w \<Rightarrow> \<not> preserves_prefix w data)
     then Inl (invalid_protocol ''Codex rollout did not preserve its accepted byte prefix'')
     else (let ls = butlast (split_on (CHR 0x0A) data)
       in if ls = [] \<or> int (length ls) > max_events
       then Inl (invalid_protocol ''Codex rollout has an invalid event count'')
       else rbind (rollout_loop thread max_line_bytes 0 ls rollout_start) (finish_rollout data previous)))))))"

section \<open>What an accepted history consists of\<close>

type_synonym rollout_item = "ustr \<times> (ustr \<times> json) list"

definition turn_starts :: "rollout_item list \<Rightarrow> ustr list" where
  "turn_starts its = concat (map (\<lambda>(kind, payload).
     if kind = U ''event_msg'' \<and> dict_get payload ''type'' = JStr (U ''task_started'')
     then (case uuid_text (dict_get payload ''turn_id'') of None \<Rightarrow> [] | Some i \<Rightarrow> [i]) else []) its)"

definition turn_ends :: "rollout_item list \<Rightarrow> ustr list" where
  "turn_ends its = concat (map (\<lambda>(kind, payload).
     if kind = U ''event_msg'' \<and> dict_get payload ''type'' = JStr (U ''task_complete'')
     then (case uuid_text (dict_get payload ''turn_id'') of None \<Rightarrow> [] | Some i \<Rightarrow> [i]) else []) its)"

text \<open>The selections the history states: a turn with a model and an effort.\<close>

definition stated_selections :: "rollout_item list \<Rightarrow> (ustr \<times> ustr \<times> ustr) set" where
  "stated_selections its = {(i, m, e). \<exists>payload. (U ''turn_context'', payload) \<in> set its \<and>
     uuid_text (dict_get payload ''turn_id'') = Some i \<and> dict_get payload ''model'' = JStr m \<and>
     dict_get payload ''effort'' = JStr e}"

definition reads_item :: "int \<Rightarrow> bytes \<Rightarrow> rollout_item \<Rightarrow> bool" where
  "reads_item ml l it \<longleftrightarrow> (\<exists>line. rollout_line ml l = Inr line \<and> rollout_item line = Inr it)"

lemma turn_append:
  "turn_starts (its @ its') = turn_starts its @ turn_starts its'" "turn_ends (its @ its') = turn_ends its @ turn_ends its'"
  "stated_selections (its @ its') = stated_selections its \<union> stated_selections its'"
  by (auto simp: turn_starts_def turn_ends_def stated_selections_def)

lemma turn_Nil [simp]: "turn_starts [] = []" "turn_ends [] = []" "stated_selections [] = {}"
  by (auto simp: turn_starts_def turn_ends_def stated_selections_def)

text \<open>What one item does to the state.\<close>

definition marks_turn :: "rollout_item \<Rightarrow> rollout_state \<Rightarrow> rollout_state \<Rightarrow> bool" where
  "marks_turn it s s' \<longleftrightarrow>
     (turn_starts [it] = [] \<and> turn_ends [it] = [] \<and> ro_started s' = ro_started s \<and>
        ro_completed s' = ro_completed s \<and> ro_active s' = ro_active s) \<or>
     (\<exists>i. turn_starts [it] = [i] \<and> turn_ends [it] = [] \<and> ro_active s = None \<and> i \<notin> set (ro_started s) \<and>
        ro_started s' = ro_started s @ [i] \<and> ro_completed s' = ro_completed s \<and> ro_active s' = Some i) \<or>
     (\<exists>i. turn_starts [it] = [] \<and> turn_ends [it] = [i] \<and> ro_active s = Some i \<and>
        ro_started s' = ro_started s \<and> ro_completed s' = ro_completed s @ [i] \<and> ro_active s' = None)"

definition states_selection :: "rollout_item \<Rightarrow> rollout_state \<Rightarrow> rollout_state \<Rightarrow> bool" where
  "states_selection it s s' \<longleftrightarrow>
     (stated_selections [it] = {} \<and> ro_selections s' = ro_selections s \<and> ro_distinct s' = ro_distinct s) \<or>
     (\<exists>i m e. stated_selections [it] = {(i, m, e)} \<and> ro_active s = Some i \<and>
        (if map_of (ro_selections s) i = None
         then ro_selections s' = ro_selections s @ [(i, (m, e))] \<and> ro_distinct s' = ro_distinct s @ [i]
         else map_of (ro_selections s) i = Some (m, e) \<and> ro_selections s' = ro_selections s \<and>
           ro_distinct s' = ro_distinct s))"

lemma lifecycle_turn_id_Inr: "lifecycle_turn_id p c = Inr i \<Longrightarrow> uuid_text (dict_get p ''turn_id'') = Some i"
  by (auto simp: lifecycle_turn_id_def Let_def canonical_rollout_turn_id_def rbind_Inr_iff split: if_splits option.splits)

lemma other_kind:
  "kind \<noteq> U ''event_msg'' \<Longrightarrow> turn_starts [(kind, p)] = [] \<and> turn_ends [(kind, p)] = []"
  "kind \<noteq> U ''turn_context'' \<Longrightarrow> stated_selections [(kind, p)] = {}"
  by (auto simp: turn_starts_def turn_ends_def stated_selections_def)

lemma on_event_msg_Inr:
  assumes "on_event_msg p s = Inr s'"
  shows "marks_turn (U ''event_msg'', p) s s' \<and> ro_selections s' = ro_selections s \<and> ro_distinct s' = ro_distinct s"
proof (cases "dict_get p ''type''")
  case (JStr kind)
  consider "kind = U ''task_started''" | "kind = U ''task_complete''" | "kind \<noteq> U ''task_started''" "kind \<noteq> U ''task_complete''"
    by blast
  then show ?thesis
  proof cases
    case 1
    then obtain i where "lifecycle_turn_id p False = Inr i" "ro_active s = None" "i \<notin> set (ro_started s)"
      and s': "s' = s\<lparr>ro_active := Some i, ro_contexts := 0, ro_started := ro_started s @ [i]\<rparr>"
      using assms JStr by (auto simp: on_event_msg_def rbind_Inr_iff split: if_splits)
    with 1 JStr lifecycle_turn_id_Inr show ?thesis
      by (simp add: marks_turn_def turn_starts_def turn_ends_def)
  next
    case 2
    then obtain i where "lifecycle_turn_id p True = Inr i" "ro_active s = Some i"
      and s': "s' = s\<lparr>ro_completed := ro_completed s @ [i], ro_active := None, ro_contexts := 0\<rparr>"
      using assms JStr by (auto simp: on_event_msg_def rbind_Inr_iff split: if_splits)
    with 2 JStr lifecycle_turn_id_Inr show ?thesis
      by (simp add: marks_turn_def turn_starts_def turn_ends_def)
  next
    case 3
    then show ?thesis using assms JStr
      by (auto simp: on_event_msg_def marks_turn_def turn_starts_def turn_ends_def split: if_splits)
  qed
qed (use assms in \<open>simp_all add: on_event_msg_def\<close>)

lemma on_turn_context_Inr:
  assumes "on_turn_context p s = Inr s'" and "ro_distinct s = map fst (ro_selections s)"
  shows "states_selection (U ''turn_context'', p) s s' \<and> ro_started s' = ro_started s \<and>
    ro_completed s' = ro_completed s \<and> ro_active s' = ro_active s"
proof -
  obtain model effort where f: "bounded_fact ''rollout model'' (dict_get p ''model'') = Inr model"
    "bounded_fact ''rollout effort'' (dict_get p ''effort'') = Inr effort"
    using assms(1) unfolding on_turn_context_def rbind_Inr_iff by blast
  with assms(1) obtain i m e where v: "uuid_text (dict_get p ''turn_id'') = Some i" "model = Some m" "effort = Some e"
    unfolding on_turn_context_def by (cases "uuid_text (dict_get p ''turn_id'')"; cases model; cases effort) auto
  with assms(1) f have a: "ro_active s = Some i"
    and s': "record_selection i (m, e) (s\<lparr>ro_contexts := ro_contexts s + 1\<rparr>) = Inr s'"
    unfolding on_turn_context_def by (simp_all split: if_splits)
  have "dict_get p ''model'' = JStr m" "dict_get p ''effort'' = JStr e"
    using bounded_fact_Inr [OF f(1)] bounded_fact_Inr [OF f(2)] v by auto
  with v have st: "stated_selections [(U ''turn_context'', p)] = {(i, m, e)}"
    by (auto simp: stated_selections_def)
  have "map_of (ro_selections s) i \<noteq> None" if "ro_distinct s \<noteq> []" "last (ro_distinct s) = i"
    using that last_in_set [OF that(1)] assms(2) by (auto simp: map_of_eq_None_iff)
  with s' st a show ?thesis
    by (auto simp: states_selection_def record_selection_def Let_def split: if_splits)
qed

lemma rollout_step_Inr:
  assumes "rollout_step thread ml n l s = Inr s'" and "ro_distinct s = map fst (ro_selections s)"
  shows "\<exists>it. reads_item ml l it \<and> marks_turn it s s' \<and> states_selection it s s'"
proof -
  obtain line kind payload where l: "rollout_line ml l = Inr line" "rollout_item line = Inr (kind, payload)"
    and step: "(if kind = U ''session_meta'' then on_session_meta thread n payload s
     else if kind = U ''event_msg'' then on_event_msg payload s
     else if kind = U ''turn_context'' then on_turn_context payload s
     else Inr s) = Inr s'"
    using assms(1) by (auto simp: rollout_step_def rbind_Inr_iff)
  consider "kind = U ''event_msg''" | "kind = U ''turn_context''" | "kind \<noteq> U ''event_msg''" "kind \<noteq> U ''turn_context''"
    by blast
  then have "marks_turn (kind, payload) s s' \<and> states_selection (kind, payload) s s'"
  proof cases
    case 1
    with step have "on_event_msg payload s = Inr s'" by simp
    from on_event_msg_Inr [OF this] 1 other_kind(2) [of kind payload] show ?thesis
      by (simp add: states_selection_def)
  next
    case 2
    with step have "on_turn_context payload s = Inr s'" by simp
    from on_turn_context_Inr [OF this assms(2)] 2 other_kind(1) [of kind payload] show ?thesis
      by (simp add: marks_turn_def)
  next
    case 3
    then have "ro_started s' = ro_started s \<and> ro_completed s' = ro_completed s \<and> ro_active s' = ro_active s \<and>
      ro_selections s' = ro_selections s \<and> ro_distinct s' = ro_distinct s"
      using step by (auto simp: on_session_meta_def split: if_splits)
    with 3 other_kind [of kind payload] show ?thesis by (simp add: marks_turn_def states_selection_def)
  qed
  with l show ?thesis unfolding reads_item_def by blast
qed

definition history_ok :: "rollout_item list \<Rightarrow> rollout_state \<Rightarrow> bool" where
  "history_ok its s \<longleftrightarrow>
     turn_starts its = ro_completed s @ (case ro_active s of None \<Rightarrow> [] | Some i \<Rightarrow> [i]) \<and>
     turn_ends its = ro_completed s \<and> ro_started s = turn_starts its \<and> distinct (turn_starts its) \<and>
     ro_distinct s = map fst (ro_selections s) \<and> distinct (ro_distinct s) \<and>
     stated_selections its = set (ro_selections s)"

lemma history_ok_start: "history_ok [] rollout_start"
  by (simp add: history_ok_def rollout_start_def)

lemma history_ok_step:
  assumes "history_ok its s" and "marks_turn it s s'" and "states_selection it s s'"
  shows "history_ok (its @ [it]) s'"
proof -
  note H = assms(1) [unfolded history_ok_def]
  have "turn_starts (its @ [it]) = ro_completed s' @ (case ro_active s' of None \<Rightarrow> [] | Some i \<Rightarrow> [i]) \<and>
     turn_ends (its @ [it]) = ro_completed s' \<and> ro_started s' = turn_starts (its @ [it]) \<and> distinct (turn_starts (its @ [it]))"
    using H assms(2) unfolding turn_append marks_turn_def by auto
  moreover have "ro_distinct s' = map fst (ro_selections s') \<and> distinct (ro_distinct s') \<and>
     stated_selections (its @ [it]) = set (ro_selections s')"
    using H assms(3) unfolding turn_append states_selection_def
    by (auto simp: map_of_eq_None_iff dest: map_of_SomeD split: if_splits)
  ultimately show ?thesis unfolding history_ok_def by blast
qed

text \<open>The items of the lines the loop walked over, and that a selection stands within its turn.\<close>

lemma rollout_loop_ok:
  "history_ok its s \<Longrightarrow> rollout_loop thread ml n ls s = Inr s' \<Longrightarrow>
     \<exists>new. list_all2 (reads_item ml) ls new \<and> history_ok (its @ new) s' \<and>
       fst ` stated_selections new \<subseteq> set_option (ro_active s) \<union> set (turn_starts new)"
proof (induction thread ml n ls s arbitrary: its rule: rollout_loop.induct)
  case (1 thread ml n s)
  then show ?case by simp
next
  case (2 thread ml n l ls s)
  obtain s1 where s1: "rollout_step thread ml n l s = Inr s1" and rest: "rollout_loop thread ml (Suc n) ls s1 = Inr s'"
    using "2"(3) by (auto simp: rbind_Inr_iff)
  obtain it where it: "reads_item ml l it" "marks_turn it s s1" "states_selection it s s1"
    using rollout_step_Inr [OF s1] "2"(2) unfolding history_ok_def by blast
  obtain new where new: "list_all2 (reads_item ml) ls new" "history_ok ((its @ [it]) @ new) s'"
    "fst ` stated_selections new \<subseteq> set_option (ro_active s1) \<union> set (turn_starts new)"
    using "2"(1) [OF history_ok_step [OF "2"(2) it(2,3)] rest] by blast
  have "fst ` stated_selections [it] \<subseteq> set_option (ro_active s)"
    using it(3) by (auto simp: states_selection_def)
  moreover have "set_option (ro_active s1) \<subseteq> set_option (ro_active s) \<union> set (turn_starts [it])"
    using it(2) by (auto simp: marks_turn_def)
  ultimately have "fst ` stated_selections (it # new) \<subseteq> set_option (ro_active s) \<union> set (turn_starts (it # new))"
    using new(3) turn_append(1,3) [of "[it]" new] by auto
  with it(1) new(1,2) show ?case by (intro exI [of _ "it # new"]) simp
qed

lemma rollout_loop_append:
  "rollout_loop thread ml n (ls @ ls') s =
     rbind (rollout_loop thread ml n ls s) (rollout_loop thread ml (n + length ls) ls')"
proof (induction ls arbitrary: n s)
  case (Cons l ls)
  then show ?case by (cases "rollout_step thread ml n l s") simp_all
qed simp

text \<open>The evidence taken from a history: its turns are distinct, each was started and completed, in
  order, and the evidence names the last of them with the only selection stated for it.\<close>

definition evidence_for :: "rollout_item list \<Rightarrow> selection_evidence \<Rightarrow> bool" where
  "evidence_for its ev \<longleftrightarrow>
     se_turn_ids ev \<noteq> [] \<and> last (se_turn_ids ev) = se_turn_id ev \<and> distinct (se_turn_ids ev) \<and>
     turn_starts its = se_turn_ids ev \<and> turn_ends its = se_turn_ids ev \<and>
     fst ` stated_selections its = set (se_turn_ids ev) \<and>
     (\<forall>m e. (se_turn_id ev, m, e) \<in> stated_selections its \<longleftrightarrow> m = se_model ev \<and> e = se_effort ev)"

abbreviation rollout_lines :: "bytes \<Rightarrow> bytes list" where
  "rollout_lines data \<equiv> butlast (split_on (CHR 0x0A) data)"

lemma finish_rollout_Inr:
  assumes "finish_rollout data previous s = Inr ev" and "history_ok its s"
  shows "evidence_for its ev" and "ro_active s = None"
    and "se_rollout_prefix ev = \<lparr>rw_byte_length = int (length data), rw_sha256 = sha256 data\<rparr>"
    and "case previous of None \<Rightarrow> se_turn_ids ev = [se_turn_id ev] | Some ps \<Rightarrow> se_turn_ids ev = ps @ [se_turn_id ev]"
proof -
  have ids: "ro_distinct s \<noteq> []" "ro_distinct s = ro_completed s" and a: "ro_active s = None"
    and prev: "check_advance previous (ro_distinct s) = Inr ()"
    using assms(1) unfolding finish_rollout_def Let_def by (simp_all add: rbind_Inr_iff split: if_splits)
  have fin: "(case map_of (ro_selections s) (last (ro_distinct s)) of
        None \<Rightarrow> Inl (KeyError (last (ro_distinct s)))
      | Some (m, e) \<Rightarrow>
          rbind (check_prefix_witness \<lparr>rw_byte_length = int (length data), rw_sha256 = sha256 data\<rparr>) (\<lambda>w.
          Inr \<lparr>se_turn_id = last (ro_distinct s), se_model = m, se_effort = e, se_turn_ids = ro_distinct s,
            se_rollout_prefix = w\<rparr>)) = Inr ev"
    using assms(1) prev unfolding finish_rollout_def Let_def by (simp split: if_splits)
  then obtain m e where me: "map_of (ro_selections s) (last (ro_distinct s)) = Some (m, e)"
    by (auto split: option.splits)
  have ev: "ev = \<lparr>se_turn_id = last (ro_distinct s), se_model = m, se_effort = e, se_turn_ids = ro_distinct s,
      se_rollout_prefix = \<lparr>rw_byte_length = int (length data), rw_sha256 = sha256 data\<rparr>\<rparr>"
    using fin unfolding me by (simp add: rbind_Inr_iff check_prefix_witness_def split: if_splits)
  note H = assms(2) [unfolded history_ok_def]
  have u: "(last (ro_distinct s), m', e') \<in> set (ro_selections s) \<longleftrightarrow> m' = m \<and> e' = e" for m' e'
  proof -
    have "distinct (map fst (ro_selections s))" using H by metis
    from map_of_eq_Some_iff [OF this, of "last (ro_distinct s)" "(m', e')"] me show ?thesis by auto
  qed
  have sel: "stated_selections its = set (ro_selections s)" and d: "distinct (ro_distinct s)"
    and f: "set (ro_distinct s) = fst ` set (ro_selections s)"
    using H by (metis, metis, metis list.set_map)
  have "turn_starts its = ro_distinct s \<and> turn_ends its = ro_distinct s"
    using H a ids(2) by (metis append_Nil2 option.case(1))
  with sel d f u ids(1) show "evidence_for its ev" by (simp add: evidence_for_def ev)
  show "ro_active s = None" by (rule a)
  show "se_rollout_prefix ev = \<lparr>rw_byte_length = int (length data), rw_sha256 = sha256 data\<rparr>"
    by (simp add: ev)
  show "case previous of None \<Rightarrow> se_turn_ids ev = [se_turn_id ev] | Some ps \<Rightarrow> se_turn_ids ev = ps @ [se_turn_id ev]"
    using prev ids(1) append_butlast_last_id [OF ids(1)]
    by (cases previous; cases "ro_distinct s") (auto simp: ev check_advance_def split: if_splits)
qed

lemma parse_rollout_parts:
  assumes "parse_codex_rollout_selection data thread previous witness mb me ml = Inr ev"
  obtains s where "rollout_loop thread ml 0 (rollout_lines data) rollout_start = Inr s"
    and "finish_rollout data previous s = Inr ev" and "data \<noteq> []" and "last data = CHR 0x0A"
    and "\<forall>w. witness = Some w \<longrightarrow> preserves_prefix w data"
proof -
  have *: "\<exists>s. rollout_loop thread ml 0 (rollout_lines data) rollout_start = Inr s \<and>
    finish_rollout data previous s = Inr ev \<and> data \<noteq> [] \<and> last data = CHR 0x0A \<and>
    (\<forall>w. witness = Some w \<longrightarrow> preserves_prefix w data)"
    using assms by (auto simp: parse_codex_rollout_selection_def rbind_Inr_iff Let_def split: if_splits option.splits)
  show ?thesis using * that by blast
qed

lemma rollout_lines_append:
  assumes "a \<noteq> []" and "last a = CHR 0x0A"
  shows "rollout_lines (a @ b) = rollout_lines a @ rollout_lines b"
proof -
  obtain a' where a: "a = a' @ [CHR 0x0A]" using assms append_butlast_last_id by metis
  show ?thesis unfolding a append_assoc append_Cons append_Nil split_on_suffix
    by (simp add: butlast_append)
qed

lemma selection_evidence_sound:
  assumes "parse_codex_rollout_selection data thread previous witness mb me ml = Inr ev"
  shows "\<exists>its. list_all2 (reads_item ml) (rollout_lines data) its \<and> evidence_for its ev \<and>
    se_rollout_prefix ev = \<lparr>rw_byte_length = int (length data), rw_sha256 = sha256 data\<rparr> \<and>
    se_turn_ids ev = (case previous of None \<Rightarrow> [] | Some ps \<Rightarrow> ps) @ [se_turn_id ev]"
proof -
  obtain s where loop: "rollout_loop thread ml 0 (rollout_lines data) rollout_start = Inr s"
    and fin: "finish_rollout data previous s = Inr ev"
    using parse_rollout_parts [OF assms] .
  obtain its where its: "list_all2 (reads_item ml) (rollout_lines data) its" "history_ok its s"
    using rollout_loop_ok [OF history_ok_start loop] by auto
  note f = finish_rollout_Inr [OF fin its(2)]
  have "se_turn_ids ev = (case previous of None \<Rightarrow> [] | Some ps \<Rightarrow> ps) @ [se_turn_id ev]"
    using f(4) by (cases previous) auto
  with its(1) f(1,3) show ?thesis by blast
qed

text \<open>A resumed history is the accepted one with exactly one turn appended, and the selection taken
  from it is the only one stated in the appended part.\<close>

definition appends_one_turn :: "int \<Rightarrow> bytes \<Rightarrow> ustr \<Rightarrow> ustr \<Rightarrow> ustr \<Rightarrow> bool" where
  "appends_one_turn ml new i m e \<longleftrightarrow>
     (\<exists>its. list_all2 (reads_item ml) (rollout_lines new) its \<and> turn_starts its = [i] \<and> turn_ends its = [i] \<and>
        stated_selections its = {(i, m, e)})"

lemma reads_item_unique: "right_unique (list_all2 (reads_item ml))"
  by (rule list.right_unique_rel) (auto simp: right_unique_def reads_item_def)

lemma resumed_history:
  assumes "parse_codex_rollout_selection data0 thread0 previous0 witness0 mb0 me0 ml = Inr ev0"
    and "parse_codex_rollout_selection data thread (Some (se_turn_ids ev0)) (Some (se_rollout_prefix ev0)) mb me ml = Inr ev"
  shows "(\<exists>new. data = data0 @ new \<and> appends_one_turn ml new (se_turn_id ev) (se_model ev) (se_effort ev)) \<or>
    (\<exists>x. prefix x data \<and> x \<noteq> data0 \<and> sha256 x = sha256 data0)"
proof -
  obtain s0 where "data0 \<noteq> []" and end0: "last data0 = CHR 0x0A"
    and loop0: "rollout_loop thread0 ml 0 (rollout_lines data0) rollout_start = Inr s0"
    and fin0: "finish_rollout data0 previous0 s0 = Inr ev0"
    using parse_rollout_parts [OF assms(1)] .
  obtain s where loop: "rollout_loop thread ml 0 (rollout_lines data) rollout_start = Inr s"
    and fin: "finish_rollout data (Some (se_turn_ids ev0)) s = Inr ev"
    and w: "preserves_prefix (se_rollout_prefix ev0) data"
    using parse_rollout_parts [OF assms(2)] by blast
  obtain its0 where its0: "list_all2 (reads_item ml) (rollout_lines data0) its0" "history_ok its0 s0"
    using rollout_loop_ok [OF history_ok_start loop0] by auto
  have sha: "sha256 (take (length data0) data) = sha256 data0"
    using w finish_rollout_Inr(3) [OF fin0 its0(2)] by (simp add: preserves_prefix_def Let_def)
  show ?thesis
  proof (cases "take (length data0) data = data0")
    case False
    with sha show ?thesis using take_is_prefix by blast
  next
    case True
    then obtain new where new: "data = data0 @ new" by (metis append_take_drop_id)
    have "rollout_lines data = rollout_lines data0 @ rollout_lines new"
      unfolding new by (rule rollout_lines_append [OF \<open>data0 \<noteq> []\<close> end0])
    then obtain s1 where s1: "rollout_loop thread ml 0 (rollout_lines data0) rollout_start = Inr s1"
      and rest: "rollout_loop thread ml (length (rollout_lines data0)) (rollout_lines new) s1 = Inr s"
      using loop by (auto simp: rollout_loop_append rbind_Inr_iff)
    obtain its1 where its1: "list_all2 (reads_item ml) (rollout_lines data0) its1" "history_ok its1 s1"
      using rollout_loop_ok [OF history_ok_start s1] by auto
    have same: "its1 = its0"
      using reads_item_unique its0(1) its1(1) by (metis right_uniqueD)
    obtain its where its: "list_all2 (reads_item ml) (rollout_lines new) its" "history_ok (its0 @ its) s"
      "fst ` stated_selections its \<subseteq> set_option (ro_active s1) \<union> set (turn_starts its)"
      using rollout_loop_ok [OF its1(2) rest] same by auto
    note e0 = finish_rollout_Inr [OF fin0 its0(2)] and e = finish_rollout_Inr [OF fin its(2)]
    have ids: "se_turn_ids ev = se_turn_ids ev0 @ [se_turn_id ev]" using e(4) by simp
    have st: "turn_starts its = [se_turn_id ev]" and en: "turn_ends its = [se_turn_id ev]"
      using e(1) e0(1) ids by (auto simp: evidence_for_def turn_append)
    have none: "ro_active s1 = None"
      using its1(2) e0(1) same by (auto simp: history_ok_def evidence_for_def split: option.splits)
    have new_id: "se_turn_id ev \<notin> set (se_turn_ids ev0)"
      using e(1) ids by (simp add: evidence_for_def)
    have "(i, m, f) \<in> stated_selections its \<longleftrightarrow> i = se_turn_id ev \<and> m = se_model ev \<and> f = se_effort ev" for i m f
    proof
      assume "(i, m, f) \<in> stated_selections its"
      moreover from this have "i = se_turn_id ev" using its(3) none st by force
      ultimately show "i = se_turn_id ev \<and> m = se_model ev \<and> f = se_effort ev"
        using e(1) by (auto simp: evidence_for_def turn_append)
    next
      assume *: "i = se_turn_id ev \<and> m = se_model ev \<and> f = se_effort ev"
      then have "(i, m, f) \<in> stated_selections (its0 @ its)" using e(1) by (simp add: evidence_for_def)
      moreover have "(i, m, f) \<notin> stated_selections its0"
        using e0(1) new_id * by (force simp: evidence_for_def)
      ultimately show "(i, m, f) \<in> stated_selections its" by (simp add: turn_append)
    qed
    then have "stated_selections its = {(se_turn_id ev, se_model ev, se_effort ev)}" by auto
    with its(1) st en new show ?thesis unfolding appends_one_turn_def by blast
  qed
qed

end
