(* ===== verification/CodexClient.thy ===== *)
theory CodexClient
  imports CodexResult CodexRollout Config Effects
begin

text \<open>
  The control side of \<open>src/src/agent_loop/codex_client.py\<close>: the sanitized configuration of the
  author with its deny patterns, the command lines and the environment of a turn, the client that
  runs a turn through its transport, and the binding of a turn to its rollout.

  A transport is any operation on a world. Reading the rollout file below \<open>CODEX_HOME\<close> (the walk over
  private directories) is an operation of the host and a parameter; so is the parser of TOML that
  reads the rendered configuration again, which is left out.
\<close>

definition AUTHOR_CWD :: string where "AUTHOR_CWD = ''/runtime/author-cwd''"
definition AUTHOR_WORKSPACE :: string where "AUTHOR_WORKSPACE = ''/workspace''"
definition SANDBOX_CODEX_HOME :: string where "SANDBOX_CODEX_HOME = ''/control/codex-home''"
definition AUTHOR_PERMISSION_PROFILE :: string where "AUTHOR_PERMISSION_PROFILE = ''agent_loop_author''"

definition FIXED_WORKSPACE_DENIES :: "string list" where
  "FIXED_WORKSPACE_DENIES =
     [''.git/**'', ''**/.git'', ''**/.git/**'', ''.codex/**'', ''AGENTS.md'', ''AGENTS.override.md'',
      ''**/AGENTS.md'', ''**/AGENTS.override.md'']"

definition FIXED_GIT_DENIES :: "string list" where
  "FIXED_GIT_DENIES = [''.git/**'', ''**/.git'', ''**/.git/**'']"

definition RESERVED_WORKSPACE_MOUNT_TARGETS :: "string list" where
  "RESERVED_WORKSPACE_MOUNT_TARGETS = [''.git'', ''.codex'']"

definition DISABLED_CODEX_FEATURES :: "string list" where
  "DISABLED_CODEX_FEATURES =
     [''apps'', ''goals'', ''hooks'', ''memories'', ''multi_agent'', ''personality'', ''remote_plugin'',
      ''shell_snapshot'', ''skill_mcp_dependency_install'', ''tool_call_mcp_elicitation'']"

definition DISABLED_SYSTEM_SKILLS :: "string list" where
  "DISABLED_SYSTEM_SKILLS = [''imagegen'', ''openai-docs'', ''plugin-creator'', ''skill-creator'', ''skill-installer'']"

section \<open>Patterns and paths\<close>

text \<open>A text between double quotes.\<close>

definition dq :: "string \<Rightarrow> string" where
  "dq s = [CHR 0x22] @ s @ [CHR 0x22]"

definition toml_quoted :: "ustr \<Rightarrow> exn + ustr" where
  "toml_quoted value =
     (if 0 \<in> set value then Inl (ValueError (U ''TOML values must be NUL-free strings''))
      else Inr (U (dump_str value)))"

definition has_glob :: "ustr \<Rightarrow> bool" where
  "has_glob p \<longleftrightarrow> list_ex (\<lambda>c. c \<in> set p) (U ''*?['')"

definition validate_workspace_pattern :: "ustr \<Rightarrow> exn + unit" where
  "validate_workspace_pattern p =
     (if p = [] \<or> 0 \<in> set p
      then Inl (ValueError (U ''workspace deny patterns must be non-empty NUL-free strings''))
      else if prefix (U ''/'') p \<or> 92 \<in> set p
      then Inl (ValueError (U ''workspace deny patterns must be relative POSIX patterns''))
      else if list_ex (\<lambda>c. c \<in> {[], U ''.'', U ''..''}) (split_on 47 p)
      then Inl (ValueError (U ''workspace deny patterns contain an ambiguous component''))
      else Inr ())"

text \<open>\<open>str(PurePosixPath(s))\<close> of an absolute path.\<close>

definition posix_text :: "ustr \<Rightarrow> ustr" where
  "posix_text s = (case posix_parts s of [] \<Rightarrow> U ''.'' | r # ps \<Rightarrow> if prefix (U ''/'') r then r @ join_with [47] ps
     else join_with [47] (r # ps))"

definition normalized_absolute :: "ustr \<Rightarrow> bool" where
  "normalized_absolute s \<longleftrightarrow> prefix (U ''/'') s \<and> posix_text s \<noteq> U ''/'' \<and> posix_text s = s \<and> U ''..'' \<notin> set (posix_parts s)"

definition validate_host_deny :: "ustr \<Rightarrow> exn + unit" where
  "validate_host_deny p =
     (if 0 \<in> set p then Inl (ValueError (U ''host denies must be NUL-free strings''))
      else if \<not> normalized_absolute p
      then Inl (ValueError (U ''host denies must be normalized non-root absolute paths''))
      else Inr ())"

definition check_normalized_absolute :: "string \<Rightarrow> ustr \<Rightarrow> exn + ustr" where
  "check_normalized_absolute name value =
     (if 0 \<in> set value then Inl (ValueError (U (name @ '' must be an absolute NUL-free path'')))
      else if \<not> normalized_absolute value
      then Inl (ValueError (U (name @ '' must be a normalized non-root absolute path'')))
      else Inr value)"

definition utf8_bytes :: "ustr \<Rightarrow> exn + bytes" where
  "utf8_bytes s = (case utf8_encode s of None \<Rightarrow> Inl UnicodeEncodeError | Some b \<Rightarrow> Inr b)"

definition deny_blocks_opt_in :: "ustr \<Rightarrow> ustr \<Rightarrow> exn + bool" where
  "deny_blocks_opt_in pattern path =
     rbind (utf8_bytes pattern) (\<lambda>pattern_bytes.
     rbind (utf8_bytes path) (\<lambda>path_bytes.
     rbind (path_matches_pattern path_bytes pattern_bytes) (\<lambda>matched.
     Inr (matched \<or> \<not> has_glob pattern \<and>
       prefix (rev (dropWhile (\<lambda>c. c = 47) (rev pattern)) @ U ''/'') path))))"

text \<open>\<open>any(...)\<close> stops at the first path that the pattern blocks.\<close>

fun blocks_any :: "ustr \<Rightarrow> ustr list \<Rightarrow> exn + bool" where
  "blocks_any pattern [] = Inr False"
| "blocks_any pattern (p # ps) =
     rbind (deny_blocks_opt_in pattern p) (\<lambda>b. if b then Inr True else blocks_any pattern ps)"

section \<open>The sanitized configuration\<close>

record codex_config =
  cc_model :: "ustr option"
  cc_effort :: "ustr option"
  cc_workspace_denies :: "ustr list"
  cc_workspace_opt_ins :: "ustr list"
  cc_host_denies :: "ustr list"

definition check_codex_opt_in :: "ustr \<Rightarrow> exn + unit" where
  "check_codex_opt_in path =
     rbind (validate_workspace_pattern path) (\<lambda>_.
     if has_glob path then Inl (ValueError (U ''Codex protected opt-ins must name exact paths''))
     else if path = U ''.git'' \<or> prefix (U ''.git/'') path \<or> contains (U ''/.git/'') path
     then Inl (ValueError (U ''Codex protected opt-ins cannot expose a Git control path''))
     else Inr ())"

definition check_codex_config :: "codex_config \<Rightarrow> exn + codex_config" where
  "check_codex_config c =
     (if \<not> pred_option is_model_id (cc_model c)
      then Inl (ValueError (U ''Codex model must be an explicit safe identifier''))
      else if \<not> pred_option is_effort (cc_effort c)
      then Inl (ValueError (U ''Codex effort must be an explicit safe identifier''))
      else rbind (rmap validate_workspace_pattern (cc_workspace_denies c)) (\<lambda>_.
      rbind (rmap check_codex_opt_in (cc_workspace_opt_ins c)) (\<lambda>_.
      rbind (rmap validate_host_deny (cc_host_denies c)) (\<lambda>_.
      if \<not> distinct (cc_workspace_denies c)
      then Inl (ValueError (U ''workspace deny patterns contain duplicates''))
      else if \<not> distinct (cc_workspace_opt_ins c)
      then Inl (ValueError (U ''workspace protected opt-ins contain duplicates''))
      else if \<not> distinct (cc_host_denies c)
      then Inl (ValueError (U ''host deny paths contain duplicates''))
      else Inr c))))"

text \<open>The workspace patterns that the rendered profile denies.\<close>

fun keep_denies :: "ustr list \<Rightarrow> ustr list \<Rightarrow> exn + ustr list" where
  "keep_denies opt_ins [] = Inr []"
| "keep_denies opt_ins (p # ps) =
     rbind (if p \<in> set (map U FIXED_GIT_DENIES) then Inr True
            else rbind (blocks_any p opt_ins) (\<lambda>b. Inr (\<not> b))) (\<lambda>keep.
     rbind (keep_denies opt_ins ps) (\<lambda>rest. Inr (if keep then p # rest else rest)))"

definition workspace_denies :: "codex_config \<Rightarrow> exn + ustr list" where
  "workspace_denies c =
     keep_denies (cc_workspace_opt_ins c)
       (filter (\<lambda>p. p \<notin> set (map U RESERVED_WORKSPACE_MOUNT_TARGETS))
          (dedup (map U FIXED_WORKSPACE_DENIES @ cc_workspace_denies c)))"

definition deny_line :: "ustr \<Rightarrow> exn + ustr" where
  "deny_line p = rbind (toml_quoted p) (\<lambda>q. Inr (q @ U ('' = '' @ dq ''deny'')))"

definition skill_lines :: "ustr \<Rightarrow> string \<Rightarrow> exn + ustr list" where
  "skill_lines codex_home skill =
     rbind (toml_quoted (codex_home @ U (''/skills/.system/'' @ skill @ ''/SKILL.md''))) (\<lambda>q.
     Inr [U ''[[skills.config]]'', U ''path = '' @ q, U ''enabled = false'', []])"

definition optional_line :: "string \<Rightarrow> ustr option \<Rightarrow> exn + ustr list" where
  "optional_line key v =
     (case v of None \<Rightarrow> Inr [] | Some s \<Rightarrow> rbind (toml_quoted s) (\<lambda>q. Inr [U (key @ '' = '') @ q]))"

text \<open>The lines that do not depend on the configuration.\<close>

definition policy_lines :: "ustr list" where
  "policy_lines =
     [U (''default_permissions = '' @ dq AUTHOR_PERMISSION_PROFILE), U (''approval_policy = '' @ dq ''never''),
      U (''web_search = '' @ dq ''disabled''), U (''cli_auth_credentials_store = '' @ dq ''file''),
      U ''include_apps_instructions = false'', U ''include_collaboration_mode_instructions = false'', [],
      U ''[features]''] @ map (\<lambda>f. U (f @ '' = false'')) DISABLED_CODEX_FEATURES @ [[]]"

definition profile_lines :: "ustr list" where
  "profile_lines =
     [U (''[projects.'' @ dq AUTHOR_WORKSPACE @ '']''), U (''trust_level = '' @ dq ''untrusted''), [],
      U ''[shell_environment_policy]'', U (''inherit = '' @ dq ''none''),
      U (''set = { PATH = '' @ dq ''/usr/local/bin:/usr/bin:/bin'' @ '', HOME = '' @ dq ''/runtime/home'' @
         '', TMPDIR = '' @ dq ''/runtime/tmp'' @ '', LANG = '' @ dq ''C.UTF-8'' @ '' }''), [],
      U (''[permissions.'' @ AUTHOR_PERMISSION_PROFILE @ '']''),
      U (''description = '' @ dq ''Bounded author workspace with no Git control plane''),
      U (''extends = '' @ dq '':workspace''), [],
      U (''[permissions.'' @ AUTHOR_PERMISSION_PROFILE @ ''.filesystem]''), U ''glob_scan_max_depth = 128'',
      U (dq '':tmpdir'' @ '' = '' @ dq ''deny''), U (dq '':slash_tmp'' @ '' = '' @ dq ''deny''),
      U (dq ''/control'' @ '' = '' @ dq ''deny'')]"

definition network_lines :: "ustr list" where
  "network_lines = [[], U (''[permissions.'' @ AUTHOR_PERMISSION_PROFILE @ ''.network]''), U ''enabled = false'', []]"

text \<open>The lines of the file, before it is parsed again to check it.\<close>

definition render_lines :: "codex_config \<Rightarrow> ustr \<Rightarrow> exn + ustr list" where
  "render_lines c codex_home =
     rbind (check_normalized_absolute ''CODEX_HOME'' codex_home) (\<lambda>home.
     rbind (workspace_denies c) (\<lambda>denies.
     rbind (optional_line ''model'' (cc_model c)) (\<lambda>model.
     rbind (optional_line ''model_reasoning_effort'' (cc_effort c)) (\<lambda>effort.
     rbind (rmap (skill_lines home) DISABLED_SYSTEM_SKILLS) (\<lambda>skills.
     rbind (rmap deny_line (cc_host_denies c)) (\<lambda>hosts.
     rbind (rmap deny_line denies) (\<lambda>workspace.
     Inr (model @ effort @ policy_lines @ concat skills @ profile_lines @ hosts @
       [[], U (''[permissions.'' @ AUTHOR_PERMISSION_PROFILE @ ''.filesystem.'' @ dq '':workspace_roots'' @ '']'')] @
       workspace @ network_lines))))))))"

section \<open>Command lines and environment\<close>

definition DEFAULT_CODEX_EXECUTABLE :: ustr where "DEFAULT_CODEX_EXECUTABLE = U ''/usr/local/bin/codex''"

definition build_codex_parent_environment :: "ustr \<Rightarrow> exn + (ustr \<times> ustr) list" where
  "build_codex_parent_environment codex_home =
     rbind (check_normalized_absolute ''CODEX_HOME'' codex_home) (\<lambda>home.
     Inr [(U ''PATH'', U ''/usr/local/bin:/usr/bin:/bin''), (U ''HOME'', U ''/runtime/home''),
          (U ''TMPDIR'', U ''/runtime/tmp''), (U ''LANG'', U ''C.UTF-8''), (U ''CODEX_HOME'', home)])"

definition validate_executable :: "ustr \<Rightarrow> exn + ustr" where
  "validate_executable exe_path = check_normalized_absolute ''Codex executable'' exe_path"

definition validate_prompt :: "ustr \<Rightarrow> exn + ustr" where
  "validate_prompt prompt =
     (if prompt = [] \<or> 0 \<in> set prompt
      then Inl (ValueError (U ''Codex prompt must be a non-empty NUL-free string''))
      else rbind (utf8_bytes prompt) (\<lambda>b.
      if int (length b) > DEFAULT_MAX_FIELD_BYTES
      then Inl (ValueError (U ''Codex prompt exceeds max_field_bytes'')) else Inr prompt))"

definition author_prefix :: "ustr \<Rightarrow> exn + ustr list" where
  "author_prefix exe_path =
     rbind (validate_executable exe_path) (\<lambda>exe.
     Inr [exe, U ''-a'', U ''never'', U ''-C'', U AUTHOR_CWD, U ''--add-dir'', U AUTHOR_WORKSPACE, U ''-c'',
          U (''default_permissions='' @ dq AUTHOR_PERMISSION_PROFILE)])"

definition build_codex_first_argv :: "ustr \<Rightarrow> ustr \<Rightarrow> exn + ustr list" where
  "build_codex_first_argv prompt exe_path =
     rbind (author_prefix exe_path) (\<lambda>pre.
     rbind (validate_prompt prompt) (\<lambda>p.
     Inr (pre @ map U [''exec'', ''--json'', ''--strict-config'', ''--skip-git-repo-check''] @ [p])))"

definition build_codex_resume_argv :: "ustr \<Rightarrow> ustr \<Rightarrow> ustr \<Rightarrow> exn + ustr list" where
  "build_codex_resume_argv thread prompt exe_path =
     rbind (author_prefix exe_path) (\<lambda>pre.
     rbind (validate_thread_id thread) (\<lambda>t.
     rbind (validate_prompt prompt) (\<lambda>p.
     Inr (pre @ map U [''exec'', ''resume'', ''--json'', ''--strict-config'', ''--skip-git-repo-check''] @ [t, p]))))"

definition build_codex_version_argv :: "ustr \<Rightarrow> exn + ustr list" where
  "build_codex_version_argv exe_path = rbind (validate_executable exe_path) (\<lambda>e. Inr [e, U ''--version''])"

definition build_codex_exec_help_argv :: "ustr \<Rightarrow> exn + ustr list" where
  "build_codex_exec_help_argv exe_path =
     rbind (validate_executable exe_path) (\<lambda>e. Inr [e, U ''exec'', U ''--help''])"

definition build_codex_resume_help_argv :: "ustr \<Rightarrow> exn + ustr list" where
  "build_codex_resume_help_argv exe_path =
     rbind (validate_executable exe_path) (\<lambda>e. Inr [e, U ''exec'', U ''resume'', U ''--help''])"

definition build_codex_prompt_input_argv :: "ustr \<Rightarrow> ustr \<Rightarrow> ustr \<Rightarrow> ustr \<Rightarrow> exn + ustr list" where
  "build_codex_prompt_input_argv prompt exe_path control_cwd workspace =
     rbind (validate_executable exe_path) (\<lambda>e.
     rbind (check_normalized_absolute ''Codex probe cwd'' control_cwd) (\<lambda>cwd.
     rbind (check_normalized_absolute ''Codex probe workspace'' workspace) (\<lambda>ws.
     rbind (validate_prompt prompt) (\<lambda>p.
     Inr [e, U ''-C'', cwd, U ''--add-dir'', ws, U ''-c'',
          U (''default_permissions='' @ dq AUTHOR_PERMISSION_PROFILE), U ''debug'', U ''prompt-input'', p]))))"

record codex_invocation =
  ci_argv :: "ustr list"
  ci_cwd :: ustr
  ci_environment :: "(ustr \<times> ustr) list"

text \<open>A given environment has to be the exact allowlist with the pinned values.\<close>

definition validate_parent_environment :: "(ustr \<times> ustr) list \<Rightarrow> exn + (ustr \<times> ustr) list" where
  "validate_parent_environment parent =
     (if set (map fst parent) \<noteq> set (map U [''PATH'', ''HOME'', ''TMPDIR'', ''LANG'', ''CODEX_HOME''])
      then Inl (ValueError (U ''Codex parent environment is not the exact allowlist''))
      else case map_of parent (U ''CODEX_HOME'') of
        None \<Rightarrow> Inl (KeyError (U ''CODEX_HOME''))
      | Some home \<Rightarrow>
          rbind (build_codex_parent_environment home) (\<lambda>expected.
          if list_all (\<lambda>k. map_of parent k = map_of expected k) (map fst expected) then Inr expected
          else Inl (ValueError (U ''Codex parent environment changes a pinned value''))))"

definition turn_environment :: "(ustr \<times> ustr) list option \<Rightarrow> exn + (ustr \<times> ustr) list" where
  "turn_environment parent =
     (case parent of None \<Rightarrow> build_codex_parent_environment (U SANDBOX_CODEX_HOME)
      | Some env \<Rightarrow> validate_parent_environment env)"

definition build_codex_first_invocation ::
  "ustr \<Rightarrow> ustr \<Rightarrow> (ustr \<times> ustr) list option \<Rightarrow> exn + codex_invocation" where
  "build_codex_first_invocation prompt exe_path parent =
     rbind (turn_environment parent) (\<lambda>env.
     rbind (build_codex_first_argv prompt exe_path) (\<lambda>argv.
     Inr \<lparr>ci_argv = argv, ci_cwd = U AUTHOR_CWD, ci_environment = env\<rparr>))"

definition build_codex_resume_invocation ::
  "ustr \<Rightarrow> ustr \<Rightarrow> ustr \<Rightarrow> (ustr \<times> ustr) list option \<Rightarrow> exn + codex_invocation" where
  "build_codex_resume_invocation thread prompt exe_path parent =
     rbind (turn_environment parent) (\<lambda>env.
     rbind (build_codex_resume_argv thread prompt exe_path) (\<lambda>argv.
     Inr \<lparr>ci_argv = argv, ci_cwd = U AUTHOR_CWD, ci_environment = env\<rparr>))"

section \<open>The client\<close>

type_synonym 'w codex_transport = "codex_invocation \<Rightarrow> time \<Rightarrow> int \<Rightarrow> ('w, process_result) eff"

definition first_turn ::
  "'w codex_transport \<Rightarrow> ustr \<Rightarrow> time \<Rightarrow> ustr \<Rightarrow> (ustr \<times> ustr) list option \<Rightarrow> int \<Rightarrow> ('w, codex_turn_result) eff" where
  "first_turn transport prompt timeout exe_path parent output_max_bytes =
     sbind (lift (build_codex_first_invocation prompt exe_path parent)) (\<lambda>invocation.
     sbind (transport invocation timeout output_max_bytes) (\<lambda>result.
     lift (classify_codex_process_result result None output_max_bytes)))"

definition resume_turn ::
  "'w codex_transport \<Rightarrow> ustr \<Rightarrow> ustr \<Rightarrow> time \<Rightarrow> ustr \<Rightarrow> (ustr \<times> ustr) list option \<Rightarrow> int \<Rightarrow>
   ('w, codex_turn_result) eff" where
  "resume_turn transport thread prompt timeout exe_path parent output_max_bytes =
     sbind (lift (build_codex_resume_invocation thread prompt exe_path parent)) (\<lambda>invocation.
     sbind (transport invocation timeout output_max_bytes) (\<lambda>result.
     lift (classify_codex_process_result result (Some thread) output_max_bytes)))"

section \<open>The rollout of a turn\<close>

text \<open>\<open>read_file\<close> finds and reads the one rollout file of a thread (its ASCII name) within the bound.\<close>

definition read_codex_rollout_selection ::
  "(bytes \<Rightarrow> int \<Rightarrow> exn + bytes) \<Rightarrow> ustr \<Rightarrow> ustr list option \<Rightarrow> rollout_prefix_witness option \<Rightarrow> int \<Rightarrow>
   exn + selection_evidence" where
  "read_codex_rollout_selection read_file thread previous witness max_bytes =
     rbind (validate_thread_id thread) (\<lambda>_.
     case ascii_encode thread of
       None \<Rightarrow> Inl (invalid_protocol ''Codex rollout thread ID is not a canonical UUID'')
     | Some encoded \<Rightarrow>
         if \<not> is_uuid encoded then Inl (invalid_protocol ''Codex rollout thread ID is not a canonical UUID'')
         else rbind (read_file encoded max_bytes) (\<lambda>data.
           parse_codex_rollout_selection data thread previous witness max_bytes MAX_ROLLOUT_EVENTS
             MAX_ROLLOUT_LINE_BYTES))"

definition attach_codex_rollout_selection ::
  "(bytes \<Rightarrow> int \<Rightarrow> exn + bytes) \<Rightarrow> codex_turn_result \<Rightarrow> ustr list option \<Rightarrow> rollout_prefix_witness option \<Rightarrow>
   ustr \<Rightarrow> ustr \<Rightarrow> exn + (codex_turn_result \<times> ustr list \<times> rollout_prefix_witness)" where
  "attach_codex_rollout_selection read_file result previous witness model effort =
     (if \<not> is_model_id model then Inl (ValueError (U ''expected_model is invalid''))
      else if \<not> is_effort effort then Inl (ValueError (U ''expected_effort is invalid''))
      else
        rbind (read_codex_rollout_selection read_file (tr_thread_id result) previous witness MAX_ROLLOUT_BYTES) (\<lambda>ev.
        rbind (coalesce_fact ''model'' (tr_observed_model result) (Some (se_model ev))) (\<lambda>m.
        rbind (coalesce_fact ''effort'' (tr_observed_effort result) (Some (se_effort ev))) (\<lambda>e.
        if m \<noteq> Some model \<or> e \<noteq> Some effort
        then Inl (invalid_protocol ''Codex rollout did not confirm the requested selection'')
        else Inr (result\<lparr>tr_observed_model := m, tr_observed_effort := e\<rparr>, se_turn_ids ev, se_rollout_prefix ev)))))"

section \<open>What the configuration denies\<close>

lemma blocks_any_False: "blocks_any p os = Inr False \<longleftrightarrow> (\<forall>x \<in> set os. deny_blocks_opt_in p x = Inr False)"
  by (induction os) (auto simp: rbind_Inr_iff)

lemma blocks_any_True: "blocks_any p os = Inr True \<Longrightarrow> \<exists>x \<in> set os. deny_blocks_opt_in p x = Inr True"
  by (induction os) (auto simp: rbind_Inr_iff split: if_splits)

lemma keep_denies_Inr:
  "keep_denies os ps = Inr ds \<Longrightarrow> p \<in> set ps \<Longrightarrow>
     p \<in> set ds \<or> p \<notin> set (map U FIXED_GIT_DENIES) \<and> (\<exists>x \<in> set os. deny_blocks_opt_in p x = Inr True)"
proof (induction ps arbitrary: ds)
  case (Cons q ps)
  then obtain keep rest where k: "(if q \<in> set (map U FIXED_GIT_DENIES) then Inr True
      else rbind (blocks_any q os) (\<lambda>b. Inr (\<not> b))) = Inr keep"
    and r: "keep_denies os ps = Inr rest" and ds: "ds = (if keep then q # rest else rest)"
    by (auto simp: rbind_Inr_iff simp del: set_map)
  show ?case
  proof (cases "p = q \<and> \<not> keep")
    case True
    with k have "q \<notin> set (map U FIXED_GIT_DENIES)" "blocks_any q os = Inr True"
      by (auto simp: rbind_Inr_iff simp del: set_map split: if_splits)
    with True blocks_any_True show ?thesis by blast
  next
    case False
    with Cons.IH [OF r] Cons.prems(2) ds show ?thesis by auto
  qed
qed simp

text \<open>The line that denies a pattern.\<close>

definition deny_text :: "ustr \<Rightarrow> ustr" where
  "deny_text p = U (dump_str p @ '' = '' @ dq ''deny'')"

lemma deny_line_Inr: "deny_line p = Inr l \<longleftrightarrow> 0 \<notin> set p \<and> l = deny_text p"
  by (auto simp: deny_line_def toml_quoted_def rbind_Inr_iff deny_text_def U_append)

lemma git_not_reserved: "set (map U FIXED_GIT_DENIES) \<inter> set (map U RESERVED_WORKSPACE_MOUNT_TARGETS) = {}"
  by (simp add: FIXED_GIT_DENIES_def RESERVED_WORKSPACE_MOUNT_TARGETS_def)

lemma git_denies_fixed: "set FIXED_GIT_DENIES \<subseteq> set FIXED_WORKSPACE_DENIES"
  by (simp add: FIXED_GIT_DENIES_def FIXED_WORKSPACE_DENIES_def)

text \<open>
  Where a line stands in the file. A TOML line belongs to the last table header before it: \<open>stands_in\<close>
  says that this is the given one, with no other header in between; \<open>stands_first\<close> that there is no
  header before the line at all, so that it is a key of the root table.
\<close>

definition toml_header :: "ustr \<Rightarrow> bool" where
  "toml_header l \<longleftrightarrow> prefix (U ''['') l"

definition stands_in :: "ustr list \<Rightarrow> ustr \<Rightarrow> ustr \<Rightarrow> bool" where
  "stands_in ls table l \<longleftrightarrow> toml_header table \<and>
     (\<exists>xs ys zs. ls = xs @ [table] @ ys @ [l] @ zs \<and> (\<forall>y \<in> set ys. \<not> toml_header y))"

definition stands_first :: "ustr list \<Rightarrow> ustr \<Rightarrow> bool" where
  "stands_first ls l \<longleftrightarrow> (\<exists>ys zs. ls = ys @ [l] @ zs \<and> (\<forall>y \<in> set ys. \<not> toml_header y))"

definition FILESYSTEM_TABLE :: ustr where
  "FILESYSTEM_TABLE = U ''[permissions.agent_loop_author.filesystem]''"

definition WORKSPACE_TABLE :: ustr where
  "WORKSPACE_TABLE = U (''[permissions.agent_loop_author.filesystem.'' @ dq '':workspace_roots'' @ '']'')"

definition NETWORK_TABLE :: ustr where
  "NETWORK_TABLE = U ''[permissions.agent_loop_author.network]''"

lemma toml_header_U: "toml_header (U s) \<longleftrightarrow> prefix ''['' s"
  using of_char_eq_iff [of "hd s" "CHR ''[''", where 'a = nat] by (cases s) (auto simp: toml_header_def U_def)

lemma toml_header_U_append: "s \<noteq> [] \<Longrightarrow> toml_header (U s @ l) \<longleftrightarrow> prefix ''['' s"
  using toml_header_U [of s] by (cases s) (simp_all add: toml_header_def U_def)

lemma toml_header_Nil [simp]: "\<not> toml_header []"
  by (simp add: toml_header_def)

lemma tables: "toml_header FILESYSTEM_TABLE" "toml_header WORKSPACE_TABLE" "toml_header NETWORK_TABLE"
  by (simp_all only: FILESYSTEM_TABLE_def WORKSPACE_TABLE_def NETWORK_TABLE_def toml_header_U) simp_all

lemma deny_no_header [simp]: "\<not> toml_header (deny_text p)"
  by (simp add: deny_text_def toml_header_U dump_str_def)

lemma stands_inI:
  assumes "ls = xs @ table # block @ zs" and "toml_header table" and "\<forall>y \<in> set block. \<not> toml_header y" and "l \<in> set block"
  shows "stands_in ls table l"
proof -
  obtain ys ws where "block = ys @ l # ws" using assms(4) by (auto dest: split_list)
  with assms show ?thesis unfolding stands_in_def by (intro conjI exI [of _ xs] exI [of _ ys] exI [of _ "ws @ zs"]) auto
qed

lemma optional_no_header:
  assumes "optional_line k v = Inr ls" and "\<not> prefix ''['' k" and "k \<noteq> []" shows "\<forall>l \<in> set ls. \<not> toml_header l"
proof -
  have "\<not> prefix ''['' (k @ '' = '')" "k @ '' = '' \<noteq> []" using assms(2,3) by (cases k; simp)+
  then show ?thesis
    using assms(1) by (auto simp: optional_line_def rbind_Inr_iff toml_header_U_append split: option.splits)
qed

lemma fixed_denies:
  "U (dq '':tmpdir'' @ '' = '' @ dq ''deny'') = deny_text (U '':tmpdir'')"
  "U (dq '':slash_tmp'' @ '' = '' @ dq ''deny'') = deny_text (U '':slash_tmp'')"
  "U (dq ''/control'' @ '' = '' @ dq ''deny'') = deny_text (U ''/control'')"
  by code_simp+

lemma profile_lines_end:
  "profile_lines = take 11 profile_lines @ FILESYSTEM_TABLE # U ''glob_scan_max_depth = 128'' #
     map deny_text [U '':tmpdir'', U '':slash_tmp'', U ''/control'']"
proof -
  have t: "U (''[permissions.'' @ AUTHOR_PERMISSION_PROFILE @ ''.filesystem]'') = FILESYSTEM_TABLE"
    by (simp add: AUTHOR_PERMISSION_PROFILE_def FILESYSTEM_TABLE_def)
  show ?thesis unfolding profile_lines_def fixed_denies t by simp
qed

lemma other_tables:
  "U (''[permissions.'' @ AUTHOR_PERMISSION_PROFILE @ ''.filesystem.'' @ dq '':workspace_roots'' @ '']'') = WORKSPACE_TABLE"
  "network_lines = [[], NETWORK_TABLE, U ''enabled = false'', []]"
  by (simp_all add: AUTHOR_PERMISSION_PROFILE_def WORKSPACE_TABLE_def NETWORK_TABLE_def network_lines_def)

lemma rmap_deny_line: "rmap deny_line ps = Inr ls \<Longrightarrow> ls = map deny_text ps"
  by (induction ps arbitrary: ls) (auto simp: rbind_Inr_iff deny_line_Inr)

lemma policy_lines_first:
  assumes "\<forall>y \<in> set ys. \<not> toml_header y"
  shows "stands_first (ys @ policy_lines @ zs) (U (''default_permissions = '' @ dq ''agent_loop_author''))"
    and "stands_first (ys @ policy_lines @ zs) (U (''approval_policy = '' @ dq ''never''))"
proof -
  obtain r where p: "policy_lines = U (''default_permissions = '' @ dq ''agent_loop_author'') #
      U (''approval_policy = '' @ dq ''never'') # r"
    by (simp add: policy_lines_def AUTHOR_PERMISSION_PROFILE_def)
  have h: "\<not> toml_header (U (''default_permissions = '' @ dq ''agent_loop_author''))" by (simp add: toml_header_U)
  show "stands_first (ys @ policy_lines @ zs) (U (''default_permissions = '' @ dq ''agent_loop_author''))"
    unfolding stands_first_def p using assms
    by (intro exI [of _ ys] exI [of _ "U (''approval_policy = '' @ dq ''never'') # r @ zs"]) auto
  show "stands_first (ys @ policy_lines @ zs) (U (''approval_policy = '' @ dq ''never''))"
    unfolding stands_first_def p using assms h
    by (intro exI [of _ "ys @ [U (''default_permissions = '' @ dq ''agent_loop_author'')]"] exI [of _ "r @ zs"]) auto
qed

lemma render_lines_Inr:
  assumes "render_lines c home = Inr ls"
  obtains ds xs where "workspace_denies c = Inr ds"
    and "ls = xs @ FILESYSTEM_TABLE #
      (U ''glob_scan_max_depth = 128'' # map deny_text ([U '':tmpdir'', U '':slash_tmp'', U ''/control''] @ cc_host_denies c) @ [[]]) @
      WORKSPACE_TABLE # (map deny_text ds @ [[]]) @ NETWORK_TABLE # [U ''enabled = false'', []]"
    and "stands_first ls (U (''default_permissions = '' @ dq ''agent_loop_author''))"
    and "stands_first ls (U (''approval_policy = '' @ dq ''never''))"
proof -
  obtain ds model effort skills hosts workspace where ds: "workspace_denies c = Inr ds"
    and m: "optional_line ''model'' (cc_model c) = Inr model"
    and e: "optional_line ''model_reasoning_effort'' (cc_effort c) = Inr effort"
    and h: "rmap deny_line (cc_host_denies c) = Inr hosts" and w: "rmap deny_line ds = Inr workspace"
    and ls: "ls = model @ effort @ policy_lines @ concat skills @ profile_lines @ hosts @ [[], WORKSPACE_TABLE] @
      workspace @ network_lines"
    using assms unfolding render_lines_def rbind_Inr_iff other_tables(1) sum.inject by metis
  have n: "\<forall>y \<in> set (model @ effort). \<not> toml_header y"
    using optional_no_header [OF m] optional_no_header [OF e] by auto
  have first: "ls = (model @ effort) @ policy_lines @ concat skills @ profile_lines @ hosts @ [[], WORKSPACE_TABLE] @
      workspace @ network_lines" using ls by simp
  show thesis
  proof (rule that [OF ds])
    show "ls = (model @ effort @ policy_lines @ concat skills @ take 11 profile_lines) @ FILESYSTEM_TABLE #
      (U ''glob_scan_max_depth = 128'' # map deny_text ([U '':tmpdir'', U '':slash_tmp'', U ''/control''] @ cc_host_denies c) @ [[]]) @
      WORKSPACE_TABLE # (map deny_text ds @ [[]]) @ NETWORK_TABLE # [U ''enabled = false'', []]"
      unfolding ls rmap_deny_line [OF h] rmap_deny_line [OF w] other_tables(2)
      by (subst profile_lines_end) simp
  qed (unfold first, rule policy_lines_first [OF n], rule policy_lines_first [OF n])
qed

lemma render_lines_deny:
  assumes "render_lines c home = Inr ls"
  shows "\<forall>p \<in> {U '':tmpdir'', U '':slash_tmp'', U ''/control''} \<union> set (cc_host_denies c).
      stands_in ls FILESYSTEM_TABLE (deny_text p)"
    and "\<forall>p \<in> set (map U FIXED_GIT_DENIES). stands_in ls WORKSPACE_TABLE (deny_text p)"
    and "\<forall>p \<in> set (map U FIXED_WORKSPACE_DENIES @ cc_workspace_denies c) - set (map U RESERVED_WORKSPACE_MOUNT_TARGETS).
      (\<forall>x \<in> set (cc_workspace_opt_ins c). deny_blocks_opt_in p x \<noteq> Inr True) \<longrightarrow> stands_in ls WORKSPACE_TABLE (deny_text p)"
    and "stands_in ls NETWORK_TABLE (U ''enabled = false'')"
    and "stands_first ls (U (''default_permissions = '' @ dq ''agent_loop_author''))"
    and "stands_first ls (U (''approval_policy = '' @ dq ''never''))"
proof -
  let ?fs = "U ''glob_scan_max_depth = 128'' #
    map deny_text ([U '':tmpdir'', U '':slash_tmp'', U ''/control''] @ cc_host_denies c) @ [[]]"
  obtain ds xs where ds: "workspace_denies c = Inr ds"
    and ls: "ls = xs @ FILESYSTEM_TABLE # ?fs @ WORKSPACE_TABLE # (map deny_text ds @ [[]]) @
      NETWORK_TABLE # [U ''enabled = false'', []]"
    and first: "stands_first ls (U (''default_permissions = '' @ dq ''agent_loop_author''))"
      "stands_first ls (U (''approval_policy = '' @ dq ''never''))"
    using render_lines_Inr [OF assms] by metis
  show "stands_first ls (U (''default_permissions = '' @ dq ''agent_loop_author''))"
    and "stands_first ls (U (''approval_policy = '' @ dq ''never''))" by (fact first)+
  have f: "\<forall>y \<in> set ?fs. \<not> toml_header y"
    by (simp add: toml_header_U)
  have w: "stands_in ls WORKSPACE_TABLE (deny_text p)" if "p \<in> set ds" for p
    by (rule stands_inI [of ls "xs @ FILESYSTEM_TABLE # ?fs" _ "map deny_text ds @ [[]]"
          "NETWORK_TABLE # [U ''enabled = false'', []]"])
      (use that in \<open>auto simp: ls tables\<close>)
  show "\<forall>p \<in> {U '':tmpdir'', U '':slash_tmp'', U ''/control''} \<union> set (cc_host_denies c).
      stands_in ls FILESYSTEM_TABLE (deny_text p)"
    by (intro ballI stands_inI [OF ls tables(1) f]) auto
  show "stands_in ls NETWORK_TABLE (U ''enabled = false'')"
    by (rule stands_inI [of ls "xs @ FILESYSTEM_TABLE # ?fs @ WORKSPACE_TABLE # (map deny_text ds @ [[]])" _
          "[U ''enabled = false'', []]" "[]"])
      (simp_all add: ls tables toml_header_U)
  have *: "p \<in> set ds \<or> p \<notin> set (map U FIXED_GIT_DENIES) \<and> (p \<in> set (map U RESERVED_WORKSPACE_MOUNT_TARGETS) \<or>
      (\<exists>x \<in> set (cc_workspace_opt_ins c). deny_blocks_opt_in p x = Inr True))"
    if "p \<in> set (map U FIXED_WORKSPACE_DENIES @ cc_workspace_denies c)" for p
  proof (cases "p \<in> set (map U RESERVED_WORKSPACE_MOUNT_TARGETS)")
    case True
    with git_not_reserved show ?thesis by blast
  next
    case False
    with that have "p \<in> set (filter (\<lambda>p. p \<notin> set (map U RESERVED_WORKSPACE_MOUNT_TARGETS))
        (dedup (map U FIXED_WORKSPACE_DENIES @ cc_workspace_denies c)))" by (simp del: set_map)
    from keep_denies_Inr [OF ds [unfolded workspace_denies_def] this] show ?thesis by blast
  qed
  have "set (map U FIXED_GIT_DENIES) \<subseteq> set (map U FIXED_WORKSPACE_DENIES @ cc_workspace_denies c)"
    using git_denies_fixed by auto
  with * w show "\<forall>p \<in> set (map U FIXED_GIT_DENIES). stands_in ls WORKSPACE_TABLE (deny_text p)" by blast
  show "\<forall>p \<in> set (map U FIXED_WORKSPACE_DENIES @ cc_workspace_denies c) - set (map U RESERVED_WORKSPACE_MOUNT_TARGETS).
      (\<forall>x \<in> set (cc_workspace_opt_ins c). deny_blocks_opt_in p x \<noteq> Inr True) \<longrightarrow> stands_in ls WORKSPACE_TABLE (deny_text p)"
    using * w by blast
qed

section \<open>What a turn and its rollout say\<close>

lemma classify_accepted:
  assumes "classify_codex_process_result r expected mb = Inr t"
  shows "accepted_turn expected (pr_stdout r) t" and "pr_returncode r = 0"
  using assms parse_codex_jsonl_accepted
  by (auto simp: classify_codex_process_result_def rbind_Inr_iff split: if_splits prod.splits)

lemma attach_Inr:
  assumes "attach_codex_rollout_selection read_file r previous witness model effort = Inr (r', ids, w)"
  shows "\<exists>encoded data ev. ascii_encode (tr_thread_id r) = Some encoded \<and> is_uuid encoded \<and>
    read_file encoded MAX_ROLLOUT_BYTES = Inr data \<and>
    parse_codex_rollout_selection data (tr_thread_id r) previous witness MAX_ROLLOUT_BYTES MAX_ROLLOUT_EVENTS
      MAX_ROLLOUT_LINE_BYTES = Inr ev \<and>
    se_model ev = model \<and> se_effort ev = effort \<and> se_turn_ids ev = ids \<and> se_rollout_prefix ev = w \<and>
    r' = r\<lparr>tr_observed_model := Some model, tr_observed_effort := Some effort\<rparr>"
proof -
  obtain ev m e where ev: "read_codex_rollout_selection read_file (tr_thread_id r) previous witness MAX_ROLLOUT_BYTES = Inr ev"
    and m: "coalesce_fact ''model'' (tr_observed_model r) (Some (se_model ev)) = Inr m"
    and e: "coalesce_fact ''effort'' (tr_observed_effort r) (Some (se_effort ev)) = Inr e"
    and r: "m = Some model" "e = Some effort" "r' = r\<lparr>tr_observed_model := m, tr_observed_effort := e\<rparr>"
    "ids = se_turn_ids ev" "w = se_rollout_prefix ev"
    using assms by (auto simp: attach_codex_rollout_selection_def rbind_Inr_iff split: if_splits)
  obtain encoded data where "ascii_encode (tr_thread_id r) = Some encoded" "is_uuid encoded"
    "read_file encoded MAX_ROLLOUT_BYTES = Inr data"
    "parse_codex_rollout_selection data (tr_thread_id r) previous witness MAX_ROLLOUT_BYTES MAX_ROLLOUT_EVENTS
      MAX_ROLLOUT_LINE_BYTES = Inr ev"
    using ev by (auto simp: read_codex_rollout_selection_def rbind_Inr_iff split: option.splits if_splits)
  moreover have "se_model ev = model" "se_effort ev = effort"
    using m e r by (simp_all add: coalesce_fact_def split: if_splits)
  ultimately show ?thesis using r by blast
qed

section \<open>Two inputs the checks let through\<close>

text \<open>The opt-in check looks for \<open>/.git/\<close> and for the prefix \<open>.git/\<close>, not for a last component \<open>.git\<close>;
  and \<open>PurePosixPath\<close> keeps exactly two leading slashes.\<close>

lemma nested_git_opt_in_accepted: "check_codex_opt_in (U ''sub/.git'') = Inr ()"
  by (simp add: check_codex_opt_in_def validate_workspace_pattern_def has_glob_def U_def)

lemma double_slash_accepted: "validate_host_deny (U ''//'') = Inr ()"
  by (simp add: validate_host_deny_def normalized_absolute_def posix_text_def posix_parts_def U_def Let_def)

end
