(* ===== verification/AuthorSamples.thy ===== *)
theory AuthorSamples
  imports CodexClient RunnerSamples
begin

text \<open>
  An author turn and the rollout of its thread after one turn and after two, each written with the
  model of \<open>json.dumps\<close>: the inputs at which the properties of the author's client are applied.
\<close>

section \<open>Lines of JSON\<close>

lemma escape_char_visible: "x \<in> set (escape_char c) \<Longrightarrow> 32 \<le> ord x"
  by (auto simp: escape_char_def hex4_def of_char_digit split: if_splits)

lemma dump_str_visible: "x \<in> set (dump_str s) \<Longrightarrow> 32 \<le> ord x"
  by (auto simp: dump_str_def dest: escape_char_visible)

lemma dec_int_visible: "x \<in> set (dec_int i) \<Longrightarrow> 32 \<le> ord x"
  using dec_nat_digits [of x "nat i"] dec_nat_digits [of x "nat (- i)"]
  by (auto simp: dec_int_def is_dec_digit_def split: if_splits)

lemma dump_value_visible: "wf_json v \<Longrightarrow> x \<in> set (dump_value v) \<Longrightarrow> 32 \<le> ord x"
proof (induction v arbitrary: x)
  case (JArr vs)
  then show ?case using set_join_with [of "'',''" "map dump_value vs"] by fastforce
next
  case (JObj kvs)
  then have "32 \<le> ord x" if "(k, v) \<in> set kvs" "x \<in> set (dump_str k @ '':'' @ dump_value v)" for k v x
    using that dump_str_visible by fastforce
  then show ?case
    using JObj.prems(2)
      set_join_with [of "'',''" "map (\<lambda>(k, v). dump_str k @ '':'' @ dump_value v) kvs"] by fastforce
qed (auto dest: dump_str_visible dec_int_visible split: if_splits)

definition doc :: "(ustr \<times> json) list \<Rightarrow> bytes" where
  "doc kvs = json_dumps (JObj kvs)"

definition doc_lines :: "(ustr \<times> json) list list \<Rightarrow> bytes" where
  "doc_lines ds = concat (map (\<lambda>d. doc d @ [CHR 0x0A]) ds)"

text \<open>A document whose dicts are in the order of their keys.\<close>

definition in_order :: "(ustr \<times> json) list \<Rightarrow> bool" where
  "in_order kvs \<longleftrightarrow> wf_json (JObj kvs) \<and> sort_keys (JObj kvs) = JObj kvs"

lemma doc_no_control: "in_order kvs \<Longrightarrow> CHR 0x0A \<notin> set (doc kvs) \<and> CHR 0x0D \<notin> set (doc kvs)"
  using dump_value_visible [of "JObj kvs" "CHR 0x0A"] dump_value_visible [of "JObj kvs" "CHR 0x0D"]
  by (auto simp: doc_def json_dumps_def in_order_def)

lemma doc_not_Nil: "doc kvs \<noteq> []"
  by (simp add: doc_def json_dumps_def)

lemma doc_length: "length (doc kvs) \<le> weight (JObj kvs)"
  unfolding doc_def by (rule json_dumps_length)

lemma strip_cr_doc: "in_order kvs \<Longrightarrow> strip_cr (doc kvs) = doc kvs"
  using doc_no_control [of kvs] last_in_set [of "doc kvs"] doc_not_Nil [of kvs] by (metis strip_cr_def)

lemma event_object_doc: "in_order kvs \<Longrightarrow> event_object (doc kvs) = Inr kvs"
  using json_roundtrip [of "JObj kvs"] json_dumps_ascii [of "JObj kvs"]
  by (simp add: event_object_def doc_def in_order_def utf8_decode_ascii)

lemma doc_lines_split: "list_all in_order ds \<Longrightarrow> split_on (CHR 0x0A) (doc_lines ds) = map doc ds @ [[]]"
  by (induction ds) (auto simp: doc_lines_def split_on_append doc_no_control)

lemma doc_lines_raw: "list_all in_order ds \<Longrightarrow> raw_lines (doc_lines ds) = map doc ds"
  by (simp add: raw_lines_def doc_lines_split)

lemma doc_lines_rollout: "list_all in_order ds \<Longrightarrow> rollout_lines (doc_lines ds) = map doc ds"
  by (simp add: doc_lines_split)

lemma doc_lines_append: "doc_lines (a @ b) = doc_lines a @ doc_lines b"
  by (simp add: doc_lines_def)

lemma doc_lines_last: "ds \<noteq> [] \<Longrightarrow> doc_lines ds \<noteq> [] \<and> last (doc_lines ds) = CHR 0x0A"
  by (induction ds rule: rev_induct) (auto simp: doc_lines_def)

lemma doc_lines_length: "length (doc_lines ds) \<le> sum_list (map (\<lambda>d. 1 + weight (JObj d)) ds)"
proof (induction ds)
  case (Cons d ds)
  then show ?case using doc_length [of d] by (simp add: doc_lines_def del: weight.simps)
qed (simp add: doc_lines_def)

lemma canonical_docs: "list_all in_order ds \<Longrightarrow> rmap canonical_line (map doc ds) = Inr (map doc ds)"
  by (induction ds) (auto simp: canonical_line_def strip_cr_doc doc_no_control)

section \<open>A turn\<close>

definition sample_thread :: ustr where
  "sample_thread = U ''00000000-0000-4000-8000-000000000000''"

definition sample_stream :: "(ustr \<times> json) list list" where
  "sample_stream =
     [[(U ''thread_id'', JStr sample_thread), (U ''type'', JStr (U ''thread.started''))],
      [(U ''item'', JObj [(U ''text'', JStr (U ''ok'')), (U ''type'', JStr (U ''agent_message''))]),
       (U ''type'', JStr (U ''item.completed''))],
      [(U ''type'', JStr (U ''turn.completed'')),
       (U ''usage'', JObj [(U ''input_tokens'', JInt 3), (U ''output_tokens'', JInt 2)])]]"

lemma sample_thread_ok: "is_thread_id sample_thread" "ascii_encode sample_thread = Some ''00000000-0000-4000-8000-000000000000''"
  "is_uuid ''00000000-0000-4000-8000-000000000000''"
  by code_simp+

lemma sample_stream_order: "list_all in_order sample_stream"
  by (simp add: sample_stream_def in_order_def wf_str_U wf_int_def sample_thread_def dec_int_def dec_nat_def
      digits_of.simps)
    (simp add: U_def)

definition sample_process :: process_result where
  "sample_process =
     \<lparr>pr_returncode = 0, pr_stdout = doc_lines sample_stream, pr_stderr = [], pr_started_at = 0, pr_completed_at = 1,
      pr_timed_out = False, pr_output_limited = False\<rparr>"

definition sample_turn :: codex_turn_result where
  "sample_turn =
     \<lparr>tr_thread_id = sample_thread, tr_final_message = U ''ok'',
      tr_usage = \<lparr>input_tokens = 3, cached_input_tokens = 0, output_tokens = 2, reasoning_output_tokens = 0\<rparr>,
      tr_observed_model = None, tr_observed_effort = None, tr_event_json = map doc sample_stream, tr_completed_at = 1\<rparr>"

lemma sample_loop:
  "jsonl_loop 0 (map doc sample_stream) jsonl_start =
     Inr \<lparr>js_thread_id = Some sample_thread, js_final_message = Some (U ''ok''), js_usage = Some (tr_usage sample_turn),
          js_model = None, js_effort = None, js_completed = 1, js_events = map doc sample_stream\<rparr>"
proof -
  have o: "in_order d" if "d \<in> set sample_stream" for d using sample_stream_order that by (simp add: list_all_iff)
  show ?thesis
    using o sample_thread_ok(1)
    by (simp add: sample_stream_def event_object_doc event_type_def dict_get_def jsonl_start_def on_event_def Let_def
        observe_selection_def reports_selection_def bounded_fact_def coalesce_fact_def effort_value_def on_item_completed_def
        reject_command_sandbox_setup_failure_def sandbox_setup_failed_def is_reroute_def agent_message_def utf8_encode_ascii
        DEFAULT_MAX_FIELD_BYTES_def usage_of_def usage_count_def sample_turn_def) (simp add: U_def)
qed

lemma sample_stream_length: "int (length (doc_lines sample_stream)) \<le> 5000"
proof -
  have "sum_list (map (\<lambda>d. 1 + weight (JObj d)) sample_stream) \<le> 5000"
    by (simp add: sample_stream_def sample_thread_def dec_int_def dec_nat_def digits_of.simps)
  with doc_lines_length [of sample_stream] show ?thesis by linarith
qed

lemma sample_line_length: "d \<in> set sample_stream \<Longrightarrow> int (length (doc d)) \<le> 5000"
proof -
  assume "d \<in> set sample_stream"
  then have "weight (JObj d) \<le> 5000"
    by (auto simp: sample_stream_def sample_thread_def dec_int_def dec_nat_def digits_of.simps)
  with doc_length [of d] show ?thesis by linarith
qed

lemma sample_turn_accepted:
  "classify_codex_process_result sample_process (Some sample_thread) 10000 = Inr sample_turn"
proof -
  have "\<not> list_ex (\<lambda>l. l = [] \<or> int (length l) > MAX_JSONL_LINE_BYTES) (map doc sample_stream)"
    using sample_line_length doc_not_Nil by (force simp: list_ex_iff MAX_JSONL_LINE_BYTES_def)
  moreover have "length (map doc sample_stream) = 3" "sample_stream \<noteq> []" by (simp_all add: sample_stream_def)
  ultimately show ?thesis
    using sample_stream_length sample_thread_ok(1)
    by (simp add: classify_codex_process_result_def sample_process_def parse_codex_jsonl_def positive_def
        validate_thread_id_def doc_lines_raw [OF sample_stream_order] canonical_docs [OF sample_stream_order] sample_loop
        MAX_JSONL_EVENTS_def MAX_JSONL_LINE_BYTES_def finish_turn_def sample_turn_def)
qed

section \<open>Two rollouts\<close>

definition sample_item :: "string \<Rightarrow> (ustr \<times> json) list \<Rightarrow> (ustr \<times> json) list" where
  "sample_item kind payload =
     [(U ''payload'', JObj payload), (U ''timestamp'', JStr (U ''2026-01-01T00:00:00Z'')), (U ''type'', JStr (U kind))]"

definition sample_meta :: "(ustr \<times> json) list" where
  "sample_meta = sample_item ''session_meta''
     [(U ''cli_version'', JStr (U SUPPORTED_CODEX_VERSION)), (U ''id'', JStr sample_thread),
      (U ''session_id'', JStr sample_thread)]"

definition sample_turn_items :: "ustr \<Rightarrow> (ustr \<times> json) list list" where
  "sample_turn_items i =
     [sample_item ''event_msg''
        [(U ''collaboration_mode_kind'', JStr (U ''default'')), (U ''model_context_window'', JNull),
         (U ''turn_id'', JStr i), (U ''type'', JStr (U ''task_started''))],
      sample_item ''turn_context''
        [(U ''effort'', JStr (U ''high'')), (U ''model'', JStr (U ''gpt'')), (U ''turn_id'', JStr i)],
      sample_item ''event_msg''
        [(U ''last_agent_message'', JNull), (U ''turn_id'', JStr i), (U ''type'', JStr (U ''task_complete''))]]"

definition turn_one :: ustr where "turn_one = U ''00000000-0000-4000-8000-000000000001''"
definition turn_two :: ustr where "turn_two = U ''00000000-0000-4000-8000-000000000002''"

lemma turn_ids_ok:
  "uuid_text (JStr turn_one) = Some turn_one" "uuid_text (JStr turn_two) = Some turn_two" "turn_one \<noteq> turn_two"
  by code_simp+

lemma sample_items_order:
  "in_order sample_meta" "i \<in> {turn_one, turn_two} \<Longrightarrow> list_all in_order (sample_turn_items i)"
  by (auto simp: sample_meta_def sample_turn_items_def sample_item_def in_order_def wf_str_U sample_thread_def
      turn_one_def turn_two_def) (auto simp: U_def)

text \<open>The item that a line of this form is, and its bounds.\<close>

definition rollout_doc :: "(ustr \<times> json) list \<Rightarrow> bool" where
  "rollout_doc d \<longleftrightarrow> in_order d \<and> weight (JObj d) \<le> 5000"

lemma sample_rollout_docs: "i \<in> {turn_one, turn_two} \<Longrightarrow> list_all rollout_doc (sample_meta # sample_turn_items i)"
proof -
  assume i: "i \<in> {turn_one, turn_two}"
  have "list_all (\<lambda>d. weight (JObj d) \<le> 5000) (sample_meta # sample_turn_items i)"
    using i by (auto simp: sample_meta_def sample_turn_items_def sample_item_def sample_thread_def turn_one_def turn_two_def
        SUPPORTED_CODEX_VERSION_def)
  with sample_items_order i show ?thesis by (auto simp: rollout_doc_def list_all_iff)
qed

lemma rollout_step_doc:
  assumes "rollout_doc (sample_item kind payload)" and "kind \<noteq> ''response_item''" and "kind \<noteq> []"
    and "kind \<in> set ROLLOUT_ITEM_TYPES" and "n = 0 \<Longrightarrow> kind = ''session_meta''"
  shows "rollout_step thread MAX_ROLLOUT_LINE_BYTES n (doc (sample_item kind payload)) s =
    (if U kind = U ''session_meta'' then on_session_meta thread n payload s
     else if U kind = U ''event_msg'' then on_event_msg payload s
     else if U kind = U ''turn_context'' then on_turn_context payload s
     else Inr s)"
proof -
  let ?d = "sample_item kind payload"
  have o: "in_order ?d" and l: "int (length (doc ?d)) \<le> MAX_ROLLOUT_LINE_BYTES"
    using assms(1) doc_length [of ?d]
    by (auto simp: rollout_doc_def MAX_ROLLOUT_LINE_BYTES_def DEFAULT_MAX_AGENT_OUTPUT_BYTES_def)
  have "rollout_line MAX_ROLLOUT_LINE_BYTES (doc ?d) = Inr (doc ?d)"
    using strip_cr_doc [OF o] doc_no_control [OF o] doc_not_Nil [of ?d] l by (simp add: rollout_line_def)
  moreover have "rollout_item (doc ?d) = Inr (U kind, payload)"
    unfolding rollout_item_def event_object_doc [OF o]
    using assms(3) by (auto simp: sample_item_def dict_get_def event_type_def utf8_encode_ascii) (auto simp: U_def)
  moreover have "check_rollout_item n (doc ?d) (U kind) payload = Inr ()"
    using assms(2,4,5) by (auto simp: check_rollout_item_def)
  ultimately show ?thesis by (simp add: rollout_step_def)
qed

text \<open>One turn is walked over.\<close>

lemma turn_walk:
  assumes i: "i \<in> {turn_one, turn_two}" and u: "uuid_text (JStr i) = Some i"
    and s: "ro_active s = None" "i \<notin> set (ro_started s)" "ro_distinct s = map fst (ro_selections s)"
      "i \<notin> set (ro_distinct s)" and n: "0 < n"
  shows "rollout_loop thread MAX_ROLLOUT_LINE_BYTES n (map doc (sample_turn_items i)) s =
    Inr (s\<lparr>ro_selections := ro_selections s @ [(i, (U ''gpt'', U ''high''))], ro_distinct := ro_distinct s @ [i],
      ro_completed := ro_completed s @ [i], ro_started := ro_started s @ [i], ro_active := None, ro_contexts := 0\<rparr>)"
proof -
  have d: "list_all rollout_doc (sample_turn_items i)" using sample_rollout_docs [OF i] by simp
  have ids: "lifecycle_turn_id [(U ''collaboration_mode_kind'', JStr (U ''default'')), (U ''model_context_window'', JNull),
         (U ''turn_id'', JStr i), (U ''type'', JStr (U ''task_started''))] False = Inr i"
    "lifecycle_turn_id [(U ''last_agent_message'', JNull), (U ''turn_id'', JStr i), (U ''type'', JStr (U ''task_complete''))]
       True = Inr i"
    using u by (simp_all add: lifecycle_turn_id_def keys_between_def present_def dict_get_def Let_def
        canonical_rollout_turn_id_def known_mode_def)
  have f: "is_model_id (U ''gpt'')" "is_effort (U ''high'')" "0 \<notin> set (U ''gpt'')" "0 \<notin> set (U ''high'')" by code_simp+
  have m: "map_of (ro_selections s) i = None" using s(3,4) by (simp add: map_of_eq_None_iff)
  show ?thesis
    using d s(1,2,4) n u m
    by (simp add: sample_turn_items_def rollout_step_doc ROLLOUT_ITEM_TYPES_def)
      (auto simp: on_event_msg_def on_turn_context_def dict_get_def ids ROLLOUT_EVENT_TYPES_def bounded_fact_def f
        utf8_encode_ascii record_selection_def Let_def rollout_step_doc ROLLOUT_ITEM_TYPES_def)
qed

text \<open>The history with the turns \<open>ids\<close>, each of them as above.\<close>

definition sample_history :: "ustr list \<Rightarrow> (ustr \<times> json) list list" where
  "sample_history ids = sample_meta # concat (map sample_turn_items ids)"

definition sample_rollout :: "ustr list \<Rightarrow> bytes" where
  "sample_rollout ids = doc_lines (sample_history ids)"

definition sample_selection :: "ustr list \<Rightarrow> selection_evidence" where
  "sample_selection ids =
     \<lparr>se_turn_id = last ids, se_model = U ''gpt'', se_effort = U ''high'', se_turn_ids = ids,
      se_rollout_prefix = \<lparr>rw_byte_length = int (length (sample_rollout ids)), rw_sha256 = sha256 (sample_rollout ids)\<rparr>\<rparr>"

definition walked :: "ustr list \<Rightarrow> rollout_state" where
  "walked ids = rollout_start\<lparr>ro_metas := 1, ro_selections := map (\<lambda>i. (i, (U ''gpt'', U ''high''))) ids,
     ro_distinct := ids, ro_completed := ids, ro_started := ids\<rparr>"

lemma meta_walk: "rollout_step sample_thread MAX_ROLLOUT_LINE_BYTES 0 (doc sample_meta) rollout_start = Inr (walked [])"
proof -
  have "rollout_doc sample_meta" using sample_rollout_docs [of turn_one] by simp
  then show ?thesis
    by (simp add: sample_meta_def rollout_step_doc ROLLOUT_ITEM_TYPES_def on_session_meta_def dict_get_def
        rollout_start_def walked_def)
qed

lemma turns_walk:
  assumes "set ids \<subseteq> {turn_one, turn_two}" and "distinct ids"
  shows "rollout_loop sample_thread MAX_ROLLOUT_LINE_BYTES 0 (map doc (sample_history ids)) rollout_start = Inr (walked ids)"
  using assms
proof (induction ids rule: rev_induct)
  case Nil
  then show ?case by (simp add: sample_history_def meta_walk)
next
  case (snoc i ids)
  have h: "sample_history (ids @ [i]) = sample_history ids @ sample_turn_items i" by (simp add: sample_history_def)
  have i: "i \<in> {turn_one, turn_two}" using snoc.prems(1) by simp
  have u: "uuid_text (JStr i) = Some i" using i turn_ids_ok by auto
  have n: "0 < 0 + length (map doc (sample_history ids))" by (simp add: sample_history_def)
  have IH: "rollout_loop sample_thread MAX_ROLLOUT_LINE_BYTES 0 (map doc (sample_history ids)) rollout_start = Inr (walked ids)"
    using snoc by simp
  have "i \<notin> set ids" using snoc.prems(2) by simp
  with turn_walk [OF i u _ _ _ _ n, of "walked ids"]
  show ?case unfolding h map_append rollout_loop_append IH
    by (simp add: walked_def rollout_start_def o_def)
qed

lemma sample_history_docs:
  assumes "set ids \<subseteq> {turn_one, turn_two}"
  shows "list_all rollout_doc (sample_history ids)"
proof -
  have "list_all rollout_doc (sample_turn_items i)" if "i \<in> set ids" for i
    using sample_rollout_docs [of i] assms that by auto
  then have "list_all rollout_doc (concat (map sample_turn_items ids))" by (induction ids) simp_all
  then show ?thesis using sample_rollout_docs [of turn_one] by (simp add: sample_history_def)
qed

lemma sample_history_order: "set ids \<subseteq> {turn_one, turn_two} \<Longrightarrow> list_all in_order (sample_history ids)"
  by (rule list.pred_mono_strong [OF sample_history_docs]) (simp_all only: rollout_doc_def)

lemma sample_rollout_length:
  assumes "set ids \<subseteq> {turn_one, turn_two}" and "length ids \<le> 2"
  shows "int (length (sample_rollout ids)) \<le> MAX_ROLLOUT_BYTES"
proof -
  have w: "weight (JObj d) \<le> 5000" if "d \<in> set (sample_history ids)" for d
    using sample_history_docs [OF assms(1)] that unfolding list_all_iff rollout_doc_def by blast
  have "sum_list (map (\<lambda>d. 1 + weight (JObj d)) (sample_history ids)) \<le> sum_list (map (\<lambda>d. 5001) (sample_history ids))"
    using w by (intro sum_list_mono) force
  also have "\<dots> = 5001 * (1 + 3 * length ids)"
    by (simp add: sum_list_triv sample_history_def length_concat o_def sample_turn_items_def)
  finally show ?thesis
    using doc_lines_length [of "sample_history ids"] assms(2) by (simp add: sample_rollout_def MAX_ROLLOUT_BYTES_def)
qed

lemma walked_finish:
  assumes "ids \<noteq> []" and "data \<noteq> []" and "check_advance previous ids = Inr ()"
  shows "finish_rollout data previous (walked ids) =
    Inr \<lparr>se_turn_id = last ids, se_model = U ''gpt'', se_effort = U ''high'', se_turn_ids = ids,
      se_rollout_prefix = \<lparr>rw_byte_length = int (length data), rw_sha256 = sha256 data\<rparr>\<rparr>"
proof -
  have "map_of (map (\<lambda>i. (i, (U ''gpt'', U ''high''))) ids) (last ids) = Some (U ''gpt'', U ''high'')"
    using assms(1) by (induction ids) (auto simp: map_of_eq_None_iff)
  then show ?thesis
    using assms by (simp add: finish_rollout_def walked_def rollout_start_def check_prefix_witness_def)
qed

lemma sample_rollout_parsed:
  assumes ids: "set ids \<subseteq> {turn_one, turn_two}" "distinct ids" "length ids \<le> 2" "ids \<noteq> []"
    and previous: "previous = (if butlast ids = [] then None else Some (butlast ids))"
    and witness: "witness = (if butlast ids = [] then None else Some (se_rollout_prefix (sample_selection (butlast ids))))"
  shows "parse_codex_rollout_selection (sample_rollout ids) sample_thread previous witness MAX_ROLLOUT_BYTES
    MAX_ROLLOUT_EVENTS MAX_ROLLOUT_LINE_BYTES = Inr (sample_selection ids)"
proof -
  have "sample_history ids \<noteq> []" by (simp add: sample_history_def)
  note e = doc_lines_last [OF this]
  have ls: "rollout_lines (sample_rollout ids) = map doc (sample_history ids)"
    unfolding sample_rollout_def by (rule doc_lines_rollout) (rule sample_history_order [OF ids(1)])
  have n: "length (sample_history ids) \<le> 7" "sample_history ids \<noteq> []"
    using ids(3) by (simp_all add: sample_history_def length_concat o_def sample_turn_items_def sum_list_triv)
  have "check_previous_turns (butlast ids) = Inr ()" if "butlast ids \<noteq> []"
  proof -
    have "uuid_text (JStr i) \<noteq> None" if "i \<in> set (butlast ids)" for i
      using in_set_butlastD [OF that] ids(1) turn_ids_ok by auto
    then show ?thesis using that ids(2) by (simp add: check_previous_turns_def distinct_butlast list_ex_iff)
  qed
  moreover have "finish_rollout (sample_rollout ids) previous (walked ids) = Inr (sample_selection ids)"
  proof -
    have "check_advance previous ids = Inr ()"
      using ids(4) unfolding previous by (cases ids) (auto simp: check_advance_def split: if_splits)
    from walked_finish [OF ids(4) _ this, of "sample_rollout ids"] e show ?thesis
      by (simp add: sample_selection_def sample_rollout_def)
  qed
  moreover have "preserves_prefix (se_rollout_prefix (sample_selection (butlast ids))) (sample_rollout ids)"
  proof -
    let ?a = "sample_rollout (butlast ids)"
    have "sample_history ids = sample_history (butlast ids) @ sample_turn_items (last ids)"
      using append_butlast_last_id [OF ids(4)] by (metis (no_types) append_Cons concat_append concat.simps append_Nil2
        list.simps(8,9) map_append sample_history_def)
    then have "sample_rollout ids = ?a @ doc_lines (sample_turn_items (last ids))"
      by (simp add: sample_rollout_def doc_lines_append)
    moreover have "?a \<noteq> []" "last ?a = CHR 0x0A" "doc_lines (sample_turn_items (last ids)) \<noteq> []"
      using doc_lines_last [of "sample_history (butlast ids)"] doc_lines_last [of "sample_turn_items (last ids)"]
      by (simp_all add: sample_rollout_def sample_history_def sample_turn_items_def)
    ultimately show ?thesis
      by (simp add: preserves_prefix_def sample_selection_def Let_def nth_append last_conv_nth)
  qed
  ultimately show ?thesis
    using e [folded sample_rollout_def] n sample_rollout_length [OF ids(1,3)] turns_walk [OF ids(1,2)] sample_thread_ok(1) ids
    unfolding parse_codex_rollout_selection_def ls Let_def previous witness
    by (cases "butlast ids = []") (simp_all add: validate_thread_id_def positive_def MAX_ROLLOUT_BYTES_def MAX_ROLLOUT_EVENTS_def
        MAX_ROLLOUT_LINE_BYTES_def DEFAULT_MAX_AGENT_OUTPUT_BYTES_def)
qed

section \<open>Calls\<close>

lemma sample_invocation:
  "\<exists>call. build_codex_resume_invocation sample_thread (U ''task'') DEFAULT_CODEX_EXECUTABLE None = Inr call"
proof -
  have "normalized_absolute DEFAULT_CODEX_EXECUTABLE" "normalized_absolute (U SANDBOX_CODEX_HOME)"
    "0 \<notin> set DEFAULT_CODEX_EXECUTABLE" "0 \<notin> set (U SANDBOX_CODEX_HOME)" "0 \<notin> set (U ''task'')" by code_simp+
  then show ?thesis
    by (simp add: build_codex_resume_invocation_def turn_environment_def build_codex_parent_environment_def
        check_normalized_absolute_def build_codex_resume_argv_def author_prefix_def validate_executable_def
        validate_thread_id_def sample_thread_ok validate_prompt_def utf8_bytes_def utf8_encode_ascii DEFAULT_MAX_FIELD_BYTES_def)
qed

lemma sample_resume:
  "resume_turn (\<lambda>_ _ _. ret sample_process) sample_thread (U ''task'') 30 DEFAULT_CODEX_EXECUTABLE None 10000 () =
     (Inr sample_turn, ())"
  using sample_invocation by (auto simp: resume_turn_def sbind_def sample_turn_accepted)

definition sample_read :: "ustr list \<Rightarrow> bytes \<Rightarrow> int \<Rightarrow> exn + bytes" where
  "sample_read ids encoded n = Inr (sample_rollout ids)"

lemma sample_attach:
  assumes "set ids \<subseteq> {turn_one, turn_two}" "distinct ids" "length ids \<le> 2" "ids \<noteq> []"
    and "previous = (if butlast ids = [] then None else Some (butlast ids))"
    and "witness = (if butlast ids = [] then None else Some (se_rollout_prefix (sample_selection (butlast ids))))"
  shows "attach_codex_rollout_selection (sample_read ids) sample_turn previous witness (U ''gpt'') (U ''high'') =
    Inr (sample_turn\<lparr>tr_observed_model := Some (U ''gpt''), tr_observed_effort := Some (U ''high'')\<rparr>, ids,
         se_rollout_prefix (sample_selection ids))"
proof -
  have "is_model_id (U ''gpt'')" "is_effort (U ''high'')" by code_simp+
  moreover have "tr_thread_id sample_turn = sample_thread" "tr_observed_model sample_turn = None"
    "tr_observed_effort sample_turn = None" by (simp_all add: sample_turn_def)
  moreover have "se_model (sample_selection ids) = U ''gpt''" "se_effort (sample_selection ids) = U ''high''"
    "se_turn_ids (sample_selection ids) = ids" by (simp_all add: sample_selection_def)
  ultimately show ?thesis
    using sample_rollout_parsed [OF assms]
    by (simp add: attach_codex_rollout_selection_def read_codex_rollout_selection_def validate_thread_id_def
        sample_thread_ok sample_read_def coalesce_fact_def)
qed

section \<open>A configuration of the author\<close>

definition sample_codex_config :: codex_config where
  "sample_codex_config =
     \<lparr>cc_model = Some (U ''gpt''), cc_effort = None, cc_workspace_denies = [U ''secrets/**''], cc_workspace_opt_ins = [],
      cc_host_denies = [U ''/home'']\<rparr>"

lemma rmap_total: "(\<And>x. x \<in> set xs \<Longrightarrow> \<exists>y. f x = Inr y) \<Longrightarrow> \<exists>ys. rmap f xs = Inr ys"
  by (induction xs) (force simp: rbind_Inr_iff)+

lemma deny_lines_ok: "list_all (\<lambda>p. 0 \<notin> set p) ps \<Longrightarrow> \<exists>ls. rmap deny_line ps = Inr ls"
  by (rule rmap_total) (auto simp: deny_line_def toml_quoted_def list_all_iff)

lemma keep_denies_all: "keep_denies [] ps = Inr ps"
  by (induction ps) simp_all

lemma sample_config_rendered: "\<exists>ls. render_lines sample_codex_config (U SANDBOX_CODEX_HOME) = Inr ls"
proof -
  have h: "check_normalized_absolute ''CODEX_HOME'' (U SANDBOX_CODEX_HOME) = Inr (U SANDBOX_CODEX_HOME)" by code_simp
  obtain ds where ds: "workspace_denies sample_codex_config = Inr ds" "list_all (\<lambda>p. 0 \<notin> set p) ds"
  proof
    let ?ps = "map U FIXED_WORKSPACE_DENIES @ [U ''secrets/**'']"
    show "workspace_denies sample_codex_config =
        Inr (filter (\<lambda>p. p \<notin> set (map U RESERVED_WORKSPACE_MOUNT_TARGETS)) (dedup ?ps))"
      by (simp only: workspace_denies_def sample_codex_config_def codex_config.simps keep_denies_all)
    have "list_all (\<lambda>p. 0 \<notin> set p) ?ps" by (simp add: FIXED_WORKSPACE_DENIES_def) (simp add: U_def)
    then show "list_all (\<lambda>p. 0 \<notin> set p) (filter (\<lambda>p. p \<notin> set (map U RESERVED_WORKSPACE_MOUNT_TARGETS)) (dedup ?ps))"
      by (simp only: list_all_iff set_filter set_dedup) blast
  qed
  have m: "\<exists>l. optional_line ''model'' (Some (U ''gpt'')) = Inr l"
    by (simp add: optional_line_def toml_quoted_def) (simp add: U_def)
  have "\<exists>l. skill_lines (U SANDBOX_CODEX_HOME) s = Inr l" if "s \<in> set DISABLED_SYSTEM_SKILLS" for s
    using that by (auto simp: skill_lines_def toml_quoted_def DISABLED_SYSTEM_SKILLS_def SANDBOX_CODEX_HOME_def)
      (auto simp: U_def)
  then have sk: "\<exists>l. rmap (skill_lines (U SANDBOX_CODEX_HOME)) DISABLED_SYSTEM_SKILLS = Inr l"
    by (rule rmap_total)
  have hd: "\<exists>ls. rmap deny_line [U ''/home''] = Inr ls" by (rule deny_lines_ok) (simp add: U_def)
  show ?thesis
    using m sk hd deny_lines_ok [OF ds(2)] unfolding render_lines_def h ds
    by (auto simp: sample_codex_config_def optional_line_def)
qed

end
