(* ===== verification/JsonEq.thy ===== *)
theory JsonEq
  imports JsonRoundtrip Complex_Main
begin

text \<open>
  Python's \<open>==\<close> between a decoded JSON value and a value the program writes down, which holds no floats:
  booleans, integers and floats compare by their value.
\<close>

text \<open>The decimal value of a JSON number that Python reads as a float.\<close>

definition digits_value :: "bytes \<Rightarrow> nat" where
  "digits_value ds = value_of 10 (map (\<lambda>c. ord c - 48) ds)"

definition decimal_value :: "bytes \<Rightarrow> rat" where
  "decimal_value t =
     (let u = (if prefix ''-'' t then tl t else t);
          mantissa = takeWhile (\<lambda>c. c \<noteq> CHR ''e'' \<and> c \<noteq> CHR ''E'') u;
          e = tl (dropWhile (\<lambda>c. c \<noteq> CHR ''e'' \<and> c \<noteq> CHR ''E'') u);
          whole = takeWhile (\<lambda>c. c \<noteq> CHR ''.'') mantissa;
          frac = tl (dropWhile (\<lambda>c. c \<noteq> CHR ''.'') mantissa);
          exponent = (if prefix ''-'' e then - int (digits_value (tl e))
                      else if prefix ''+'' e then int (digits_value (tl e)) else int (digits_value e));
          v = of_nat (digits_value (whole @ frac)) * power_int 10 (exponent - int (length frac))
      in if prefix ''-'' t then - v else v)"

fun bit_length :: "nat \<Rightarrow> nat" where
  "bit_length n = (if n = 0 then 0 else Suc (bit_length (n div 2)))"

declare bit_length.simps [simp del]

text \<open>The double that is nearest to the decimal value, with ties to even, is the integer \<open>n\<close>; this is the
  rounding of doubles for \<open>\<bar>n\<bar> < 2 ^ 52\<close>, where half a unit in the last place of \<open>n\<close> is
  \<open>2 ^ (bit_length n) / 2 ^ 54\<close>, and half of that below a power of two.\<close>

definition float_is :: "bytes \<Rightarrow> int \<Rightarrow> bool" where
  "float_is t n \<longleftrightarrow>
     (let v = decimal_value t; a = nat \<bar>n\<bar>; w = (if 0 < n then v else - v);
          half = 2 ^ bit_length a / 2 ^ 54
      in if n = 0 then \<bar>v\<bar> \<le> 1 / 2 ^ 1075
         else of_nat a - (if 2 * a = 2 ^ bit_length a then half / 2 else half) \<le> w \<and> w \<le> of_nat a + half)"

text \<open>\<open>value == expected\<close>: numbers and booleans compare by value, dicts whatever their order.\<close>

definition number_is :: "json \<Rightarrow> int \<Rightarrow> bool" where
  "number_is v n =
     (case v of JBool b \<Rightarrow> (if b then 1 else 0) = n | JInt i \<Rightarrow> i = n | JFloat t \<Rightarrow> float_is t n | _ \<Rightarrow> False)"

function json_is :: "json \<Rightarrow> json \<Rightarrow> bool" where
  "json_is v JNull \<longleftrightarrow> v = JNull"
| "json_is v (JBool b) \<longleftrightarrow> number_is v (if b then 1 else 0)"
| "json_is v (JInt i) \<longleftrightarrow> number_is v i"
| "json_is v (JFloat t) \<longleftrightarrow> v = JFloat t"
| "json_is v (JStr s) \<longleftrightarrow> v = JStr s"
| "json_is v (JArr es) \<longleftrightarrow>
     (case v of
        JArr vs \<Rightarrow> length vs = length es \<and> list_all (\<lambda>(x, e). json_is x e) (zip vs es)
      | _ \<Rightarrow> False)"
| "json_is v (JObj es) \<longleftrightarrow>
     (case v of
        JObj vs \<Rightarrow> set (map fst vs) = set (map fst es) \<and>
          list_all (\<lambda>(k, e). case map_of vs k of None \<Rightarrow> False | Some x \<Rightarrow> json_is x e) es
      | _ \<Rightarrow> False)"
  by pat_completeness auto
termination
proof (relation "measure (\<lambda>(v, e). size e)", goal_cases)
  case (2 v es vs x y e)
  then have "e \<in> set es" by (auto dest: set_zip_rightD)
  then show ?case by (simp add: less_Suc_eq_le size_list_estimation')
next
  case (3 v es vs x k e y)
  then have "(k, e) \<in> set es" by simp
  then have "size e \<le> size_list (size_prod (\<lambda>_. 0) size) es"
    by (rule size_list_estimation') simp
  then show ?case by (simp add: less_Suc_eq_le)
qed simp

end
