(* ===== verification/CriticSamples.thy ===== *)
theory CriticSamples
  imports ClaudeClient AuthorSamples
begin

text \<open>
  A review that the critic's client accepts: an envelope and a diagnostic line written with the model of
  \<open>json.dumps\<close>, and the run of the client on them.
\<close>

lemma splitlines_one: "CHR 0x0A \<notin> set l \<Longrightarrow> CHR 0x0D \<notin> set l \<Longrightarrow> splitlines (l @ [CHR 0x0A]) = [l]"
  by (induction l) auto

lemma parse_json_object_doc:
  "in_order kvs \<Longrightarrow> int (weight (JObj kvs)) \<le> n \<Longrightarrow> parse_json_object n (doc kvs) = Inr kvs"
  using json_roundtrip [of "JObj kvs"] json_dumps_ascii [of "JObj kvs"] doc_length [of kvs]
  by (simp add: parse_json_object_def doc_def in_order_def utf8_decode_ascii del: weight.simps)

section \<open>The diagnostic line\<close>

definition sample_api_request :: "(ustr \<times> json) list" where
  "sample_api_request =
     [(U ''model'', JStr (U ''claude-x'')), (U ''output_config'', JObj [(U ''effort'', JStr (U ''high''))])]"

definition sample_request_line :: bytes where
  "sample_request_line = ''2026-07-01T10:20:30.456Z [VERBOSE] [API REQUEST DETAIL] '' @ doc sample_api_request"

lemma sample_request_order: "in_order sample_api_request"
  by (simp add: sample_api_request_def in_order_def wf_str_U) (simp add: U_def)

lemma sample_request_weight: "weight (JObj sample_api_request) \<le> 5000"
  by (simp add: sample_api_request_def)

lemma sample_request_payload: "api_request_payload sample_request_line = Some (doc sample_api_request)"
proof -
  obtain body where b: "doc sample_api_request = ''{'' @ body @ ''}''"
    by (simp add: doc_def json_dumps_def)
  have f: "frame_matches API_REQUEST_DETAIL_FRAME ''2026-07-01T10:20:30.456Z [VERBOSE] [API REQUEST DETAIL] ''"
    "length API_REQUEST_DETAIL_FRAME = length ''2026-07-01T10:20:30.456Z [VERBOSE] [API REQUEST DETAIL] ''"
    by code_simp+
  have "''2026-07-01T10:20:30.456Z [VERBOSE] [API REQUEST DETAIL] '' = take (length API_REQUEST_DETAIL_FRAME) sample_request_line \<and>
      doc sample_api_request = drop (length API_REQUEST_DETAIL_FRAME) sample_request_line"
    unfolding f(2) by (rule append_eq_conv_conj [THEN iffD1]) (rule sample_request_line_def [symmetric])
  note t = this [THEN conjunct1, symmetric] and d = this [THEN conjunct2, symmetric]
  show ?thesis unfolding api_request_payload_def Let_def t d using f(1) by (simp add: b suffix_def)
qed

lemma sample_request_selection: "api_request_selection sample_request_line = Inr (U ''claude-x'', Some (U ''high''))"
proof -
  have l: "int (length sample_request_line) \<le> MAX_API_REQUEST_DETAIL_BYTES"
    using doc_length [of sample_api_request] sample_request_weight
    by (simp add: sample_request_line_def MAX_API_REQUEST_DETAIL_BYTES_def)
  have o: "api_request_object (doc sample_api_request) = Inr sample_api_request"
    using json_roundtrip [of "JObj sample_api_request"] json_dumps_ascii [of "JObj sample_api_request"] sample_request_order
    by (simp add: api_request_object_def doc_def in_order_def utf8_decode_ascii)
  have f: "set (map fst sample_api_request) \<subseteq> set (map U API_REQUEST_DETAIL_FIELDS)"
    by (simp add: sample_api_request_def API_REQUEST_DETAIL_FIELDS_def)
  have g: "dict_get sample_api_request ''model'' = JStr (U ''claude-x'')"
    "dict_get sample_api_request ''output_config'' = JObj [(U ''effort'', JStr (U ''high''))]"
    by (simp_all add: sample_api_request_def dict_get_def)
  have c: "check_output_config [(U ''effort'', JStr (U ''high''))] = Inr (Some (U ''high''))"
  proof -
    have "is_effort (U ''high'')" by code_simp
    moreover have "dict_get [(U ''effort'', JStr (U ''high''))] ''format'' = JNull"
      "dict_get [(U ''effort'', JStr (U ''high''))] ''effort'' = JStr (U ''high'')"
      by (simp_all add: dict_get_def)
    ultimately show ?thesis by (simp add: check_output_config_def)
  qed
  have "is_model_id (U ''claude-x'')" by code_simp
  with l o f g c show ?thesis by (simp add: api_request_selection_def sample_request_payload)
qed

lemma sample_request_lines: "api_request_lines (sample_request_line @ [CHR 0x0A]) = [sample_request_line]"
proof -
  have "CHR 0x0A \<notin> set sample_request_line" "CHR 0x0D \<notin> set sample_request_line"
    using doc_no_control [OF sample_request_order] by (simp_all add: sample_request_line_def)
  moreover have "contains API_REQUEST_DETAIL_MARKER sample_request_line"
    unfolding contains_iff_sublist sublist_def sample_request_line_def API_REQUEST_DETAIL_MARKER_def
    by (rule exI [of _ "''2026-07-01T10:20:30.456Z [VERBOSE] ''"], rule exI [of _ "'' '' @ doc sample_api_request"]) simp
  ultimately show ?thesis by (simp add: api_request_lines_def splitlines_one)
qed

section \<open>The envelope\<close>

definition sample_review_fields :: "(ustr \<times> json) list" where
  "sample_review_fields =
     [(U ''blocked_reason'', JNull), (U ''blocking_findings'', JArr []), (U ''non_blocking_findings'', JArr []),
      (U ''schema_version'', JInt 1), (U ''summary'', JStr (U ''fine'')), (U ''verdict'', JStr (U ''LGTM''))]"

definition sample_envelope :: "(ustr \<times> json) list" where
  "sample_envelope =
     [(U ''structured_output'', JObj [(U ''review'', JObj sample_review_fields)]), (U ''type'', JStr (U ''result''))]"

definition sample_grant :: approval_context where
  "sample_grant =
     \<lparr>ap_all_validations_pass = True, ap_semantic_deltas_visible = True, ap_evidence_approval_eligible = True\<rparr>"

definition sample_critic_process :: process_result where
  "sample_critic_process =
     \<lparr>pr_returncode = 0, pr_stdout = doc sample_envelope, pr_stderr = sample_request_line @ [CHR 0x0A],
      pr_started_at = 0, pr_completed_at = 1, pr_timed_out = False, pr_output_limited = False\<rparr>"

lemma sample_envelope_order: "in_order sample_envelope"
proof -
  have "wf_json (JObj sample_envelope)"
    by (simp add: sample_envelope_def sample_review_fields_def wf_str_U wf_int_def dec_int_def dec_nat_def digits_of.simps)
  moreover have "sort_keys (JObj sample_envelope) = JObj sample_envelope" by code_simp
  ultimately show ?thesis by (simp only: in_order_def)
qed

lemma sample_envelope_parsed: "parse_json_object DEFAULT_MAX_AGENT_OUTPUT_BYTES (doc sample_envelope) = Inr sample_envelope"
proof (rule parse_json_object_doc [OF sample_envelope_order])
  show "int (weight (JObj sample_envelope)) \<le> DEFAULT_MAX_AGENT_OUTPUT_BYTES"
    by (simp add: sample_envelope_def sample_review_fields_def dec_int_def dec_nat_def digits_of.simps
        DEFAULT_MAX_AGENT_OUTPUT_BYTES_def)
qed

lemma sample_envelope_get:
  "dict_get sample_envelope ''type'' = JStr (U ''result'')"
  "map_of sample_envelope (U ''structured_output'') = Some (JObj [(U ''review'', JObj sample_review_fields)])"
  "map_of sample_envelope (U ''type'') = Some (JStr (U ''result''))"
  "map_of sample_envelope (U ''is_error'') = None" "map_of sample_envelope (U ''modelUsage'') = None"
  "dict_get sample_envelope ''subtype'' = JNull" "dict_get sample_envelope ''stop_reason'' = JNull"
  "dict_get sample_envelope ''is_error'' = JNull" "dict_get sample_envelope ''total_cost_usd'' = JNull"
  by (simp_all add: sample_envelope_def dict_get_def)

lemma sample_review_read: "validate_critic_review (Some sample_grant) (JObj sample_review_fields) = Inr sample_review"
proof -
  have "wf_review sample_review" using sample_review_accepted unfolding validate_critic_review_Inr by blast
  moreover have "is_review sample_review (JObj sample_review_fields)"
    by (simp add: is_review_def has_keys_def sample_review_fields_def sample_review_def REVIEW_KEYS_def field_def
        opt_str_def) (auto simp: U_def)
  moreover have "approval_granted sample_grant" by (simp add: approval_granted_def sample_grant_def)
  ultimately show ?thesis by (simp add: validate_critic_review_Inr)
qed

lemma sample_critic_result:
  "\<exists>res. critic_result_of sample_critic_process sample_grant (Some (U ''claude-x'')) (Some (U ''high'')) = Inr res"
proof -
  have c: "classify_envelope_failure (doc sample_envelope) = Inr ()"
    by (simp add: classify_envelope_failure_def sample_envelope_parsed sample_envelope_get in_string_set_def
        is_reauthentication_def)
  have p: "parse_critic_envelope (Some sample_grant) (doc sample_envelope) = Inr (sample_envelope, sample_review)"
    by (simp add: parse_critic_envelope_def extract_structured_output_def sample_envelope_parsed sample_envelope_get
        sample_review_read)
  have s: "parse_api_request_selection (sample_request_line @ [CHR 0x0A]) (Some (U ''claude-x'')) (Some (U ''high'')) =
      Inr (Some (U ''claude-x''), Some (U ''high''))"
    by (simp add: parse_selection_Inr requests_agree_def selection_agrees_def sample_request_lines sample_request_selection
        MAX_API_REQUEST_DETAILS_def CLAUDE_API_RETRIES_def CLAUDE_STRUCTURED_OUTPUT_RETRIES_def)
  show ?thesis
    by (simp add: critic_result_of_def sample_critic_process_def c p s doc_not_Nil sample_envelope_get cost_of_def model_usage_of_def)
qed

definition sample_critic_environment :: "(ustr \<times> ustr) list" where
  "sample_critic_environment = map (\<lambda>k. (U k, U ''1'')) CLAUDE_REQUIRED_KEYS"

lemma sample_critic_environment_ok:
  "complete_claude_environment sample_critic_environment = Inr (sample_critic_environment @ CLAUDE_PINNED_VALUES)"
proof -
  have k: "map fst sample_critic_environment = map U CLAUDE_REQUIRED_KEYS"
    by (simp add: sample_critic_environment_def)
  have m: "map_of sample_critic_environment (U ''CLAUDE_CODE_SUBPROCESS_ENV_SCRUB'') = Some (U ''1'')"
    by (simp add: sample_critic_environment_def CLAUDE_REQUIRED_KEYS_def)
  have w: "U ''CLAUDE_CODE_RETRY_WATCHDOG'' \<notin> set (map fst (sample_critic_environment @ CLAUDE_PINNED_VALUES))"
    unfolding map_append k by (simp add: CLAUDE_REQUIRED_KEYS_def CLAUDE_PINNED_VALUES_def)
  show ?thesis
    unfolding complete_claude_environment_def Let_def k m using w by (simp add: subset_insertI)
qed

definition sample_bundle :: review_bundle where
  "sample_bundle = \<lparr>rb_document = JObj [], rb_encoded = ''{}'', rb_estimated_input_tokens = 1, rb_fingerprint = U ''f''\<rparr>"

lemma sample_critic_invocation:
  "\<exists>call. build_claude_invocation sample_bundle sample_critic_environment (U ''/usr/local/bin/claude'')
     (U ''/runtime/critic-cwd'') (Some (U ''claude-x'')) (Some (U ''high'')) = Inr call"
proof -
  have "U ''..'' \<notin> set (posix_parts (U ''/runtime/critic-cwd''))" "is_model_id (U ''claude-x'')" "is_effort (U ''high'')"
    "prefix (U ''/'') (U ''/runtime/critic-cwd'')" "prefix (U ''/'') (U ''/usr/local/bin/claude'')"
    "0 \<notin> set (U ''/usr/local/bin/claude'')"
    by code_simp+
  moreover have "complete_claude_environment sample_critic_environment = Inr (sample_critic_environment @ CLAUDE_PINNED_VALUES)"
    by (rule sample_critic_environment_ok)
  ultimately show ?thesis by (auto simp: build_claude_invocation_def build_claude_argv_def)
qed

lemma sample_critic_review:
  "\<exists>res. claude_review (\<lambda>_ _ _. ret sample_critic_process) sample_bundle sample_critic_environment sample_grant 400
     (U ''/usr/local/bin/claude'') (Some (U ''claude-x'')) (Some (U ''high'')) (0::nat) = (Inr res, 0)"
  using sample_critic_invocation sample_critic_result
  by (auto simp: claude_review_def sbind_def CLAUDE_API_TIMEOUT_MS_def)

end
