(* ===== verification/GitTree.thy ===== *)
theory GitTree
  imports Policy "HOL-Library.AList"
begin

text \<open>
  The parsers of git's output in \<open>src/src/agent_loop/git_source.py\<close>: the NUL-separated listing of a
  tree (\<open>_parse_ls_tree\<close>) and the stream of objects (\<open>_parse_cat_file_batch\<close>), and the guard of the
  commands (\<open>_assert_read_only_git_command\<close>).
\<close>

section \<open>Numbers and bytes of the standard library\<close>

text \<open>\<open>int(data, base)\<close> on \<open>bytes\<close> for base 8 and 10: surrounding ASCII white space, a sign, the prefix
  \<open>0o\<close> in base 8, and single underscores between the digits; \<open>None\<close> is ValueError.\<close>

definition strip_ws :: "bytes \<Rightarrow> bytes" where
  "strip_ws s = rev (dropWhile is_ws_byte (rev (dropWhile is_ws_byte s)))"

definition dec_digits :: "ustr \<Rightarrow> nat option" where
  "dec_digits s =
     (let ws = split_on 95 s
      in if list_all (\<lambda>w. w \<noteq> [] \<and> list_all is_dec_digit w) ws
         then Some (value_of 10 (map (\<lambda>c. c - 48) (concat ws))) else None)"

definition signed_int :: "(ustr \<Rightarrow> nat option) \<Rightarrow> bytes \<Rightarrow> int option" where
  "signed_int digits s =
     (case U (strip_ws s) of
        [] \<Rightarrow> None
      | c # r \<Rightarrow>
          if c = 45 then map_option (\<lambda>n. - int n) (digits r)
          else if c = 43 then map_option int (digits r)
          else map_option int (digits (c # r)))"

definition bytes_int8 :: "bytes \<Rightarrow> int option" where
  "bytes_int8 = signed_int oct_body"

definition bytes_int10 :: "bytes \<Rightarrow> int option" where
  "bytes_int10 = signed_int dec_digits"

text \<open>\<open>repr\<close> of \<open>bytes\<close>.\<close>

definition repr_byte :: "char \<Rightarrow> char \<Rightarrow> bytes" where
  "repr_byte q c =
     (if c = q \<or> c = CHR 0x5C then [CHR 0x5C, c]
      else if c = CHR 0x09 then [CHR 0x5C, CHR ''t'']
      else if c = CHR 0x0A then [CHR 0x5C, CHR ''n'']
      else if c = CHR 0x0D then [CHR 0x5C, CHR ''r'']
      else if ord c < 32 \<or> 127 \<le> ord c then CHR 0x5C # CHR ''x'' # hex_bytes [c]
      else [c])"

definition repr_bytes :: "bytes \<Rightarrow> bytes" where
  "repr_bytes s =
     (let q = (if CHR 0x27 \<in> set s \<and> CHR 0x22 \<notin> set s then CHR 0x22 else CHR 0x27)
      in CHR ''b'' # q # concat (map (repr_byte q) s) @ [q])"

section \<open>The listing of a tree\<close>

definition git_error :: "string \<Rightarrow> exn" where
  "git_error detail = fail GIT_POLICY_OR_OUTPUT_FAILURE detail"

definition shape_error :: "ustr \<Rightarrow> exn" where
  "shape_error detail = AgentLoopError REPOSITORY_SHAPE_UNSUPPORTED detail"

record git_tree_entry =
  gt_path :: bytes
  gt_mode :: int
  gt_object_type :: ustr
  gt_object_id :: bytes

definition is_oid :: "bytes \<Rightarrow> bool" where
  "is_oid raw \<longleftrightarrow> length raw \<in> {40, 64} \<and> list_all (\<lambda>c. is_hex_lower (ord c)) raw"

text \<open>The decoded identifier is ASCII; it is kept as its bytes.\<close>

definition validate_oid :: "string \<Rightarrow> bytes \<Rightarrow> exn + bytes" where
  "validate_oid context raw =
     (if is_oid raw then Inr raw else Inl (git_error (context @ '' returned a non-canonical object identifier'')))"

text \<open>\<open>record.partition(b"\\t")\<close>.\<close>

definition partition_tab :: "bytes \<Rightarrow> (bytes \<times> bytes) option" where
  "partition_tab s =
     (if CHR 0x09 \<in> set s
      then Some (takeWhile (\<lambda>c. c \<noteq> CHR 0x09) s, tl (dropWhile (\<lambda>c. c \<noteq> CHR 0x09) s)) else None)"

definition tree_mode :: "bytes \<Rightarrow> bytes \<Rightarrow> bytes \<Rightarrow> exn + int" where
  "tree_mode raw_mode raw_type path =
     (case bytes_int8 raw_mode of
        None \<Rightarrow> Inl (git_error ''ls-tree emitted a non-octal mode'')
      | Some mode \<Rightarrow>
          if raw_mode \<notin> {''100644'', ''100755'', ''120000''}
          then if raw_mode = ''160000'' \<or> raw_type = ''commit''
            then Inl (shape_error (U ''committed HEAD contains a submodule at '' @ display_path path))
            else Inl (shape_error (U (''committed HEAD contains unsupported mode '' @ repr_bytes raw_mode)))
          else if raw_type \<noteq> ''blob'' then Inl (shape_error (U ''committed HEAD contains a non-blob leaf''))
          else Inr mode)"

definition tree_path :: "limits \<Rightarrow> bytes \<Rightarrow> exn + unit" where
  "tree_path l path =
     (if path = [] \<or> prefix ''/'' path \<or> CHR 0x00 \<in> set path \<or>
        list_ex (\<lambda>c. c \<in> {[], ''.'', ''..''}) (split_on (CHR ''/'') path)
      then Inl (shape_error (U ''committed HEAD contains an unsafe or ambiguous path''))
      else if list_ex (\<lambda>c. c = ''.git'') (split_on (CHR ''/'') path)
      then Inl (shape_error (U ''committed HEAD contains nested Git metadata at '' @ display_path path))
      else if int (length path) > max_path_bytes l \<or> int (length (split_on (CHR ''/'') path)) > max_path_depth l
      then Inl (AgentLoopError GIT_POLICY_OR_OUTPUT_FAILURE
        (U ''committed path exceeds configured bounds: '' @ display_path path))
      else Inr ())"

definition tree_record :: "limits \<Rightarrow> bytes set \<Rightarrow> bytes \<Rightarrow> exn + git_tree_entry" where
  "tree_record l seen record =
     (case partition_tab record of
        None \<Rightarrow> Inl (git_error ''ls-tree emitted a malformed NUL record'')
      | Some (header, path) \<Rightarrow>
          (case split_on (CHR 0x20) header of
             [raw_mode, raw_type, raw_oid] \<Rightarrow>
               rbind (tree_mode raw_mode raw_type path) (\<lambda>mode.
               rbind (tree_path l path) (\<lambda>_.
               if path \<in> seen then Inl (git_error ''ls-tree emitted a duplicate path'')
               else rbind (validate_oid ''ls-tree'' raw_oid) (\<lambda>oid.
               Inr \<lparr>gt_path = path, gt_mode = mode, gt_object_type = U ''blob'', gt_object_id = oid\<rparr>)))
           | _ \<Rightarrow> Inl (git_error ''ls-tree emitted a malformed NUL record'')))"

fun tree_records :: "limits \<Rightarrow> bytes set \<Rightarrow> bytes list \<Rightarrow> exn + git_tree_entry list" where
  "tree_records l seen [] = Inr []"
| "tree_records l seen (r # rs) =
     rbind (tree_record l seen r) (\<lambda>e.
     rbind (tree_records l (insert (gt_path e) seen) rs) (\<lambda>es. Inr (e # es)))"

definition parse_ls_tree :: "limits \<Rightarrow> bytes \<Rightarrow> exn + git_tree_entry list" where
  "parse_ls_tree l data =
     (if data = [] then Inr []
      else if last data \<noteq> CHR 0x00 then Inl (git_error ''NUL-safe ls-tree output ended without a record terminator'')
      else let records = split_on (CHR 0x00) (butlast data)
        in if int (length records) > max_files l then Inl (git_error ''ls-tree exceeds max_files'')
        else tree_records l {} records)"

section \<open>The stream of objects\<close>

definition cat_file_object :: "int \<Rightarrow> bytes \<Rightarrow> bytes \<Rightarrow> exn + (bytes \<times> bytes)" where
  "cat_file_object max_file expected data =
     (let header = takeWhile (\<lambda>c. c \<noteq> CHR 0x0A) data; rest = tl (dropWhile (\<lambda>c. c \<noteq> CHR 0x0A) data);
          fields = split_on (CHR 0x20) header
      in if CHR 0x0A \<notin> set data \<or> 256 < length header
      then Inl (git_error ''cat-file batch emitted a malformed header'')
      else if length fields = 2 \<and> fields ! 1 \<in> {''missing'', ''ambiguous''}
      then Inl (shape_error (U (''committed HEAD object '' @ expected @ '' is missing'')))
      else if length fields \<noteq> 3 then Inl (git_error ''cat-file batch emitted an invalid object header'')
      else rbind (validate_oid ''cat-file'' (fields ! 0)) (\<lambda>observed.
      if observed \<noteq> expected \<or> fields ! 1 \<noteq> ''blob''
      then Inl (git_error ''cat-file batch object identity or type did not match its request'')
      else case bytes_int10 (fields ! 2) of
        None \<Rightarrow> Inl (git_error ''cat-file batch emitted a non-numeric object size'')
      | Some n \<Rightarrow>
          if n < 0 \<or> n > max_file
          then Inl (git_error (''committed blob '' @ expected @ '' exceeds max_file_bytes''))
          else if int (length rest) \<le> n \<or> rest ! nat n \<noteq> CHR 0x0A
          then Inl (git_error ''cat-file batch payload was truncated or lacked its delimiter'')
          else Inr (take (nat n) rest, drop (nat n + 1) rest)))"

fun cat_file_loop :: "int \<Rightarrow> bytes list \<Rightarrow> bytes \<Rightarrow> (bytes \<times> bytes) list \<Rightarrow> exn + (bytes \<times> bytes) list" where
  "cat_file_loop m [] data blobs =
     (if data \<noteq> [] then Inl (git_error ''cat-file batch emitted unrequested trailing output'') else Inr blobs)"
| "cat_file_loop m (i # ids) data blobs =
     rbind (cat_file_object m i data) (\<lambda>(payload, rest). cat_file_loop m ids rest (AList.update i payload blobs))"

definition parse_cat_file_batch :: "bytes \<Rightarrow> bytes list \<Rightarrow> int \<Rightarrow> exn + (bytes \<times> bytes) list" where
  "parse_cat_file_batch data object_ids max_file = cat_file_loop max_file object_ids data []"

section \<open>The guard of the commands\<close>

definition ALLOWED_GIT_SUBCOMMANDS :: "string list" where
  "ALLOWED_GIT_SUBCOMMANDS = [''cat-file'', ''config'', ''for-each-ref'', ''ls-tree'', ''rev-parse'']"

definition assert_read_only_git_command :: "string list \<Rightarrow> exn + unit" where
  "assert_read_only_git_command arguments =
     (case arguments of
        [] \<Rightarrow> Inl (ValueError (U ''Git command is outside the fixed read-only allowlist''))
      | command # rest \<Rightarrow>
          if command \<notin> set ALLOWED_GIT_SUBCOMMANDS
          then Inl (ValueError (U ''Git command is outside the fixed read-only allowlist''))
          else if command = ''cat-file'' \<and> arguments \<noteq> [''cat-file'', ''--batch'']
          then Inl (ValueError (U ''only raw cat-file batch reads are allowed''))
          else if command = ''ls-tree'' \<and>
            (let object_name = (if length arguments = 5 then last arguments else [])
             in take 4 arguments \<noteq> [''ls-tree'', ''-r'', ''-z'', ''--full-tree''] \<or> \<not> is_oid object_name)
          then Inl (ValueError (U ''only a fixed NUL-safe committed-tree object read is allowed''))
          else if command = ''for-each-ref'' \<and> arguments \<noteq> [''for-each-ref'', ''--format=%(refname)'', ''refs/replace'']
          then Inl (ValueError (U ''only replace-ref inspection is allowed''))
          else if command = ''rev-parse'' \<and> arguments \<notin>
            {[''rev-parse'', ''--is-inside-work-tree'', ''--is-bare-repository'', ''--git-dir'', ''--git-common-dir''],
             [''rev-parse'', ''HEAD^{commit}'', ''HEAD^{tree}'']}
          then Inl (ValueError (U ''rev-parse invocation is outside the fixed shape probes''))
          else if command = ''config'' \<and> (''--local'' \<notin> set rest \<or> ''--no-includes'' \<notin> set rest)
          then Inl (ValueError (U ''Git config reads must be local and must disable includes''))
          else if command = ''config'' \<and> set rest \<inter> {''--get'', ''--get-regexp'', ''--get-all''} = {}
          then Inl (ValueError (U ''Git config invocation is not a read operation''))
          else if command = ''config'' \<and> set rest \<inter> {''--add'', ''--append'', ''--edit'', ''--remove-section'',
            ''--rename-section'', ''--unset'', ''--unset-all''} \<noteq> {}
          then Inl (ValueError (U ''Git config mutation is forbidden''))
          else Inr ())"

section \<open>The listing that a tree has\<close>

definition mode_text :: "int \<Rightarrow> bytes" where
  "mode_text m = (if m = REGULAR_MODE then ''100644'' else if m = EXECUTABLE_MODE then ''100755'' else ''120000'')"

definition render_tree_entry :: "git_tree_entry \<Rightarrow> bytes" where
  "render_tree_entry e =
     mode_text (gt_mode e) @ CHR 0x20 # ''blob'' @ CHR 0x20 # gt_object_id e @ CHR 0x09 # gt_path e"

definition render_tree :: "git_tree_entry list \<Rightarrow> bytes" where
  "render_tree es = concat (map (\<lambda>e. render_tree_entry e @ [CHR 0x00]) es)"

definition wf_tree_entry :: "limits \<Rightarrow> git_tree_entry \<Rightarrow> bool" where
  "wf_tree_entry l e \<longleftrightarrow>
     gt_mode e \<in> {REGULAR_MODE, EXECUTABLE_MODE, SYMLINK_MODE} \<and> gt_object_type e = U ''blob'' \<and>
     is_oid (gt_object_id e) \<and> valid_path (gt_path e) \<and> \<not> is_git_path (gt_path e) \<and>
     int (length (gt_path e)) \<le> max_path_bytes l \<and>
     int (length (split_on (CHR ''/'') (gt_path e))) \<le> max_path_depth l"

definition wf_tree :: "limits \<Rightarrow> git_tree_entry list \<Rightarrow> bool" where
  "wf_tree l es \<longleftrightarrow> (es = [] \<or> int (length es) \<le> max_files l) \<and> distinct (map gt_path es) \<and>
     list_all (wf_tree_entry l) es"

lemma oid_chars: "is_oid raw \<Longrightarrow> c \<in> set raw \<Longrightarrow> c \<noteq> CHR 0x09 \<and> c \<noteq> CHR 0x20 \<and> c \<noteq> CHR 0x00 \<and> c \<noteq> CHR 0x0A"
  by (auto simp: is_oid_def list_all_iff is_hex_lower_def)

lemma mode_values:
  "bytes_int8 ''100644'' = Some REGULAR_MODE" "bytes_int8 ''100755'' = Some EXECUTABLE_MODE"
  "bytes_int8 ''120000'' = Some SYMLINK_MODE"
  by (simp_all add: bytes_int8_def signed_int_def strip_ws_def is_ws_byte_def U_def oct_body_def oct_digits_def
      REGULAR_MODE_def EXECUTABLE_MODE_def SYMLINK_MODE_def)

lemma tree_mode_Inr:
  "tree_mode raw raw_type path = Inr m \<longleftrightarrow>
     m \<in> {REGULAR_MODE, EXECUTABLE_MODE, SYMLINK_MODE} \<and> raw = mode_text m \<and> raw_type = ''blob''"
proof -
  consider "raw = ''100644''" | "raw = ''100755''" | "raw = ''120000''" | "raw \<notin> {''100644'', ''100755'', ''120000''}"
    by blast
  then show ?thesis
    by cases (auto simp: tree_mode_def mode_values mode_text_def REGULAR_MODE_def EXECUTABLE_MODE_def SYMLINK_MODE_def
        split: option.splits if_splits)
qed

lemma tree_path_Inr:
  "tree_path l p = Inr () \<longleftrightarrow> valid_path p \<and> \<not> is_git_path p \<and> int (length p) \<le> max_path_bytes l \<and>
     int (length (split_on (CHR ''/'') p)) \<le> max_path_depth l"
  by (auto simp: tree_path_def valid_path_def validate_subject_path_def has_bad_component_def is_git_path_iff
      list_ex_iff split: if_splits)

lemma partition_tab_Some: "partition_tab s = Some (h, p) \<longleftrightarrow> s = h @ CHR 0x09 # p \<and> CHR 0x09 \<notin> set h"
proof
  assume *: "partition_tab s = Some (h, p)"
  then have "CHR 0x09 \<in> set s" and h: "h = takeWhile (\<lambda>c. c \<noteq> CHR 0x09) s"
    and p: "p = tl (dropWhile (\<lambda>c. c \<noteq> CHR 0x09) s)"
    by (auto simp: partition_tab_def split: if_splits)
  then have "dropWhile (\<lambda>c. c \<noteq> CHR 0x09) s \<noteq> []" by (simp add: dropWhile_eq_Nil_conv)
  then have "dropWhile (\<lambda>c. c \<noteq> CHR 0x09) s = CHR 0x09 # p"
    using hd_dropWhile [of "\<lambda>c. c \<noteq> CHR 0x09" s] p by (cases "dropWhile (\<lambda>c. c \<noteq> CHR 0x09) s") auto
  then show "s = h @ CHR 0x09 # p \<and> CHR 0x09 \<notin> set h"
    using h takeWhile_dropWhile_id [of "\<lambda>c. c \<noteq> CHR 0x09" s] set_takeWhileD by fastforce
next
  assume "s = h @ CHR 0x09 # p \<and> CHR 0x09 \<notin> set h"
  then show "partition_tab s = Some (h, p)"
    by (auto simp: partition_tab_def takeWhile_append dropWhile_append)
qed

lemma split_three: "split_on c s = [x, y, z] \<longleftrightarrow> s = x @ c # y @ c # z \<and> c \<notin> set x \<and> c \<notin> set y \<and> c \<notin> set z"
proof
  assume *: "split_on c s = [x, y, z]"
  have "s = join_with [c] [x, y, z]" using join_split_on [of c s] * by simp
  with split_on_no_sep [of _ c s] * show "s = x @ c # y @ c # z \<and> c \<notin> set x \<and> c \<notin> set y \<and> c \<notin> set z" by simp
qed (simp add: split_on_append split_on_single)

lemma tree_record_Inr:
  "tree_record l seen r = Inr e \<longleftrightarrow> wf_tree_entry l e \<and> gt_path e \<notin> seen \<and> r = render_tree_entry e"
proof
  assume "tree_record l seen r = Inr e"
  then obtain h p raw_mode raw_type raw_oid where r: "r = h @ CHR 0x09 # p"
    and h: "h = raw_mode @ CHR 0x20 # raw_type @ CHR 0x20 # raw_oid"
    and m: "tree_mode raw_mode raw_type p = Inr (gt_mode e)" and p: "tree_path l p = Inr ()" "p \<notin> seen"
    and e: "is_oid raw_oid" "gt_path e = p" "gt_object_type e = U ''blob''" "gt_object_id e = raw_oid"
    by (auto simp: tree_record_def partition_tab_Some split_three validate_oid_def rbind_Inr_iff
        split: option.splits prod.splits list.splits if_splits)
  then show "wf_tree_entry l e \<and> gt_path e \<notin> seen \<and> r = render_tree_entry e"
    unfolding tree_mode_Inr tree_path_Inr by (simp add: wf_tree_entry_def render_tree_entry_def)
next
  assume *: "wf_tree_entry l e \<and> gt_path e \<notin> seen \<and> r = render_tree_entry e"
  let ?h = "mode_text (gt_mode e) @ CHR 0x20 # ''blob'' @ CHR 0x20 # gt_object_id e"
  have o: "is_oid (gt_object_id e)" using * by (simp add: wf_tree_entry_def)
  have "partition_tab r = Some (?h, gt_path e)"
    unfolding partition_tab_Some using * oid_chars [OF o] by (auto simp: render_tree_entry_def mode_text_def)
  moreover have "split_on (CHR 0x20) ?h = [mode_text (gt_mode e), ''blob'', gt_object_id e]"
    unfolding split_three using oid_chars [OF o] by (auto simp: mode_text_def)
  moreover have "tree_mode (mode_text (gt_mode e)) ''blob'' (gt_path e) = Inr (gt_mode e)" "tree_path l (gt_path e) = Inr ()"
    using * by (simp_all add: tree_mode_Inr tree_path_Inr wf_tree_entry_def)
  ultimately show "tree_record l seen r = Inr e"
    using * o by (cases e) (simp add: tree_record_def validate_oid_def wf_tree_entry_def)
qed

lemma tree_records_Inr:
  "tree_records l seen rs = Inr es \<longleftrightarrow>
     rs = map render_tree_entry es \<and> list_all (wf_tree_entry l) es \<and> distinct (map gt_path es) \<and>
     seen \<inter> gt_path ` set es = {}"
proof (induction rs arbitrary: seen es)
  case (Cons r rs)
  show ?case by (cases es) (auto simp: rbind_Inr_iff tree_record_Inr Cons.IH)
qed auto

lemma render_tree_join: "es \<noteq> [] \<Longrightarrow> render_tree es = join_with [CHR 0x00] (map render_tree_entry es) @ [CHR 0x00]"
  unfolding render_tree_def by (induction es rule: induct_list012) simp_all

lemma render_no_nul: "wf_tree_entry l e \<Longrightarrow> CHR 0x00 \<notin> set (render_tree_entry e)"
  using oid_chars [of "gt_object_id e" "CHR 0x00"]
  by (auto simp: wf_tree_entry_def render_tree_entry_def mode_text_def valid_path_def validate_subject_path_def
      split: if_splits)

lemma parse_ls_tree_Inr: "parse_ls_tree l data = Inr es \<longleftrightarrow> wf_tree l es \<and> data = render_tree es"
proof (cases "data = [] \<or> es = []")
  case True
  then show ?thesis
    by (auto simp: parse_ls_tree_def wf_tree_def render_tree_def tree_records_Inr Let_def split: if_splits)
next
  case False
  have "split_on (CHR 0x00) (butlast data) = map render_tree_entry es \<longleftrightarrow>
      butlast data = join_with [CHR 0x00] (map render_tree_entry es)" if "list_all (wf_tree_entry l) es"
  proof -
    have "split_on (CHR 0x00) (join_with [CHR 0x00] (map render_tree_entry es)) = map render_tree_entry es"
      using False that render_no_nul by (intro split_join) (auto simp: list_all_iff)
    then show ?thesis by (metis join_split_on)
  qed
  moreover have "data = render_tree es \<longleftrightarrow> last data = CHR 0x00 \<and> butlast data = join_with [CHR 0x00] (map render_tree_entry es)"
    using False by (auto simp: render_tree_join intro: append_butlast_last_id [symmetric])
      (metis append_butlast_last_id)
  ultimately show ?thesis
    using False by (auto simp: parse_ls_tree_def wf_tree_def Let_def tree_records_Inr)
qed

section \<open>The objects of a stream\<close>

definition object_header :: "int \<Rightarrow> bytes \<Rightarrow> bytes \<Rightarrow> bytes \<Rightarrow> bool" where
  "object_header m h i d \<longleftrightarrow> is_oid i \<and> int (length d) \<le> m \<and> length h \<le> 256 \<and> CHR 0x0A \<notin> set h \<and>
     (\<exists>s. split_on (CHR 0x20) h = [i, ''blob'', s] \<and> bytes_int10 s = Some (int (length d)))"

lemma first_line:
  assumes "CHR 0x0A \<in> set data"
  shows "data = takeWhile (\<lambda>c. c \<noteq> CHR 0x0A) data @ CHR 0x0A # tl (dropWhile (\<lambda>c. c \<noteq> CHR 0x0A) data)"
proof -
  have "dropWhile (\<lambda>c. c \<noteq> CHR 0x0A) data \<noteq> []" using assms by (simp add: dropWhile_eq_Nil_conv)
  then have "dropWhile (\<lambda>c. c \<noteq> CHR 0x0A) data = CHR 0x0A # tl (dropWhile (\<lambda>c. c \<noteq> CHR 0x0A) data)"
    using hd_dropWhile [of "\<lambda>c. c \<noteq> CHR 0x0A" data] by (cases "dropWhile (\<lambda>c. c \<noteq> CHR 0x0A) data") auto
  then show ?thesis using takeWhile_dropWhile_id [of "\<lambda>c. c \<noteq> CHR 0x0A" data] by simp
qed

lemma payload_split:
  "n < length r \<and> r ! n = c \<and> take n r = d \<and> drop (Suc n) r = t \<longleftrightarrow> r = d @ c # t \<and> n = length d"
  by (auto simp: id_take_nth_drop [symmetric])

lemma cat_file_object_Inr:
  "cat_file_object m i data = Inr (d, rest) \<longleftrightarrow> (\<exists>h. data = h @ CHR 0x0A # d @ CHR 0x0A # rest \<and> object_header m h i d)"
proof
  assume *: "cat_file_object m i data = Inr (d, rest)"
  let ?h = "takeWhile (\<lambda>c. c \<noteq> CHR 0x0A) data" and ?r = "tl (dropWhile (\<lambda>c. c \<noteq> CHR 0x0A) data)"
  have lf: "CHR 0x0A \<in> set data" and len: "length ?h \<le> 256"
    using * by (auto simp: cat_file_object_def Let_def split: if_splits)
  obtain n where f: "length (split_on (CHR 0x20) ?h) = 3" "is_oid i" "split_on (CHR 0x20) ?h ! 0 = i"
    "split_on (CHR 0x20) ?h ! 1 = ''blob''" "bytes_int10 (split_on (CHR 0x20) ?h ! 2) = Some n"
    and n: "0 \<le> n" "n \<le> m" "nat n < length ?r" "?r ! nat n = CHR 0x0A" "d = take (nat n) ?r" "rest = drop (Suc (nat n)) ?r"
    using * by (auto simp: cat_file_object_def Let_def rbind_Inr_iff validate_oid_def split: if_splits option.splits)
  have r: "?r = d @ CHR 0x0A # rest" "nat n = length d"
    using n(3-6) payload_split [of "nat n" ?r "CHR 0x0A" d rest] by auto
  obtain s where "split_on (CHR 0x20) ?h = [i, ''blob'', s]"
    using f(1,3,4) by (auto simp: length_Suc_conv numeral_3_eq_3)
  moreover from this have "bytes_int10 s = Some (int (length d))" using f(5) r(2) n(1) by auto
  moreover have "CHR 0x0A \<notin> set ?h" by (auto dest: set_takeWhileD)
  ultimately have "object_header m ?h i d" using f(2) n(1,2) r(2) len by (auto simp: object_header_def)
  with first_line [OF lf] r(1) show "\<exists>h. data = h @ CHR 0x0A # d @ CHR 0x0A # rest \<and> object_header m h i d" by metis
next
  assume "\<exists>h. data = h @ CHR 0x0A # d @ CHR 0x0A # rest \<and> object_header m h i d"
  then obtain h s where data: "data = h @ CHR 0x0A # d @ CHR 0x0A # rest" and h: "CHR 0x0A \<notin> set h" "length h \<le> 256"
    and s: "split_on (CHR 0x20) h = [i, ''blob'', s]" "bytes_int10 s = Some (int (length d))"
    and i: "is_oid i" "int (length d) \<le> m"
    by (auto simp: object_header_def)
  have "takeWhile (\<lambda>c. c \<noteq> CHR 0x0A) data = h" "dropWhile (\<lambda>c. c \<noteq> CHR 0x0A) data = CHR 0x0A # d @ CHR 0x0A # rest"
    using h(1) unfolding data by (auto simp: takeWhile_append dropWhile_append)
  then show "cat_file_object m i data = Inr (d, rest)"
    using h(2) s i by (simp add: cat_file_object_def Let_def validate_oid_def data)
qed

text \<open>The text of a list of objects, each behind its header.\<close>

fun object_stream :: "int \<Rightarrow> bytes \<Rightarrow> (bytes \<times> bytes) list \<Rightarrow> bool" where
  "object_stream m data [] \<longleftrightarrow> data = []"
| "object_stream m data ((i, d) # os) \<longleftrightarrow>
     (\<exists>h rest. data = h @ CHR 0x0A # d @ CHR 0x0A # rest \<and> object_header m h i d \<and> object_stream m rest os)"

lemma update_new: "i \<notin> fst ` set bs \<Longrightarrow> AList.update i d bs = bs @ [(i, d)]"
  by (induction bs) auto

lemma cat_file_loop_Inr:
  "distinct (map fst bs @ ids) \<Longrightarrow>
     cat_file_loop m ids data bs = Inr r \<longleftrightarrow> (\<exists>os. r = bs @ os \<and> map fst os = ids \<and> object_stream m data os)"
proof (induction ids arbitrary: data bs)
  case (Cons i ids)
  have u: "AList.update i d bs = bs @ [(i, d)]" for d using Cons.prems by (intro update_new) auto
  have IH: "cat_file_loop m ids rest (bs @ [(i, d)]) = Inr r \<longleftrightarrow>
      (\<exists>os. r = (bs @ [(i, d)]) @ os \<and> map fst os = ids \<and> object_stream m rest os)" for rest d
    using Cons.prems by (intro Cons.IH) auto
  have "cat_file_loop m (i # ids) data bs = Inr r \<longleftrightarrow>
      (\<exists>d rest. cat_file_object m i data = Inr (d, rest) \<and> cat_file_loop m ids rest (bs @ [(i, d)]) = Inr r)"
    by (simp add: rbind_Inr_iff split_def u)
  also have "\<dots> \<longleftrightarrow> (\<exists>os. r = bs @ os \<and> map fst os = i # ids \<and> object_stream m data os)"
    unfolding IH cat_file_object_Inr
  proof
    assume "\<exists>d rest. (\<exists>h. data = h @ CHR 0x0A # d @ CHR 0x0A # rest \<and> object_header m h i d) \<and>
      (\<exists>os. r = (bs @ [(i, d)]) @ os \<and> map fst os = ids \<and> object_stream m rest os)"
    then obtain d rest h os where "data = h @ CHR 0x0A # d @ CHR 0x0A # rest" "object_header m h i d"
      "r = (bs @ [(i, d)]) @ os" "map fst os = ids" "object_stream m rest os" by blast
    then show "\<exists>os. r = bs @ os \<and> map fst os = i # ids \<and> object_stream m data os"
      by (intro exI [of _ "(i, d) # os"]) auto
  next
    assume "\<exists>os. r = bs @ os \<and> map fst os = i # ids \<and> object_stream m data os"
    then obtain os where os: "r = bs @ os \<and> map fst os = i # ids \<and> object_stream m data os" ..
    then obtain x os' where "os = x # os'" "fst x = i" by (cases os) simp_all
    then obtain d where "os = (i, d) # os'" by (cases x) simp
    with os show "\<exists>d rest. (\<exists>h. data = h @ CHR 0x0A # d @ CHR 0x0A # rest \<and> object_header m h i d) \<and>
      (\<exists>os. r = (bs @ [(i, d)]) @ os \<and> map fst os = ids \<and> object_stream m rest os)"
      by auto
  qed
  finally show ?case .
qed auto

lemma parse_cat_file_Inr:
  "distinct ids \<Longrightarrow> parse_cat_file_batch data ids m = Inr os \<longleftrightarrow> map fst os = ids \<and> object_stream m data os"
  using cat_file_loop_Inr [of "[]" ids m data os] by (auto simp: parse_cat_file_batch_def)

end
