(* ===== verification/GitSource.thy ===== *)
theory GitSource
  imports GitTree Blobs CodexResult
begin

text \<open>
  The extraction of the committed source in \<open>src/src/agent_loop/git_source.py\<close>: the runner of the few
  read-only git commands (\<open>GitCommandRunner.run\<close>), the checks of the repository's shape, and
  \<open>extract_committed_head\<close>, which turns the committed tree into a manifest.

  What the host does is the record \<open>git_host\<close> of operations on a world: whether Bubblewrap can be
  run, where the git executable resolves to, the transient service and the direct process that run
  a command, one pass of the witness over the checkout, the look for object alternates, and the
  handling of the descriptors that keep the repository's identity.
\<close>

datatype sandbox_mode = SANDBOX_REQUIRED | SANDBOX_OPTIONAL | SANDBOX_DISABLED

record git_process_result =
  gp_argv :: "ustr list"
  gp_returncode :: int
  gp_stdout :: bytes
  gp_stderr :: bytes

record service_call =
  sc_command :: "ustr list"
  sc_role :: string
  sc_input :: bytes
  sc_timeout :: time
  sc_runtime_max :: int
  sc_output_max :: int

record service_result =
  sr_process :: process_result
  sr_cgroup_empty :: bool

record process_call =
  pc_argv :: "ustr list"
  pc_cwd :: "ustr option"
  pc_environment :: "(string \<times> string) list"
  pc_stdin :: bytes
  pc_max_stdout :: int
  pc_max_stderr :: int
  pc_timeout :: time

record witness_entry =
  we_path :: bytes
  we_mode :: int
  we_size :: int
  we_mtime_ns :: int
  we_ctime_ns :: int
  we_inode :: int
  we_device :: int
  we_links :: int

record source_witness =
  sw_entries :: "witness_entry list"
  sw_nested_git_paths :: "bytes list"

record 'w git_host =
  gh_sandbox_available :: "('w, bool) eff"
  gh_resolve_git :: "('w, ustr) eff"
  gh_stat_identity :: "('w, int \<times> int) eff"
  gh_service :: "service_call \<Rightarrow> ('w, service_result) eff"
  gh_process :: "process_call \<Rightarrow> ('w, git_process_result) eff"
  gh_acquire :: "('w, unit) eff"
  gh_release :: "('w, unit) eff"
  gh_identity :: "('w, unit) eff"
  gh_witness_once :: "int \<Rightarrow> ('w, source_witness) eff"
  gh_reject_alternates :: "('w, unit) eff"

text \<open>The fields of a \<open>GitCommandRunner\<close> with the repository it is used for.\<close>

record git_settings =
  gs_git_executable :: ustr
  gs_bwrap_executable :: ustr
  gs_sandbox_mode :: sandbox_mode
  gs_timeout_seconds :: time
  gs_max_stderr_bytes :: int
  gs_repository :: ustr
  gs_repository_identity :: "(int \<times> int) option"

section \<open>Fixed texts\<close>

definition READ_ONLY_GIT_CONFIG :: "string list" where
  "READ_ONLY_GIT_CONFIG =
     [''core.hooksPath=/dev/null'', ''core.fsmonitor=false'', ''core.untrackedCache=false'', ''credential.helper='',
      ''credential.interactive=never'', ''core.pager=cat'', ''pager.status=false'', ''pager.diff=false'',
      ''diff.external='', ''diff.trustExitCode=false'', ''protocol.allow=never'', ''protocol.file.allow=never'',
      ''protocol.ext.allow=never'']"

definition sanitized_git_environment :: "(string \<times> string) list" where
  "sanitized_git_environment =
     [(''HOME'', ''/nonexistent''), (''LANG'', ''C''), (''LC_ALL'', ''C''), (''PATH'', ''/usr/bin:/bin''),
      (''GIT_ASKPASS'', ''/bin/false''), (''SSH_ASKPASS'', ''/bin/false''), (''GIT_ATTR_NOSYSTEM'', ''1''),
      (''GIT_CONFIG_GLOBAL'', ''/dev/null''), (''GIT_CONFIG_NOSYSTEM'', ''1''),
      (''GIT_DISCOVERY_ACROSS_FILESYSTEM'', ''0''), (''GIT_INDEX_FILE'', ''/nonexistent/index''),
      (''GIT_NO_LAZY_FETCH'', ''1''), (''GIT_NO_REPLACE_OBJECTS'', ''1''), (''GIT_OPTIONAL_LOCKS'', ''0''),
      (''GIT_PAGER'', ''cat''), (''GIT_TERMINAL_PROMPT'', ''0''), (''PAGER'', ''cat'')]"

definition SOURCE_EXCLUSION_WARNING :: string where
  "SOURCE_EXCLUSION_WARNING =
     ''all staged, unstaged, untracked, and ignored source-checkout changes are excluded; '' @
     ''only committed HEAD object data is authoritative''"

definition lines_of :: "string list \<Rightarrow> string" where
  "lines_of ls = concat (map (\<lambda>l. l @ [CHR 0x0A]) ls)"

definition SERVICE_GATE_CODE :: string where
  "SERVICE_GATE_CODE = lines_of
     [''import os,stat,sys'', ''marker=os.read(0,1)'',
      ''if marker != b'' @ [CHR 0x27, CHR 0x5C] @ ''x00'' @ [CHR 0x27] @ '': raise SystemExit(125)'',
      ''source=sys.argv[1];expected=(int(sys.argv[2]),int(sys.argv[3]))'',
      ''fd=os.open(source,os.O_RDONLY|os.O_DIRECTORY|os.O_NOFOLLOW)'', ''opened=os.fstat(fd)'',
      ''if (opened.st_dev,opened.st_ino) != expected: raise SystemExit(124)'', ''os.set_inheritable(fd,True)'',
      ''argv=sys.argv[4:]'', ''for index in range(len(argv)-2):'',
      '' if argv[index:index+3] == ['' @ [CHR 0x27] @ ''--ro-bind'' @ [CHR 0x27] @ '',source,'' @ [CHR 0x27] @ ''/source'' @
        [CHR 0x27] @ '']:'',
      ''  argv[index+1]=f'' @ [CHR 0x27] @ ''/proc/self/fd/{fd}'' @ [CHR 0x27] @ '';break'',
      ''else: raise SystemExit(123)'', ''os.execv(argv[0],argv)'']"

text \<open>\<open>data.decode("utf-8", "backslashreplace")\<close>: a byte that starts no character is escaped.\<close>

definition first_char :: "nat list \<Rightarrow> (nat \<times> nat list) option" where
  "first_char s =
     (case filter (\<lambda>k. k \<le> length s \<and> (case utf8_scan (take k s) of Some [c] \<Rightarrow> True | _ \<Rightarrow> False)) [1, 2, 3, 4] of
        [] \<Rightarrow> None
      | k # _ \<Rightarrow> (case utf8_scan (take k s) of Some [c] \<Rightarrow> Some (c, drop k s) | _ \<Rightarrow> None))"

fun decode_replacing :: "nat \<Rightarrow> nat list \<Rightarrow> ustr" where
  "decode_replacing 0 s = []"
| "decode_replacing (Suc n) s =
     (case s of
        [] \<Rightarrow> []
      | b # r \<Rightarrow>
          (case first_char s of
             Some (c, rest) \<Rightarrow> c # decode_replacing n rest
           | None \<Rightarrow> U (CHR 0x5C # CHR ''x'' # hex_bytes [char_of b]) @ decode_replacing n r))"

definition escape_control :: "nat \<Rightarrow> ustr" where
  "escape_control c =
     (if c = 0 then U [CHR 0x5C, CHR ''0''] else if c = 13 then U [CHR 0x5C, CHR ''r'']
      else if c = 10 then U [CHR 0x5C, CHR ''n''] else [c])"

definition safe_detail :: "bytes \<Rightarrow> ustr" where
  "safe_detail data =
     (let s = map of_char (take 1024 data) in concat (map escape_control (decode_replacing (length s) s)))"

section \<open>Running one command\<close>

definition git_argv :: "ustr \<Rightarrow> string list \<Rightarrow> exn + ustr list" where
  "git_argv git arguments =
     rbind (assert_read_only_git_command arguments) (\<lambda>_.
     Inr ([git, U ''--no-optional-locks''] @ concat (map (\<lambda>c. [U ''-c'', U c]) READ_ONLY_GIT_CONFIG) @ map U arguments))"

definition sandbox_error :: "string \<Rightarrow> exn" where
  "sandbox_error detail = fail SANDBOX_SETUP_FAILURE detail"

definition bwrap_arguments :: "ustr \<Rightarrow> ustr list" where
  "bwrap_arguments repository =
     map U [''--unshare-user'', ''--unshare-pid'', ''--as-pid-1'', ''--unshare-ipc'', ''--unshare-uts'',
       ''--unshare-cgroup'', ''--unshare-net'', ''--cap-drop'', ''ALL'', ''--die-with-parent'', ''--new-session'',
       ''--tmpfs'', ''/'', ''--ro-bind'', ''/usr'', ''/usr'', ''--symlink'', ''usr/bin'', ''/bin'', ''--symlink'',
       ''usr/lib'', ''/lib'', ''--symlink'', ''usr/lib64'', ''/lib64'', ''--proc'', ''/proc'', ''--dev'', ''/dev'',
       ''--dir'', ''/source'', ''--ro-bind''] @ [repository] @
     map U [''/source'', ''--dir'', ''/nonexistent'', ''--chdir'', ''/source'', ''--remount-ro'', ''/'', ''--clearenv'']"

text \<open>\<open>resolved.is_relative_to("/usr")\<close> on a resolved absolute path.\<close>

definition below_usr :: "ustr \<Rightarrow> bool" where
  "below_usr p \<longleftrightarrow> p = U ''/usr'' \<or> prefix (U ''/usr/'') p"

definition sandbox_argv :: "'w git_host \<Rightarrow> git_settings \<Rightarrow> ustr list \<Rightarrow> ('w, ustr list) eff" where
  "sandbox_argv host st argv =
     sbind (gh_resolve_git host) (\<lambda>resolved.
     if \<not> below_usr resolved
     then raise (sandbox_error ''required Git executable is outside the reviewed /usr runtime mount'')
     else ret ([gs_bwrap_executable st] @ bwrap_arguments (gs_repository st) @
       concat (map (\<lambda>(k, v). [U ''--setenv'', U k, U v]) (sort_key fst sanitized_git_environment)) @ argv))"

text \<open>The command line, and whether it runs in the sandbox.\<close>

definition plan_argv :: "'w git_host \<Rightarrow> git_settings \<Rightarrow> ustr list \<Rightarrow> ('w, bool \<times> ustr list) eff" where
  "plan_argv host st argv =
     (if gs_sandbox_mode st = SANDBOX_DISABLED then ret (False, argv)
      else sbind (gh_sandbox_available host) (\<lambda>available.
      if \<not> available
      then if gs_sandbox_mode st = SANDBOX_REQUIRED
        then raise (sandbox_error ''required no-network Bubblewrap executable is unavailable'') else ret (False, argv)
      else handle (sbind (sandbox_argv host st argv) (\<lambda>a. ret (True, a)))
        (\<lambda>e. case e of
           OSError m \<Rightarrow> if gs_sandbox_mode st = SANDBOX_REQUIRED
             then raise (sandbox_error ''required no-network Bubblewrap command could not be constructed'')
             else ret (False, argv)
         | RuntimeError m \<Rightarrow> if gs_sandbox_mode st = SANDBOX_REQUIRED
             then raise (sandbox_error ''required no-network Bubblewrap command could not be constructed'')
             else ret (False, argv)
         | _ \<Rightarrow> raise e)))"

definition translate_service_failure :: "exn \<Rightarrow> exn" where
  "translate_service_failure e =
     (case e of
        AgentLoopError reason d \<Rightarrow>
          if reason = AGENT_OUTPUT_LIMIT then git_error ''hardened Git combined output exceeded its byte limit''
          else if reason = SERVICE_LIFECYCLE_MISMATCH
          then sandbox_error ''required Git transient service failed its lifecycle contract'' else e
      | OSError m \<Rightarrow> sandbox_error ''required Git transient service could not start''
      | _ \<Rightarrow> e)"

definition service_output :: "git_settings \<Rightarrow> int \<Rightarrow> ustr list \<Rightarrow> service_result \<Rightarrow> exn + git_process_result" where
  "service_output st max_stdout argv s =
     (let p = sr_process s
      in if \<not> sr_cgroup_empty s
      then Inl (sandbox_error ''required Git transient service did not prove cgroup emptiness'')
      else if pr_output_limited p then Inl (git_error ''hardened Git combined output exceeded its byte limit'')
      else if pr_timed_out p then Inl (git_error ''hardened Git command exceeded its monotonic timeout'')
      else if int (length (pr_stdout p)) > max_stdout then Inl (git_error ''hardened Git stdout exceeded its byte limit'')
      else if int (length (pr_stderr p)) > gs_max_stderr_bytes st
      then Inl (git_error ''hardened Git stderr exceeded its byte limit'')
      else Inr \<lparr>gp_argv = argv, gp_returncode = pr_returncode p, gp_stdout = pr_stdout p, gp_stderr = pr_stderr p\<rparr>)"

definition run_in_service ::
  "'w git_host \<Rightarrow> git_settings \<Rightarrow> ustr list \<Rightarrow> bytes \<Rightarrow> int \<Rightarrow> ('w, git_process_result) eff" where
  "run_in_service host st argv stdin max_stdout =
     sbind (case gs_repository_identity st of Some (d, i) \<Rightarrow> ret d
            | None \<Rightarrow> sbind (gh_stat_identity host) (\<lambda>(d, i). ret d)) (\<lambda>device.
     sbind (case gs_repository_identity st of Some (d, i) \<Rightarrow> ret i
            | None \<Rightarrow> sbind (gh_stat_identity host) (\<lambda>(d, i). ret i)) (\<lambda>inode.
     sbind (handle (gh_service host
        \<lparr>sc_command = map U [''/usr/bin/python3'', ''-I'', ''-B'', ''-c'', SERVICE_GATE_CODE] @
           [gs_repository st, U (dec_int device), U (dec_int inode)] @ argv,
         sc_role = ''git'', sc_input = CHR 0x00 # stdin, sc_timeout = gs_timeout_seconds st,
         sc_runtime_max = max 1 \<lceil>gs_timeout_seconds st\<rceil>,
         sc_output_max = max_stdout + gs_max_stderr_bytes st\<rparr>)
        (\<lambda>e. raise (translate_service_failure e))) (\<lambda>service.
     lift (service_output st max_stdout argv service))))"

definition check_returncode :: "bool \<Rightarrow> int list \<Rightarrow> git_process_result \<Rightarrow> exn + git_process_result" where
  "check_returncode sandboxed allowed r =
     (if gp_returncode r \<in> set allowed then Inr r
      else (let detail = safe_detail (gp_stderr r)
        in if sandboxed \<and> gp_returncode r \<in> {123, 124, 125}
        then Inl (sandbox_error ''required Git repository descriptor binding failed before launch'')
        else if sandboxed \<and> prefix (U ''bwrap:'') detail
        then Inl (AgentLoopError SANDBOX_SETUP_FAILURE
          (U ''required no-network Bubblewrap setup failed: '' @ detail))
        else Inl (AgentLoopError GIT_POLICY_OR_OUTPUT_FAILURE
          (U (''hardened Git command failed with status '' @ dec_int (gp_returncode r) @ '': '') @ detail))))"

definition git_run ::
  "'w git_host \<Rightarrow> git_settings \<Rightarrow> string list \<Rightarrow> bytes \<Rightarrow> int \<Rightarrow> int list \<Rightarrow> ('w, git_process_result) eff" where
  "git_run host st arguments stdin max_stdout allowed =
     sbind (lift (assert_read_only_git_command arguments)) (\<lambda>_.
     if max_stdout < 0 then raise (ValueError (U ''max_stdout_bytes must be a non-negative integer''))
     else if allowed = [] then raise (ValueError (U ''allowed_returncodes must not be empty''))
     else
     sbind (lift (git_argv (gs_git_executable st) arguments)) (\<lambda>direct.
     sbind (plan_argv host st direct) (\<lambda>(sandboxed, argv).
     sbind (if sandboxed then run_in_service host st argv stdin max_stdout
            else gh_process host
              \<lparr>pc_argv = argv, pc_cwd = (if gs_repository_identity st = None then Some (gs_repository st) else None),
               pc_environment = sanitized_git_environment, pc_stdin = stdin, pc_max_stdout = max_stdout,
               pc_max_stderr = gs_max_stderr_bytes st, pc_timeout = gs_timeout_seconds st\<rparr>) (\<lambda>r.
     lift (check_returncode sandboxed allowed r)))))"

section \<open>The shape of the repository\<close>

definition rstrip_lf :: "bytes \<Rightarrow> bytes" where
  "rstrip_lf s = rev (dropWhile (\<lambda>c. c = CHR 0x0A) (rev s))"

definition git_config_value :: "'w git_host \<Rightarrow> git_settings \<Rightarrow> string \<Rightarrow> ('w, bytes option) eff" where
  "git_config_value host st key =
     sbind (git_run host st [''config'', ''--local'', ''--no-includes'', ''--get'', key] [] (64 * 1024) [0, 1]) (\<lambda>r.
     ret (if gp_returncode r = 1 then None else Some (rstrip_lf (gp_stdout r))))"

text \<open>The first of the keys whose value is not allowed stops with an error.\<close>

fun refuse_values ::
  "'w git_host \<Rightarrow> git_settings \<Rightarrow> (bytes option \<Rightarrow> bool) \<Rightarrow> (string \<Rightarrow> string) \<Rightarrow> string list \<Rightarrow> ('w, unit) eff" where
  "refuse_values host st ok msg [] = ret ()"
| "refuse_values host st ok msg (k # ks) =
     sbind (git_config_value host st k) (\<lambda>v.
     if \<not> ok v then raise (shape_error (U (msg k))) else refuse_values host st ok msg ks)"

definition PROMISOR_REGEXP :: string where
  "PROMISOR_REGEXP =
     ''^(remote'' @ [CHR 0x5C] @ ''..*'' @ [CHR 0x5C] @ ''.promisor|include'' @ [CHR 0x5C] @ ''.path|includeIf'' @
     [CHR 0x5C] @ ''..*'' @ [CHR 0x5C] @ ''.path)$''"

definition reject_structural_config :: "'w git_host \<Rightarrow> git_settings \<Rightarrow> ('w, unit) eff" where
  "reject_structural_config host st =
     (let unset_or_false = (\<lambda>v. v = None \<or> v = Some ''false'');
          unsupported = (\<lambda>k. ''unsupported structural Git configuration: '' @ k)
      in sbind (refuse_values host st unset_or_false (\<lambda>_. ''core.bare is not false'') [''core.bare'']) (\<lambda>_.
      sbind (refuse_values host st (\<lambda>v. v = None) unsupported [''core.worktree'', ''extensions.partialClone'']) (\<lambda>_.
      sbind (refuse_values host st unset_or_false unsupported
        [''extensions.worktreeConfig'', ''extensions.relativeWorktrees'']) (\<lambda>_.
      sbind (git_run host st [''config'', ''--local'', ''--no-includes'', ''--get-regexp'', PROMISOR_REGEXP] []
        (64 * 1024) [0, 1]) (\<lambda>r.
      if gp_returncode r = 0 \<and> gp_stdout r \<noteq> []
      then raise (shape_error (U ''promisor or external include configuration is unsupported'')) else ret ())))))"

definition resolve_head :: "'w git_host \<Rightarrow> git_settings \<Rightarrow> ('w, git_process_result) eff" where
  "resolve_head host st =
     handle (git_run host st [''rev-parse'', ''HEAD^{commit}'', ''HEAD^{tree}''] [] 1024 [0])
       (\<lambda>e. case e of
          AgentLoopError reason d \<Rightarrow>
            if reason = GIT_POLICY_OR_OUTPUT_FAILURE then raise (shape_error (U ''HEAD is absent or invalid''))
            else raise e
        | _ \<Rightarrow> raise e)"

definition verify_basic_shape :: "'w git_host \<Rightarrow> git_settings \<Rightarrow> ('w, bytes \<times> bytes) eff" where
  "verify_basic_shape host st =
     sbind (reject_structural_config host st) (\<lambda>_.
     sbind (git_run host st [''rev-parse'', ''--is-inside-work-tree'', ''--is-bare-repository'', ''--git-dir'',
        ''--git-common-dir''] [] 4096 [0]) (\<lambda>shape.
     if splitlines (gp_stdout shape) \<noteq> [''true'', ''false'', ''.git'', ''.git'']
     then raise (shape_error (U ''source is bare, linked, nested, or has an unexpected common directory''))
     else
     sbind (gh_reject_alternates host) (\<lambda>_.
     sbind (git_run host st [''for-each-ref'', ''--format=%(refname)'', ''refs/replace''] [] (64 * 1024) [0]) (\<lambda>replacements.
     if gp_stdout replacements \<noteq> [] then raise (shape_error (U ''replace refs are unsupported''))
     else
     sbind (resolve_head host st) (\<lambda>resolved.
     case splitlines (gp_stdout resolved) of
       [a, b] \<Rightarrow>
         sbind (lift (validate_oid ''HEAD commit resolution'' a)) (\<lambda>commit.
         sbind (lift (validate_oid ''HEAD tree resolution'' b)) (\<lambda>tree. ret (commit, tree)))
     | _ \<Rightarrow> raise (shape_error (U ''HEAD is absent or invalid'')))))))"

section \<open>Extracting the tree\<close>

definition source_witness :: "'w git_host \<Rightarrow> int \<Rightarrow> ('w, source_witness) eff" where
  "source_witness host max_entries =
     sbind (gh_witness_once host max_entries) (\<lambda>first.
     sbind (gh_witness_once host max_entries) (\<lambda>second.
     if first \<noteq> second
     then raise (fail OUT_OF_BAND_CHANGE ''source repository changed during stable witness capture'')
     else ret second))"

definition link_target_ok :: "limits \<Rightarrow> bytes \<Rightarrow> bool" where
  "link_target_ok l target \<longleftrightarrow> target \<noteq> [] \<and> CHR 0x00 \<notin> set target \<and> int (length target) \<le> max_path_bytes l"

definition check_links :: "limits \<Rightarrow> (bytes \<times> bytes) list \<Rightarrow> git_tree_entry list \<Rightarrow> exn + unit" where
  "check_links l objects es =
     (case filter (\<lambda>e. gt_mode e = SYMLINK_MODE \<and> \<not> link_target_ok l (the (map_of objects (gt_object_id e)))) es of
        [] \<Rightarrow> Inr ()
      | e # _ \<Rightarrow> Inl (AgentLoopError UNSAFE_OR_AMBIGUOUS_PATH
          (U ''committed symlink has an unsafe literal target: '' @ display_path (gt_path e))))"

definition scan_of :: "(bytes \<times> bytes) list \<Rightarrow> git_tree_entry \<Rightarrow> scan_record" where
  "scan_of objects e =
     \<lparr>scan_path = gt_path e, scan_kind = (if gt_mode e = SYMLINK_MODE then SYMLINK else REGULAR),
      scan_mode = gt_mode e, scan_payload = the (map_of objects (gt_object_id e))\<rparr>"

text \<open>\<open>except (TypeError, ValueError)\<close> (an encoding error is a ValueError).\<close>

definition manifest_failure :: "exn \<Rightarrow> exn" where
  "manifest_failure e =
     (case e of
        TypeError m \<Rightarrow> git_error ''committed tree cannot be represented by the canonical manifest''
      | ValueError m \<Rightarrow> git_error ''committed tree cannot be represented by the canonical manifest''
      | UnicodeEncodeError \<Rightarrow> git_error ''committed tree cannot be represented by the canonical manifest''
      | _ \<Rightarrow> e)"

record git_source_snapshot =
  gss_revision :: bytes
  gss_tree_object_id :: bytes
  gss_manifest :: subject_manifest
  gss_warnings :: "string list"

definition read_tree :: "'w git_host \<Rightarrow> git_settings \<Rightarrow> limits \<Rightarrow> bytes \<Rightarrow> ('w, git_tree_entry list) eff" where
  "read_tree host st l tree =
     sbind (git_run host st [''ls-tree'', ''-r'', ''-z'', ''--full-tree'', tree] []
        (max_files l * (max_path_bytes l + 128) + 1) [0]) (\<lambda>r.
     lift (parse_ls_tree l (gp_stdout r)))"

definition read_objects ::
  "'w git_host \<Rightarrow> git_settings \<Rightarrow> limits \<Rightarrow> git_tree_entry list \<Rightarrow> ('w, (bytes \<times> bytes) list) eff" where
  "read_objects host st l es =
     (let ids = dedup (map gt_object_id es)
      in sbind (git_run host st [''cat-file'', ''--batch''] (concat (map (\<lambda>i. i @ [CHR 0x0A]) ids))
           (max_total_subject_bytes l + int (length ids) * 160 + 1) [0]) (\<lambda>r.
      lift (parse_cat_file_batch (gp_stdout r) ids (max_file_bytes l))))"

definition materialize ::
  "'w git_host \<Rightarrow> git_settings \<Rightarrow> (bytes \<Rightarrow> ('w, ustr) eff) \<Rightarrow> limits \<Rightarrow> ('w, bytes \<times> bytes \<times> subject_manifest) eff" where
  "materialize host st put l =
     sbind (verify_basic_shape host st) (\<lambda>(revision, tree).
     sbind (read_tree host st l tree) (\<lambda>es.
     sbind (read_objects host st l es) (\<lambda>objects.
     sbind (lift (check_links l objects es)) (\<lambda>_.
     sbind (handle (sbind (lift (rmap check_scan_record (map (scan_of objects) es))) (build_manifest_from_scan l put))
        (\<lambda>e. raise (manifest_failure e))) (\<lambda>m.
     ret (revision, tree, m))))))"

text \<open>A missing object or an absent HEAD is a matter of the repository's shape.\<close>

definition reclassify :: "exn \<Rightarrow> exn" where
  "reclassify e =
     (case e of
        AgentLoopError reason d \<Rightarrow>
          if reason = GIT_POLICY_OR_OUTPUT_FAILURE \<and> (contains (U ''missing'') d \<or> contains (U ''HEAD'') d)
          then shape_error d else e
      | _ \<Rightarrow> e)"

text \<open>\<open>try: m finally: f\<close> and \<open>try: m except BaseException: f; raise\<close>.\<close>

definition finally_do :: "('s, 'a) eff \<Rightarrow> ('s, unit) eff \<Rightarrow> ('s, 'a) eff" where
  "finally_do m f s =
     (case m s of (r, s1) \<Rightarrow> (case f s1 of (Inl e, s2) \<Rightarrow> (Inl e, s2) | (Inr _, s2) \<Rightarrow> (r, s2)))"

definition on_error :: "('s, 'a) eff \<Rightarrow> ('s, unit) eff \<Rightarrow> ('s, 'a) eff" where
  "on_error m f = handle m (\<lambda>e. sbind f (\<lambda>_. raise e))"

definition unchanged_since :: "'w git_host \<Rightarrow> int \<Rightarrow> source_witness \<Rightarrow> ('w, unit) eff" where
  "unchanged_since host max_entries earlier =
     sbind (source_witness host max_entries) (\<lambda>later.
     sbind (gh_identity host) (\<lambda>_.
     if earlier \<noteq> later
     then raise (fail OUT_OF_BAND_CHANGE
       ''source checkout or Git metadata changed during committed-tree extraction'')
     else ret ()))"

definition extract_committed_head ::
  "'w git_host \<Rightarrow> git_settings \<Rightarrow> (bytes \<Rightarrow> ('w, ustr) eff) \<Rightarrow> limits \<Rightarrow> int \<Rightarrow> ('w, git_source_snapshot) eff" where
  "extract_committed_head host st put l max_witness_entries =
     (if max_witness_entries \<le> 0 then raise (ValueError (U ''max_witness_entries must be positive''))
      else
      sbind (gh_acquire host) (\<lambda>_.
      sbind (on_error (sbind (gh_identity host) (\<lambda>_. source_witness host max_witness_entries)) (gh_release host)) (\<lambda>earlier.
      if sw_nested_git_paths earlier \<noteq> []
      then sbind (gh_release host) (\<lambda>_. raise (shape_error (U ''nested Git repository metadata is unsupported: '' @
        join_with (U '', '') (map display_path (take 8 (sw_nested_git_paths earlier))))))
      else
      sbind (finally_do (handle (materialize host st put l) (\<lambda>e. raise (reclassify e)))
        (finally_do (unchanged_since host max_witness_entries earlier) (gh_release host))) (\<lambda>(revision, tree, m).
      ret \<lparr>gss_revision = revision, gss_tree_object_id = tree, gss_manifest = m,
        gss_warnings = [SOURCE_EXCLUSION_WARNING]\<rparr>))))"

section \<open>What an extraction is\<close>

text \<open>The entry of the manifest that stands for an entry of the tree, with the object of that name.\<close>

definition committed_entry :: "(bytes \<times> bytes) list \<Rightarrow> git_tree_entry \<Rightarrow> manifest_entry" where
  "committed_entry objects e =
     (let d = the (map_of objects (gt_object_id e))
      in if gt_mode e = SYMLINK_MODE
      then \<lparr>entry_path = gt_path e, entry_kind = SYMLINK, entry_mode = SYMLINK_MODE, entry_size = None,
        blob_sha256 = None, symlink_target = Some d, target_sha256 = Some (U (sha256_hex d))\<rparr>
      else \<lparr>entry_path = gt_path e, entry_kind = REGULAR, entry_mode = gt_mode e, entry_size = Some (int (length d)),
        blob_sha256 = Some (U (sha256_hex d)), symlink_target = None, target_sha256 = None\<rparr>)"

text \<open>
  The two commands that read the tree and its objects ran one after the other, printed the
  listing of \<open>es\<close> and the stream of \<open>objects\<close>, one object for each name in the listing, and the
  manifest has exactly the entries of the listing with their objects.
\<close>

definition committed_tree ::
  "'w git_host \<Rightarrow> git_settings \<Rightarrow> limits \<Rightarrow> bytes \<Rightarrow> git_tree_entry list \<Rightarrow> (bytes \<times> bytes) list \<Rightarrow> 'w \<Rightarrow> 'w \<Rightarrow> bool" where
  "committed_tree host st l tree es objects w w' \<longleftrightarrow> wf_tree l es \<and> map fst objects = dedup (map gt_object_id es) \<and>
     (\<exists>w1 listing stream.
        git_run host st [''ls-tree'', ''-r'', ''-z'', ''--full-tree'', tree] []
          (max_files l * (max_path_bytes l + 128) + 1) [0] w = (Inr listing, w1) \<and>
        gp_stdout listing = render_tree es \<and>
        git_run host st [''cat-file'', ''--batch''] (concat (map (\<lambda>i. i @ [CHR 0x0A]) (map fst objects)))
          (max_total_subject_bytes l + int (length objects) * 160 + 1) [0] w1 = (Inr stream, w') \<and>
        object_stream (max_file_bytes l) (gp_stdout stream) objects)"

definition manifest_of :: "limits \<Rightarrow> git_tree_entry list \<Rightarrow> (bytes \<times> bytes) list \<Rightarrow> subject_manifest \<Rightarrow> bool" where
  "manifest_of l es objects m \<longleftrightarrow> wf_manifest m \<and> validate_limits l m = Inr () \<and>
     entries m = sort_key entry_path (map (committed_entry objects) es)"

lemma read_tree_Inr:
  "read_tree host st l tree w = (Inr es, w') \<longleftrightarrow>
     (\<exists>r. git_run host st [''ls-tree'', ''-r'', ''-z'', ''--full-tree'', tree] []
            (max_files l * (max_path_bytes l + 128) + 1) [0] w = (Inr r, w') \<and>
          wf_tree l es \<and> gp_stdout r = render_tree es)"
  by (auto simp: read_tree_def sbind_Inr_iff parse_ls_tree_Inr)

lemma read_objects_Inr:
  assumes "read_objects host st l es w = (Inr os, w')"
  shows "map fst os = dedup (map gt_object_id es)"
    and "\<exists>r. git_run host st [''cat-file'', ''--batch''] (concat (map (\<lambda>i. i @ [CHR 0x0A]) (map fst os)))
          (max_total_subject_bytes l + int (length os) * 160 + 1) [0] w = (Inr r, w') \<and>
        object_stream (max_file_bytes l) (gp_stdout r) os"
proof -
  let ?ids = "dedup (map gt_object_id es)"
  obtain r where r: "git_run host st [''cat-file'', ''--batch''] (concat (map (\<lambda>i. i @ [CHR 0x0A]) ?ids))
      (max_total_subject_bytes l + int (length ?ids) * 160 + 1) [0] w = (Inr r, w')"
    and p: "parse_cat_file_batch (gp_stdout r) ?ids (max_file_bytes l) = Inr os"
    using assms by (auto simp: read_objects_def sbind_Inr_iff Let_def)
  note o = p [unfolded parse_cat_file_Inr [OF distinct_dedup]]
  show ids: "map fst os = ?ids" using o ..
  then have "length os = length ?ids" by (metis length_map)
  then show "\<exists>r. git_run host st [''cat-file'', ''--batch''] (concat (map (\<lambda>i. i @ [CHR 0x0A]) (map fst os)))
          (max_total_subject_bytes l + int (length os) * 160 + 1) [0] w = (Inr r, w') \<and>
        object_stream (max_file_bytes l) (gp_stdout r) os"
    using r o unfolding ids by auto
qed

lemma scan_entry_committed:
  assumes "wf_tree_entry l e" and "scan_entry put (scan_of os e) w = (Inr x, w')"
  shows "x = committed_entry os e" and "wf_entry x"
  using assms
  by (auto simp: scan_entry_def scan_of_def committed_entry_def Let_def sbind_Inr_iff check_entry_Inr symlink_entry_Inr
      symlink_entry_def wf_tree_entry_def split: if_splits)

lemma smap_scan_committed:
  "list_all (wf_tree_entry l) es \<Longrightarrow> smap (scan_entry put) (map (scan_of os) es) w = (Inr xs, w') \<Longrightarrow>
     xs = map (committed_entry os) es \<and> list_all wf_entry xs"
proof (induction es arbitrary: w xs)
  case (Cons e es)
  then obtain x ys w1 where x: "scan_entry put (scan_of os e) w = (Inr x, w1)"
    and ys: "smap (scan_entry put) (map (scan_of os) es) w1 = (Inr ys, w')" and xs: "xs = x # ys"
    by (auto simp: sbind_Inr_iff)
  show ?case using Cons.IH [OF _ ys] Cons.prems(1) scan_entry_committed [of l, OF _ x] by (auto simp: xs)
qed simp

lemma rmap_check_scan: "rmap check_scan_record rs = Inr ys \<Longrightarrow> ys = rs"
  by (induction rs arbitrary: ys)
    (auto simp: rbind_Inr_iff check_scan_record_def split: entry_kind.splits if_splits)

lemma build_committed:
  assumes es: "wf_tree l es"
    and m: "sbind (lift (rmap check_scan_record (map (scan_of os) es))) (build_manifest_from_scan l put) w = (Inr m, w')"
  shows "manifest_of l es os m"
proof -
  obtain xs where xs: "smap (scan_entry put) (map (scan_of os) es) w = (Inr xs, w')" and b: "build_manifest l xs = Inr m"
    using m by (auto simp: build_manifest_from_scan_def sbind_Inr_iff split: sum.splits dest: rmap_check_scan)
  have c: "xs = map (committed_entry os) es" "\<forall>x \<in> set xs. wf_entry x"
    using smap_scan_committed [OF _ xs] es by (auto simp: wf_tree_def list_all_iff)
  show ?thesis
    using build_manifest_wf [OF b c(2)] b c(1) by (simp add: manifest_of_def build_manifest_Inr)
qed

lemma handle_raise_Inr: "handle m (\<lambda>e. raise (f e)) w = (Inr x, w') \<longleftrightarrow> m w = (Inr x, w')"
  by (auto simp: handle_def split: sum.splits prod.splits)

lemma finally_do_Inr: "finally_do m f w = (Inr x, w') \<longleftrightarrow> (\<exists>w1 u. m w = (Inr x, w1) \<and> f w1 = (Inr u, w'))"
  by (auto simp: finally_do_def split: sum.splits prod.splits)

lemma on_error_Inr: "on_error m f w = (Inr x, w') \<Longrightarrow> m w = (Inr x, w')"
  by (auto simp: on_error_def handle_def sbind_def split: sum.splits prod.splits)

lemma materialize_Inr:
  assumes "materialize host st put l w = (Inr (revision, tree, m), w')"
  shows "\<exists>es os w1 w2. verify_basic_shape host st w = (Inr (revision, tree), w1) \<and>
    committed_tree host st l tree es os w1 w2 \<and>
    build_manifest_from_scan l put (map (scan_of os) es) w2 = (Inr m, w') \<and> manifest_of l es os m"
proof -
  obtain es os w1 w2 w3 where v: "verify_basic_shape host st w = (Inr (revision, tree), w1)"
    and t: "read_tree host st l tree w1 = (Inr es, w2)" and o: "read_objects host st l es w2 = (Inr os, w3)"
    and b: "sbind (lift (rmap check_scan_record (map (scan_of os) es))) (build_manifest_from_scan l put) w3 = (Inr m, w')"
    using assms by (auto simp: materialize_def sbind_Inr_iff handle_raise_Inr simp del: sbind_basic(3))
  have "committed_tree host st l tree es os w1 w3"
    using t [unfolded read_tree_Inr] read_objects_Inr [OF o] unfolding committed_tree_def by blast
  moreover have "manifest_of l es os m" using build_committed [OF _ b] t [unfolded read_tree_Inr] by blast
  moreover have "build_manifest_from_scan l put (map (scan_of os) es) w3 = (Inr m, w')"
    using b by (auto split: sum.splits dest: rmap_check_scan)
  ultimately show ?thesis using v by blast
qed

text \<open>
  The checkout was the same, witness for witness, right before and right after what was done
  between the worlds \<open>w1\<close> and \<open>w2\<close>: nothing but that and the checks of the repository's identity
  lies between the two witnesses.
\<close>

definition witnessed_around :: "'w git_host \<Rightarrow> int \<Rightarrow> 'w \<Rightarrow> 'w \<Rightarrow> 'w \<Rightarrow> 'w \<Rightarrow> bool" where
  "witnessed_around host n w w1 w2 w' \<longleftrightarrow>
     (\<exists>wit wa wb. gh_identity host w = (Inr (), wa) \<and> source_witness host n wa = (Inr wit, w1) \<and>
        sw_nested_git_paths wit = [] \<and>
        source_witness host n w2 = (Inr wit, wb) \<and> gh_identity host wb = (Inr (), w'))"

lemma extract_committed_head_Inr:
  assumes "extract_committed_head host st put l n w = (Inr s, w')"
  shows "\<exists>es os w0 w1 w2 w3 w4 w5. gh_acquire host w = (Inr (), w0) \<and> witnessed_around host n w0 w1 w4 w5 \<and>
    verify_basic_shape host st w1 = (Inr (gss_revision s, gss_tree_object_id s), w2) \<and>
    committed_tree host st l (gss_tree_object_id s) es os w2 w3 \<and>
    build_manifest_from_scan l put (map (scan_of os) es) w3 = (Inr (gss_manifest s), w4) \<and>
    manifest_of l es os (gss_manifest s) \<and> gh_release host w5 = (Inr (), w')"
proof -
  obtain w0 wit w1 where q: "gh_acquire host w = (Inr (), w0)"
    and wit: "sbind (gh_identity host) (\<lambda>_. source_witness host n) w0 = (Inr wit, w1)"
    and nested: "sw_nested_git_paths wit = []"
    and b: "sbind (finally_do (handle (materialize host st put l) (\<lambda>e. raise (reclassify e)))
        (finally_do (unchanged_since host n wit) (gh_release host))) (\<lambda>(revision, tree, m).
      ret \<lparr>gss_revision = revision, gss_tree_object_id = tree, gss_manifest = m,
        gss_warnings = [SOURCE_EXCLUSION_WARNING]\<rparr>) w1 = (Inr s, w')"
    using assms by (auto simp: extract_committed_head_def sbind_Inr_iff dest!: on_error_Inr split: if_splits)
  obtain w4 w5 where m: "materialize host st put l w1 = (Inr (gss_revision s, gss_tree_object_id s, gss_manifest s), w4)"
    and u: "unchanged_since host n wit w4 = (Inr (), w5)" and r: "gh_release host w5 = (Inr (), w')"
    using b by (auto simp: sbind_Inr_iff finally_do_Inr handle_raise_Inr)
  have "witnessed_around host n w0 w1 w4 w5"
    using wit u nested by (auto simp: witnessed_around_def unchanged_since_def sbind_Inr_iff split: if_splits)
  then show ?thesis using q r materialize_Inr [OF m] by blast
qed

end
