(* ===== verification/GitSamples.thy ===== *)
theory GitSamples
  imports GitSource
begin

text \<open>
  A repository whose committed tree has one file and one link, on a host that answers every command
  at once: the input at which the extraction is applied. The object names are made up, as git's
  hash is not part of the model.
\<close>

definition sample_oid :: "char \<Rightarrow> bytes" where
  "sample_oid c = replicate 40 c"

definition sample_tree :: "git_tree_entry list" where
  "sample_tree =
     [\<lparr>gt_path = ''readme'', gt_mode = REGULAR_MODE, gt_object_type = U ''blob'', gt_object_id = sample_oid CHR ''a''\<rparr>,
      \<lparr>gt_path = ''start'', gt_mode = SYMLINK_MODE, gt_object_type = U ''blob'', gt_object_id = sample_oid CHR ''b''\<rparr>]"

definition sample_objects :: "(bytes \<times> bytes) list" where
  "sample_objects = [(sample_oid CHR ''a'', ''hello''), (sample_oid CHR ''b'', ''readme'')]"

definition sample_object_text :: "bytes \<Rightarrow> string \<Rightarrow> bytes \<Rightarrow> bytes" where
  "sample_object_text i n d = i @ '' blob '' @ n @ CHR 0x0A # d @ [CHR 0x0A]"

definition sample_stream_text :: bytes where
  "sample_stream_text =
     sample_object_text (sample_oid CHR ''a'') ''5'' ''hello'' @ sample_object_text (sample_oid CHR ''b'') ''6'' ''readme''"

text \<open>What the commands print.\<close>

definition sample_output :: "ustr list \<Rightarrow> int \<times> bytes" where
  "sample_output args =
     (if hd args = U ''ls-tree'' then (0, render_tree sample_tree)
      else if hd args = U ''cat-file''
      then (0, sample_stream_text)
      else if hd args = U ''for-each-ref'' then (0, [])
      else if hd args = U ''config'' then (1, [])
      else if length args = 3 then (0, sample_oid CHR ''c'' @ [CHR 0x0A] @ sample_oid CHR ''d'' @ [CHR 0x0A])
      else (0, lines_of [''true'', ''false'', ''.git'', ''.git'']))"

definition sample_host :: "nat git_host" where
  "sample_host =
     \<lparr>gh_sandbox_available = ret False, gh_resolve_git = ret (U ''/usr/bin/git''), gh_stat_identity = ret (1, 2),
      gh_service = (\<lambda>_. raise (OSError [])),
      gh_process = (\<lambda>c. case sample_output (drop (2 + 2 * length READ_ONLY_GIT_CONFIG) (pc_argv c)) of (code, out) \<Rightarrow>
        ret \<lparr>gp_argv = pc_argv c, gp_returncode = code, gp_stdout = out, gp_stderr = []\<rparr>),
      gh_acquire = ret (), gh_release = ret (), gh_identity = ret (),
      gh_witness_once = (\<lambda>_. ret \<lparr>sw_entries = [], sw_nested_git_paths = []\<rparr>), gh_reject_alternates = ret ()\<rparr>"

definition sample_settings :: git_settings where
  "sample_settings =
     \<lparr>gs_git_executable = U ''/usr/bin/git'', gs_bwrap_executable = U ''/usr/bin/bwrap'', gs_sandbox_mode = SANDBOX_DISABLED,
      gs_timeout_seconds = 30, gs_max_stderr_bytes = 65536, gs_repository = U ''/repo'', gs_repository_identity = Some (1, 2)\<rparr>"

definition sample_put :: "bytes \<Rightarrow> (nat, ustr) eff" where
  "sample_put d = ret (U (sha256_hex d))"

lemma length_options: "length (concat (map (\<lambda>c. [U ''-c'', U c]) cs)) = 2 * length cs"
  by (induction cs) auto

lemma sample_run:
  assumes "assert_read_only_git_command args = Inr ()" and "0 \<le> n" and "allowed \<noteq> []"
    and "sample_output (map U args) = (code, out)" and "code \<in> set allowed"
  shows "\<exists>r. git_run sample_host sample_settings args stdin n allowed w = (Inr r, w) \<and> gp_returncode r = code \<and> gp_stdout r = out"
proof -
  have "drop (2 + 2 * length READ_ONLY_GIT_CONFIG)
      ([g, U ''--no-optional-locks''] @ concat (map (\<lambda>c. [U ''-c'', U c]) READ_ONLY_GIT_CONFIG) @ map U args) = map U args" for g
    by (simp add: length_options)
  then show ?thesis
    using assms unfolding git_run_def git_argv_def
    by (simp add: plan_argv_def sample_settings_def sample_host_def check_returncode_def)
qed

lemma sample_oid_ok: "is_oid (sample_oid c)" if "c \<in> set ''abcd''"
  using that by (auto simp: is_oid_def sample_oid_def is_hex_lower_def list_all_iff)

lemma sample_config_run:
  assumes "set opts \<inter> {''--get'', ''--get-regexp'', ''--get-all''} \<noteq> {}"
    and "set opts \<inter> {''--add'', ''--append'', ''--edit'', ''--remove-section'', ''--rename-section'', ''--unset'', ''--unset-all''} = {}"
  shows "\<exists>r. git_run sample_host sample_settings (''config'' # ''--local'' # ''--no-includes'' # opts) stdin (64 * 1024) [0, 1] w =
    (Inr r, w) \<and> gp_returncode r = 1"
proof -
  have "assert_read_only_git_command (''config'' # ''--local'' # ''--no-includes'' # opts) = Inr ()"
    using assms by (auto simp: assert_read_only_git_command_def ALLOWED_GIT_SUBCOMMANDS_def)
  from sample_run [OF this, of "64 * 1024" "[0, 1]" 1 "[]"] show ?thesis
    by (auto simp: sample_output_def)
qed

lemma sample_config_value:
  assumes "k \<notin> {''--add'', ''--append'', ''--edit'', ''--remove-section'', ''--rename-section'', ''--unset'', ''--unset-all''}"
  shows "git_config_value sample_host sample_settings k w = (Inr None, w)"
proof -
  have "\<exists>r. git_run sample_host sample_settings [''config'', ''--local'', ''--no-includes'', ''--get'', k] [] (64 * 1024) [0, 1] w =
      (Inr r, w) \<and> gp_returncode r = 1"
    by (rule sample_config_run) (use assms in simp_all)
  then obtain r where "git_run sample_host sample_settings [''config'', ''--local'', ''--no-includes'', ''--get'', k] [] (64 * 1024)
      [0, 1] w = (Inr r, w)" "gp_returncode r = 1" by blast
  then show ?thesis by (simp add: git_config_value_def sbind_simps)
qed

lemma sample_structure_accepted: "reject_structural_config sample_host sample_settings w = (Inr (), w)"
proof -
  have "\<exists>r. git_run sample_host sample_settings [''config'', ''--local'', ''--no-includes'', ''--get-regexp'', PROMISOR_REGEXP] []
      (64 * 1024) [0, 1] w = (Inr r, w) \<and> gp_returncode r = 1"
    by (rule sample_config_run) (simp_all add: PROMISOR_REGEXP_def)
  then obtain r where r: "git_run sample_host sample_settings
      [''config'', ''--local'', ''--no-includes'', ''--get-regexp'', PROMISOR_REGEXP] [] (64 * 1024) [0, 1] w = (Inr r, w)"
    "gp_returncode r = 1" by blast
  show ?thesis
    unfolding reject_structural_config_def Let_def
    using r by (simp add: sbind_def sample_config_value)
qed

lemma sample_split:
  "splitlines (sample_oid CHR ''c'' @ CHR 0x0A # sample_oid CHR ''d'' @ [CHR 0x0A]) = [sample_oid CHR ''c'', sample_oid CHR ''d'']"
  "splitlines (lines_of [''true'', ''false'', ''.git'', ''.git'']) = [''true'', ''false'', ''.git'', ''.git'']"
  by code_simp+

lemma sample_shape:
  "verify_basic_shape sample_host sample_settings w = (Inr (sample_oid CHR ''c'', sample_oid CHR ''d''), w)"
proof -
  let ?run = "git_run sample_host sample_settings"
  obtain r1 where r1: "?run [''rev-parse'', ''--is-inside-work-tree'', ''--is-bare-repository'', ''--git-dir'', ''--git-common-dir'']
      [] 4096 [0] w = (Inr r1, w)" "gp_stdout r1 = lines_of [''true'', ''false'', ''.git'', ''.git'']"
    using sample_run [of "[''rev-parse'', ''--is-inside-work-tree'', ''--is-bare-repository'', ''--git-dir'', ''--git-common-dir'']"
        4096 "[0]" 0 "lines_of [''true'', ''false'', ''.git'', ''.git'']" "[]" w]
    by (auto simp: assert_read_only_git_command_def ALLOWED_GIT_SUBCOMMANDS_def sample_output_def)
  obtain r2 where r2: "?run [''for-each-ref'', ''--format=%(refname)'', ''refs/replace''] [] (64 * 1024) [0] w = (Inr r2, w)"
    "gp_stdout r2 = []"
    using sample_run [of "[''for-each-ref'', ''--format=%(refname)'', ''refs/replace'']" "64 * 1024" "[0]" 0 "[]" "[]" w]
    by (auto simp: assert_read_only_git_command_def ALLOWED_GIT_SUBCOMMANDS_def sample_output_def)
  obtain r3 where r3: "?run [''rev-parse'', ''HEAD^{commit}'', ''HEAD^{tree}''] [] 1024 [0] w = (Inr r3, w)"
    "gp_stdout r3 = sample_oid CHR ''c'' @ [CHR 0x0A] @ sample_oid CHR ''d'' @ [CHR 0x0A]"
    using sample_run [of "[''rev-parse'', ''HEAD^{commit}'', ''HEAD^{tree}'']" 1024 "[0]" 0
        "sample_oid CHR ''c'' @ [CHR 0x0A] @ sample_oid CHR ''d'' @ [CHR 0x0A]" "[]" w]
    by (auto simp: assert_read_only_git_command_def ALLOWED_GIT_SUBCOMMANDS_def sample_output_def)
  have "gh_reject_alternates sample_host = ret ()" by (simp add: sample_host_def)
  with r1 r2 r3 show ?thesis
    by (simp add: verify_basic_shape_def resolve_head_def handle_def sbind_def sample_structure_accepted sample_split
        validate_oid_def sample_oid_ok)
qed

lemma sample_paths_ok: "valid_path ''readme''" "valid_path ''start''" "\<not> is_git_path ''readme''" "\<not> is_git_path ''start''"
  by code_simp+

lemma sample_tree_wf: "wf_tree default_limits sample_tree"
proof -
  show ?thesis
    by (simp add: wf_tree_def sample_tree_def wf_tree_entry_def sample_oid_ok default_limits_def sample_paths_ok)
qed

lemma sample_ids: "map fst sample_objects = dedup (map gt_object_id sample_tree)"
  by (simp add: sample_objects_def sample_tree_def dedup_def sample_oid_def)

lemma sample_object_header:
  assumes "i \<in> {sample_oid CHR ''a'', sample_oid CHR ''b''}" and "bytes_int10 n = Some (int (length d))"
    and "CHR 0x20 \<notin> set n" "CHR 0x0A \<notin> set n" "length n = 1" and "length d \<le> 100"
  shows "object_header (max_file_bytes default_limits) (i @ '' blob '' @ n) i d"
proof -
  have "is_oid (sample_oid CHR ''a'')" "is_oid (sample_oid CHR ''b'')" by (simp_all add: sample_oid_ok)
  then have i: "is_oid i" using assms(1) by blast
  have "length (sample_oid c) = 40" for c by (simp add: sample_oid_def)
  with assms(1) have n: "length i = 40" by blast
  have "split_on (CHR 0x20) (i @ '' blob '' @ n) = [i, ''blob'', n]"
    using oid_chars [OF i] assms(3) by (subst split_three) auto
  then show ?thesis
    using i n assms(2,4-6) oid_chars [OF i] by (auto simp: object_header_def default_limits_def)
qed

lemma object_stream_text:
  assumes "object_header m (i @ '' blob '' @ n) i d" and "object_stream m rest os"
  shows "object_stream m (sample_object_text i n d @ rest) ((i, d) # os)"
proof -
  have "sample_object_text i n d @ rest = (i @ '' blob '' @ n) @ CHR 0x0A # d @ CHR 0x0A # rest"
    by (simp add: sample_object_text_def)
  with assms show ?thesis unfolding object_stream.simps by blast
qed

lemma sample_stream_objects: "object_stream (max_file_bytes default_limits) sample_stream_text sample_objects"
proof -
  have n: "bytes_int10 ''5'' = Some 5" "bytes_int10 ''6'' = Some 6" by code_simp+
  have "object_stream (max_file_bytes default_limits) (sample_object_text (sample_oid CHR ''b'') ''6'' ''readme'' @ [])
      [(sample_oid CHR ''b'', ''readme'')]"
    by (intro object_stream_text sample_object_header) (simp_all add: n)
  then show ?thesis
    unfolding sample_objects_def sample_stream_text_def
    by (intro object_stream_text sample_object_header) (simp_all add: n)
qed

text \<open>The manifest, with the digest of the content where it has one.\<close>

definition sample_tree_manifest :: subject_manifest where
  "sample_tree_manifest =
     \<lparr>entries = map (committed_entry sample_objects) sample_tree, schema_version = SUBJECT_SCHEMA_VERSION\<rparr>"

lemma sample_entries:
  "map (committed_entry sample_objects) sample_tree =
     [\<lparr>entry_path = ''readme'', entry_kind = REGULAR, entry_mode = REGULAR_MODE, entry_size = Some 5,
       blob_sha256 = Some (U (sha256_hex ''hello'')), symlink_target = None, target_sha256 = None\<rparr>,
      \<lparr>entry_path = ''start'', entry_kind = SYMLINK, entry_mode = SYMLINK_MODE, entry_size = None,
       blob_sha256 = None, symlink_target = Some ''readme'', target_sha256 = Some (U (sha256_hex ''readme''))\<rparr>]"
  by (simp add: sample_tree_def sample_objects_def committed_entry_def Let_def sample_oid_def REGULAR_MODE_def SYMLINK_MODE_def)

lemma sample_tree_manifest_built:
  "sbind (lift (rmap check_scan_record (map (scan_of sample_objects) sample_tree)))
     (build_manifest_from_scan default_limits sample_put) w = (Inr sample_tree_manifest, w)"
proof -
  let ?rs = "map (scan_of sample_objects) sample_tree"
  have rs: "?rs = [\<lparr>scan_path = ''readme'', scan_kind = REGULAR, scan_mode = REGULAR_MODE, scan_payload = ''hello''\<rparr>,
      \<lparr>scan_path = ''start'', scan_kind = SYMLINK, scan_mode = SYMLINK_MODE, scan_payload = ''readme''\<rparr>]"
    by (simp add: sample_tree_def sample_objects_def scan_of_def sample_oid_def REGULAR_MODE_def SYMLINK_MODE_def)
  have c: "rmap check_scan_record ?rs = Inr ?rs"
    unfolding rs by (simp add: check_scan_record_def validate_ok sample_paths_ok)
  have l: "scan_limits default_limits 0 0 ?rs = Inr ()" unfolding rs by (simp add: default_limits_def)
  have e: "smap (scan_entry sample_put) ?rs w = (Inr (map (committed_entry sample_objects) sample_tree), w)"
    unfolding rs sample_entries
    by (simp add: scan_entry_def sample_put_def sbind_def check_entry_def check_regular_def validate_ok sample_paths_ok
        symlink_entry_def check_symlink_def validate_sha256_Inr)
  have b: "build_manifest default_limits (map (committed_entry sample_objects) sample_tree) = Inr sample_tree_manifest"
    unfolding build_manifest_Inr sample_tree_manifest_def sample_entries
    by (simp add: check_manifest_def manifest_paths_def proper_ancestors_def Let_def validate_limits_def default_limits_def)
  show ?thesis by (simp add: c build_manifest_from_scan_def l sbind_def e b)
qed

definition sample_snapshot :: git_source_snapshot where
  "sample_snapshot =
     \<lparr>gss_revision = sample_oid CHR ''c'', gss_tree_object_id = sample_oid CHR ''d'', gss_manifest = sample_tree_manifest,
      gss_warnings = [SOURCE_EXCLUSION_WARNING]\<rparr>"

lemma sample_materialized:
  "materialize sample_host sample_settings sample_put default_limits w =
     (Inr (sample_oid CHR ''c'', sample_oid CHR ''d'', sample_tree_manifest), w)"
proof -
  let ?run = "git_run sample_host sample_settings" and ?bound = "max_files default_limits * (max_path_bytes default_limits + 128) + 1"
  let ?ids = "dedup (map gt_object_id sample_tree)"
  obtain r1 where r1: "?run [''ls-tree'', ''-r'', ''-z'', ''--full-tree'', sample_oid CHR ''d''] [] ?bound [0] w = (Inr r1, w)"
    "gp_stdout r1 = render_tree sample_tree"
    using sample_run [of "[''ls-tree'', ''-r'', ''-z'', ''--full-tree'', sample_oid CHR ''d'']" ?bound "[0]" 0
        "render_tree sample_tree" "[]" w] sample_oid_ok [of "CHR ''d''"]
    by (auto simp: assert_read_only_git_command_def ALLOWED_GIT_SUBCOMMANDS_def sample_output_def default_limits_def)
  have t: "read_tree sample_host sample_settings default_limits (sample_oid CHR ''d'') w = (Inr sample_tree, w)"
    unfolding read_tree_Inr using r1 sample_tree_wf by blast
  let ?n = "max_total_subject_bytes default_limits + int (length ?ids) * 160 + 1"
  obtain r2 where r2: "?run [''cat-file'', ''--batch''] (concat (map (\<lambda>i. i @ [CHR 0x0A]) ?ids)) ?n [0] w = (Inr r2, w)"
    "gp_stdout r2 = sample_stream_text"
    using sample_run [of "[''cat-file'', ''--batch'']" ?n "[0]" 0 sample_stream_text
        "concat (map (\<lambda>i. i @ [CHR 0x0A]) ?ids)" w]
    by (auto simp: assert_read_only_git_command_def ALLOWED_GIT_SUBCOMMANDS_def sample_output_def default_limits_def)
  have o: "read_objects sample_host sample_settings default_limits sample_tree w = (Inr sample_objects, w)"
    unfolding read_objects_def Let_def
    unfolding sbind_def r2(1)
    by (simp add: r2(2) parse_cat_file_Inr sample_ids sample_stream_objects)
  have "check_links default_limits sample_objects sample_tree = Inr ()"
    by (simp add: check_links_def sample_tree_def sample_objects_def sample_oid_def link_target_ok_def default_limits_def)
  then show ?thesis
    using sample_tree_manifest_built [of w] unfolding materialize_def sbind_def sample_shape
    by (simp add: t o handle_def)
qed

lemma sample_extracted:
  "extract_committed_head sample_host sample_settings sample_put default_limits 10 w = (Inr sample_snapshot, w)"
proof -
  let ?wit = "\<lparr>sw_entries = [], sw_nested_git_paths = []\<rparr>"
  have h: "gh_acquire sample_host = ret ()" "gh_release sample_host = ret ()" "gh_identity sample_host = ret ()"
    "gh_witness_once sample_host n = ret ?wit" for n
    by (simp_all add: sample_host_def)
  have s: "source_witness sample_host n w = (Inr ?wit, w)" for n w
    by (simp add: source_witness_def h sbind_def)
  have u: "unchanged_since sample_host n ?wit w = (Inr (), w)" for n w
    by (simp add: unchanged_since_def h sbind_def s)
  show ?thesis
    by (simp add: extract_committed_head_def h on_error_def finally_do_def handle_def sbind_def s u sample_materialized
        sample_snapshot_def)
qed

end
