(* ===== verification/CredentialData.thy ===== *)
theory CredentialData
  imports CodexEvents JsonEq JsonLength
begin

text \<open>
  The data of the credential transactions, \<open>src/src/agent_loop/credentials.py\<close>: identifiers, the metadata
  of a transaction, the journal of a transition of the pair, the marker of the committed pair, the
  history of generations, the shape of the critic's login, its token and its environment.

  The program reads its own JSON without \<open>parse_constant\<close>; a document with \<open>NaN\<close> or an infinity is refused
  by the checks of the fields there and with the malformed ones here, in both cases by \<open>ValueError\<close> or
  by \<open>False\<close>.
\<close>

definition TRANSACTION_SCHEMA_VERSION :: int where "TRANSACTION_SCHEMA_VERSION = 1"
definition MAX_AUTH_BYTES :: int where "MAX_AUTH_BYTES = 4 * 1024 * 1024"
definition MAX_AUTH_GENERATION_HISTORY :: int where "MAX_AUTH_GENERATION_HISTORY = 256"
definition MAX_AUTH_GENERATION_HISTORY_BYTES :: int where "MAX_AUTH_GENERATION_HISTORY_BYTES = 16 * MAX_AUTH_BYTES"
definition MAX_TOKEN_BYTES :: int where "MAX_TOKEN_BYTES = 64 * 1024"
definition MAX_CLAUDE_CREDENTIAL_BYTES :: int where "MAX_CLAUDE_CREDENTIAL_BYTES = 4 * 1024 * 1024"
definition MAX_METADATA_BYTES :: int where "MAX_METADATA_BYTES = 16 * 1024"
definition DEFAULT_PROFILE_SCHEMA_VERSION :: int where "DEFAULT_PROFILE_SCHEMA_VERSION = 1"
definition DEFAULT_PROFILE_TRANSITION_SCHEMA_VERSION :: int where "DEFAULT_PROFILE_TRANSITION_SCHEMA_VERSION = 1"
definition DEFAULT_CODEX_CREDENTIAL_ID :: string where "DEFAULT_CODEX_CREDENTIAL_ID = ''default''"
definition DEFAULT_CLAUDE_CREDENTIAL_ID :: string where "DEFAULT_CLAUDE_CREDENTIAL_ID = ''default''"

section \<open>Identifiers\<close>

definition credential_identifier :: "ustr \<Rightarrow> bool" where
  "credential_identifier = token_match alnum (\<lambda>c. alnum c \<or> c \<in> set (U ''_.-'')) 127"

definition credential_safe_identifier :: "string \<Rightarrow> ustr \<Rightarrow> exn + ustr" where
  "credential_safe_identifier name value =
     (if \<not> credential_identifier value \<or> value \<in> {U ''.'', U ''..''}
      then Inl (ValueError (U (name @ '' is not a safe identifier''))) else Inr value)"

text \<open>\<open>credential_sha\<close> is the form of a digest, \<open>_SHA256\<close>.\<close>

definition credential_sha :: "ustr \<Rightarrow> bool" where
  "credential_sha s \<longleftrightarrow> length s = 64 \<and> list_all is_hex_lower s"

definition credential_digest :: "bytes \<Rightarrow> ustr" where
  "credential_digest data = U (sha256_hex data)"

text \<open>\<open>json.dumps(...).encode("ascii") + b"\n"\<close> and \<open>json.loads(data.decode("ascii"))\<close>.\<close>

definition credential_line :: "json \<Rightarrow> bytes" where
  "credential_line v = json_dumps v @ [CHR 0x0A]"

definition ascii_object :: "exn \<Rightarrow> exn \<Rightarrow> bytes \<Rightarrow> exn + (ustr \<times> json) list" where
  "ascii_object malformed shape data =
     (if \<not> list_all (\<lambda>c. ord c < 128) data then Inl malformed
      else case json_loads (U data) of
        Inl e \<Rightarrow> Inl malformed
      | Inr (JObj kvs) \<Rightarrow> Inr kvs
      | Inr _ \<Rightarrow> Inl shape)"

section \<open>The metadata of a transaction\<close>

definition metadata_document :: "ustr \<Rightarrow> ustr \<Rightarrow> json" where
  "metadata_document run_id baseline = JObj
     [(U ''schema_version'', JInt TRANSACTION_SCHEMA_VERSION), (U ''run_id'', JStr run_id),
      (U ''baseline_sha256'', JStr baseline), (U ''state'', JStr (U ''active''))]"

definition metadata_bytes :: "ustr \<Rightarrow> ustr \<Rightarrow> bytes" where
  "metadata_bytes run_id baseline = credential_line (metadata_document run_id baseline)"

definition METADATA_KEYS :: "string list" where
  "METADATA_KEYS = [''schema_version'', ''run_id'', ''baseline_sha256'', ''state'']"

definition strict_metadata :: "bytes \<Rightarrow> exn + ustr \<times> ustr" where
  "strict_metadata data =
     rbind (ascii_object (ValueError (U ''transaction metadata is malformed''))
              (ValueError (U ''transaction metadata shape is invalid'')) data) (\<lambda>kvs.
     if set (map fst kvs) \<noteq> set (map U METADATA_KEYS)
     then Inl (ValueError (U ''transaction metadata shape is invalid''))
     else if \<not> json_is (field kvs ''schema_version'') (JInt TRANSACTION_SCHEMA_VERSION) \<or>
        field kvs ''state'' \<noteq> JStr (U ''active'')
     then Inl (ValueError (U ''transaction metadata version or state is invalid''))
     else case (field kvs ''run_id'', field kvs ''baseline_sha256'') of
       (JStr run_id, JStr baseline) \<Rightarrow>
         rbind (credential_safe_identifier ''transaction run ID'' run_id) (\<lambda>_.
         if \<not> credential_sha baseline then Inl (ValueError (U ''transaction baseline hash is invalid''))
         else Inr (run_id, baseline))
     | _ \<Rightarrow> Inl (ValueError (U ''transaction metadata field type is invalid'')))"

section \<open>The journal of a transition\<close>

record pair_transition =
  codex_run_id :: ustr
  claude_run_id :: ustr
  old_codex_sha256 :: ustr
  old_claude_sha256 :: ustr
  new_codex_sha256 :: ustr
  new_claude_sha256 :: ustr

definition transition_fields :: "pair_transition \<Rightarrow> (ustr \<times> json) list" where
  "transition_fields t =
     [(U ''schema_version'', JInt DEFAULT_PROFILE_TRANSITION_SCHEMA_VERSION), (U ''state'', JStr (U ''prepared'')),
      (U ''profile'', JStr (U ''default'')), (U ''codex_run_id'', JStr (codex_run_id t)),
      (U ''claude_run_id'', JStr (claude_run_id t)), (U ''old_codex_sha256'', JStr (old_codex_sha256 t)),
      (U ''old_claude_sha256'', JStr (old_claude_sha256 t)), (U ''new_codex_sha256'', JStr (new_codex_sha256 t)),
      (U ''new_claude_sha256'', JStr (new_claude_sha256 t))]"

definition transition_document :: "pair_transition \<Rightarrow> json" where
  "transition_document t = JObj (transition_fields t)"

definition pair_transition_bytes :: "pair_transition \<Rightarrow> exn + bytes" where
  "pair_transition_bytes t =
     rbind (rmap (credential_safe_identifier ''pair transition run ID'') [codex_run_id t, claude_run_id t]) (\<lambda>_.
     if \<not> list_all credential_sha [old_codex_sha256 t, old_claude_sha256 t, new_codex_sha256 t, new_claude_sha256 t]
     then Inl (ValueError (U ''pair transition hash is invalid''))
     else Inr (credential_line (transition_document t)))"

definition TRANSITION_KEYS :: "string list" where
  "TRANSITION_KEYS = [''schema_version'', ''state'', ''profile'', ''codex_run_id'', ''claude_run_id'', ''old_codex_sha256'',
     ''old_claude_sha256'', ''new_codex_sha256'', ''new_claude_sha256'']"

definition str_field :: "(ustr \<times> json) list \<Rightarrow> string \<Rightarrow> exn + ustr" where
  "str_field kvs k =
     (case field kvs k of JStr s \<Rightarrow> Inr s
      | _ \<Rightarrow> Inl (ValueError (U ''pair transition journal field type is invalid'')))"

definition strict_pair_transition :: "bytes \<Rightarrow> exn + pair_transition" where
  "strict_pair_transition data =
     rbind (ascii_object (ValueError (U ''pair transition journal is malformed''))
              (ValueError (U ''pair transition journal shape is invalid'')) data) (\<lambda>kvs.
     if set (map fst kvs) \<noteq> set (map U TRANSITION_KEYS)
       \<or> \<not> json_is (field kvs ''schema_version'') (JInt DEFAULT_PROFILE_TRANSITION_SCHEMA_VERSION)
       \<or> field kvs ''state'' \<noteq> JStr (U ''prepared'') \<or> field kvs ''profile'' \<noteq> JStr (U ''default'')
     then Inl (ValueError (U ''pair transition journal shape is invalid''))
     else
     rbind (str_field kvs ''codex_run_id'') (\<lambda>codex_run.
     rbind (str_field kvs ''claude_run_id'') (\<lambda>claude_run.
     rbind (str_field kvs ''old_codex_sha256'') (\<lambda>old_codex.
     rbind (str_field kvs ''old_claude_sha256'') (\<lambda>old_claude.
     rbind (str_field kvs ''new_codex_sha256'') (\<lambda>new_codex.
     rbind (str_field kvs ''new_claude_sha256'') (\<lambda>new_claude.
     let t = \<lparr>codex_run_id = codex_run, claude_run_id = claude_run, old_codex_sha256 = old_codex,
              old_claude_sha256 = old_claude, new_codex_sha256 = new_codex, new_claude_sha256 = new_claude\<rparr>
     in rbind (pair_transition_bytes t) (\<lambda>encoded.
        if data \<noteq> encoded then Inl (ValueError (U ''pair transition journal is not canonical'')) else Inr t))))))))"

section \<open>The marker of the committed pair\<close>

definition marker_document :: "ustr \<Rightarrow> ustr \<Rightarrow> json" where
  "marker_document codex_sha claude_sha = JObj
     [(U ''schema_version'', JInt DEFAULT_PROFILE_SCHEMA_VERSION), (U ''profile'', JStr (U ''default'')),
      (U ''codex_credential_id'', JStr (U DEFAULT_CODEX_CREDENTIAL_ID)), (U ''codex_adapter'', JStr (U ''file-account'')),
      (U ''claude_credential_id'', JStr (U DEFAULT_CLAUDE_CREDENTIAL_ID)), (U ''claude_adapter'', JStr (U ''file-account'')),
      (U ''codex_sha256'', JStr codex_sha), (U ''claude_sha256'', JStr claude_sha)]"

definition default_profile_metadata_from_hashes :: "ustr \<Rightarrow> ustr \<Rightarrow> exn + bytes" where
  "default_profile_metadata_from_hashes codex_sha claude_sha =
     (if \<not> credential_sha codex_sha \<or> \<not> credential_sha claude_sha
      then Inl (ValueError (U ''default credential metadata hash is invalid''))
      else Inr (credential_line (marker_document codex_sha claude_sha)))"

definition default_profile_metadata_bytes :: "bytes \<Rightarrow> bytes \<Rightarrow> exn + bytes" where
  "default_profile_metadata_bytes codex_data claude_data =
     default_profile_metadata_from_hashes (credential_digest codex_data) (credential_digest claude_data)"

definition valid_default_profile_metadata :: "bytes \<Rightarrow> bytes \<Rightarrow> bytes \<Rightarrow> exn + bool" where
  "valid_default_profile_metadata data codex_data claude_data =
     rbind (default_profile_metadata_bytes codex_data claude_data) (\<lambda>expected. Inr (data = expected))"

definition transition_marker :: "pair_transition \<Rightarrow> bool \<Rightarrow> exn + bytes" where
  "transition_marker t new =
     default_profile_metadata_from_hashes (if new then new_codex_sha256 t else old_codex_sha256 t)
       (if new then new_claude_sha256 t else old_claude_sha256 t)"

section \<open>The history of generations\<close>

definition total_bytes :: "bytes list \<Rightarrow> int" where
  "total_bytes h = sum_list (map (int \<circ> length) h)"

definition history_append :: "bytes \<Rightarrow> bytes list \<Rightarrow> exn + bool \<times> bytes list" where
  "history_append value h =
     (if value \<in> set h then Inr (False, h)
      else if int (length h) \<ge> MAX_AUTH_GENERATION_HISTORY
        \<or> total_bytes h + int (length value) > MAX_AUTH_GENERATION_HISTORY_BYTES
      then Inl (fail CREDENTIAL_REFRESH_FAILURE ''credential generation history exceeded its private in-memory bound'')
      else Inr (True, h @ [value]))"

section \<open>The critic's login\<close>

definition strict_json_object :: "bytes \<Rightarrow> (ustr \<times> json) list option" where
  "strict_json_object data =
     (case utf8_decode data of
        None \<Rightarrow> None
      | Some text \<Rightarrow> (case json_loads text of Inr (JObj kvs) \<Rightarrow> Some kvs | _ \<Rightarrow> None))"

text \<open>\<open>isinstance(item, str) and item and "\0" not in item and len(item.encode("utf-8")) <= n\<close>, which raises
  for a lone surrogate.\<close>

definition credential_text :: "int \<Rightarrow> json \<Rightarrow> exn + bool" where
  "credential_text n item =
     (case item of
        JStr s \<Rightarrow>
          if s = [] \<or> 0 \<in> set s then Inr False
          else (case utf8_encode s of None \<Rightarrow> Inl UnicodeEncodeError | Some b \<Rightarrow> Inr (int (length b) \<le> n))
      | _ \<Rightarrow> Inr False)"

fun all_hold :: "('a \<Rightarrow> exn + bool) \<Rightarrow> 'a list \<Rightarrow> exn + bool" where
  "all_hold f [] = Inr True"
| "all_hold f (x # xs) = rbind (f x) (\<lambda>b. if b then all_hold f xs else Inr False)"

definition credential_positive :: "json \<Rightarrow> bool" where
  "credential_positive item = (case item of JInt i \<Rightarrow> 0 < i | _ \<Rightarrow> False)"

definition OAUTH_KEYS :: "string list" where
  "OAUTH_KEYS = [''accessToken'', ''refreshToken'', ''expiresAt'', ''refreshTokenExpiresAt'', ''scopes'', ''subscriptionType'',
     ''rateLimitTier'']"

definition parse_oauth :: "(ustr \<times> json) list \<Rightarrow> exn + bool" where
  "parse_oauth oauth =
     (if set (map fst oauth) \<noteq> set (map U OAUTH_KEYS) then Inr False
      else
      rbind (all_hold (credential_text MAX_TOKEN_BYTES)
        (map (dict_get oauth) [''accessToken'', ''refreshToken'', ''subscriptionType'', ''rateLimitTier''])) (\<lambda>texts.
      if \<not> texts \<or> \<not> list_all credential_positive (map (dict_get oauth) [''expiresAt'', ''refreshTokenExpiresAt''])
      then Inr False
      else case dict_get oauth ''scopes'' of
        JArr scopes \<Rightarrow>
          if 1 \<le> length scopes \<and> length scopes \<le> 64 then all_hold (credential_text 1024) scopes else Inr False
      | _ \<Rightarrow> Inr False))"

definition parse_claude_cli_credentials :: "bytes \<Rightarrow> exn + bool" where
  "parse_claude_cli_credentials data =
     (if int (length data) > MAX_CLAUDE_CREDENTIAL_BYTES then Inr False
      else case strict_json_object data of
        None \<Rightarrow> Inr False
      | Some kvs \<Rightarrow>
          if U ''claudeAiOauth'' \<notin> set (map fst kvs)
             \<or> \<not> set (map fst kvs) \<subseteq> {U ''claudeAiOauth'', U ''organizationUuid''} then Inr False
          else (case dict_get kvs ''claudeAiOauth'' of
            JObj oauth \<Rightarrow>
              rbind (parse_oauth oauth) (\<lambda>ok.
              if \<not> ok then Inr False
              else if dict_get kvs ''organizationUuid'' = JNull then Inr True
              else credential_text 1024 (dict_get kvs ''organizationUuid''))
          | _ \<Rightarrow> Inr False))"

definition claude_cli_credential_secret_values :: "bytes \<Rightarrow> exn + bytes list" where
  "claude_cli_credential_secret_values data =
     rbind (parse_claude_cli_credentials data) (\<lambda>ok.
     if \<not> ok then Inl (ValueError (U ''Claude CLI credential document is invalid''))
     else case strict_json_object data of
       None \<Rightarrow> Inl (AssertionError [])
     | Some kvs \<Rightarrow>
         (case dict_get kvs ''claudeAiOauth'' of
            JObj oauth \<Rightarrow>
              rmap (\<lambda>name. case dict_get oauth name of
                  JStr s \<Rightarrow> (case utf8_encode s of None \<Rightarrow> Inl UnicodeEncodeError | Some b \<Rightarrow> Inr b)
                | _ \<Rightarrow> Inl (KeyError (U name))) [''accessToken'', ''refreshToken'']
          | _ \<Rightarrow> Inl (AssertionError [])))"

section \<open>The setup token and the environment\<close>

definition token_text_ok :: "ustr \<Rightarrow> bool" where
  "token_text_ok token \<longleftrightarrow> token \<noteq> [] \<and> \<not> list_ex (\<lambda>c. is_space c \<or> c < 32) token"

definition strip_line_end :: "bytes \<Rightarrow> bytes" where
  "strip_line_end raw =
     (if suffix [CHR 0x0D, CHR 0x0A] raw then take (length raw - 2) raw
      else if suffix [CHR 0x0A] raw then take (length raw - 1) raw else raw)"

definition normalized_claude_token_bytes :: "bytes \<Rightarrow> exn + bytes" where
  "normalized_claude_token_bytes raw =
     (if int (length raw) > MAX_TOKEN_BYTES then Inl (ValueError (U ''Claude setup token exceeds its byte limit''))
      else case utf8_decode (strip_line_end raw) of
        None \<Rightarrow> Inl (ValueError (U ''Claude setup token encoding is invalid''))
      | Some token \<Rightarrow>
          if \<not> token_text_ok token then Inl (ValueError (U ''Claude setup token format is invalid''))
          else (case utf8_encode token of None \<Rightarrow> Inl UnicodeEncodeError | Some b \<Rightarrow> Inr b))"

definition valid_claude_token_file :: "bytes \<Rightarrow> bool" where
  "valid_claude_token_file raw = (case normalized_claude_token_bytes raw of Inl e \<Rightarrow> False | Inr b \<Rightarrow> True)"

definition credential_absolute :: "string \<Rightarrow> ustr \<Rightarrow> exn + ustr" where
  "credential_absolute name raw =
     (if \<not> prefix (U ''/'') raw \<or> raw = U ''/'' \<or> prefix (U ''//'') raw \<or> suffix (U ''/'') raw
        \<or> list_ex (\<lambda>c. c \<in> {[], U ''.'', U ''..''}) (split_on 47 (tl raw))
      then Inl (ValueError (U (name @ '' must be a normalized absolute path''))) else Inr raw)"

definition CHILD_KEYS :: "string list" where
  "CHILD_KEYS = [''PATH'', ''HOME'', ''TMPDIR'', ''LANG'', ''CLAUDE_CONFIG_DIR'', ''CLAUDE_CODE_TMPDIR'',
     ''CLAUDE_CODE_SUBPROCESS_ENV_SCRUB'']"

definition build_claude_parent_environment :: "ustr option \<Rightarrow> ustr \<Rightarrow> ustr \<Rightarrow> exn + (ustr \<times> ustr) list" where
  "build_claude_parent_environment token config_dir tmp_dir =
     (if \<not> pred_option token_text_ok token then Inl (ValueError (U ''Claude setup token format is invalid''))
      else
      rbind (credential_absolute ''CLAUDE_CONFIG_DIR'' config_dir) (\<lambda>config.
      rbind (credential_absolute ''CLAUDE_CODE_TMPDIR'' tmp_dir) (\<lambda>temporary.
      Inr (zip (map U CHILD_KEYS) [U ''/usr/local/bin:/usr/bin:/bin'', U ''/runtime/home'', U ''/runtime/tmp'', U ''C.UTF-8'',
             config, temporary, U ''1''] @
           (case token of None \<Rightarrow> [] | Some t \<Rightarrow> [(U ''CLAUDE_CODE_OAUTH_TOKEN'', t)])))))"

definition scrub_claude_child_environment :: "(ustr \<times> ustr) list \<Rightarrow> (ustr \<times> ustr) list" where
  "scrub_claude_child_environment parent =
     List.map_filter (\<lambda>k. map_option (Pair k) (map_of parent k)) (map U CHILD_KEYS)"

section \<open>What the readers accept\<close>

lemma credential_digest_sha [simp]: "credential_sha (credential_digest data)"
  by (simp add: credential_sha_def credential_digest_def list_all_iff U_def sha256_hex_lower)

lemma wf_str_small: "list_all (\<lambda>c. c < 128) s \<Longrightarrow> wf_str s"
  by (auto simp: wf_str_def list_all_iff scalar_def is_surrogate_def)

lemma credential_sha_wf: "credential_sha s \<Longrightarrow> wf_str s \<and> length s = 64"
  by (force simp: credential_sha_def list_all_iff is_hex_lower_def intro: wf_str_small)

lemma credential_identifier_wf: "credential_identifier s \<Longrightarrow> wf_str s \<and> length s \<le> 128"
proof
  assume "credential_identifier s"
  then have s: "token_match alnum (\<lambda>c. alnum c \<or> c \<in> set (U ''_.-'')) 127 s" by (simp add: credential_identifier_def)
  have "c < 128" if "alnum c \<or> c \<in> set (U ''_.-'')" for c
    using that by (auto simp: alnum_def U_def)
  with s show "wf_str s" by (auto simp: token_match_def list_all_iff intro!: wf_str_small split: list.splits)
  show "length s \<le> 128" using s by (auto simp: token_match_def split: list.splits)
qed

lemma credential_safe_identifier_Inr: "credential_safe_identifier name v = Inr w \<longleftrightarrow> w = v \<and> credential_identifier v"
proof -
  have "\<not> credential_identifier (U ''.'')" "\<not> credential_identifier (U ''..'')" by code_simp+
  then show ?thesis by (auto simp: credential_safe_identifier_def)
qed

lemma credential_line_ascii: "wf_json v \<Longrightarrow> list_all (\<lambda>c. ord c < 128) (credential_line v)"
  using json_dumps_ascii [of v] by (simp add: credential_line_def)

lemma ascii_object_line:
  "wf_json (JObj kvs) \<Longrightarrow> sort_keys (JObj kvs) = JObj kvs' \<Longrightarrow> ascii_object e e' (credential_line (JObj kvs)) = Inr kvs'"
  using credential_line_ascii [of "JObj kvs"] json_roundtrip_line [of "JObj kvs"] by (simp add: ascii_object_def credential_line_def)

lemma credential_line_length: "int (weight v) < n \<Longrightarrow> int (length (credential_line v)) \<le> n"
  using json_dumps_length [of v] by (simp add: credential_line_def)

section \<open>Round trips\<close>

lemma object_read_back:
  assumes "wf_json (JObj kvs)"
  shows "\<exists>kvs'. (\<forall>e e'. ascii_object e e' (credential_line (JObj kvs)) = Inr kvs') \<and> set (map fst kvs') = set (map fst kvs) \<and>
    (\<forall>k. U k \<in> set (map fst kvs) \<longrightarrow> field kvs' k = sort_keys (the (map_of kvs (U k))))"
proof (rule field_sorted [of kvs])
  show "distinct (map fst kvs)" using assms by simp
  fix kvs' assume k: "sort_keys (JObj kvs) = JObj kvs'" "set (map fst kvs') = set (map fst kvs)"
    "\<And>k v. map_of kvs (U k) = Some v \<Longrightarrow> field kvs' k = sort_keys v"
  have "field kvs' k = sort_keys (the (map_of kvs (U k)))" if "U k \<in> set (map fst kvs)" for k
    using that k(3) [of k] by (cases "map_of kvs (U k)") (auto simp: map_of_eq_None_iff)
  with k(2) ascii_object_line [OF assms k(1)] show ?thesis by blast
qed

lemma strict_metadata_bytes:
  assumes "credential_identifier run_id" and "credential_sha baseline"
  shows "strict_metadata (metadata_bytes run_id baseline) = Inr (run_id, baseline)"
proof -
  let ?kvs = "[(U ''schema_version'', JInt TRANSACTION_SCHEMA_VERSION), (U ''run_id'', JStr run_id),
      (U ''baseline_sha256'', JStr baseline), (U ''state'', JStr (U ''active''))]"
  have w: "wf_json (JObj ?kvs)"
    using credential_identifier_wf [OF assms(1)] credential_sha_wf [OF assms(2)]
    by (simp add: wf_str_U wf_int_small TRANSACTION_SCHEMA_VERSION_def)
  obtain kvs where o: "\<And>e e'. ascii_object e e' (credential_line (JObj ?kvs)) = Inr kvs"
    and k: "set (map fst kvs) = set (map fst ?kvs)"
    and f: "\<And>k. U k \<in> set (map fst ?kvs) \<Longrightarrow> field kvs k = sort_keys (the (map_of ?kvs (U k)))"
    using object_read_back [OF w] by blast
  have "set (map fst kvs) = set (map U METADATA_KEYS)" unfolding k by (simp add: METADATA_KEYS_def)
  with assms show ?thesis
    unfolding strict_metadata_def metadata_bytes_def metadata_document_def o
    by (simp add: f number_is_def credential_safe_identifier_Inr [THEN iffD2])
qed

lemma wf_transition_document:
  assumes "pair_transition_bytes t = Inr b"
  shows "wf_json (transition_document t)" and "weight (transition_document t) < 16000"
proof -
  have i: "credential_identifier (codex_run_id t)" "credential_identifier (claude_run_id t)"
    and d: "credential_sha (old_codex_sha256 t)" "credential_sha (old_claude_sha256 t)"
      "credential_sha (new_codex_sha256 t)" "credential_sha (new_claude_sha256 t)"
    using assms by (auto simp: pair_transition_bytes_def rbind_Inr_iff credential_safe_identifier_Inr split: if_splits)
  note w = i [THEN credential_identifier_wf] d [THEN credential_sha_wf]
  show "wf_json (transition_document t)"
    using w by (simp add: transition_document_def transition_fields_def wf_str_U wf_int_small DEFAULT_PROFILE_TRANSITION_SCHEMA_VERSION_def)
  show "weight (transition_document t) < 16000"
    using w by (simp add: transition_document_def transition_fields_def DEFAULT_PROFILE_TRANSITION_SCHEMA_VERSION_def dec_int_def dec_nat_def
        digits_of.simps)
qed

lemma pair_transition_bytes_line: "pair_transition_bytes t = Inr b \<Longrightarrow> b = credential_line (transition_document t)"
  by (auto simp: pair_transition_bytes_def rbind_Inr_iff split: if_splits)

theorem strict_pair_transition_Inr: "strict_pair_transition data = Inr t \<longleftrightarrow> pair_transition_bytes t = Inr data"
proof
  show "strict_pair_transition data = Inr t \<Longrightarrow> pair_transition_bytes t = Inr data"
    by (auto simp: strict_pair_transition_def rbind_Inr_iff Let_def split: if_splits)
next
  assume b: "pair_transition_bytes t = Inr data"
  then have d: "data = credential_line (transition_document t)" by (rule pair_transition_bytes_line)
  have w: "wf_json (JObj (transition_fields t))"
    using wf_transition_document(1) [OF b] by (simp add: transition_document_def)
  obtain kvs where o: "\<And>e e'. ascii_object e e' (credential_line (JObj (transition_fields t))) = Inr kvs"
    and k: "set (map fst kvs) = set (map fst (transition_fields t))"
    and f: "\<And>k. U k \<in> set (map fst (transition_fields t)) \<Longrightarrow>
      field kvs k = sort_keys (the (map_of (transition_fields t) (U k)))"
    using object_read_back [OF w] by blast
  have "set (map fst kvs) = set (map U TRANSITION_KEYS)"
    unfolding k by (simp add: transition_fields_def TRANSITION_KEYS_def)
  moreover have "field kvs ''schema_version'' = JInt DEFAULT_PROFILE_TRANSITION_SCHEMA_VERSION"
      "field kvs ''state'' = JStr (U ''prepared'')" "field kvs ''profile'' = JStr (U ''default'')"
      "field kvs ''codex_run_id'' = JStr (codex_run_id t)" "field kvs ''claude_run_id'' = JStr (claude_run_id t)"
      "field kvs ''old_codex_sha256'' = JStr (old_codex_sha256 t)" "field kvs ''old_claude_sha256'' = JStr (old_claude_sha256 t)"
      "field kvs ''new_codex_sha256'' = JStr (new_codex_sha256 t)" "field kvs ''new_claude_sha256'' = JStr (new_claude_sha256 t)"
    by (simp_all add: f transition_fields_def)
  ultimately show "strict_pair_transition data = Inr t"
    using b unfolding strict_pair_transition_def d transition_document_def o
    by (cases t) (simp add: str_field_def number_is_def Let_def)
qed

section \<open>Sizes\<close>

lemma transition_length: "pair_transition_bytes t = Inr b \<Longrightarrow> int (length b) \<le> MAX_METADATA_BYTES"
  using wf_transition_document(2) [of t b] pair_transition_bytes_line [of t b]
    credential_line_length [of "transition_document t" MAX_METADATA_BYTES]
  by (simp add: MAX_METADATA_BYTES_def)

lemma metadata_length:
  assumes "credential_identifier run_id" and "credential_sha baseline"
  shows "int (length (metadata_bytes run_id baseline)) \<le> MAX_METADATA_BYTES"
  unfolding metadata_bytes_def
  by (rule credential_line_length)
    (use credential_identifier_wf [OF assms(1)] credential_sha_wf [OF assms(2)] in
     \<open>simp add: metadata_document_def TRANSACTION_SCHEMA_VERSION_def dec_int_def dec_nat_def digits_of.simps MAX_METADATA_BYTES_def\<close>)

lemma marker_length:
  assumes "default_profile_metadata_from_hashes x c = Inr b"
  shows "int (length b) \<le> MAX_METADATA_BYTES"
proof -
  have "credential_sha x" "credential_sha c" "b = credential_line (marker_document x c)"
    using assms by (auto simp: default_profile_metadata_from_hashes_def split: if_splits)
  moreover from this have "weight (marker_document x c) < 16000"
    by (simp add: credential_sha_wf marker_document_def DEFAULT_PROFILE_SCHEMA_VERSION_def DEFAULT_CODEX_CREDENTIAL_ID_def
        DEFAULT_CLAUDE_CREDENTIAL_ID_def dec_int_def dec_nat_def digits_of.simps)
  ultimately show ?thesis
    using credential_line_length [of "marker_document x c" MAX_METADATA_BYTES] by (simp add: MAX_METADATA_BYTES_def)
qed

section \<open>The history stays bounded\<close>

definition generations_ok :: "bytes list \<Rightarrow> bool" where
  "generations_ok h \<longleftrightarrow> distinct h \<and> int (length h) \<le> MAX_AUTH_GENERATION_HISTORY \<and>
     total_bytes h \<le> MAX_AUTH_GENERATION_HISTORY_BYTES"

lemma history_append_ok:
  "history_append v h = Inr (b, h') \<Longrightarrow> generations_ok h \<Longrightarrow> generations_ok h' \<and> set h' = insert v (set h) \<and> prefix h h'"
  by (auto simp: history_append_def generations_ok_def total_bytes_def split: if_splits)

end
