(* ===== verification/PairStore.thy ===== *)
theory PairStore
  imports CredentialData Effects
begin

text \<open>
  The private files of the two default accounts and the operations of \<open>src/src/agent_loop/credentials.py\<close>
  on them that move the pair of credentials forward: the journal, the candidates of a pending
  transaction, and the roll forward.

  A disk holds the files that survive a crash. A private file is missing, not readable as one (with
  what reading it raises), or its bytes. Every write is one step: \<open>ConfinedFilesystem.atomic_write\<close>
  replaces a file as a whole and syncs it, unlinking is one step too. The removal of a directory is
  not; it passes through the disks where some of its files are gone. The log collects every disk a
  crash may leave. Locks are held all the time.
\<close>

section \<open>Disks\<close>

datatype provider = CodexProvider | ClaudeProvider

datatype private_file = Missing | Unsafe exn | Stored bytes

record transaction =
  tx_metadata :: private_file
  tx_candidate :: private_file

text \<open>The entries of the directory \<open>transactions\<close>, by the code points of their names; an entry that is not
  a private directory is \<open>None\<close>.\<close>

record account =
  ac_durable :: private_file
  ac_transactions :: "(ustr \<times> transaction option) list"

record disk =
  dk_marker :: private_file
  dk_journal :: private_file
  dk_codex :: account
  dk_claude :: account

record 'w pair_state =
  ps_disk :: disk
  ps_log :: "disk list"
  ps_world :: 'w

type_synonym ('w, 'z, 'a) pair_eff = "(('w, 'z) pair_state_scheme, 'a) eff"

text \<open>What the transactions are given: the parser of the author's login, and the barriers that classify
  evidence.\<close>

record 'w pair_env =
  pe_codex_parser :: "bytes \<Rightarrow> exn + bool"
  pe_barrier :: "provider \<Rightarrow> (ustr \<Rightarrow> bytes list \<Rightarrow> ('w, unit) eff) option"

fun account_of :: "provider \<Rightarrow> disk \<Rightarrow> account" where
  "account_of CodexProvider d = dk_codex d"
| "account_of ClaudeProvider d = dk_claude d"

fun update_account :: "provider \<Rightarrow> (account \<Rightarrow> account) \<Rightarrow> disk \<Rightarrow> disk" where
  "update_account CodexProvider f d = d\<lparr>dk_codex := f (dk_codex d)\<rparr>"
| "update_account ClaudeProvider f d = d\<lparr>dk_claude := f (dk_claude d)\<rparr>"

fun label :: "provider \<Rightarrow> string" where
  "label CodexProvider = ''Codex''"
| "label ClaudeProvider = ''Claude''"

fun credential_limit :: "provider \<Rightarrow> int" where
  "credential_limit CodexProvider = MAX_AUTH_BYTES"
| "credential_limit ClaudeProvider = MAX_CLAUDE_CREDENTIAL_BYTES"

fun parser_of :: "'w pair_env \<Rightarrow> provider \<Rightarrow> bytes \<Rightarrow> exn + bool" where
  "parser_of env CodexProvider = pe_codex_parser env"
| "parser_of env ClaudeProvider = parse_claude_cli_credentials"

section \<open>Reading\<close>

definition look :: "(disk \<Rightarrow> exn + 'a) \<Rightarrow> ('w, 'z, 'a) pair_eff" where
  "look g s = (g (ps_disk s), s)"

definition on_world :: "('w, 'a) eff \<Rightarrow> ('w, 'z, 'a) pair_eff" where
  "on_world m s = (case m (ps_world s) of (r, w) \<Rightarrow> (r, s\<lparr>ps_world := w\<rparr>))"

text \<open>\<open>except AgentLoopError, OSError, TypeError, ValueError\<close>.\<close>

fun read_error :: "exn \<Rightarrow> bool" where
  "read_error (AgentLoopError r d) = True"
| "read_error (OSError d) = True"
| "read_error (TypeError d) = True"
| "read_error (ValueError d) = True"
| "read_error UnicodeEncodeError = True"
| "read_error _ = False"

definition read_private_file :: "int \<Rightarrow> stop_reason \<Rightarrow> string \<Rightarrow> private_file \<Rightarrow> exn + bytes" where
  "read_private_file limit reason detail f =
     (case f of
        Missing \<Rightarrow> Inl (fail reason detail)
      | Unsafe e \<Rightarrow> if read_error e then Inl (fail reason detail) else Inl e
      | Stored b \<Rightarrow> if int (length b) > limit then Inl (fail reason detail) else Inr b)"

definition read_optional_private_file :: "ustr \<Rightarrow> private_file \<Rightarrow> exn + bytes option" where
  "read_optional_private_file name f =
     (case f of
        Missing \<Rightarrow> Inr None
      | Unsafe e \<Rightarrow> Inl e
      | Stored b \<Rightarrow>
          if int (length b) > MAX_METADATA_BYTES
          then Inl (AgentLoopError UNSAFE_FILE_TYPE_OR_HARD_LINK
                 (U ''regular file exceeds max_bytes: b'' @ [39] @ name @ [39]))
          else Inr (Some b))"

definition validate_auth_bytes ::
  "(bytes \<Rightarrow> exn + bool) \<Rightarrow> stop_reason \<Rightarrow> string \<Rightarrow> bytes \<Rightarrow> exn + unit" where
  "validate_auth_bytes parser reason detail data =
     (case parser data of
        Inl e \<Rightarrow> if e = KeyboardInterrupt then Inl e else Inl (fail reason detail)
      | Inr valid \<Rightarrow> if valid then Inr () else Inl (fail reason detail))"

definition conflict :: "string \<Rightarrow> exn" where
  "conflict detail = fail CREDENTIAL_STATE_CONFLICT detail"

definition transaction_name :: "ustr \<times> transaction option \<Rightarrow> exn + ustr" where
  "transaction_name entry =
     (if \<not> credential_identifier (fst entry)
      then Inl (conflict ''credential transaction directory contains ambiguous state'')
      else if snd entry = None then Inl (conflict ''credential transaction directory contains unsafe state'')
      else Inr (fst entry))"

definition transaction_names :: "account \<Rightarrow> exn + ustr list" where
  "transaction_names a = rmap transaction_name (sort_key fst (ac_transactions a))"

definition transaction_file :: "(transaction \<Rightarrow> private_file) \<Rightarrow> ustr \<Rightarrow> account \<Rightarrow> private_file" where
  "transaction_file sel run_id a =
     (case map_of (ac_transactions a) run_id of Some (Some t) \<Rightarrow> sel t | _ \<Rightarrow> Missing)"

section \<open>Writing\<close>

definition commit :: "(disk \<Rightarrow> disk) \<Rightarrow> ('w, 'z, unit) pair_eff" where
  "commit f s = (Inr (), s\<lparr>ps_disk := f (ps_disk s), ps_log := ps_disk s # ps_log s\<rparr>)"

definition write_durable :: "provider \<Rightarrow> bytes \<Rightarrow> ('w, 'z, unit) pair_eff" where
  "write_durable p data = commit (update_account p (\<lambda>a. a\<lparr>ac_durable := Stored data\<rparr>))"

definition write_marker :: "bytes \<Rightarrow> ('w, 'z, unit) pair_eff" where
  "write_marker data = commit (\<lambda>d. d\<lparr>dk_marker := Stored data\<rparr>)"

definition write_journal :: "bytes \<Rightarrow> ('w, 'z, unit) pair_eff" where
  "write_journal data = commit (\<lambda>d. d\<lparr>dk_journal := Stored data\<rparr>)"

text \<open>\<open>_remove_relative_file(profile_filesystem, _DEFAULT_PROFILE_TRANSITION)\<close>.\<close>

definition remove_journal :: "('w, 'z, unit) pair_eff" where
  "remove_journal = commit (\<lambda>d. d\<lparr>dk_journal := Missing\<rparr>)"

definition change_transaction :: "ustr \<Rightarrow> (transaction \<Rightarrow> transaction) \<Rightarrow> account \<Rightarrow> account" where
  "change_transaction run_id f a =
     a\<lparr>ac_transactions := map (\<lambda>(k, v). if k = run_id then (k, map_option f v) else (k, v)) (ac_transactions a)\<rparr>"

definition drop_transaction :: "ustr \<Rightarrow> account \<Rightarrow> account" where
  "drop_transaction run_id a = a\<lparr>ac_transactions := filter (\<lambda>(k, v). k \<noteq> run_id) (ac_transactions a)\<rparr>"

definition has_transaction :: "ustr \<Rightarrow> account \<Rightarrow> bool" where
  "has_transaction run_id a \<longleftrightarrow> (case map_of (ac_transactions a) run_id of Some (Some t) \<Rightarrow> True | _ \<Rightarrow> False)"

text \<open>A write below \<open>transactions/<run_id>\<close> with \<open>create_parents=False\<close>.\<close>

definition write_transaction :: "provider \<Rightarrow> ustr \<Rightarrow> (transaction \<Rightarrow> transaction) \<Rightarrow> ('w, 'z, unit) pair_eff" where
  "write_transaction p run_id f =
     sbind (look Inr) (\<lambda>d.
     if \<not> has_transaction run_id (account_of p d)
     then raise (AgentLoopError UNSAFE_OR_AMBIGUOUS_PATH
            (U ''confined open failed with errno 2: b'' @ [39] @ U ''transactions/'' @ run_id @ [39]))
     else commit (update_account p (change_transaction run_id f)))"

text \<open>The disks on the way of \<open>shutil.rmtree\<close>, whatever its order.\<close>

definition partly_removed :: "provider \<Rightarrow> ustr \<Rightarrow> disk \<Rightarrow> disk list" where
  "partly_removed p run_id d =
     map (\<lambda>f. update_account p (change_transaction run_id f) d)
       [\<lambda>t. t\<lparr>tx_metadata := Missing\<rparr>, \<lambda>t. t\<lparr>tx_candidate := Missing\<rparr>, \<lambda>t. t\<lparr>tx_metadata := Missing, tx_candidate := Missing\<rparr>]"

definition remove_transaction :: "provider \<Rightarrow> ustr \<Rightarrow> ('w, 'z, unit) pair_eff" where
  "remove_transaction p run_id =
     sbind (look Inr) (\<lambda>d.
     if \<not> has_transaction run_id (account_of p d)
     then raise (fail CREDENTIAL_REFRESH_FAILURE ''credential transaction cleanup failed'')
     else sbind (\<lambda>s. (Inr (), s\<lparr>ps_log := partly_removed p run_id d @ ps_log s\<rparr>)) (\<lambda>_.
       commit (update_account p (drop_transaction run_id))))"

section \<open>The journal and the roll forward\<close>

definition evidence :: "'w pair_env \<Rightarrow> provider \<Rightarrow> ustr \<Rightarrow> bytes list \<Rightarrow> ('w, 'z, unit) pair_eff" where
  "evidence env p run_id generations =
     (case pe_barrier env p of None \<Rightarrow> ret () | Some barrier \<Rightarrow> on_world (barrier run_id generations))"

definition write_pair_transition :: "pair_transition \<Rightarrow> ('w, 'z, unit) pair_eff" where
  "write_pair_transition t =
     sbind (look (read_optional_private_file (U ''default-profile-transition.json'') \<circ> dk_journal)) (\<lambda>existing.
     sbind (lift (pair_transition_bytes t)) (\<lambda>encoded.
     if existing \<noteq> None \<and> existing \<noteq> Some encoded
     then raise (conflict ''a different default credential pair transition is already pending'')
     else if existing = None then write_journal encoded else ret ()))"

definition read_metadata :: "provider \<Rightarrow> ustr \<Rightarrow> ('w, 'z, ustr \<times> ustr) pair_eff" where
  "read_metadata p run_id =
     sbind (look (\<lambda>d. read_private_file MAX_METADATA_BYTES CREDENTIAL_STATE_CONFLICT
       (''pending '' @ label p @ '' transaction metadata is unsafe'') (transaction_file tx_metadata run_id (account_of p d))))
       (\<lambda>data.
     case strict_metadata data of
       Inl e \<Rightarrow> raise (conflict (''pending '' @ label p @ '' transaction metadata is invalid''))
     | Inr r \<Rightarrow> ret r)"

definition read_candidate :: "provider \<Rightarrow> ustr \<Rightarrow> stop_reason \<Rightarrow> string \<Rightarrow> ('w, 'z, bytes) pair_eff" where
  "read_candidate p run_id reason detail =
     look (\<lambda>d. read_private_file (credential_limit p) reason detail (transaction_file tx_candidate run_id (account_of p d)))"

definition journal_candidate ::
  "'w pair_env \<Rightarrow> provider \<Rightarrow> ustr \<Rightarrow> ustr \<Rightarrow> ustr \<Rightarrow> ('w, 'z, bytes option) pair_eff" where
  "journal_candidate env p run_id old_sha new_sha =
     sbind (look (\<lambda>d. transaction_names (account_of p d))) (\<lambda>pending.
     if pending = [] then ret None
     else if pending \<noteq> [run_id]
     then raise (conflict (''pending '' @ label p @ '' transactions do not match the pair journal''))
     else
     sbind (read_metadata p run_id) (\<lambda>(recorded_run, baseline).
     if recorded_run \<noteq> run_id \<or> baseline \<notin> {old_sha, new_sha}
     then raise (conflict (''pending '' @ label p @ '' transaction is not bound to the pair journal''))
     else
     sbind (evidence env p run_id []) (\<lambda>_.
     sbind (read_candidate p run_id CREDENTIAL_STATE_CONFLICT
       (''pending '' @ label p @ '' candidate is missing or unsafe'')) (\<lambda>candidate.
     sbind (lift (validate_auth_bytes (parser_of env p) CREDENTIAL_STATE_CONFLICT
       (''pending '' @ label p @ '' candidate is invalid'') candidate)) (\<lambda>_.
     if credential_digest candidate \<noteq> new_sha
     then raise (conflict (''pending '' @ label p @ '' candidate does not match the pair journal''))
     else
     sbind (evidence env p run_id [candidate]) (\<lambda>_.
     ret (Some candidate)))))))"

definition read_durable :: "provider \<Rightarrow> stop_reason \<Rightarrow> string \<Rightarrow> ('w, 'z, bytes) pair_eff" where
  "read_durable p reason detail =
     look (\<lambda>d. read_private_file (credential_limit p) reason detail (ac_durable (account_of p d)))"

text \<open>One provider of \<open>_roll_forward_pair_transition\<close>: \<open>current_sha\<close> is the digest its file has now.\<close>

definition roll_provider ::
  "provider \<Rightarrow> ustr \<Rightarrow> ustr \<Rightarrow> bytes option \<Rightarrow> ('w, 'z, unit) pair_eff" where
  "roll_provider p current_sha new_sha candidate =
     (if current_sha = new_sha then ret ()
      else case candidate of
        None \<Rightarrow> raise (conflict (''the journaled '' @ label p @ '' candidate is unavailable for roll-forward''))
      | Some c \<Rightarrow>
          if credential_digest c \<noteq> new_sha
          then raise (conflict (''the journaled '' @ label p @ '' candidate is unavailable for roll-forward''))
          else write_durable p c)"

definition clean_transaction :: "provider \<Rightarrow> ustr \<Rightarrow> ('w, 'z, unit) pair_eff" where
  "clean_transaction p run_id =
     sbind (look (\<lambda>d. transaction_names (account_of p d))) (\<lambda>names.
     if names \<noteq> [] then remove_transaction p run_id else ret ())"

definition rebase_transaction :: "provider \<Rightarrow> ustr \<Rightarrow> ustr \<Rightarrow> ('w, 'z, unit) pair_eff" where
  "rebase_transaction p run_id sha =
     write_transaction p run_id (\<lambda>t. t\<lparr>tx_metadata := Stored (metadata_bytes run_id sha)\<rparr>)"

definition finish_transition :: "pair_transition \<Rightarrow> bool \<Rightarrow> ('w, 'z, unit) pair_eff" where
  "finish_transition t cleanup =
     (if cleanup
      then sbind (clean_transaction ClaudeProvider (claude_run_id t)) (\<lambda>_. clean_transaction CodexProvider (codex_run_id t))
      else sbind (rebase_transaction ClaudeProvider (claude_run_id t) (new_claude_sha256 t)) (\<lambda>_.
        rebase_transaction CodexProvider (codex_run_id t) (new_codex_sha256 t)))"

definition roll_forward ::
  "'w pair_env \<Rightarrow> pair_transition \<Rightarrow> bytes option \<Rightarrow> bytes option \<Rightarrow> bool \<Rightarrow> ('w, 'z, unit) pair_eff" where
  "roll_forward env t claude_candidate codex_candidate cleanup =
     sbind (look (read_private_file MAX_METADATA_BYTES CREDENTIAL_STATE_CONFLICT
       ''default credential pair metadata is missing during recovery'' \<circ> dk_marker)) (\<lambda>metadata.
     sbind (lift (transition_marker t False)) (\<lambda>old_marker.
     sbind (lift (transition_marker t True)) (\<lambda>new_marker.
     if metadata \<notin> {old_marker, new_marker}
     then raise (conflict ''default credential pair metadata is not bound to the pending transition'')
     else
     sbind (read_durable ClaudeProvider CREDENTIAL_STATE_CONFLICT
       ''durable Claude credential is unsafe during pair recovery'') (\<lambda>current_claude.
     sbind (read_durable CodexProvider CREDENTIAL_STATE_CONFLICT
       ''durable Codex credential is unsafe during pair recovery'') (\<lambda>current_codex.
     sbind (lift (validate_auth_bytes parse_claude_cli_credentials CREDENTIAL_STATE_CONFLICT
       ''durable Claude credential is invalid during pair recovery'' current_claude)) (\<lambda>_.
     sbind (lift (validate_auth_bytes (pe_codex_parser env) CREDENTIAL_STATE_CONFLICT
       ''durable Codex credential is invalid during pair recovery'' current_codex)) (\<lambda>_.
     let claude_hash = credential_digest current_claude; codex_hash = credential_digest current_codex in
     if claude_hash \<notin> {old_claude_sha256 t, new_claude_sha256 t} \<or> codex_hash \<notin> {old_codex_sha256 t, new_codex_sha256 t}
     then raise (conflict ''durable credentials are not an old, mixed, or new journaled pair'')
     else if (claude_candidate = None \<or> codex_candidate = None) \<and>
        (metadata \<noteq> new_marker \<or> claude_hash \<noteq> new_claude_sha256 t \<or> codex_hash \<noteq> new_codex_sha256 t)
     then raise (conflict ''a journaled candidate witness disappeared before pair commit'')
     else
     sbind (roll_provider ClaudeProvider claude_hash (new_claude_sha256 t) claude_candidate) (\<lambda>_.
     sbind (roll_provider CodexProvider codex_hash (new_codex_sha256 t) codex_candidate) (\<lambda>_.
     sbind (if metadata \<noteq> new_marker then write_marker new_marker else ret ()) (\<lambda>_.
     sbind (finish_transition t cleanup) (\<lambda>_.
     remove_journal)))))))))))"

text \<open>The end of \<open>_reconcile_default_pair\<close> and of \<open>_coordinated_recover_default_pair\<close>.\<close>

definition commit_transition ::
  "'w pair_env \<Rightarrow> pair_transition \<Rightarrow> bytes \<Rightarrow> bytes \<Rightarrow> bool \<Rightarrow> ('w, 'z, unit) pair_eff" where
  "commit_transition env t claude_candidate codex_candidate cleanup =
     sbind (write_pair_transition t) (\<lambda>_.
     roll_forward env t (Some claude_candidate) (Some codex_candidate) cleanup)"

text \<open>The first part of \<open>_coordinated_recover_default_pair\<close>: a journal that is found is rolled forward.\<close>

definition recover_journal :: "'w pair_env \<Rightarrow> ('w, 'z, unit) pair_eff" where
  "recover_journal env =
     sbind (look (read_optional_private_file (U ''default-profile-transition.json'') \<circ> dk_journal)) (\<lambda>found.
     case found of
       None \<Rightarrow> ret ()
     | Some data \<Rightarrow>
         (case strict_pair_transition data of
            Inl e \<Rightarrow> raise (conflict ''default credential pair transition journal is invalid'')
          | Inr t \<Rightarrow>
              sbind (journal_candidate env CodexProvider (codex_run_id t) (old_codex_sha256 t) (new_codex_sha256 t))
                (\<lambda>codex_candidate.
              sbind (journal_candidate env ClaudeProvider (claude_run_id t) (old_claude_sha256 t) (new_claude_sha256 t))
                (\<lambda>claude_candidate.
              roll_forward env t claude_candidate codex_candidate True))))"

end
