(* ===== verification/PairProofs.thy ===== *)
theory PairProofs
  imports PairStore
begin

text \<open>
  Crash safety of the pair of credentials. A triple states what holds of the disk before and after an
  operation, and that every disk a crash may leave in between satisfies an invariant.
\<close>

section \<open>Triples\<close>

definition hoare ::
  "(disk \<Rightarrow> bool) \<Rightarrow> (disk \<Rightarrow> bool) \<Rightarrow> ('w, 'z, 'a) pair_eff \<Rightarrow> ('a \<Rightarrow> disk \<Rightarrow> bool) \<Rightarrow> (disk \<Rightarrow> bool) \<Rightarrow> bool" where
  "hoare I P m Q E \<longleftrightarrow> (\<forall>s. P (ps_disk s) \<and> list_all I (ps_log s) \<longrightarrow>
     (case m s of (r, s') \<Rightarrow> list_all I (ps_log s') \<and>
       (case r of Inl e \<Rightarrow> E (ps_disk s') | Inr x \<Rightarrow> Q x (ps_disk s'))))"

lemma hoareI:
  fixes m :: "('w, 'z, 'a) pair_eff"
  assumes "\<And>s r s'. P (ps_disk s) \<Longrightarrow> list_all I (ps_log s) \<Longrightarrow> m s = (r, s') \<Longrightarrow>
    list_all I (ps_log s') \<and> (case r of Inl e \<Rightarrow> E (ps_disk s') | Inr x \<Rightarrow> Q x (ps_disk s'))"
  shows "hoare I P m Q E"
  unfolding hoare_def
proof (intro allI impI)
  fix s :: "('w, 'z) pair_state_scheme" assume "P (ps_disk s) \<and> list_all I (ps_log s)"
  then show "case m s of (r, s') \<Rightarrow> list_all I (ps_log s') \<and>
      (case r of Inl e \<Rightarrow> E (ps_disk s') | Inr x \<Rightarrow> Q x (ps_disk s'))"
    using assms [of s "fst (m s)" "snd (m s)"] by (simp add: case_prod_beta)
qed

lemma hoareD:
  assumes "hoare I P m Q E" "P (ps_disk s)" "list_all I (ps_log s)" "m s = (r, s')"
  shows "list_all I (ps_log s') \<and> (case r of Inl e \<Rightarrow> E (ps_disk s') | Inr x \<Rightarrow> Q x (ps_disk s'))"
  using assms(1) [unfolded hoare_def, rule_format, of s] assms(2-4) by simp

lemma hoare_sbind:
  assumes "hoare I P m R E" and "\<And>x. hoare I (R x) (f x) Q E"
  shows "hoare I P (sbind m f) Q E"
proof (rule hoareI)
  fix s r s' assume s: "P (ps_disk s)" "list_all I (ps_log s)" and r: "sbind m f s = (r, s')"
  obtain q t where m: "m s = (q, t)" by (cases "m s")
  note h = hoareD [OF assms(1) s m]
  show "list_all I (ps_log s') \<and> (case r of Inl e \<Rightarrow> E (ps_disk s') | Inr x \<Rightarrow> Q x (ps_disk s'))"
  proof (cases q)
    case (Inl e)
    then show ?thesis using h r by (auto simp: sbind_def m)
  next
    case (Inr x)
    then have "f x t = (r, s')" using r by (simp add: sbind_def m)
    then show ?thesis using h Inr hoareD [OF assms(2) [of x], of t r s'] by simp
  qed
qed

lemma hoare_conseq:
  assumes "hoare I P' m Q' E'" "\<And>d. P d \<Longrightarrow> P' d" "\<And>x d. Q' x d \<Longrightarrow> Q x d" "\<And>d. E' d \<Longrightarrow> E d"
  shows "hoare I P m Q E"
proof (rule hoareI)
  fix s r s' assume s: "P (ps_disk s)" "list_all I (ps_log s)" "m s = (r, s')"
  note h = hoareD [OF assms(1) assms(2) [OF s(1)] s(2,3)]
  show "list_all I (ps_log s') \<and> (case r of Inl e \<Rightarrow> E (ps_disk s') | Inr x \<Rightarrow> Q x (ps_disk s'))"
    using h assms(3,4) by (cases r) simp_all
qed

lemma hoare_ret: "(\<And>d. P d \<Longrightarrow> Q x d) \<Longrightarrow> hoare I P (ret x) Q E"
  by (simp add: hoare_def)

lemma hoare_raise: "(\<And>d. P d \<Longrightarrow> E d) \<Longrightarrow> hoare I P (raise e) Q E"
  by (simp add: hoare_def)

lemma hoare_lift: "(\<And>d e. P d \<Longrightarrow> r = Inl e \<Longrightarrow> E d) \<Longrightarrow> (\<And>d x. P d \<Longrightarrow> r = Inr x \<Longrightarrow> Q x d) \<Longrightarrow> hoare I P (lift r) Q E"
  by (auto simp: hoare_def split: sum.splits)

lemma hoare_look_any:
  "(\<And>d e. P d \<Longrightarrow> g d = Inl e \<Longrightarrow> E d) \<Longrightarrow> (\<And>d x. P d \<Longrightarrow> g d = Inr x \<Longrightarrow> Q x d) \<Longrightarrow> hoare I P (look g) Q E"
  by (auto simp: hoare_def look_def split: sum.splits)

lemma hoare_commit: "(\<And>d. P d \<Longrightarrow> I d \<and> Q () (f d)) \<Longrightarrow> hoare I P (commit f) Q E"
  by (simp add: hoare_def commit_def)

lemma hoare_if: "(b \<Longrightarrow> hoare I P m Q E) \<Longrightarrow> (\<not> b \<Longrightarrow> hoare I P n Q E) \<Longrightarrow> hoare I P (if b then m else n) Q E"
  by simp

lemma hoare_assume: "(\<And>d. P d \<Longrightarrow> b) \<Longrightarrow> (b \<Longrightarrow> hoare I P m Q E) \<Longrightarrow> hoare I P m Q E"
  by (rule hoareI) (metis hoareD)

definition barriers_pass :: "'w pair_env \<Rightarrow> bool" where
  "barriers_pass env \<longleftrightarrow> (\<forall>p barrier run_id gens w.
     pe_barrier env p = Some barrier \<longrightarrow> (\<exists>w'. barrier run_id gens w = (Inr (), w')))"

lemma hoare_evidence:
  assumes "\<And>d. P d \<Longrightarrow> Q () d" and "\<And>d. \<not> barriers_pass env \<Longrightarrow> P d \<Longrightarrow> E d"
  shows "hoare I P (evidence env p run_id gens) Q E"
proof (rule hoareI)
  fix s r s' assume s: "P (ps_disk s)" "list_all I (ps_log s)" "evidence env p run_id gens s = (r, s')"
  show "list_all I (ps_log s') \<and> (case r of Inl e \<Rightarrow> E (ps_disk s') | Inr x \<Rightarrow> Q x (ps_disk s'))"
  proof (cases "pe_barrier env p")
    case None
    then show ?thesis using s assms(1) by (auto simp: evidence_def)
  next
    case (Some barrier)
    obtain q w where b: "barrier run_id gens (ps_world s) = (q, w)" by (cases "barrier run_id gens (ps_world s)")
    have "q = Inr ()" if bp: "barriers_pass env"
    proof -
      obtain w' where "barrier run_id gens (ps_world s) = (Inr (), w')"
        using bp Some unfolding barriers_pass_def by blast
      with b show ?thesis by simp
    qed
    then show ?thesis using s b Some assms
      by (cases q; cases "barriers_pass env") (auto simp: evidence_def on_world_def)
  qed
qed

section \<open>A planned transition\<close>

fun run_of :: "provider \<Rightarrow> pair_transition \<Rightarrow> ustr" where
  "run_of CodexProvider t = codex_run_id t"
| "run_of ClaudeProvider t = claude_run_id t"

fun old_sha :: "provider \<Rightarrow> pair_transition \<Rightarrow> ustr" where
  "old_sha CodexProvider t = old_codex_sha256 t"
| "old_sha ClaudeProvider t = old_claude_sha256 t"

fun new_sha :: "provider \<Rightarrow> pair_transition \<Rightarrow> ustr" where
  "new_sha CodexProvider t = new_codex_sha256 t"
| "new_sha ClaudeProvider t = new_claude_sha256 t"

record pair_plan =
  pl_transition :: pair_transition
  pl_old :: "provider \<Rightarrow> bytes"
  pl_new :: "provider \<Rightarrow> bytes"

definition valid_login :: "'w pair_env \<Rightarrow> provider \<Rightarrow> bytes \<Rightarrow> bool" where
  "valid_login env p b \<longleftrightarrow> parser_of env p b = Inr True \<and> int (length b) \<le> credential_limit p"

definition wf_plan :: "'w pair_env \<Rightarrow> pair_plan \<Rightarrow> bool" where
  "wf_plan env pl \<longleftrightarrow> (\<forall>p. credential_identifier (run_of p (pl_transition pl)) \<and>
     old_sha p (pl_transition pl) = credential_digest (pl_old pl p) \<and>
     new_sha p (pl_transition pl) = credential_digest (pl_new pl p) \<and>
     valid_login env p (pl_old pl p) \<and> valid_login env p (pl_new pl p))"

definition plan_marker :: "(provider \<Rightarrow> bytes) \<Rightarrow> bytes" where
  "plan_marker f = credential_line (marker_document (credential_digest (f CodexProvider)) (credential_digest (f ClaudeProvider)))"

definition plan_journal :: "pair_plan \<Rightarrow> bytes" where
  "plan_journal pl = credential_line (transition_document (pl_transition pl))"

text \<open>The old pair with its marker, the new one, and any disk of the way from one to the other.\<close>

definition untouched :: "pair_plan \<Rightarrow> disk \<Rightarrow> bool" where
  "untouched pl d \<longleftrightarrow> dk_marker d = Stored (plan_marker (pl_old pl)) \<and>
     (\<forall>p. ac_durable (account_of p d) = Stored (pl_old pl p))"

definition on_pair :: "pair_plan \<Rightarrow> disk \<Rightarrow> bool" where
  "on_pair pl d \<longleftrightarrow> dk_marker d \<in> {Stored (plan_marker (pl_old pl)), Stored (plan_marker (pl_new pl))} \<and>
     (\<forall>p. ac_durable (account_of p d) \<in> {Stored (pl_old pl p), Stored (pl_new pl p)})"

definition has_digest :: "private_file \<Rightarrow> ustr \<Rightarrow> bool" where
  "has_digest f sha \<longleftrightarrow> (case f of Stored b \<Rightarrow> credential_digest b = sha | _ \<Rightarrow> False)"

definition complete :: "pair_plan \<Rightarrow> disk \<Rightarrow> bool" where
  "complete pl d \<longleftrightarrow> on_pair pl d \<and> dk_marker d = Stored (plan_marker (pl_new pl)) \<and>
     (\<forall>p. has_digest (ac_durable (account_of p d)) (credential_digest (pl_new pl p)))"

definition candidate_entry :: "pair_plan \<Rightarrow> provider \<Rightarrow> ustr \<Rightarrow> ustr \<times> transaction option" where
  "candidate_entry pl p base =
     (run_of p (pl_transition pl),
      Some \<lparr>tx_metadata = Stored (metadata_bytes (run_of p (pl_transition pl)) base), tx_candidate = Stored (pl_new pl p)\<rparr>)"

definition staged :: "pair_plan \<Rightarrow> provider \<Rightarrow> disk \<Rightarrow> bool" where
  "staged pl p d \<longleftrightarrow> (\<exists>base \<in> {old_sha p (pl_transition pl), new_sha p (pl_transition pl)}.
     ac_transactions (account_of p d) = [candidate_entry pl p base])"

definition journaled :: "pair_plan \<Rightarrow> disk \<Rightarrow> bool" where
  "journaled pl d \<longleftrightarrow> dk_journal d = Stored (plan_journal pl) \<and> on_pair pl d \<and> (complete pl d \<or> (\<forall>p. staged pl p d))"

definition crash_ok :: "pair_plan \<Rightarrow> disk \<Rightarrow> bool" where
  "crash_ok pl d \<longleftrightarrow> dk_journal d = Missing \<and> (untouched pl d \<or> complete pl d) \<or> journaled pl d"

text \<open>No candidate was lost: each account still has its transaction whole, or none at all.\<close>

definition intact :: "pair_plan \<Rightarrow> disk \<Rightarrow> bool" where
  "intact pl d \<longleftrightarrow> (\<forall>p. staged pl p d \<or> ac_transactions (account_of p d) = [])"

lemma all_providers: "(\<forall>p. P p) \<longleftrightarrow> P CodexProvider \<and> P ClaudeProvider"
  by (metis provider.exhaust)

lemma plan_transition_bytes:
  assumes "wf_plan env pl"
  shows "pair_transition_bytes (pl_transition pl) = Inr (plan_journal pl)"
proof -
  have "credential_identifier (run_of p (pl_transition pl))" "credential_sha (old_sha p (pl_transition pl))"
    "credential_sha (new_sha p (pl_transition pl))" for p
    using assms by (simp_all add: wf_plan_def)
  from this [of CodexProvider] this [of ClaudeProvider] show ?thesis
    by (simp add: pair_transition_bytes_def plan_journal_def credential_safe_identifier_Inr [THEN iffD2])
qed

lemma plan_markers:
  assumes "wf_plan env pl"
  shows "transition_marker (pl_transition pl) False = Inr (plan_marker (pl_old pl))"
    and "transition_marker (pl_transition pl) True = Inr (plan_marker (pl_new pl))"
proof -
  have "old_sha p (pl_transition pl) = credential_digest (pl_old pl p)"
    "new_sha p (pl_transition pl) = credential_digest (pl_new pl p)" for p
    using assms by (simp_all add: wf_plan_def)
  from this [of CodexProvider] this [of ClaudeProvider]
  show "transition_marker (pl_transition pl) False = Inr (plan_marker (pl_old pl))"
    "transition_marker (pl_transition pl) True = Inr (plan_marker (pl_new pl))"
    by (simp_all add: transition_marker_def default_profile_metadata_from_hashes_def plan_marker_def)
qed

lemma plan_marker_length: "int (length (plan_marker f)) \<le> MAX_METADATA_BYTES"
  using marker_length [of "credential_digest (f CodexProvider)" "credential_digest (f ClaudeProvider)"]
  by (simp add: plan_marker_def default_profile_metadata_from_hashes_def)

lemma read_valid: "valid_login env p b \<Longrightarrow> read_private_file (credential_limit p) r e (Stored b) = Inr b"
  by (simp add: read_private_file_def valid_login_def)

lemma validate_valid: "valid_login env p b \<Longrightarrow> validate_auth_bytes (parser_of env p) r e b = Inr ()"
  by (simp add: validate_auth_bytes_def valid_login_def)

lemma staged_names: "staged pl p d \<Longrightarrow> wf_plan env pl \<Longrightarrow> transaction_names (account_of p d) = Inr [run_of p (pl_transition pl)]"
  by (auto simp: staged_def candidate_entry_def transaction_names_def transaction_name_def wf_plan_def)

section \<open>Reading the witnesses\<close>

lemma staged_file:
  "ac_transactions (account_of p d) = [candidate_entry pl p base] \<Longrightarrow>
    transaction_file tx_metadata (run_of p (pl_transition pl)) (account_of p d) =
      Stored (metadata_bytes (run_of p (pl_transition pl)) base)"
  "ac_transactions (account_of p d) = [candidate_entry pl p base] \<Longrightarrow>
    transaction_file tx_candidate (run_of p (pl_transition pl)) (account_of p d) = Stored (pl_new pl p)"
  by (simp_all add: transaction_file_def candidate_entry_def)

text \<open>Reading changes nothing on the disk; a candidate that is found whole is the new login.\<close>

definition quiet :: "('w, 'z, 'a) pair_eff \<Rightarrow> bool" where
  "quiet m \<longleftrightarrow> (\<forall>s. ps_disk (snd (m s)) = ps_disk s \<and> ps_log (snd (m s)) = ps_log s)"

lemma quiet_basic [intro, simp]:
  "quiet (ret x)" "quiet (raise e)" "quiet (lift r)" "quiet (look g)" "quiet (on_world m)"
  by (simp_all add: quiet_def look_def on_world_def split: prod.splits)

lemma quiet_sbind [intro]:
  assumes "quiet m" and "\<And>x. quiet (f x)"
  shows "quiet (sbind m f)"
  unfolding quiet_def
proof
  fix s
  obtain r t where "m s = (r, t)" by (cases "m s")
  then show "ps_disk (snd (sbind m f s)) = ps_disk s \<and> ps_log (snd (sbind m f s)) = ps_log s"
    using assms(1) [unfolded quiet_def, rule_format, of s] assms(2) [unfolded quiet_def, rule_format, of _ t]
    by (cases r) (simp_all add: sbind_def)
qed

lemma quiet_if [intro]: "quiet m \<Longrightarrow> quiet n \<Longrightarrow> quiet (if b then m else n)"
  by simp

lemma quiet_evidence [intro, simp]: "quiet (evidence env p run_id gens)"
  by (simp add: evidence_def split: option.splits)

lemma quiet_read_metadata [intro, simp]: "quiet (read_metadata p run_id)"
  unfolding read_metadata_def by (intro quiet_sbind) (simp_all split: sum.splits)

lemma quiet_journal_candidate [intro, simp]: "quiet (journal_candidate env p run_id o_sha n_sha)"
  unfolding journal_candidate_def read_candidate_def case_prod_beta
  by (intro quiet_sbind quiet_if quiet_basic quiet_evidence quiet_read_metadata)

lemma read_metadata_staged:
  assumes "wf_plan env pl" and "base \<in> {old_sha p (pl_transition pl), new_sha p (pl_transition pl)}"
    and "ac_transactions (account_of p (ps_disk s)) = [candidate_entry pl p base]"
  shows "read_metadata p (run_of p (pl_transition pl)) s = (Inr (run_of p (pl_transition pl), base), s)"
proof -
  have "credential_identifier (run_of p (pl_transition pl))" "credential_sha base"
    using assms(1,2) by (auto simp: wf_plan_def)
  then show ?thesis
    using strict_metadata_bytes [of "run_of p (pl_transition pl)" base] staged_file(1) [OF assms(3)]
      metadata_length [of "run_of p (pl_transition pl)" base]
    by (simp add: read_metadata_def sbind_def look_def read_private_file_def not_less)
qed

text \<open>Steps of a run from one disk whose value is known.\<close>

lemma hoare_eval:
  assumes "\<And>s. ps_disk s = d \<Longrightarrow> m s = (Inr x, s)" and "hoare I (\<lambda>d'. d' = d) (f x) Q E"
  shows "hoare I (\<lambda>d'. d' = d) (sbind m f) Q E"
proof (rule hoareI)
  fix s r s' assume s: "ps_disk s = d" "list_all I (ps_log s)" "sbind m f s = (r, s')"
  then have "f x s = (r, s')" using assms(1) [of s] by (simp add: sbind_def)
  with s show "list_all I (ps_log s') \<and> (case r of Inl e \<Rightarrow> E (ps_disk s') | Inr x \<Rightarrow> Q x (ps_disk s'))"
    using hoareD [OF assms(2), of s r s'] by simp
qed

lemma hoare_look:
  assumes "g d = Inr x" and "hoare I (\<lambda>d'. d' = d) (f x) Q E"
  shows "hoare I (\<lambda>d'. d' = d) (sbind (look g) f) Q E"
  by (rule hoare_eval [where x = x]) (simp add: look_def assms(1), rule assms(2))

lemma hoare_lift_eval:
  assumes "r = Inr x" and "hoare I P (f x) Q E"
  shows "hoare I P (sbind (lift r) f) Q E"
  using assms by (simp add: hoare_def)

lemma hoare_evidence_then:
  assumes "\<not> barriers_pass env \<Longrightarrow> E d" and "hoare I (\<lambda>d'. d' = d) n Q E"
  shows "hoare I (\<lambda>d'. d' = d) (sbind (evidence env p run_id gens) (\<lambda>_. n)) Q E"
  by (rule hoare_sbind [where R = "\<lambda>_ d'. d' = d"], rule hoare_evidence) (use assms in simp_all)

lemma hoare_candidate_staged:
  assumes st: "staged pl p d" and wf: "wf_plan env pl"
  shows "hoare I (\<lambda>d'. d' = d)
    (journal_candidate env p (run_of p (pl_transition pl)) (old_sha p (pl_transition pl)) (new_sha p (pl_transition pl)))
    (\<lambda>c d'. d' = d \<and> c = Some (pl_new pl p)) (\<lambda>d'. \<not> barriers_pass env \<and> d' = d)"
proof -
  let ?t = "pl_transition pl" let ?c = "pl_new pl p"
  have v: "valid_login env p ?c" "new_sha p ?t = credential_digest ?c" using wf by (simp_all add: wf_plan_def)
  obtain base where base: "base \<in> {old_sha p ?t, new_sha p ?t}" "ac_transactions (account_of p d) = [candidate_entry pl p base]"
    using st unfolding staged_def by blast
  have m: "read_metadata p (run_of p ?t) s = (Inr (run_of p ?t, base), s)" if "ps_disk s = d" for s :: "('a, 'b) pair_state_scheme"
    using read_metadata_staged [OF wf base(1)] base(2) that by blast
  have c: "read_private_file (credential_limit p) r e (transaction_file tx_candidate (run_of p ?t) (account_of p d)) = Inr ?c" for r e
    unfolding staged_file(2) [OF base(2)] by (rule read_valid [OF v(1)])
  show ?thesis
    unfolding journal_candidate_def
  proof (rule hoare_look, rule staged_names [OF st wf], goal_cases)
    case 1
    have step: "hoare I (\<lambda>d'. d' = d) (sbind (evidence env p (run_of p ?t) []) (\<lambda>_.
        sbind (read_candidate p (run_of p ?t) CREDENTIAL_STATE_CONFLICT
          (''pending '' @ label p @ '' candidate is missing or unsafe'')) (\<lambda>candidate.
        sbind (lift (validate_auth_bytes (parser_of env p) CREDENTIAL_STATE_CONFLICT
          (''pending '' @ label p @ '' candidate is invalid'') candidate)) (\<lambda>_.
        if credential_digest candidate \<noteq> new_sha p ?t
        then raise (conflict (''pending '' @ label p @ '' candidate does not match the pair journal''))
        else sbind (evidence env p (run_of p ?t) [candidate]) (\<lambda>_. ret (Some candidate))))))
      (\<lambda>c d'. d' = d \<and> c = Some ?c) (\<lambda>d'. \<not> barriers_pass env \<and> d' = d)"
      unfolding read_candidate_def
      by (rule hoare_evidence_then, simp, rule hoare_look, rule c, rule hoare_lift_eval, rule validate_valid [OF v(1)])
        (simp add: v(2) del: append.simps, rule hoare_evidence_then, simp, rule hoare_ret, simp)
    have b: "\<not> (run_of p ?t \<noteq> run_of p ?t \<or> base \<notin> {old_sha p ?t, new_sha p ?t})" using base(1) by blast
    show ?case
      apply (simp only: list.simps if_False simp_thms not_True_eq_False)
      apply (rule hoare_eval [where x = "(run_of p ?t, base)"], erule m)
      apply (simp only: prod.case b if_False)
      apply (rule step)
      done
  qed
qed

section \<open>The writes of the roll forward\<close>

lemma account_update [simp]:
  "account_of q (update_account p f d) = (if q = p then f (account_of q d) else account_of q d)"
  "dk_marker (update_account p f d) = dk_marker d" "dk_journal (update_account p f d) = dk_journal d"
  by (cases p; cases q; simp)+

lemma account_fields [simp]:
  "account_of p (d\<lparr>dk_marker := x\<rparr>) = account_of p d" "account_of p (d\<lparr>dk_journal := y\<rparr>) = account_of p d"
  by (cases p; simp)+

declare account_of.simps [simp del] update_account.simps [simp del]

lemma transaction_fields [simp]:
  "ac_durable (change_transaction run_id f a) = ac_durable a" "ac_durable (drop_transaction run_id a) = ac_durable a"
  by (simp_all add: change_transaction_def drop_transaction_def)

text \<open>Whatever happens to the transactions, a complete pair stays complete.\<close>

lemma complete_update:
  assumes "\<And>a. ac_durable (f a) = ac_durable a"
  shows "complete pl (update_account p f d) \<longleftrightarrow> complete pl d"
proof -
  have "ac_durable (account_of q (update_account p f d)) = ac_durable (account_of q d)" for q
    using assms by simp
  then show ?thesis unfolding complete_def on_pair_def account_update by simp
qed

definition put_durable :: "provider \<Rightarrow> bytes \<Rightarrow> disk \<Rightarrow> disk" where
  "put_durable p b = update_account p (\<lambda>a. a\<lparr>ac_durable := Stored b\<rparr>)"

definition rolled :: "pair_plan \<Rightarrow> provider \<Rightarrow> disk \<Rightarrow> disk" where
  "rolled pl p d =
     (if has_digest (ac_durable (account_of p d)) (credential_digest (pl_new pl p)) then d else put_durable p (pl_new pl p) d)"

definition marked :: "pair_plan \<Rightarrow> disk \<Rightarrow> disk" where
  "marked pl d = (if dk_marker d = Stored (plan_marker (pl_new pl)) then d else d\<lparr>dk_marker := Stored (plan_marker (pl_new pl))\<rparr>)"

lemma complete_rolled: "complete pl d \<Longrightarrow> rolled pl p d = d" "complete pl d \<Longrightarrow> marked pl d = d"
  by (simp_all add: complete_def rolled_def marked_def)

lemma rolled_fields [simp]:
  "dk_marker (rolled pl p d) = dk_marker d" "dk_journal (rolled pl p d) = dk_journal d"
  "q \<noteq> p \<Longrightarrow> account_of q (rolled pl p d) = account_of q d" "ac_transactions (account_of q (rolled pl p d)) = ac_transactions (account_of q d)"
  "dk_journal (marked pl d) = dk_journal d" "account_of q (marked pl d) = account_of q d"
  by (simp_all add: rolled_def marked_def put_durable_def)

lemma rolled_digest: "has_digest (ac_durable (account_of p (rolled pl p d))) (credential_digest (pl_new pl p))"
  by (simp add: rolled_def put_durable_def has_digest_def)

lemma staged_account: "ac_transactions (account_of p d) = ac_transactions (account_of p d') \<Longrightarrow> staged pl p d \<longleftrightarrow> staged pl p d'"
  by (simp add: staged_def)

lemma journaled_rolled: "journaled pl d \<Longrightarrow> journaled pl (rolled pl p d)"
proof -
  assume j: "journaled pl d"
  have "on_pair pl (rolled pl p d)"
    using j by (auto simp: journaled_def on_pair_def rolled_def put_durable_def)
  moreover have "complete pl (rolled pl p d) \<or> (\<forall>q. staged pl q (rolled pl p d))"
  proof (cases "complete pl d")
    case True
    then show ?thesis by (simp add: complete_rolled)
  next
    case False
    with j show ?thesis using staged_account [of _ d "rolled pl p d" pl] by (simp add: journaled_def)
  qed
  ultimately show ?thesis using j by (simp add: journaled_def)
qed

definition settled :: "pair_plan \<Rightarrow> disk \<Rightarrow> bool" where
  "settled pl d \<longleftrightarrow> complete pl d \<and> dk_journal d = Stored (plan_journal pl)"

lemma settled_ok: "settled pl d \<Longrightarrow> crash_ok pl d"
  by (simp add: settled_def crash_ok_def journaled_def complete_def)

lemma journaled_settled:
  assumes "journaled pl d"
  shows "settled pl (marked pl (rolled pl CodexProvider (rolled pl ClaudeProvider d)))"
proof -
  let ?d = "rolled pl CodexProvider (rolled pl ClaudeProvider d)"
  have j: "journaled pl ?d" by (intro journaled_rolled assms)
  have "has_digest (ac_durable (account_of p ?d)) (credential_digest (pl_new pl p))" for p
    using rolled_digest [of CodexProvider pl "rolled pl ClaudeProvider d"] rolled_digest [of ClaudeProvider pl d]
    by (cases p) simp_all
  with j show ?thesis
    by (auto simp: settled_def complete_def journaled_def on_pair_def marked_def)
qed

section \<open>After the pair is complete\<close>

lemma settled_update:
  "(\<And>a. ac_durable (f a) = ac_durable a) \<Longrightarrow> settled pl (update_account p f d) \<longleftrightarrow> settled pl d"
  by (simp add: settled_def complete_update)

lemma intact_names:
  assumes "intact pl d" and "wf_plan env pl"
  shows "transaction_names (account_of p d) = Inr (map fst (ac_transactions (account_of p d)))"
    and "ac_transactions (account_of p d) \<noteq> [] \<Longrightarrow> has_transaction (run_of p (pl_transition pl)) (account_of p d)"
proof -
  have s: "staged pl p d \<or> ac_transactions (account_of p d) = []" using assms(1) by (simp add: intact_def)
  then show "transaction_names (account_of p d) = Inr (map fst (ac_transactions (account_of p d)))"
  proof
    assume st: "staged pl p d"
    then have "map fst (ac_transactions (account_of p d)) = [run_of p (pl_transition pl)]"
      by (auto simp: staged_def candidate_entry_def)
    with staged_names [OF st assms(2)] show ?thesis by simp
  qed (simp add: transaction_names_def)
  show "has_transaction (run_of p (pl_transition pl)) (account_of p d)" if "ac_transactions (account_of p d) \<noteq> []"
    using that s by (auto simp: has_transaction_def staged_def candidate_entry_def)
qed

lemma intact_drop:
  assumes "intact pl d"
  shows "intact pl (update_account p (drop_transaction (run_of p (pl_transition pl))) d)"
    and "ac_transactions (account_of p (update_account p (drop_transaction (run_of p (pl_transition pl))) d)) = []"
proof -
  have s: "staged pl q d \<or> ac_transactions (account_of q d) = []" for q using assms by (simp add: intact_def)
  show e: "ac_transactions (account_of p (update_account p (drop_transaction (run_of p (pl_transition pl))) d)) = []"
    using s [of p] by (auto simp: staged_def candidate_entry_def drop_transaction_def)
  show "intact pl (update_account p (drop_transaction (run_of p (pl_transition pl))) d)"
    unfolding intact_def
  proof
    fix q
    show "staged pl q (update_account p (drop_transaction (run_of p (pl_transition pl))) d) \<or>
        ac_transactions (account_of q (update_account p (drop_transaction (run_of p (pl_transition pl))) d)) = []"
      using s [of q] e by (cases "q = p") (auto simp: staged_def)
  qed
qed

lemma hoare_clean:
  assumes wf: "wf_plan env pl"
  shows "hoare (crash_ok pl) (\<lambda>d. settled pl d \<and> (ok \<longrightarrow> intact pl d \<and> (\<forall>q \<in> S. ac_transactions (account_of q d) = [])))
    (clean_transaction p (run_of p (pl_transition pl)))
    (\<lambda>_ d. settled pl d \<and> (ok \<longrightarrow> intact pl d \<and> (\<forall>q \<in> insert p S. ac_transactions (account_of q d) = [])))
    (\<lambda>d. \<not> ok \<and> crash_ok pl d)"
proof (rule hoareI)
  let ?r = "run_of p (pl_transition pl)"
  fix s r s' assume P: "settled pl (ps_disk s) \<and> (ok \<longrightarrow> intact pl (ps_disk s) \<and> (\<forall>q \<in> S. ac_transactions (account_of q (ps_disk s)) = []))"
    and l: "list_all (crash_ok pl) (ps_log s)" and r: "clean_transaction p ?r s = (r, s')"
  note c = settled_ok [OF P [THEN conjunct1]]
  have u: "settled pl (update_account p (change_transaction ?r f) (ps_disk s))"
    "settled pl (update_account p (drop_transaction ?r) (ps_disk s))" for f
    using P by (simp_all add: settled_update)
  have dropped: "ok \<Longrightarrow> intact pl (update_account p (drop_transaction ?r) (ps_disk s)) \<and>
      (\<forall>q \<in> insert p S. ac_transactions (account_of q (update_account p (drop_transaction ?r) (ps_disk s))) = [])"
    using P intact_drop [of pl "ps_disk s" p] by auto
  have ok: "ok \<Longrightarrow> transaction_names (account_of p (ps_disk s)) = Inr (map fst (ac_transactions (account_of p (ps_disk s))))"
    "ok \<Longrightarrow> ac_transactions (account_of p (ps_disk s)) \<noteq> [] \<Longrightarrow> has_transaction ?r (account_of p (ps_disk s))"
    using P intact_names [OF _ wf] by auto
  show "list_all (crash_ok pl) (ps_log s') \<and> (case r of Inl e \<Rightarrow> \<not> ok \<and> crash_ok pl (ps_disk s')
      | Inr x \<Rightarrow> settled pl (ps_disk s') \<and> (ok \<longrightarrow> intact pl (ps_disk s') \<and>
          (\<forall>q \<in> insert p S. ac_transactions (account_of q (ps_disk s')) = [])))"
  proof (cases "transaction_names (account_of p (ps_disk s))")
    case (Inl e)
    then show ?thesis using r ok(1) c l by (auto simp: clean_transaction_def sbind_def look_def)
  next
    case (Inr names)
    show ?thesis
    proof (cases "names = []")
      case True
      then show ?thesis using r ok(1) Inr P l by (auto simp: clean_transaction_def sbind_def look_def)
    next
      case False
      show ?thesis
      proof (cases "has_transaction ?r (account_of p (ps_disk s))")
        case True
        then have "r = Inr ()" "ps_disk s' = update_account p (drop_transaction ?r) (ps_disk s)"
          "ps_log s' = ps_disk s # partly_removed p ?r (ps_disk s) @ ps_log s"
          using r Inr False by (auto simp: clean_transaction_def remove_transaction_def sbind_def look_def commit_def)
        then show ?thesis using u settled_ok c l dropped by (simp add: partly_removed_def)
      next
        case nh: False
        then show ?thesis
          using r Inr False ok c l
          by (auto simp: clean_transaction_def remove_transaction_def sbind_def look_def)
      qed
    qed
  qed
qed

definition rebased :: "pair_plan \<Rightarrow> provider \<Rightarrow> disk \<Rightarrow> bool" where
  "rebased pl p d \<longleftrightarrow> ac_transactions (account_of p d) = [candidate_entry pl p (new_sha p (pl_transition pl))]"

lemma hoare_rebase:
  "hoare (crash_ok pl) (\<lambda>d. settled pl d \<and> (ok \<longrightarrow> (\<forall>q. staged pl q d) \<and> (\<forall>q \<in> S. rebased pl q d)))
    (rebase_transaction p (run_of p (pl_transition pl)) (new_sha p (pl_transition pl)))
    (\<lambda>_ d. settled pl d \<and> (ok \<longrightarrow> (\<forall>q. staged pl q d) \<and> (\<forall>q \<in> insert p S. rebased pl q d)))
    (\<lambda>d. \<not> ok \<and> crash_ok pl d)"
proof (rule hoareI)
  let ?r = "run_of p (pl_transition pl)"
  let ?f = "\<lambda>t. t\<lparr>tx_metadata := Stored (metadata_bytes ?r (new_sha p (pl_transition pl)))\<rparr>"
  fix s r s'
  assume P: "settled pl (ps_disk s) \<and> (ok \<longrightarrow> (\<forall>q. staged pl q (ps_disk s)) \<and> (\<forall>q \<in> S. rebased pl q (ps_disk s)))"
    and l: "list_all (crash_ok pl) (ps_log s)" and r: "rebase_transaction p ?r (new_sha p (pl_transition pl)) s = (r, s')"
  note c = settled_ok [OF P [THEN conjunct1]]
  let ?d = "update_account p (change_transaction ?r ?f) (ps_disk s)"
  have u: "settled pl ?d" using P by (simp add: settled_update)
  have st: "has_transaction ?r (account_of p (ps_disk s))" "rebased pl p ?d" if "staged pl p (ps_disk s)"
    using that by (auto simp: staged_def candidate_entry_def has_transaction_def rebased_def change_transaction_def)
  have "rebased pl p ?d \<Longrightarrow> staged pl p ?d" by (auto simp: rebased_def staged_def)
  then have after: "(\<forall>q. staged pl q ?d) \<and> (\<forall>q \<in> insert p S. rebased pl q ?d)" if "ok"
    using P that st(2) by (auto simp: staged_def rebased_def)
  show "list_all (crash_ok pl) (ps_log s') \<and> (case r of Inl e \<Rightarrow> \<not> ok \<and> crash_ok pl (ps_disk s')
      | Inr x \<Rightarrow> settled pl (ps_disk s') \<and> (ok \<longrightarrow> (\<forall>q. staged pl q (ps_disk s')) \<and> (\<forall>q \<in> insert p S. rebased pl q (ps_disk s'))))"
  proof (cases "has_transaction ?r (account_of p (ps_disk s))")
    case True
    then have "r = Inr ()" "ps_disk s' = ?d" "ps_log s' = ps_disk s # ps_log s"
      using r by (auto simp: rebase_transaction_def write_transaction_def sbind_def look_def commit_def)
    then show ?thesis using u c l after by simp
  next
    case False
    then show ?thesis using r st(1) P c l
      by (auto simp: rebase_transaction_def write_transaction_def sbind_def look_def)
  qed
qed

definition finished :: "pair_plan \<Rightarrow> bool \<Rightarrow> disk \<Rightarrow> bool" where
  "finished pl cleanup d \<longleftrightarrow>
     (if cleanup then \<forall>p. ac_transactions (account_of p d) = [] else \<forall>p. rebased pl p d)"

lemma hoare_finish:
  assumes wf: "wf_plan env pl"
  shows "hoare (crash_ok pl) (\<lambda>d. settled pl d \<and> (ok \<longrightarrow> intact pl d \<and> (cleanup \<or> (\<forall>p. staged pl p d))))
    (finish_transition (pl_transition pl) cleanup)
    (\<lambda>_ d. settled pl d \<and> (ok \<longrightarrow> finished pl cleanup d)) (\<lambda>d. \<not> ok \<and> crash_ok pl d)"
proof (cases cleanup)
  case True
  have "hoare (crash_ok pl) (\<lambda>d. settled pl d \<and> (ok \<longrightarrow> intact pl d))
      (finish_transition (pl_transition pl) True)
      (\<lambda>_ d. settled pl d \<and> (ok \<longrightarrow> finished pl True d)) (\<lambda>d. \<not> ok \<and> crash_ok pl d)"
    unfolding finish_transition_def if_True
    by (rule hoare_sbind,
        rule hoare_conseq [OF hoare_clean [OF wf, of ok "{}" ClaudeProvider, unfolded run_of.simps]], simp, assumption, assumption,
        rule hoare_conseq [OF hoare_clean [OF wf, of ok "{ClaudeProvider}" CodexProvider, unfolded run_of.simps]])
      (auto simp: finished_def all_providers)
  then show ?thesis using True by (auto intro: hoare_conseq)
next
  case False
  have "hoare (crash_ok pl) (\<lambda>d. settled pl d \<and> (ok \<longrightarrow> (\<forall>p. staged pl p d)))
      (finish_transition (pl_transition pl) False)
      (\<lambda>_ d. settled pl d \<and> (ok \<longrightarrow> finished pl False d)) (\<lambda>d. \<not> ok \<and> crash_ok pl d)"
    unfolding finish_transition_def if_False
    by (rule hoare_sbind,
        rule hoare_conseq [OF hoare_rebase [of pl ok "{}" ClaudeProvider, unfolded run_of.simps new_sha.simps]], simp, assumption,
        assumption,
        rule hoare_conseq [OF hoare_rebase [of pl ok "{ClaudeProvider}" CodexProvider, unfolded run_of.simps new_sha.simps]])
      (auto simp: finished_def all_providers)
  then show ?thesis using False by (auto intro: hoare_conseq)
qed

section \<open>The roll forward\<close>

lemma hoare_roll_provider:
  assumes "wf_plan env pl" and "I d" and "ac_durable (account_of p d) = Stored b"
    and "credential_digest b = new_sha p (pl_transition pl) \<or> candidate = Some (pl_new pl p)"
  shows "hoare I (\<lambda>d'. d' = d) (roll_provider p (credential_digest b) (new_sha p (pl_transition pl)) candidate)
    (\<lambda>_ d'. d' = rolled pl p d) E"
proof -
  have n: "new_sha p (pl_transition pl) = credential_digest (pl_new pl p)" using assms(1) by (simp add: wf_plan_def)
  show ?thesis
  proof (cases "credential_digest b = new_sha p (pl_transition pl)")
    case True
    then have "rolled pl p d = d" using n assms(3) by (simp add: rolled_def has_digest_def)
    then show ?thesis unfolding roll_provider_def using True by (simp add: hoare_ret)
  next
    case False
    then have "rolled pl p d = put_durable p (pl_new pl p) d" using n assms(3) by (simp add: rolled_def has_digest_def)
    then have w: "hoare I (\<lambda>d'. d' = d) (write_durable p (pl_new pl p)) (\<lambda>_ d'. d' = rolled pl p d) E"
      unfolding write_durable_def using assms(2) by (intro hoare_commit) (simp add: put_durable_def)
    have "roll_provider p (credential_digest b) (new_sha p (pl_transition pl)) candidate = write_durable p (pl_new pl p)"
      using False assms(4) n by (auto simp: roll_provider_def)
    with w show ?thesis by (rule ssubst [rotated])
  qed
qed

lemma validate_login:
  "valid_login env ClaudeProvider b \<Longrightarrow> validate_auth_bytes parse_claude_cli_credentials r e b = Inr ()"
  "valid_login env CodexProvider b \<Longrightarrow> validate_auth_bytes (pe_codex_parser env) r e b = Inr ()"
  by (simp_all add: validate_auth_bytes_def valid_login_def)

lemma hoare_roll_forward:
  assumes wf: "wf_plan env pl" and j: "journaled pl d"
    and ok: "ok \<Longrightarrow> intact pl d \<and> (cleanup \<or> (\<forall>p. staged pl p d))"
    and cand: "complete pl d \<or> claude_candidate = Some (pl_new pl ClaudeProvider) \<and> codex_candidate = Some (pl_new pl CodexProvider)"
  shows "hoare (crash_ok pl) (\<lambda>d'. d' = d) (roll_forward env (pl_transition pl) claude_candidate codex_candidate cleanup)
    (\<lambda>_ d'. complete pl d' \<and> dk_journal d' = Missing \<and> (ok \<longrightarrow> finished pl cleanup d')) (\<lambda>d'. \<not> ok \<and> crash_ok pl d')"
proof -
  let ?t = "pl_transition pl"
  let ?d1 = "rolled pl ClaudeProvider d" let ?d2 = "rolled pl CodexProvider ?d1" let ?d3 = "marked pl ?d2"
  have on: "on_pair pl d" using j by (simp add: journaled_def)
  then obtain m where m: "dk_marker d = Stored m" "m \<in> {plan_marker (pl_old pl), plan_marker (pl_new pl)}"
    by (auto simp: on_pair_def)
  have "\<exists>b. ac_durable (account_of p d) = Stored b \<and> b \<in> {pl_old pl p, pl_new pl p}" for p
    using on by (auto simp: on_pair_def)
  then obtain c x where b: "ac_durable (account_of ClaudeProvider d) = Stored c" "c \<in> {pl_old pl ClaudeProvider, pl_new pl ClaudeProvider}"
    "ac_durable (account_of CodexProvider d) = Stored x" "x \<in> {pl_old pl CodexProvider, pl_new pl CodexProvider}"
    by meson
  have v: "valid_login env ClaudeProvider c" "valid_login env CodexProvider x" using wf b by (auto simp: wf_plan_def)
  have sha: "old_sha p ?t = credential_digest (pl_old pl p)" "new_sha p ?t = credential_digest (pl_new pl p)" for p
    using wf by (simp_all add: wf_plan_def)
  note sha' = sha [of ClaudeProvider, unfolded old_sha.simps new_sha.simps] sha [of CodexProvider, unfolded old_sha.simps new_sha.simps]
  have inold: "credential_digest c \<in> {old_claude_sha256 ?t, new_claude_sha256 ?t}"
    "credential_digest x \<in> {old_codex_sha256 ?t, new_codex_sha256 ?t}" using b(2,4) sha' by auto
  have fin: "m = plan_marker (pl_new pl) \<and> credential_digest c = new_claude_sha256 ?t \<and> credential_digest x = new_codex_sha256 ?t"
    if "complete pl d"
    using that m(1) b(1,3) sha' by (simp add: complete_def has_digest_def all_providers)
  have w: "\<not> ((claude_candidate = None \<or> codex_candidate = None) \<and>
      (m \<noteq> plan_marker (pl_new pl) \<or> credential_digest c \<noteq> new_claude_sha256 ?t \<or> credential_digest x \<noteq> new_codex_sha256 ?t))"
    using cand fin by auto
  have r: "read_private_file MAX_METADATA_BYTES CREDENTIAL_STATE_CONFLICT e (dk_marker d) = Inr m" for e
    using m plan_marker_length by (auto simp: read_private_file_def not_less)
  have j1: "journaled pl ?d1" and j2: "journaled pl ?d2" by (intro journaled_rolled j)+
  have b2: "ac_durable (account_of CodexProvider ?d1) = Stored x" using b(3) by simp
  have roll1: "hoare (crash_ok pl) (\<lambda>d'. d' = d)
      (roll_provider ClaudeProvider (credential_digest c) (new_claude_sha256 ?t) claude_candidate) (\<lambda>_ d'. d' = ?d1) E" for E
    using hoare_roll_provider [OF wf, of "crash_ok pl" d ClaudeProvider c claude_candidate E] cand fin j b(1)
    by (auto simp: crash_ok_def)
  have roll2: "hoare (crash_ok pl) (\<lambda>d'. d' = ?d1)
      (roll_provider CodexProvider (credential_digest x) (new_codex_sha256 ?t) codex_candidate) (\<lambda>_ d'. d' = ?d2) E" for E
    using hoare_roll_provider [OF wf, of "crash_ok pl" ?d1 CodexProvider x codex_candidate E] cand fin j1 b2
    by (auto simp: crash_ok_def)
  have mark: "hoare (crash_ok pl) (\<lambda>d'. d' = ?d2)
      (if m \<noteq> plan_marker (pl_new pl) then write_marker (plan_marker (pl_new pl)) else ret ()) (\<lambda>_ d'. d' = ?d3) E" for E
    unfolding write_marker_def
    by (rule hoare_if, rule hoare_commit, use m(1) j2 in \<open>simp add: marked_def crash_ok_def\<close>,
        rule hoare_ret, use m(1) in \<open>simp add: marked_def\<close>)
  have st: "settled pl ?d3" by (rule journaled_settled [OF j])
  have ok3: "ok \<Longrightarrow> intact pl ?d3 \<and> (cleanup \<or> (\<forall>p. staged pl p ?d3))"
    using ok staged_account [of _ ?d3 d pl] by (simp add: intact_def)
  have finish: "hoare (crash_ok pl) (\<lambda>d'. d' = ?d3) (sbind (finish_transition ?t cleanup) (\<lambda>_. remove_journal))
      (\<lambda>_ d'. complete pl d' \<and> dk_journal d' = Missing \<and> (ok \<longrightarrow> finished pl cleanup d')) (\<lambda>d'. \<not> ok \<and> crash_ok pl d')"
  proof (rule hoare_sbind)
    show "hoare (crash_ok pl) (\<lambda>d'. d' = ?d3) (finish_transition ?t cleanup)
      (\<lambda>_ d. settled pl d \<and> (ok \<longrightarrow> finished pl cleanup d)) (\<lambda>d'. \<not> ok \<and> crash_ok pl d')"
      by (rule hoare_conseq [OF hoare_finish [OF wf, of ok cleanup]]) (use st ok3 in auto)
    show "hoare (crash_ok pl) (\<lambda>d. settled pl d \<and> (ok \<longrightarrow> finished pl cleanup d)) remove_journal
      (\<lambda>_ d'. complete pl d' \<and> dk_journal d' = Missing \<and> (ok \<longrightarrow> finished pl cleanup d')) (\<lambda>d'. \<not> ok \<and> crash_ok pl d')"
      unfolding remove_journal_def
      by (rule hoare_commit) (auto simp: settled_ok settled_def complete_def on_pair_def finished_def rebased_def)
  qed
  show ?thesis
    unfolding roll_forward_def read_durable_def o_def
    apply (rule hoare_look, rule r)
    apply (rule hoare_lift_eval, rule plan_markers [OF wf], rule hoare_lift_eval, rule plan_markers [OF wf])
    apply (subst if_not_P, use m(2) in blast)
    apply (rule hoare_look, subst b(1), rule read_valid [OF v(1)], rule hoare_look, subst b(3), rule read_valid [OF v(2)])
    apply (rule hoare_lift_eval, rule validate_login(1) [OF v(1)], rule hoare_lift_eval, rule validate_login(2) [OF v(2)])
    apply (simp only: Let_def)
    apply (subst if_not_P, use inold in blast, subst if_not_P, rule w)
    apply (rule hoare_sbind [OF roll1], rule hoare_sbind [OF roll2], rule hoare_sbind [OF mark], rule finish)
    done
qed

end
