(* ===== verification/PairCrash.thy ===== *)
theory PairCrash
  imports PairProofs
begin

text \<open>
  The transition of the pair under crashes: the commit that writes the journal and rolls it forward,
  the recovery that finds the journal, and the disks that any number of crashes in both may leave.
\<close>

section \<open>The recovery of a journal\<close>

lemma hoare_quiet:
  fixes m :: "('w, 'z, 'a) pair_eff"
  assumes "quiet m" and "P d" and "\<And>x. Q x d" and "E d"
  shows "hoare I (\<lambda>d'. d' = d) m Q E"
proof (rule hoareI)
  fix s r s' assume "ps_disk s = d" "list_all I (ps_log s)" "m s = (r, s')"
  then show "list_all I (ps_log s') \<and> (case r of Inl e \<Rightarrow> E (ps_disk s') | Inr x \<Rightarrow> Q x (ps_disk s'))"
    using assms(1) [unfolded quiet_def, rule_format, of s] assms(3,4) by (cases r) simp_all
qed

lemma hoare_candidate:
  assumes wf: "wf_plan env pl" and j: "journaled pl d" and ok: "ok \<Longrightarrow> barriers_pass env \<and> intact pl d"
  shows "hoare I (\<lambda>d'. d' = d)
    (journal_candidate env p (run_of p (pl_transition pl)) (old_sha p (pl_transition pl)) (new_sha p (pl_transition pl)))
    (\<lambda>c d'. d' = d \<and> (complete pl d \<or> c = Some (pl_new pl p))) (\<lambda>d'. \<not> ok \<and> d' = d)"
proof (cases "staged pl p d")
  case True
  show ?thesis by (rule hoare_conseq [OF hoare_candidate_staged [OF True wf]]) (use ok in auto)
next
  case False
  then have c: "complete pl d" using j by (auto simp: journaled_def)
  show ?thesis
  proof (cases "ac_transactions (account_of p d) = []")
    case True
    then have "transaction_names (account_of p d) = Inr []" by (simp add: transaction_names_def)
    then show ?thesis
      unfolding journal_candidate_def by (rule hoare_look) (simp add: hoare_ret c)
  next
    case other: False
    have "\<not> ok" using ok False other by (auto simp: intact_def)
    then show ?thesis using c by (intro hoare_quiet [where P = "\<lambda>_. True"]) simp_all
  qed
qed

lemma read_journal:
  assumes "wf_plan env pl" and "dk_journal d = Stored (plan_journal pl)"
  shows "read_optional_private_file name (dk_journal d) = Inr (Some (plan_journal pl))"
    and "strict_pair_transition (plan_journal pl) = Inr (pl_transition pl)"
  using assms transition_length [OF plan_transition_bytes [OF assms(1)]]
  by (simp_all add: read_optional_private_file_def not_less strict_pair_transition_Inr plan_transition_bytes)

definition recovered :: "pair_plan \<Rightarrow> bool \<Rightarrow> disk \<Rightarrow> disk \<Rightarrow> bool" where
  "recovered pl ok d d' \<longleftrightarrow> dk_journal d' = Missing \<and>
     (dk_journal d = Missing \<and> d' = d \<or> complete pl d' \<and> (ok \<longrightarrow> finished pl True d'))"

lemma hoare_recover:
  assumes wf: "wf_plan env pl" and c: "crash_ok pl d"
    and ok: "ok \<Longrightarrow> dk_journal d = Missing \<or> barriers_pass env \<and> intact pl d"
  shows "hoare (crash_ok pl) (\<lambda>d'. d' = d) (recover_journal env) (\<lambda>_ d'. recovered pl ok d d') (\<lambda>d'. \<not> ok \<and> crash_ok pl d')"
proof (cases "dk_journal d = Missing")
  case True
  have n: "(read_optional_private_file (U ''default-profile-transition.json'') \<circ> dk_journal) d = Inr None"
    by (simp add: read_optional_private_file_def True)
  show ?thesis
    unfolding recover_journal_def
    by (rule hoare_look, rule n, simp only: option.case) (rule hoare_ret, simp add: recovered_def True)
next
  case False
  then have j: "journaled pl d" using c by (simp add: crash_ok_def)
  then have jd: "dk_journal d = Stored (plan_journal pl)" by (simp add: journaled_def)
  have n: "(read_optional_private_file (U ''default-profile-transition.json'') \<circ> dk_journal) d = Inr (Some (plan_journal pl))"
    using read_journal(1) [OF wf jd] by simp
  have ok': "ok \<Longrightarrow> barriers_pass env \<and> intact pl d" using ok False by simp
  note cand = hoare_candidate [OF wf j ok', of ok "crash_ok pl"]
  have roll: "hoare (crash_ok pl) (\<lambda>d'. d' = d \<and> (complete pl d \<or> x = Some (pl_new pl CodexProvider)) \<and>
        (complete pl d \<or> y = Some (pl_new pl ClaudeProvider)))
      (roll_forward env (pl_transition pl) y x True) (\<lambda>_ d'. recovered pl ok d d') (\<lambda>d'. \<not> ok \<and> crash_ok pl d')" for x y
  proof (rule hoare_assume [where b = "complete pl d \<or> y = Some (pl_new pl ClaudeProvider) \<and> x = Some (pl_new pl CodexProvider)"])
    assume b: "complete pl d \<or> y = Some (pl_new pl ClaudeProvider) \<and> x = Some (pl_new pl CodexProvider)"
    have ok2: "ok \<Longrightarrow> intact pl d \<and> (True \<or> (\<forall>p. staged pl p d))" using ok' by simp
    show "hoare (crash_ok pl) (\<lambda>d'. d' = d \<and> (complete pl d \<or> x = Some (pl_new pl CodexProvider)) \<and>
        (complete pl d \<or> y = Some (pl_new pl ClaudeProvider)))
      (roll_forward env (pl_transition pl) y x True) (\<lambda>_ d'. recovered pl ok d d') (\<lambda>d'. \<not> ok \<and> crash_ok pl d')"
      by (rule hoare_conseq [OF hoare_roll_forward [OF wf j ok2 b]]) (auto simp: recovered_def)
  qed auto
  have cand': "hoare (crash_ok pl) (\<lambda>d'. d' = d) (journal_candidate env p (run_of p (pl_transition pl))
        (old_sha p (pl_transition pl)) (new_sha p (pl_transition pl)))
      (\<lambda>c d'. d' = d \<and> (complete pl d \<or> c = Some (pl_new pl p))) (\<lambda>d'. \<not> ok \<and> crash_ok pl d')" for p
    by (rule hoare_conseq [OF cand]) (use c in auto)
  have claude: "hoare (crash_ok pl) (\<lambda>d'. d' = d \<and> (complete pl d \<or> x = Some (pl_new pl CodexProvider)))
      (sbind (journal_candidate env ClaudeProvider (claude_run_id (pl_transition pl)) (old_claude_sha256 (pl_transition pl))
          (new_claude_sha256 (pl_transition pl))) (\<lambda>y. roll_forward env (pl_transition pl) y x True))
      (\<lambda>_ d'. recovered pl ok d d') (\<lambda>d'. \<not> ok \<and> crash_ok pl d')" for x
  proof (rule hoare_assume [where b = "complete pl d \<or> x = Some (pl_new pl CodexProvider)"], simp, rule hoare_sbind)
    assume b: "complete pl d \<or> x = Some (pl_new pl CodexProvider)"
    show "hoare (crash_ok pl) (\<lambda>d'. d' = d \<and> (complete pl d \<or> x = Some (pl_new pl CodexProvider)))
        (journal_candidate env ClaudeProvider (claude_run_id (pl_transition pl)) (old_claude_sha256 (pl_transition pl))
          (new_claude_sha256 (pl_transition pl)))
        (\<lambda>y d'. d' = d \<and> (complete pl d \<or> x = Some (pl_new pl CodexProvider)) \<and> (complete pl d \<or> y = Some (pl_new pl ClaudeProvider)))
        (\<lambda>d'. \<not> ok \<and> crash_ok pl d')"
      by (rule hoare_conseq [OF cand' [of ClaudeProvider, unfolded run_of.simps old_sha.simps new_sha.simps]]) (use b in auto)
  qed (rule roll)
  show ?thesis
    unfolding recover_journal_def
    by (rule hoare_look, rule n)
      (simp only: option.case read_journal(2) [OF wf jd] sum.case,
       rule hoare_sbind [OF cand' [of CodexProvider, unfolded run_of.simps old_sha.simps new_sha.simps] claude])
qed

section \<open>The commit of a staged pair\<close>

definition pair_prepared :: "pair_plan \<Rightarrow> disk \<Rightarrow> bool" where
  "pair_prepared pl d \<longleftrightarrow> dk_journal d = Missing \<and> untouched pl d \<and> (\<forall>p. staged pl p d)"

lemma hoare_commit_transition:
  assumes wf: "wf_plan env pl" and d: "pair_prepared pl d"
  shows "hoare (crash_ok pl) (\<lambda>d'. d' = d)
    (commit_transition env (pl_transition pl) (pl_new pl ClaudeProvider) (pl_new pl CodexProvider) cleanup)
    (\<lambda>_ d'. complete pl d' \<and> dk_journal d' = Missing \<and> finished pl cleanup d') (\<lambda>d'. False)"
proof -
  let ?d = "d\<lparr>dk_journal := Stored (plan_journal pl)\<rparr>"
  have ok: "crash_ok pl d" using d by (simp add: pair_prepared_def crash_ok_def)
  have st: "staged pl p ?d" for p using d staged_account [of p ?d d pl] by (simp add: pair_prepared_def)
  have j: "journaled pl ?d" using d st by (auto simp: pair_prepared_def journaled_def untouched_def on_pair_def)
  have n: "(read_optional_private_file (U ''default-profile-transition.json'') \<circ> dk_journal) d = Inr None"
    using d by (simp add: pair_prepared_def read_optional_private_file_def)
  have w: "hoare (crash_ok pl) (\<lambda>d'. d' = d) (write_pair_transition (pl_transition pl)) (\<lambda>_ d'. d' = ?d) (\<lambda>d'. False)"
    unfolding write_pair_transition_def
    by (rule hoare_look, rule n, rule hoare_lift_eval, rule plan_transition_bytes [OF wf])
      (simp add: write_journal_def, rule hoare_commit, simp add: ok)
  have ok': "True \<Longrightarrow> intact pl ?d \<and> (cleanup \<or> (\<forall>p. staged pl p ?d))" using st by (simp add: intact_def)
  have r: "hoare (crash_ok pl) (\<lambda>d'. d' = ?d)
      (roll_forward env (pl_transition pl) (Some (pl_new pl ClaudeProvider)) (Some (pl_new pl CodexProvider)) cleanup)
      (\<lambda>_ d'. complete pl d' \<and> dk_journal d' = Missing \<and> finished pl cleanup d') (\<lambda>d'. False)"
    by (rule hoare_conseq [OF hoare_roll_forward [where ok = True, OF wf j ok']]) simp_all
  show ?thesis unfolding commit_transition_def by (rule hoare_sbind [OF w r])
qed

section \<open>Crashes\<close>

text \<open>The disks that running an operation may leave: the last one, or one of those a crash leaves.\<close>

definition run_on :: "('w, unit, 'a) pair_eff \<Rightarrow> disk \<Rightarrow> 'w \<Rightarrow> (exn + 'a) \<times> 'w pair_state" where
  "run_on m d w = m \<lparr>ps_disk = d, ps_log = [], ps_world = w\<rparr>"

definition disks_left :: "('w, unit, 'a) pair_eff \<Rightarrow> disk \<Rightarrow> 'w \<Rightarrow> disk set" where
  "disks_left m d w = (case run_on m d w of (r, s) \<Rightarrow> insert (ps_disk s) (set (ps_log s)))"

text \<open>No disk that an operation passes through is lost.\<close>

definition traced :: "('w, 'z, 'a) pair_eff \<Rightarrow> bool" where
  "traced m \<longleftrightarrow> (\<forall>s. insert (ps_disk s) (set (ps_log s)) \<subseteq> insert (ps_disk (snd (m s))) (set (ps_log (snd (m s)))))"

lemma traced_quiet [intro, simp]: "quiet m \<Longrightarrow> traced m"
  by (simp add: traced_def quiet_def)

lemma traced_commit [intro, simp]: "traced (commit f)"
  by (auto simp: traced_def commit_def)

lemma traced_sbind [intro]:
  assumes "traced m" and "\<And>x. traced (f x)"
  shows "traced (sbind m f)"
  unfolding traced_def
proof
  fix s
  obtain r t where m: "m s = (r, t)" by (cases "m s")
  note h = assms(1) [unfolded traced_def, rule_format, of s, unfolded m snd_conv]
  show "insert (ps_disk s) (set (ps_log s)) \<subseteq> insert (ps_disk (snd (sbind m f s))) (set (ps_log (snd (sbind m f s))))"
  proof (cases r)
    case (Inl e)
    then show ?thesis using h by (simp add: sbind_def m)
  next
    case (Inr x)
    then have "sbind m f s = f x t" by (simp add: sbind_def m)
    then show ?thesis using subset_trans [OF h assms(2) [unfolded traced_def, rule_format, of t x]] by (simp only:)
  qed
qed

lemma traced_if [intro]: "traced m \<Longrightarrow> traced n \<Longrightarrow> traced (if b then m else n)"
  by simp

lemma traced_remove [intro, simp]: "traced (remove_transaction p run_id)"
proof -
  have "traced (\<lambda>s. (Inr (), s\<lparr>ps_log := ds @ ps_log s\<rparr>))" for ds :: "disk list"
    by (auto simp: traced_def)
  then show ?thesis unfolding remove_transaction_def by (intro traced_sbind traced_if) simp_all
qed

lemma traced_roll_provider [intro, simp]: "traced (roll_provider p c n x)"
  unfolding roll_provider_def write_durable_def by (auto split: option.split)

lemma traced_finish [intro, simp]: "traced (finish_transition t cleanup)"
  unfolding finish_transition_def clean_transaction_def rebase_transaction_def write_transaction_def
  by (intro traced_if traced_sbind) simp_all

lemma traced_roll_forward [intro, simp]: "traced (roll_forward env t y x cleanup)"
  unfolding roll_forward_def read_durable_def write_marker_def remove_journal_def Let_def
  by (intro traced_sbind traced_if) simp_all

text \<open>The disks of a commit and of any number of recoveries after it, each of which may be cut off.\<close>

inductive after_crashes :: "'w pair_env \<Rightarrow> pair_plan \<Rightarrow> bool \<Rightarrow> disk \<Rightarrow> disk \<Rightarrow> bool"
  for env pl cleanup d0 where
  first: "d \<in> disks_left (commit_transition env (pl_transition pl) (pl_new pl ClaudeProvider) (pl_new pl CodexProvider) cleanup) d0 w \<Longrightarrow>
    after_crashes env pl cleanup d0 d"
| again: "after_crashes env pl cleanup d0 d \<Longrightarrow> d' \<in> disks_left (recover_journal env) d w \<Longrightarrow> after_crashes env pl cleanup d0 d'"

lemma hoare_run_on:
  assumes "hoare I (\<lambda>d'. d' = d) m Q E" and "run_on m d w = (r, s)"
  shows "list_all I (ps_log s) \<and> (case r of Inl e \<Rightarrow> E (ps_disk s) | Inr x \<Rightarrow> Q x (ps_disk s))"
  using hoareD [OF assms(1), of "\<lparr>ps_disk = d, ps_log = [], ps_world = w\<rparr>" r s] assms(2) by (simp add: run_on_def)

lemma hoare_disks_left:
  assumes "hoare I (\<lambda>d'. d' = d) m Q E" and "\<And>x d. Q x d \<Longrightarrow> I d" and "\<And>d. E d \<Longrightarrow> I d" and "d' \<in> disks_left m d w"
  shows "I d'"
proof -
  obtain r s where rs: "run_on m d w = (r, s)" by (cases "run_on m d w")
  then show ?thesis using hoare_run_on [OF assms(1) rs] assms(2-4)
    by (cases r) (auto simp: disks_left_def list_all_iff)
qed

lemma journal_disk_left:
  assumes "wf_plan env pl" and "pair_prepared pl d"
  shows "d\<lparr>dk_journal := Stored (plan_journal pl)\<rparr> \<in>
    disks_left (commit_transition env (pl_transition pl) (pl_new pl ClaudeProvider) (pl_new pl CodexProvider) cleanup) d w"
proof -
  let ?d = "d\<lparr>dk_journal := Stored (plan_journal pl)\<rparr>"
  let ?m = "roll_forward env (pl_transition pl) (Some (pl_new pl ClaudeProvider)) (Some (pl_new pl CodexProvider)) cleanup"
  let ?s = "\<lparr>ps_disk = ?d, ps_log = [d], ps_world = w\<rparr>"
  have "write_pair_transition (pl_transition pl) \<lparr>ps_disk = d, ps_log = [], ps_world = w\<rparr> = (Inr (), ?s)"
    using assms(2) by (simp add: write_pair_transition_def sbind_def look_def pair_prepared_def read_optional_private_file_def
        plan_transition_bytes [OF assms(1)] write_journal_def commit_def)
  then have "run_on (commit_transition env (pl_transition pl) (pl_new pl ClaudeProvider) (pl_new pl CodexProvider) cleanup) d w = ?m ?s"
    by (simp add: run_on_def commit_transition_def sbind_def)
  moreover have "insert (ps_disk ?s) (set (ps_log ?s)) \<subseteq> insert (ps_disk (snd (?m ?s))) (set (ps_log (snd (?m ?s))))"
    using traced_roll_forward unfolding traced_def by blast
  ultimately show ?thesis by (auto simp: disks_left_def split: prod.splits)
qed

lemma recovered_crash_ok: "recovered pl ok d d' \<Longrightarrow> crash_ok pl d \<Longrightarrow> crash_ok pl d'"
  by (auto simp: recovered_def crash_ok_def)

lemma after_crashes_ok:
  assumes "wf_plan env pl" and "pair_prepared pl d0" and "after_crashes env pl cleanup d0 d"
  shows "crash_ok pl d"
  using assms(3)
proof induction
  case (first d w)
  show ?case
    by (rule hoare_disks_left [OF hoare_commit_transition [OF assms(1,2)] _ _ first])
      (simp_all add: crash_ok_def)
next
  case (again d d' w)
  show ?case
    by (rule hoare_disks_left [OF hoare_recover [OF assms(1) again.IH, of False] _ _ again.hyps(2)])
      (use again.IH recovered_crash_ok in blast)+
qed

lemma commit_returns:
  assumes "wf_plan env pl" and "pair_prepared pl d"
  shows "\<exists>s. run_on (commit_transition env (pl_transition pl) (pl_new pl ClaudeProvider) (pl_new pl CodexProvider) cleanup) d w = (Inr (), s) \<and>
    complete pl (ps_disk s) \<and> dk_journal (ps_disk s) = Missing \<and> finished pl cleanup (ps_disk s)"
proof -
  let ?m = "commit_transition env (pl_transition pl) (pl_new pl ClaudeProvider) (pl_new pl CodexProvider) cleanup"
  obtain r s where rs: "run_on ?m d w = (r, s)" by (cases "run_on ?m d w")
  then show ?thesis using hoare_run_on [OF hoare_commit_transition [OF assms] rs] by (cases r) auto
qed

lemma recovery_returns:
  assumes "wf_plan env pl" and "crash_ok pl d" and "barriers_pass env" and "intact pl d"
  shows "\<exists>s. run_on (recover_journal env) d w = (Inr (), s) \<and> recovered pl True d (ps_disk s)"
proof -
  obtain r s where rs: "run_on (recover_journal env) d w = (r, s)" by (cases "run_on (recover_journal env) d w")
  then show ?thesis
    using hoare_run_on [OF hoare_recover [OF assms(1,2), of True] rs] assms(3,4) by (cases r) auto
qed

end
