(* ===== verification/PairSamples.thy ===== *)
theory PairSamples
  imports PairCrash AuthorSamples
begin

text \<open>
  A pair of logins that a transaction has refreshed, on a disk where both candidates wait to be
  committed: the concrete inputs of the witnesses on the pair of credentials.
\<close>

definition sample_oauth :: "string \<Rightarrow> (ustr \<times> json) list" where
  "sample_oauth token =
     [(U ''accessToken'', JStr (U token)), (U ''expiresAt'', JInt 9), (U ''rateLimitTier'', JStr (U ''tier'')),
      (U ''refreshToken'', JStr (U ''refresh'')), (U ''refreshTokenExpiresAt'', JInt 9),
      (U ''scopes'', JArr [JStr (U ''user'')]), (U ''subscriptionType'', JStr (U ''max''))]"

definition sample_login_fields :: "string \<Rightarrow> (ustr \<times> json) list" where
  "sample_login_fields token = [(U ''claudeAiOauth'', JObj (sample_oauth token))]"

definition sample_login :: "string \<Rightarrow> bytes" where
  "sample_login token = doc (sample_login_fields token)"

lemma sample_login_order:
  "in_order (sample_login_fields ''old'')" "in_order (sample_login_fields ''new'')"
proof -
  have "wf_json (JObj (sample_login_fields token))" for token
    by (simp add: sample_login_fields_def sample_oauth_def wf_str_U wf_int_def dec_int_def dec_nat_def digits_of.simps)
  moreover have "sort_keys (JObj (sample_login_fields ''old'')) = JObj (sample_login_fields ''old'')"
    "sort_keys (JObj (sample_login_fields ''new'')) = JObj (sample_login_fields ''new'')" by code_simp+
  ultimately show "in_order (sample_login_fields ''old'')" "in_order (sample_login_fields ''new'')"
    by (simp_all only: in_order_def)
qed

lemma sample_login_length: "int (length (sample_login token)) \<le> MAX_CLAUDE_CREDENTIAL_BYTES" if "length token \<le> 3"
proof -
  have "weight (JObj (sample_login_fields token)) \<le> 4000"
    using that by (simp add: sample_login_fields_def sample_oauth_def dec_int_def dec_nat_def digits_of.simps)
  then show ?thesis
    using doc_length [of "sample_login_fields token"] by (simp add: sample_login_def MAX_CLAUDE_CREDENTIAL_BYTES_def MAX_AUTH_BYTES_def)
qed

lemma sample_oauth_parsed: "parse_oauth (sample_oauth ''old'') = Inr True" "parse_oauth (sample_oauth ''new'') = Inr True"
  by code_simp+

lemma sample_login_valid:
  assumes "token \<in> {''old'', ''new''}"
  shows "parse_claude_cli_credentials (sample_login token) = Inr True"
proof -
  have o: "in_order (sample_login_fields token)" using assms sample_login_order by auto
  have s: "strict_json_object (sample_login token) = Some (sample_login_fields token)"
    using json_roundtrip [of "JObj (sample_login_fields token)"] json_dumps_ascii [of "JObj (sample_login_fields token)"] o
    by (simp add: strict_json_object_def sample_login_def doc_def in_order_def utf8_decode_ascii)
  have p: "parse_oauth (sample_oauth token) = Inr True" using assms sample_oauth_parsed by auto
  have l: "int (length (sample_login token)) \<le> MAX_CLAUDE_CREDENTIAL_BYTES" using assms by (intro sample_login_length) auto
  have k: "fst ` set (sample_login_fields token) = {U ''claudeAiOauth''}"
    "dict_get (sample_login_fields token) ''claudeAiOauth'' = JObj (sample_oauth token)"
    "dict_get (sample_login_fields token) ''organizationUuid'' = JNull"
    by (simp_all add: sample_login_fields_def dict_get_def)
  show ?thesis unfolding parse_claude_cli_credentials_def using s p l by (simp add: k)
qed

definition sample_pair_env :: "nat pair_env" where
  "sample_pair_env = \<lparr>pe_codex_parser = (\<lambda>_. Inr True), pe_barrier = (\<lambda>_. None)\<rparr>"

fun sample_old :: "provider \<Rightarrow> bytes" where
  "sample_old CodexProvider = ''{}''"
| "sample_old ClaudeProvider = sample_login ''old''"

fun sample_new :: "provider \<Rightarrow> bytes" where
  "sample_new CodexProvider = ''{ }''"
| "sample_new ClaudeProvider = sample_login ''new''"

definition sample_pair_plan :: pair_plan where
  "sample_pair_plan =
     \<lparr>pl_transition = \<lparr>codex_run_id = U ''run-1'', claude_run_id = U ''run-1'',
        old_codex_sha256 = credential_digest (sample_old CodexProvider),
        old_claude_sha256 = credential_digest (sample_old ClaudeProvider),
        new_codex_sha256 = credential_digest (sample_new CodexProvider),
        new_claude_sha256 = credential_digest (sample_new ClaudeProvider)\<rparr>,
      pl_old = sample_old, pl_new = sample_new\<rparr>"

definition sample_account :: "provider \<Rightarrow> account" where
  "sample_account p =
     \<lparr>ac_durable = Stored (sample_old p),
      ac_transactions = [candidate_entry sample_pair_plan p (credential_digest (sample_old p))]\<rparr>"

definition sample_disk :: disk where
  "sample_disk = \<lparr>dk_marker = Stored (plan_marker sample_old), dk_journal = Missing,
     dk_codex = sample_account CodexProvider, dk_claude = sample_account ClaudeProvider\<rparr>"

lemma sample_pair_wf: "wf_plan sample_pair_env sample_pair_plan"
proof -
  have i: "credential_identifier (U ''run-1'')" by code_simp
  have v: "valid_login sample_pair_env p (sample_old p)" "valid_login sample_pair_env p (sample_new p)" for p
    using sample_login_valid sample_login_length
    by (cases p; simp add: valid_login_def sample_pair_env_def MAX_AUTH_BYTES_def)+
  have s: "run_of p (pl_transition sample_pair_plan) = U ''run-1''"
    "old_sha p (pl_transition sample_pair_plan) = credential_digest (sample_old p)"
    "new_sha p (pl_transition sample_pair_plan) = credential_digest (sample_new p)"
    "pl_old sample_pair_plan = sample_old" "pl_new sample_pair_plan = sample_new" for p
    by (cases p; simp add: sample_pair_plan_def)+
  show ?thesis unfolding wf_plan_def by (intro allI conjI) (simp_all only: s i v)
qed

lemma sample_pair_prepared: "pair_prepared sample_pair_plan sample_disk"
proof -
  have s: "old_sha p (pl_transition sample_pair_plan) = credential_digest (sample_old p)" "pl_old sample_pair_plan = sample_old" for p
    by (cases p; simp add: sample_pair_plan_def)+
  have a: "account_of p sample_disk = sample_account p" for p
    by (cases p) (simp_all add: sample_disk_def account_of.simps)
  have "staged sample_pair_plan p sample_disk" for p
    unfolding staged_def a s by (simp add: sample_account_def)
  then show ?thesis
    by (simp add: pair_prepared_def untouched_def a s) (simp add: sample_disk_def sample_account_def)
qed

lemma sample_barriers: "barriers_pass sample_pair_env"
  by (simp add: barriers_pass_def sample_pair_env_def)

lemma sample_pair_logins:
  "pl_new sample_pair_plan ClaudeProvider = sample_login ''new''" "pl_new sample_pair_plan CodexProvider = ''{ }''"
  by (simp_all add: sample_pair_plan_def)

text \<open>The disk a crash leaves right after the journal was written.\<close>

definition journaled_disk :: disk where
  "journaled_disk = sample_disk\<lparr>dk_journal := Stored (plan_journal sample_pair_plan)\<rparr>"

lemma sample_crash: "after_crashes sample_pair_env sample_pair_plan False sample_disk journaled_disk"
  unfolding journaled_disk_def
  by (rule after_crashes.first [where w = 0], rule journal_disk_left [OF sample_pair_wf sample_pair_prepared])

lemma sample_crash_intact: "intact sample_pair_plan journaled_disk"
proof -
  have "staged sample_pair_plan p journaled_disk" for p
    using sample_pair_prepared staged_account [of p journaled_disk sample_disk sample_pair_plan]
    by (simp add: pair_prepared_def journaled_disk_def)
  then show ?thesis by (simp add: intact_def)
qed

end
