(* ===== verification/Spec2Isabelle.thy ===== *)
theory Spec2Isabelle
  imports ProtocolSamples AuthorSamples CriticSamples GitSamples PairSamples
begin

text \<open>
  A verification development of \<open>agent-loop\<close> (\<open>src/src/agent_loop\<close>).

  The program runs a loop of two language models over a source tree, the subject. In each round an
  author (Codex) edits a copy of the subject, the runner reconciles the copy with the base under a
  path policy, a sandbox runs the configured checks, and a critic (Claude) reviews a complete,
  bounded bundle of the result. A state machine decides whether the run has converged, is blocked,
  stalled, at its round cap or failed. Secrets of the run must reach neither model nor the journal.

  \<^bold>\<open>Theories and sources\<close> (file names under \<open>src/src/agent_loop\<close>)

  \<^item> \<open>Prelude\<close>, \<open>Effects\<close>: Python's \<open>bytes\<close> (char lists) and \<open>str\<close> (lists of code points, so lone
    surrogates exist), errors as \<open>exn + 'a\<close> with their binds, operations on a state that may raise,
    and the locale of prefix codes.
  \<^item> \<open>PyText\<close>, \<open>Codecs\<close>, \<open>Fnmatch\<close>, \<open>Sha256\<close>, \<open>Json\<close>, \<open>JsonRoundtrip\<close>, \<open>JsonLength\<close>, \<open>JsonEq\<close>: the
    parts of Python's standard library the program uses: text operations, UTF-8, base64,
    \<open>fnmatchcase\<close>, SHA-256 on 32-bit words, and the JSON reader and writer with their round trip, a
    bound on the length of what is written, and the comparison of values that were read.
  \<^item> \<open>Errors\<close> (\<open>errors.py\<close>), \<open>Constants\<close> (\<open>constants.py\<close>), \<open>StateMachine\<close> (\<open>state_machine.py\<close>):
    stop reasons and exit codes, limits, the fatal latch and the decision of a round.
  \<^item> \<open>Paths\<close>, \<open>Entries\<close>, \<open>Policy\<close> (\<open>models.py\<close>): subject paths and patterns, the data of manifests,
    the path policy.
  \<^item> \<open>Manifests\<close>, \<open>Canonical\<close>, \<open>ManifestJson\<close>, \<open>Blobs\<close>, \<open>ManifestDiff\<close>, \<open>Reconcile\<close>
    (\<open>manifests.py\<close>, and the in-memory blob store of \<open>workflow.py\<close> in \<open>Blobs\<close>): the manifest, its
    limits, fingerprint and JSON form, the construction from a scan and the verification of blobs,
    the delta of two manifests, and the reconciliation of a candidate.
  \<^item> \<open>Validation\<close> (\<open>validation.py\<close>), \<open>Declassify\<close> (\<open>declassify.py\<close>), \<open>Progress\<close> (\<open>progress.py\<close>, and the
    history of secrets of \<open>workflow.py\<close>): outcomes of checks and their comparison with the baseline,
    what of the validation output the critic may see, detection of stalls.
  \<^item> \<open>Schemas\<close> (\<open>schemas.py\<close>), \<open>Prompts\<close> (\<open>prompts.py\<close>), \<open>ValidationBatch\<close> (\<open>validation_batch.py\<close>),
    \<open>DiagnosticPatch\<close> (\<open>diagnostic_patch.py\<close>), \<open>Config\<close> (\<open>config.py\<close>): the critic's review, the
    review bundle and the author's prompts, the protocol with the sandboxed check process, the
    projection of a delta to lines of JSON, the checked project configuration and (from \<open>workflow.py\<close>)
    the policy that is made of it.
  \<^item> \<open>RunnerData\<close>, \<open>Runner\<close> (\<open>runner.py\<close>): requests, answers and scans for secrets; the loop.
    \<open>Failures\<close> and \<open>RunnerProofs\<close> hold what is proved of it.
  \<^item> \<open>CodexEvents\<close>, \<open>CodexResult\<close>, \<open>CodexRollout\<close>, \<open>CodexClient\<close> (\<open>codex_client.py\<close>): the event stream
    of an author turn, the classification of its process, the persisted rollout of its thread, and
    the configuration, command lines and turns of the client.
  \<^item> \<open>ClaudeClient\<close> (\<open>claude_client.py\<close>): the launch of the critic, the classification of its
    envelope, the evidence of the selected model, and one review.
  \<^item> \<open>GitTree\<close>, \<open>GitSource\<close> (\<open>git_source.py\<close>): the readers of git's output, the runner of the read-only
    commands and the extraction of the committed tree into a manifest.
  \<^item> \<open>CredentialData\<close>, \<open>PairStore\<close> (\<open>credentials.py\<close>): the documents of the credential transactions and
    the shape of the logins; the private files of the two default accounts, the journal of a
    transition of the pair, its roll forward and its recovery. \<open>PairProofs\<close> is a calculus of triples with an
    invariant of every disk a crash may leave, \<open>PairCrash\<close> the commit and the recovery in it.
  \<^item> \<open>Samples\<close>, \<open>RunnerSamples\<close>, \<open>ProtocolSamples\<close>, \<open>AuthorSamples\<close>, \<open>CriticSamples\<close>, \<open>GitSamples\<close>, \<open>PairSamples\<close>: the concrete inputs of
    the witnesses, and two inputs that one part of the program accepts and another refuses.

  Every Python function is one definition of its name without the leading underscore (classes with
  checks are a record and a \<open>check_\<close> function that is \<open>__post_init__\<close>); every \<open>raise\<close> is a branch to
  \<open>Inl\<close>. \<open>LoopRunner.run\<close> is cut into the phases \<open>open_run\<close>, \<open>run_baseline\<close>, \<open>author_phase\<close>,
  \<open>validation_phase\<close>, \<open>critic_phase\<close> and \<open>conclude_phase\<close>, each with all its calls in their order;
  \<open>run_state\<close> holds the local variables that survive an exception.

  \<^bold>\<open>Interfaces.\<close> What the runner calls through a \<open>Protocol\<close> or a callable (author, validator, critic,
  blob reader, journal, clock, integrity guard, publication, provider of secrets) is the record
  \<open>run_env\<close> of arbitrary operations on an arbitrary world, which may raise at any call. Two named
  hypotheses restrict them where a theorem needs it: \<open>faithful\<close> (no boundary raises an error whose
  reason only the decision of a round may give) and \<open>wf_candidates\<close> (the author's candidate passed
  the constructor of \<open>SubjectManifest\<close>). The transports of the two clients, the reader of a rollout
  file and the host on which git runs (\<open>git_host\<close>) are arbitrary too. The blob store is the locale \<open>blob_store\<close>, interpreted on
  the in-memory store.

  \<^bold>\<open>What is proved.\<close> Of a run: what success means (\<open>converged_run\<close>), that protected paths are kept
  (\<open>run_keeps_protected\<close>), its accounting and its end (\<open>run_accounting\<close>, \<open>loop_terminates\<close>), and the two
  secrecy statements (\<open>failure_withholds_secret\<close>, and \<open>models_see_scanned\<close> over the secrets known in the very
  world in which a model is asked, \<open>known_at\<close>); these rest on a calculus of
  weakest preconditions for the effects and one lemma for each phase. Of the components: exactness
  of the delta, of reconciliation, of the limits and of the policy; the round trips and injectivity
  of every format that is hashed or read back; the state machine against an ordered plan of
  events; the validator of reviews, the bundle (\<open>document_states\<close>, \<open>change_shown\<close>, \<open>opaque_shown\<close>,
  \<open>context_shown\<close>), the batch protocol (\<open>wf_batch_result\<close>, \<open>states_result\<close>) and the configuration
  with the policy made of it (\<open>limits_tight\<close>, \<open>config_policy\<close>) against specifications of what they accept. Of the author's client: what an accepted turn is
  (\<open>accepted_turn\<close>), that a failure reports a closed vocabulary, that the rollout grows by one turn
  between two accepted ones, and that the rendered configuration has its denies in the tables where they
  count (\<open>stands_in\<close>). Of the critic's
  client: how it is launched and what an accepted review is (\<open>critic_launch\<close>, \<open>accepted_envelope\<close>), and
  the evidence of its model and effort against a declarative reading (\<open>requests_agree\<close>). Of the source:
  the readers of git's output accept exactly the listings and streams of well-formed trees, and the
  snapshot has exactly the committed entries (\<open>committed_tree\<close>, \<open>manifest_of\<close>) of a checkout that was the
  same before and after (\<open>witnessed_around\<close>). Of the pair of
  credentials: its commit always returns, and after any number of crashes in it and in the recovery
  (\<open>after_crashes\<close>) the pair is the old one, the new one, or journaled with what completes it.

  \<^bold>\<open>Bounds.\<close> The JSON reader runs on fuel \<open>2 * length + 1\<close>, which \<open>JsonRoundtrip\<close> shows is never
  used up; integers of more than 4300 digits are refused as Python does. The scan of a decoded
  value ends after 1,000,000 values as in the code. All other recursions are structural or have a
  measure. Times and monotonic clocks are real numbers; the code's are floats.

  \<^bold>\<open>Not modelled.\<close> The files that act on the host: the locks of the
  credential accounts, the seeding, probing and enrolment of credentials, processes of the vendor CLIs, services, sandbox, file system, preflight and qualification; the journal that writes
  artifacts (\<open>ArtifactRunJournal\<close>; its interface is \<open>journal_call\<close>); the reading of TOML files, so also
  the second reading of the rendered author configuration (\<open>_validate_rendered_config\<close>) and its
  installation; the walk over the directories that hold a rollout; the process that runs git outside
  a service, one pass of the witness over the checkout and the look for object alternates. A cost the
  critic reports stays the JSON number it was. Exceptions of Python's library carry their class, not their
  message, where the program does not look at it.
\<close>

section \<open>The run\<close>

text \<open>C1. A run that reports success was approved for exactly the subject it returns: that subject is the
  reconciled candidate of the author, the validator was asked about it and answered with a summary
  that names its fingerprint and in which every check passed, the validation run changed nothing
  but discard-only paths, and the critic was given the complete bundle of that subject and
  answered within the deadline with a review that the local validator accepts as LGTM. The
  boundaries are arbitrary, but none claims an outcome that only the decision of a round may give.\<close>

theorem converged_run:
  assumes "faithful env" and "check_settings st = Inr st"
    and "run env task base st prepared given pre w = (Inr res, w')" and "lr_stop_reason res = CONVERGED"
  shows "\<exists>dl r b t ev c. (\<forall>d. given = Some d \<longrightarrow> dl = d) \<and> authored env base r \<and>
    lr_subject res = authoritative_manifest r \<and> validated env dl b (lr_subject res) t \<and>
    all_pass (vt_summary t) \<and> reviewed env st dl task base (lr_rounds_completed res) r t ev c \<and>
    r_verdict (ct_review c) = LGTM \<and> ct_completed_at c \<le> dl"
proof -
  obtain dl where dl: "\<forall>d. given = Some d \<longrightarrow> dl = d" and "run_post env st dl task base res"
    using run_result [OF assms(2,3)] by blast
  with assms(1,4) have "concluded env st dl task base res" by (auto simp: run_post_def)
  then obtain r b t ev c repeated where *: "authored env base r" "lr_subject res = authoritative_manifest r"
    "validated env dl b (lr_subject res) t" "reviewed env st dl task base (lr_rounds_completed res) r t ev c"
    "decision_grounds (observation_of st dl (lr_rounds_completed res) t ev c repeated) CONVERGED"
    using assms(4) unfolding concluded_def by auto
  then have "all_pass (vt_summary t) \<and> r_verdict (ct_review c) = LGTM \<and> ct_completed_at c \<le> dl"
    by (cases "r_verdict (ct_review c)")
      (auto simp: decision_grounds_def succeeded_def approved_def observation_of_def)
  with dl * show ?thesis by blast
qed

lemma sample_settings_ok: "check_settings default_settings = Inr default_settings"
  by (simp add: check_settings_def default_settings_def)

theorem converged_run_witness:
  "\<exists>r b t c ev. authored sample_env nothing r \<and> nothing = authoritative_manifest r \<and>
     validated sample_env 10 b nothing t \<and> all_pass (vt_summary t) \<and>
     reviewed sample_env default_settings 10 (U ''task'') nothing 1 r t ev c \<and> r_verdict (ct_review c) = LGTM"
  using converged_run [OF sample_faithful(1) sample_settings_ok sample_converges] by fastforce

text \<open>C2. Whatever the boundaries do and for whatever reason a run stops, the subject it returns is a
  well-formed manifest that has every protected path of the base as the base has it.\<close>

theorem run_keeps_protected:
  assumes "wf_candidates env" and "wf_manifest base" and "check_settings st = Inr st"
    and "run env task base st prepared given pre w = (Inr res, w')"
    and "disposition (env_policy env) p = PROTECTED"
  shows "wf_manifest (lr_subject res) \<and> entry_at (lr_subject res) p = entry_at base p"
  using run_result [OF assms(3,4)] assms(1,2,5) by (auto simp: run_post_def result_ok_def protected_kept_def)

lemma wf_nothing: "wf_manifest nothing"
  by (simp add: nothing_def wf_manifest_def check_manifest_def manifest_paths_def)

lemma default_classify: "classify default_policy ''AGENTS.md'' = Inr PROTECTED"
  by (simp add: classify_def validate_subject_path_def has_bad_component_def is_git_path_def
      policy_matches_def default_policy_def DEFAULT_PROTECTED_PATTERNS_def
      component_glob_match_def glob_parts.simps fnmatchcase_def fn_translate.simps(2) suffix_def)

theorem run_keeps_protected_witness:
  "disposition (env_policy sample_env) ''AGENTS.md'' = PROTECTED \<and>
     entry_at nothing ''AGENTS.md'' = entry_at nothing ''AGENTS.md'' \<and> wf_manifest nothing"
proof -
  have "disposition (env_policy sample_env) ''AGENTS.md'' = PROTECTED"
    using default_classify by (simp add: sample_env_def classify_Inr)
  with run_keeps_protected [OF sample_faithful(2) wf_nothing sample_settings_ok sample_converges this] show ?thesis
    by simp
qed

text \<open>C5. The result of a run accounts for it: the exit code is that of the stop reason, the number of
  completed rounds is within the settings, and the reasons success, round cap, blocked critic and
  stall are only given by the decision of a round that was completed, the round cap only after
  the last one.\<close>

theorem run_accounting:
  assumes "faithful env" and "check_settings st = Inr st"
    and "run env task base st prepared given pre w = (Inr res, w')"
  shows "lr_exit_code res = exit_code_for (lr_stop_reason res) \<and> 0 \<le> lr_rounds_completed res \<and>
    lr_rounds_completed res \<le> ls_max_rounds st \<and>
    (lr_stop_reason res \<in> set non_fatal_reasons \<longrightarrow> 1 \<le> lr_rounds_completed res) \<and>
    (lr_stop_reason res = ROUND_CAP_REACHED \<longrightarrow> lr_rounds_completed res = ls_max_rounds st)"
proof -
  obtain dl where p: "run_post env st dl task base res" using run_result [OF assms(2,3)] by blast
  have "1 \<le> lr_rounds_completed res \<and> (lr_stop_reason res = ROUND_CAP_REACHED \<longrightarrow> lr_rounds_completed res = ls_max_rounds st)"
    if "lr_stop_reason res \<in> set non_fatal_reasons"
  proof -
    have "concluded env st dl task base res" using p assms(1) that by (auto simp: run_post_def)
    then show ?thesis by (auto simp: concluded_def decision_grounds_def observation_of_def)
  qed
  with p show ?thesis by (auto simp: run_post_def result_ok_def)
qed

theorem run_accounting_witness: "1 \<le> (1 :: int) \<and> exit_code_for CONVERGED = SUCCESS"
  using run_accounting [OF sample_faithful(1) sample_settings_ok sample_converges] by simp

text \<open>C6. The loop over the rounds always ends by a decision or an exception of a step: the assertion
  behind it is never reached, because the round cap stops the last round.\<close>

theorem loop_terminates:
  assumes "faithful env" and "check_settings st = Inr st"
  shows "fst (run_rounds env st dl task base b [1..ls_max_rounds st] (initial_state base prompt w)) \<noteq> Inl LOOP_EXHAUSTED"
proof -
  have m: "1 \<le> ls_max_rounds st" using assms(2) by (auto simp: check_settings_def split: if_splits)
  have "latch_reason (rs_fatal (initial_state base prompt w)) = None" by (simp add: initial_state_def new_latch_def)
  from run_rounds_wp [OF run_inv_initial [OF m] this _ m, of env dl task b] show ?thesis
    using assms(1) by (auto simp: wp_def bad_def)
qed

theorem loop_terminates_witness:
  "fst (run_rounds sample_env default_settings 10 (U ''task'') nothing sample_validation [1..3]
     (initial_state nothing sample_prompt ())) \<noteq> Inl LOOP_EXHAUSTED"
  using loop_terminates [OF sample_faithful(1) sample_settings_ok] by (simp add: sample_settings)

text \<open>C3. A typed failure is reported with its reason and detail only after the detail was scanned
  against the secrets known at that moment; otherwise the detail is replaced by a fixed text.\<close>

theorem failure_withholds_secret:
  assumes "on_exception env (AgentLoopError reason d) s = (Inr res, s')"
  shows "lr_stop_reason res = CREDENTIAL_REFRESH_FAILURE \<and>
      lr_detail res = U ''typed failure detail was withheld because it contained credential bytes'' \<or>
    lr_stop_reason res = reason \<and> lr_detail res = d \<and>
      (\<exists>b secrets s1. utf8_encode d = Some b \<and> current_known_secrets env s = (Inr secrets, s1) \<and>
        \<not> raw_log_contains_known_secret b secrets)"
  using assms by (rule on_exception_withholds)

theorem failure_withholds_secret_witness:
  "\<exists>res s'. on_exception sample_env (AgentLoopError AUTHOR_TIMEOUT (U ''late'')) (initial_state nothing [] ()) =
     (Inr res, s') \<and> lr_detail res = U ''late''"
proof -
  have "on_exception sample_env (AgentLoopError AUTHOR_TIMEOUT (U ''late'')) (initial_state nothing [] ()) =
    (Inr \<lparr>lr_exit_code = TIMEOUT, lr_stop_reason = AUTHOR_TIMEOUT, lr_rounds_completed = 0, lr_subject = nothing,
       lr_thread_id = None, lr_detail = U ''late''\<rparr>, initial_state nothing [] ())"
    by (simp add: on_exception_def sbind_def detail_contains_secret_def handle_def encode_utf8_def utf8_encode_ascii
        sample_ops stop_def get_def initial_state_def)
  with failure_withholds_secret [OF this] show ?thesis by simp
qed






text \<open>C24. The scan of a decoded value is a loop over a stack and ends after a million values. Its
  answer is that of the recursive definition: some string or bytes anywhere in the value, keys of
  dicts included, contains a secret or cannot be encoded; the only other end is the limit.\<close>

theorem tree_scan_exact:
  "json_tree_contains_known_secret v S = Inr (leaks S v) \<or>
   json_tree_contains_known_secret v S = Inl (fail AGENT_OUTPUT_LIMIT ''decoded model output has too many values'') \<and>
   1000000 < values_in v"
  using json_tree_scan(2,3) [of v S] by (cases "json_tree_contains_known_secret v S") auto

section \<open>Reconciliation\<close>

text \<open>C9. A candidate that passes reconciliation leaves every protected path as the base has it, in
  the authoritative manifest too, whatever the other patterns say of that path; and the
  authoritative manifest is well formed and within the limits.\<close>

theorem reconcile_protected_unchanged:
  assumes "wf_manifest b" and "wf_manifest c" and "reconcile_candidate b c pol l = Inr r"
    and "disposition pol p = PROTECTED"
  shows "entry_at (authoritative_manifest r) p = entry_at b p \<and> entry_at c p = entry_at b p \<and>
    wf_manifest (authoritative_manifest r) \<and> validate_limits l (authoritative_manifest r) = Inr ()"
proof -
  note R = reconcile_Inr(1-4) [OF assms(1-3)]
  have "entry_at c p = entry_at b p" using R(1) assms(4) unfolding touches_protected_def by metis
  with R(2-4) assms(4) show ?thesis by (simp add: kept_at_def)
qed

theorem reconcile_protected_unchanged_witness:
  "\<exists>r. reconcile_candidate sample_base sample_candidate sample_policy default_limits = Inr r \<and>
     entry_at (authoritative_manifest r) ''AGENTS.md'' = entry_at sample_base ''AGENTS.md''"
  using sample_reconcile
    reconcile_protected_unchanged [OF wf_samples(1,2) _ sample_disposition(3)] by blast

text \<open>A candidate that changes a protected path, by any kind of change, is refused with that
  reason.\<close>

theorem reconcile_refuses_protected:
  assumes "wf_manifest b" and "wf_manifest c"
    and "disposition pol p = PROTECTED" and "entry_at b p \<noteq> entry_at c p"
  shows "\<exists>t. reconcile_candidate b c pol l = Inl (AgentLoopError PROTECTED_SUBJECT_PATH_CHANGED t)"
  using assms(3,4) by (intro reconcile_touches_protected assms(1,2)) (auto simp: touches_protected_def)

theorem reconcile_refuses_protected_witness:
  "\<exists>t. reconcile_candidate sample_base sample_attack sample_policy default_limits =
     Inl (AgentLoopError PROTECTED_SUBJECT_PATH_CHANGED t)"
  by (rule reconcile_refuses_protected [OF wf_samples(1,3) sample_disposition(3)])
    (simp add: entry_at_def sample_defs)

text \<open>C10. The delta of two manifests is exact: it is always produced; every path where the manifests
  differ is touched by exactly one change, which states the entry each manifest has there; no
  other path is touched; and every change passes its own constructor.\<close>

theorem diff_exact:
  assumes "wf_manifest b" and "wf_manifest c"
  shows "\<exists>ds. diff_manifests b c = Inr ds \<and>
    (\<forall>d \<in> set ds. check_change d = Inr d) \<and>
    (\<forall>p. entry_at b p \<noteq> entry_at c p \<longrightarrow> (\<exists>!d. d \<in> set ds \<and> p \<in> change_path_set d)) \<and>
    (\<forall>d \<in> set ds. \<forall>p \<in> change_path_set d. says d p = (entry_at b p, entry_at c p) \<and> entry_at b p \<noteq> entry_at c p)"
  using diff_manifests_exact [OF assms] unfolding exact_delta_def wf_change_def by blast

theorem diff_exact_witness:
  "\<exists>ds. diff_manifests sample_base sample_candidate = Inr ds \<and>
    (\<exists>!d. d \<in> set ds \<and> ''a.txt'' \<in> change_path_set d)"
proof -
  have "entry_at sample_base ''a.txt'' \<noteq> entry_at sample_candidate ''a.txt''"
    by (simp add: entry_at_def sample_defs)
  with diff_exact [OF wf_samples(1,2)] show ?thesis by blast
qed

text \<open>C11. Reconciliation accounts for everything the candidate changed: at each path the
  authoritative manifest holds what the candidate holds, unless the path is discard-only, where
  it holds nothing; and a change of the authoritative delta that is reported neither as semantic
  nor as opaque is the removal of discard-only paths of the base.\<close>

theorem reconcile_complete:
  assumes "wf_manifest b" and "wf_manifest c" and "reconcile_candidate b c pol l = Inr r"
  shows "(\<forall>p. entry_at (authoritative_manifest r) p = (if disposition pol p = DISCARD_ONLY then None else entry_at c p)) \<and>
    diff_manifests b (authoritative_manifest r) = Inr (authoritative_delta r) \<and>
    (\<forall>d \<in> set (authoritative_delta r). d \<in> set (semantic_changes r) \<or> d \<in> set (opaque_changes r) \<or>
      change_kind d = DELETE \<and> (\<forall>q \<in> change_path_set d. disposition pol q = DISCARD_ONLY))"
proof -
  have "entry_at (authoritative_manifest r) p = (if disposition pol p = DISCARD_ONLY then None else entry_at c p)" for p
    using reconcile_Inr(4) [OF assms] by (simp add: kept_at_def)
  with dropped_changes [OF assms] reconcile_authoritative_delta [OF assms] show ?thesis by auto
qed

theorem reconcile_complete_witness:
  "\<exists>r. reconcile_candidate sample_base sample_candidate sample_policy default_limits = Inr r \<and>
     entry_at (authoritative_manifest r) ''build/x'' = None \<and>
     entry_at (authoritative_manifest r) ''a.txt'' = entry_at sample_candidate ''a.txt''"
proof -
  obtain r where r: "reconcile_candidate sample_base sample_candidate sample_policy default_limits = Inr r"
    using sample_reconcile by blast
  have "entry_at (authoritative_manifest r) p =
      (if disposition sample_policy p = DISCARD_ONLY then None else entry_at sample_candidate p)" for p
    using reconcile_complete [OF wf_samples(1,2) r] by blast
  then show ?thesis using r by (simp add: sample_disposition)
qed

section \<open>Path policy\<close>

text \<open>C19. No policy, whatever its opt-in patterns, can open the Git control plane: a valid path
  with a component \<open>.git\<close> is always protected.\<close>

theorem git_always_protected:
  assumes "valid_path p" and "''.git'' \<in> set (split_on CHR ''/'' p)"
  shows "classify pol p = Inr PROTECTED"
  using assms by (simp add: classify_valid disposition_def)

theorem git_always_protected_witness:
  "classify \<lparr>protected_patterns = [], discard_only_patterns = [''**''], opaque_nonsemantic_patterns = [],
     protected_opt_in_patterns = [''**'']\<rparr> ''vendor/.git/config'' = Inr PROTECTED"
  by (rule git_always_protected) (simp_all add: valid_path_iff)

text \<open>C29. The optimised matcher of path patterns (index loop, runs of \<open>**\<close> collapsed, early exits)
  decides the declarative meaning of the pattern.\<close>

theorem matcher_correct:
  "component_glob_match path pattern \<longleftrightarrow> glob (split_on CHR ''/'' path) (split_on CHR ''/'' pattern)"
  by (simp add: component_glob_match_def glob_parts_iff_glob)

text \<open>A change is classified as discard-only or opaque only when every path it touches is; it is
  protected as soon as one of them is.\<close>

theorem change_classification:
  assumes "check_change c = Inr c" and "\<forall>p \<in> change_path_set c. valid_path p"
    and "classify_change pol c = Inr d"
  shows "(d = PROTECTED \<longleftrightarrow> (\<exists>p \<in> change_path_set c. classify pol p = Inr PROTECTED)) \<and>
    (d = DISCARD_ONLY \<longleftrightarrow> (\<forall>p \<in> change_path_set c. classify pol p = Inr DISCARD_ONLY)) \<and>
    (d = OPAQUE_NONSEMANTIC \<longleftrightarrow> (\<forall>p \<in> change_path_set c. classify pol p = Inr OPAQUE_NONSEMANTIC))"
proof -
  have wf: "wf_change c" using assms(1) by (simp add: wf_change_def)
  have d: "d = change_disposition pol c" using classify_change_wf [OF wf assms(2)] assms(3) by simp
  note iff = change_disposition_iff [OF wf_change_paths [OF wf], of pol]
  show ?thesis
    unfolding d iff using assms(2) by (auto simp: classify_valid)
qed

theorem change_classification_witness:
  "classify_change sample_policy \<lparr>change_kind = RENAME, before = Some (sample_entry ''build/x'' ''o''),
     after = Some (sample_entry ''a.txt'' ''o'')\<rparr> \<noteq> Inr DISCARD_ONLY"
proof -
  let ?c = "\<lparr>change_kind = RENAME, before = Some (sample_entry ''build/x'' ''o''),
     after = Some (sample_entry ''a.txt'' ''o'')\<rparr>"
  have c: "check_change ?c = Inr ?c" "change_path_set ?c = {''build/x'', ''a.txt''}"
    by (simp_all add: check_change_def sample_entry_def identity_without_path_def change_path_defs insert_commute)
  have v: "\<forall>p \<in> change_path_set ?c. valid_path p" unfolding c(2) by (simp add: valid_path_iff)
  have "\<not> (\<forall>p \<in> change_path_set ?c. classify sample_policy p = Inr DISCARD_ONLY)"
    unfolding c(2) by (simp add: sample_classify)
  with change_classification [OF c(1) v, of sample_policy DISCARD_ONLY] show ?thesis by blast
qed

section \<open>Manifests\<close>

text \<open>What the constructor of a manifest accepts: the supported schema, strictly increasing raw
  paths, and no file or symlink that would lie inside another one, at any depth.\<close>

theorem manifest_constructor:
  "check_manifest m = Inr m \<longleftrightarrow> schema_version m = SUBJECT_SCHEMA_VERSION \<and>
     sorted_wrt (<) (map entry_path (entries m)) \<and>
     \<not> (\<exists>e f. e \<in> set (entries m) \<and> f \<in> set (entries m) \<and> inside (entry_path e) (entry_path f))"
  by (auto simp: check_manifest_Inr manifest_paths_def strict_sorted_iff)

text \<open>C30. Two manifests with one fingerprint are the same manifest, or their canonical encodings
  are two different byte strings with one SHA-256 digest.\<close>

theorem fingerprint_identifies:
  assumes "wf_manifest m" and "wf_manifest n" and "fingerprint m = Inr h" and "fingerprint n = Inr h"
  shows "m = n \<or> (\<exists>x y. canonical_bytes m = Inr x \<and> canonical_bytes n = Inr y \<and> x \<noteq> y \<and> sha256 x = sha256 y)"
  using assms by (intro fingerprint_unique) (auto simp: wf_manifest_def)

theorem fingerprint_identifies_witness:
  "\<exists>h. fingerprint sample_base = Inr h \<and> (sample_base = sample_base \<or>
     (\<exists>x y. canonical_bytes sample_base = Inr x \<and> canonical_bytes sample_base = Inr y \<and> x \<noteq> y \<and> sha256 x = sha256 y))"
  using sample_fingerprint fingerprint_identifies [OF wf_samples(1,1)] by blast

text \<open>C31. The JSON form of a manifest is read back to the manifest: the writer sorts the keys, the
  strict reader checks them, the canonical paths and modes, the order, the limits and the
  fingerprint. (Python refuses to print or read an integer of more than 4300 digits.)\<close>

theorem manifest_json_round_trip:
  assumes "wf_manifest m" and "validate_limits l m = Inr ()"
    and "\<forall>e \<in> set (entries m). \<forall>n. entry_size e = Some n \<longrightarrow> wf_int n"
    and "manifest_to_json_bytes m = Inr bs"
  shows "manifest_from_json_bytes l bs = Inr m"
  using assms by (rule manifest_round_trip)

theorem manifest_json_round_trip_witness:
  "\<exists>bs. manifest_to_json_bytes sample_base = Inr bs \<and> manifest_from_json_bytes default_limits bs = Inr sample_base"
  using sample_json manifest_json_round_trip [OF wf_samples(1) sample_limits sample_sizes] by blast

text \<open>C32. Whatever bytes the reader is given, a manifest it returns is well formed, each entry
  having passed its constructor, and within the limits, and it has a fingerprint.\<close>

theorem manifest_reader_sound:
  assumes "manifest_from_json_bytes l bs = Inr m"
  shows "wf_manifest m \<and> validate_limits l m = Inr () \<and> (\<exists>h. fingerprint m = Inr h)"
  using assms manifest_from_json_obj_wf by (auto simp: manifest_from_json_bytes_def rbind_Inr_iff)

theorem manifest_reader_sound_witness:
  "\<exists>bs. manifest_from_json_bytes default_limits bs = Inr sample_base \<and> wf_manifest sample_base"
proof -
  obtain bs where "manifest_to_json_bytes sample_base = Inr bs" using sample_json by blast
  from manifest_round_trip [OF wf_samples(1) sample_limits sample_sizes this]
  have bs: "manifest_from_json_bytes default_limits bs = Inr sample_base" .
  with manifest_reader_sound [OF bs] show ?thesis by blast
qed

text \<open>C33. The limits accept a well-formed manifest exactly when it has no more than the allowed
  files, every entry is within its own bounds, and the bytes of all entries together are within
  the total: the running total of the loop refuses neither too early nor too late.\<close>

theorem limits_exact:
  assumes "wf_manifest m" and "check_limits l = Inr l"
  shows "validate_limits l m = Inr () \<longleftrightarrow> int (length (entries m)) \<le> max_files l \<and>
    (\<forall>e \<in> set (entries m). entry_within l e) \<and>
    sum_list (map entry_bytes (entries m)) \<le> max_total_subject_bytes l"
  using assms by (intro validate_limits_Inr) (auto dest: check_limits_positive)

theorem limits_exact_witness:
  "sum_list (map entry_bytes (entries sample_base)) \<le> max_total_subject_bytes default_limits"
  using limits_exact [OF wf_samples(1) check_default_limits] sample_limits by blast

text \<open>A path has one base64 name: the decoder accepts exactly what the encoder writes; and the
  display form of a path is printable ASCII and determines the path.\<close>

theorem path_representations:
  "(path_from_b64 s = Inr p \<longleftrightarrow> s = path_to_b64 p) \<and> (display_path p = display_path q \<longleftrightarrow> p = q) \<and>
   \<not> (\<exists>c. c \<in> set (display_path p) \<and> (c < 32 \<or> 126 < c))"
  using path_from_b64_Inr display_path_inject display_path_printable [of _ p]
  by (auto simp: not_less)

section \<open>Blobs\<close>

text \<open>C34. A manifest built from a scan into the in-memory store is well formed, has exactly the
  scanned paths, and verifies against the store: every blob it names can be read, with the
  recorded size and digest.\<close>

theorem scan_then_verify:
  assumes "store_inv s" and "build_manifest_from_scan l put_blob rs s = (Inr m, s')"
  shows "wf_manifest m \<and> set (manifest_paths m) = set (map scan_path rs) \<and>
    verify_manifest_blobs (read_blob s') m = Inr ()"
  using precredential.build_then_verify [OF assms] by blast

theorem scan_then_verify_witness:
  "\<exists>m s. build_manifest_from_scan default_limits put_blob sample_scan (new_store default_limits) = (Inr m, s) \<and>
     verify_manifest_blobs (read_blob s) m = Inr ()"
proof -
  obtain m s where "build_manifest_from_scan default_limits put_blob sample_scan (new_store default_limits) = (Inr m, s)"
    using sample_scan_builds by blast
  then show ?thesis using scan_then_verify [OF new_store_inv [OF check_default_limits]] by blast
qed

text \<open>C35. The in-memory store stays within its limits and stays content addressed, whatever is put
  into it and in whatever order, also after a refusal: the values are filed under their own
  digests, once each, no value, count or total exceeds its limit, and the byte counter is exact.\<close>

theorem store_bounded:
  assumes "check_limits l = Inr l" and "s = snd (smap put_blob ds (new_store l))"
  shows "distinct (map fst (store_values s)) \<and>
    (\<forall>(k, v) \<in> set (store_values s). k = U (sha256_hex v) \<and> int (length v) \<le> max_file_bytes l) \<and>
    int (length (store_values s)) \<le> max_files l \<and>
    (\<Sum>(k, v) \<leftarrow> store_values s. int (length v)) = store_total_bytes s \<and>
    store_total_bytes s \<le> max_total_subject_bytes l"
proof -
  have "keeps (\<lambda>s. store_inv s \<and> store_limits s = l) (smap put_blob ds)"
    by (intro keeps_smap keepsI) (auto intro: put_blob_inv simp: put_blob_limits)
  then have "store_inv s \<and> store_limits s = l"
    using new_store_inv [OF assms(1)] assms(2) unfolding keeps_def by (simp add: new_store_def)
  then show ?thesis by (fastforce simp: store_inv_def)
qed

theorem store_bounded_witness:
  "int (length (store_values (snd (smap put_blob [''a'', ''b'', ''a''] (new_store default_limits))))) \<le> 20000"
  using store_bounded [OF check_default_limits refl, of "[''a'', ''b'', ''a'']"]
  by (simp add: default_limits_def)

section \<open>The decision of a round\<close>

text \<open>A round is decided by the first of the plan's events that holds, in the order latched
  failure, late critic, contradicted approval, success, blocked critic, round cap, stall; the
  exit code is that of the reason; with none of them the run goes on.\<close>

theorem decide_follows_plan:
  assumes "check_observation ob = Inr ob"
  shows "\<exists>l'. decide ob l = Inr (case find fst (event_order ob l) of
      None \<Rightarrow> \<lparr>decision_action = CONTINUE, decision_reason = None, decision_exit_code = None\<rparr>
    | Some (b, r) \<Rightarrow> \<lparr>decision_action = STOP, decision_reason = Some r,
                      decision_exit_code = Some (exit_code_for r)\<rparr>, l')"
proof -
  obtain l' where "decide ob l = Inr (ordered_decision ob l, l')"
    using decide_ordered_decision [OF assms] by blast
  then show ?thesis unfolding ordered_decision_def stop_with_def go_on_def by blast
qed

definition sample_round :: round_observation where
  "sample_round =
     \<lparr>round_count = 1, max_rounds = 3, all_validations_pass = True, semantic_deltas_visible = True,
      evidence_approval_eligible = True, critic_verdict = Some (U ''LGTM''),
      critic_completed_at = Some 5, monotonic_deadline = 10, repeated_non_success_state = False\<rparr>"

lemma check_sample_round: "check_observation (sample_round\<lparr>round_count := Suc n, critic_completed_at := Some 5\<rparr>) =
    Inr (sample_round\<lparr>round_count := Suc n, critic_completed_at := Some 5\<rparr>)"
  "check_observation sample_round = Inr sample_round"
  by (simp_all add: check_observation_Inr sample_round_def)

theorem decide_follows_plan_witness:
  "\<exists>l. decide sample_round new_latch = Inr (\<lparr>decision_action = STOP, decision_reason = Some CONVERGED,
     decision_exit_code = Some SUCCESS\<rparr>, l)"
proof -
  have "find fst (event_order sample_round new_latch) = Some (True, CONVERGED)"
    by (simp add: event_order_def new_latch_def sample_round_def late_def contradicted_def approved_def succeeded_def)
  with decide_follows_plan [OF check_sample_round(2), of new_latch] show ?thesis by simp
qed

text \<open>C36. A round converges exactly when no failure was latched, the critic answered LGTM in time
  and every local predicate holds: no verdict of the critic can override a local failure.\<close>

theorem converged_iff:
  assumes "check_observation ob = Inr ob" and "wf_latch l"
  shows "(\<exists>d l'. decide ob l = Inr (d, l') \<and> decision_reason d = Some CONVERGED) \<longleftrightarrow>
    latch_reason l = None \<and> critic_verdict ob = Some (U ''LGTM'') \<and> all_validations_pass ob \<and>
    semantic_deltas_visible ob \<and> evidence_approval_eligible ob \<and>
    (\<exists>t. critic_completed_at ob = Some t \<and> t \<le> monotonic_deadline ob)"
proof -
  obtain l' where d: "decide ob l = Inr (ordered_decision ob l, l')"
    using decide_ordered_decision [OF assms(1)] by blast
  have "latch_reason l \<noteq> Some CONVERGED"
    using assms(2) by (auto simp: wf_latch_def non_fatal_reasons_def split: option.splits)
  then show ?thesis
    unfolding d by (auto simp: decision_defs late_def contradicted_def succeeded_def approved_def
        split: option.splits)
qed

theorem converged_iff_witness:
  "\<exists>d l'. decide sample_round new_latch = Inr (d, l') \<and> decision_reason d = Some CONVERGED"
  unfolding converged_iff [OF check_sample_round(2) wf_new_latch]
  by (simp add: sample_round_def new_latch_def)

text \<open>The last round never continues: at the round cap every decision is a stop, with the exit
  code of its reason.\<close>

theorem round_cap_stops:
  assumes "check_observation ob = Inr ob" and "round_count ob \<ge> max_rounds ob" and "decide ob l = Inr (d, l')"
  shows "decision_action d = STOP \<and> (\<exists>r. decision_reason d = Some r \<and> decision_exit_code d = Some (exit_code_for r))"
proof -
  have "d = ordered_decision ob l" using decide_ordered_decision [OF assms(1), of l] assms(3) by auto
  with assms(2) show ?thesis by (auto simp: decision_defs split: option.splits)
qed

theorem round_cap_stops_witness:
  "\<exists>d l'. decide (sample_round\<lparr>round_count := 3, critic_verdict := Some (U ''REVISE'')\<rparr>) new_latch = Inr (d, l') \<and>
     decision_action d = STOP"
proof -
  let ?ob = "sample_round\<lparr>round_count := 3, critic_verdict := Some (U ''REVISE'')\<rparr>"
  have ob: "check_observation ?ob = Inr ?ob" by (simp add: check_observation_Inr sample_round_def)
  obtain d l' where "decide ?ob new_latch = Inr (d, l')" using decide_ordered_decision [OF ob] by blast
  with round_cap_stops [OF ob, of new_latch d l'] show ?thesis by (auto simp: sample_round_def)
qed

text \<open>The first failure wins: of any sequence of reported failures the latch keeps the first as
  its reason, with its detail and time, and all the later ones, in order, as secondary.\<close>

theorem first_failure_wins:
  assumes "\<forall>(r, d, t) \<in> set ((r0, d0, t0) # reports). r \<notin> set non_fatal_reasons \<and> 0 \<le> t"
  shows "latch_all ((r0, d0, t0) # reports) new_latch = Inr
    \<lparr>latch_reason = Some r0, latch_detail = Some d0, latched_at = Some t0, secondary = reports\<rparr>"
  using assms by (simp add: latch_all_set latch_fatal new_latch_def)

theorem first_failure_wins_witness:
  "latch_all [(AUTHOR_TIMEOUT, U ''a'', 1), (USER_INTERRUPT, U ''b'', 2)] new_latch = Inr
    \<lparr>latch_reason = Some AUTHOR_TIMEOUT, latch_detail = Some (U ''a''), latched_at = Some 1,
     secondary = [(USER_INTERRUPT, U ''b'', 2)]\<rparr>"
  by (rule first_failure_wins) (simp add: non_fatal_reasons_def)

text \<open>The process exit status is 0 exactly when the run stopped because it converged.\<close>

theorem exit_status_zero_iff_converged:
  "exit_code_value (exit_code_for r) = 0 \<longleftrightarrow> r = CONVERGED"
  using exit_code_value_inject [of "exit_code_for r" SUCCESS] exit_code_for_SUCCESS_iff [of r]
  by simp

section \<open>Reviews\<close>

text \<open>C20. The validator of reviews accepts a document exactly when it states a well-formed review
  with the closed set of keys, and an LGTM only when the local predicates it is given (if any)
  all hold.\<close>

theorem review_accepted:
  "validate_critic_review ap v = Inr r \<longleftrightarrow> wf_review r \<and> is_review r v \<and>
     (r_verdict r = LGTM \<longrightarrow> pred_option approval_granted ap)"
  by (rule validate_critic_review_Inr)

theorem review_accepted_witness:
  "wf_review sample_review \<and> is_review sample_review (review_document sample_review)"
  using sample_review_accepted unfolding review_accepted by blast

text \<open>An approval that contradicts the local predicates is refused with its own reason, whatever
  the rest of the review says, and never as a malformed review.\<close>

theorem lgtm_contradicted:
  assumes "validate_critic_review None v = Inr r" and "r_verdict r = LGTM" and "\<not> approval_granted a"
  shows "validate_critic_review (Some a) v =
    Inl (fail CRITIC_LGTM_WITH_FAILED_VALIDATION ''LGTM contradicted locally proven approval predicates'')"
proof -
  have r: "wf_review r" and "is_review r v" using assms(1) by (simp_all add: validate_critic_review_Inr)
  then obtain kvs bs ns where k: "has_keys REVIEW_KEYS v kvs"
    and F: "field kvs ''schema_version'' = JInt (r_schema_version r)"
    "field kvs ''verdict'' = JStr (U (verdict_value (r_verdict r)))" "field kvs ''summary'' = JStr (r_summary r)"
    "field kvs ''blocked_reason'' = opt_str (r_blocked_reason r)"
    "field kvs ''blocking_findings'' = JArr bs" "field kvs ''non_blocking_findings'' = JArr ns"
    and "list_all2 is_finding (r_blocking_findings r) bs" "list_all2 is_finding (r_non_blocking_findings r) ns"
    by (auto simp: is_review_def)
  with r have "findings_of loc (JArr bs) = Inr (r_blocking_findings r)"
    "findings_of loc (JArr ns) = Inr (r_non_blocking_findings r)" for loc
    by (auto simp: findings_of_Inr wf_review_def)
  moreover have "check_verdict (Some a) (r_verdict r) (r_blocked_reason r) (r_blocking_findings r) =
      Inl (fail CRITIC_LGTM_WITH_FAILED_VALIDATION ''LGTM contradicted locally proven approval predicates'')"
    using r assms(2,3) by (auto simp: check_verdict_def wf_review_def approval_granted_def)
  ultimately show ?thesis
    using r F
    by (simp add: validate_critic_review_def field_ok(2-5) [OF _] field_ok(5) [OF k] verdict_of_Some [THEN iffD2]
        wf_text_literals wf_review_def)
qed

theorem lgtm_contradicted_witness:
  "validate_critic_review (Some \<lparr>ap_all_validations_pass = False, ap_semantic_deltas_visible = True,
      ap_evidence_approval_eligible = True\<rparr>) (review_document sample_review) =
    Inl (fail CRITIC_LGTM_WITH_FAILED_VALIDATION ''LGTM contradicted locally proven approval predicates'')"
proof (rule lgtm_contradicted)
  show "validate_critic_review None (review_document sample_review) = Inr sample_review"
    using sample_review_accepted unfolding validate_critic_review_Inr by simp
qed (simp_all add: sample_review_def approval_granted_def)

text \<open>C37. The document the runner makes of a review and validates again is read back to that review
  and to no other, so the second validation never changes what the critic said.\<close>

theorem review_document_read_back:
  "validate_critic_review ap (review_document q) = Inr r \<longleftrightarrow>
     r = q \<and> wf_review q \<and> (r_verdict q = LGTM \<longrightarrow> pred_option approval_granted ap)"
  using review_document_unique [of ap q r] review_document_is_review [of q] unfolding validate_critic_review_Inr
  by blast

theorem review_document_read_back_witness:
  "validate_critic_review (Some (approval_of sample_validation sample_evidence)) (review_document sample_review) =
     Inr sample_review"
  unfolding review_document_read_back
  using sample_review_accepted unfolding validate_critic_review_Inr by blast

section \<open>Validation\<close>

text \<open>An execution that its constructor accepts passed exactly when its process started, was not cut
  off, and exited by itself with status 0; so no timed out, killed or unstarted check passes.\<close>

theorem check_passes_iff:
  assumes "check_check_execution c = Inr c"
  shows "outcome c = PASSED \<longleftrightarrow> check_exit_code c = Some 0 \<and> process_started c \<and> \<not> output_limited c \<and>
    \<not> timed_out c \<and> check_signal c = None"
  using assms outcome_PASSED [OF assms] by (auto simp: check_check_execution_def split: if_splits)

theorem check_passes_iff_witness: "outcome sample_check = PASSED"
proof -
  have "check_check_execution sample_check = Inr sample_check"
    by (simp add: check_check_execution_def sample_check_def)
  from check_passes_iff [OF this] show ?thesis by (simp add: sample_check_def)
qed

text \<open>C22. A validation run is accepted as not having mutated its subject exactly when every path at
  which the two manifests differ is discard-only, and what is reported are those paths.\<close>

theorem validation_mutation_exact:
  assumes "wf_manifest s" and "wf_manifest r"
  shows "(\<exists>ps. verify_validation_mutation s r pol = Inr ps \<and> set ps = {p. entry_at s p \<noteq> entry_at r p}) \<longleftrightarrow>
    (\<forall>p. entry_at s p \<noteq> entry_at r p \<longrightarrow> disposition pol p = DISCARD_ONLY)"
  using verify_validation_mutation_Inr [OF assms, of pol] by blast

theorem validation_mutation_exact_witness:
  "\<exists>ps. verify_validation_mutation sample_base sample_base sample_policy = Inr ps \<and> set ps = {}"
proof -
  have "\<exists>ps. verify_validation_mutation sample_base sample_base sample_policy = Inr ps \<and>
      set ps = {p. entry_at sample_base p \<noteq> entry_at sample_base p}"
    unfolding validation_mutation_exact [OF wf_samples(1,1)] by blast
  then show ?thesis by simp
qed

section \<open>Secrets\<close>

text \<open>C23. The search finds a secret in every disguise: whatever text surrounds it, whichever of its
  seven forms (raw, base64, URL-safe base64, both without padding, hexadecimal in either case) is
  used, however the case of its letters is changed and whatever white space is put anywhere.\<close>

theorem disguised_secret_found:
  assumes "s \<in> set secrets" and "form \<in> {secret_value s, b64encode (secret_value s),
      urlsafe_b64encode (secret_value s), rstrip_padding (b64encode (secret_value s)),
      rstrip_padding (urlsafe_b64encode (secret_value s)), hex_bytes (secret_value s),
      upper (hex_bytes (secret_value s))}"
    and "lower (PyText.compact raw) = lower (PyText.compact (a @ form @ b))"
  shows "raw_log_contains_known_secret raw secrets"
  using assms disguised_form_found [of raw a form b]
  by (auto simp only: raw_log_contains_iff forbidden_forms_set disguised_def)

theorem disguised_secret_found_witness:
  "raw_log_contains_known_secret ''key: S e C r E t'' [\<lparr>secret_id = U ''k'', secret_value = ''secret''\<rparr>]"
proof -
  have "lower (PyText.compact ''key: S e C r E t'') = lower (PyText.compact (''key:'' @ ''secret'' @ []))" by code_simp
  from disguised_secret_found [OF _ _ this] show ?thesis by simp
qed

text \<open>The two searches for secrets in the program, the one over raw logs and the one over the
  content of a review bundle, are the same predicate though one tries four ways and the other two.\<close>

theorem secret_searches_agree:
  "contains_secret data secrets \<longleftrightarrow> raw_log_contains_known_secret data secrets"
  by (rule contains_secret_iff)

text \<open>The history of the secrets is append-only, free of duplicates and bounded, after any sequence of
  extensions, the refused ones included, which change nothing.\<close>

theorem ledger_bounded:
  assumes "l = fold (\<lambda>vs l. snd (ledger_extend vs l)) earlier empty_ledger"
    and "l' = fold (\<lambda>vs l. snd (ledger_extend vs l)) later l"
  shows "distinct (map secret_key (ledger_values l')) \<and>
    int (length (ledger_values l')) \<le> MAX_KNOWN_SECRET_HISTORY \<and>
    (\<Sum>v \<leftarrow> ledger_values l'. int (length (secret_value v))) \<le> MAX_KNOWN_SECRET_HISTORY_BYTES \<and>
    prefix (ledger_values l) (ledger_values l')"
proof -
  have *: "ledger_inv (fold (\<lambda>vs l. snd (ledger_extend vs l)) hs k) \<and>
      prefix (ledger_values k) (ledger_values (fold (\<lambda>vs l. snd (ledger_extend vs l)) hs k))" if "ledger_inv k" for hs k
    using that
  proof (induction hs arbitrary: k)
    case (Cons vs hs)
    then show ?case
      using ledger_extend_inv [OF Cons.prems, of vs] ledger_extend_grows(1) [OF Cons.prems, of vs _ "snd (ledger_extend vs k)"]
      by (metis (no_types, lifting) fold_simps(2) prefix_order.trans prod.collapse)
  qed simp
  have "ledger_inv l" using *[OF empty_ledger_inv] assms(1) by simp
  from *[OF this, of later] show ?thesis unfolding assms(2) [symmetric] ledger_inv_def by simp metis
qed

theorem ledger_bounded_witness:
  "prefix [] (ledger_values (fold (\<lambda>vs l. snd (ledger_extend vs l)) [[\<lparr>secret_id = U ''k'', secret_value = ''s''\<rparr>]] empty_ledger))"
  using ledger_bounded [OF refl refl, of "[]" "[[\<lparr>secret_id = U ''k'', secret_value = ''s''\<rparr>]]"]
  by (simp add: empty_ledger_def)

section \<open>Stalls\<close>

text \<open>C38. Two rounds have one progress fingerprint only if they ended in the same state: the same
  subject, verdict, blocked reason, and, up to their order, the same validation results and the
  same blocking findings (or their canonical texts are two texts with one SHA-256 digest). A stall
  is never reported for a round that changed anything of these.\<close>

theorem stall_means_same_state:
  assumes "progress_fingerprint p = Inr h" and "progress_fingerprint q = Inr h" and "wf_progress p" and "wf_progress q"
  shows "ps_subject_fingerprint p = ps_subject_fingerprint q \<and> ps_verdict p = ps_verdict q \<and>
      ps_blocked_reason p = ps_blocked_reason q \<and> mset (ps_validations p) = mset (ps_validations q) \<and>
      mset (ps_blocking_findings p) = mset (ps_blocking_findings q) \<or>
    (\<exists>x y. progress_canonical_bytes p = Inr x \<and> progress_canonical_bytes q = Inr y \<and> x \<noteq> y \<and>
      sha256 (''agent-loop-progress-v1'' @ CHR 0x00 # x) = sha256 (''agent-loop-progress-v1'' @ CHR 0x00 # y))"
proof -
  obtain x y where x: "progress_canonical_bytes p = Inr x" and y: "progress_canonical_bytes q = Inr y"
    and sha: "sha256 (''agent-loop-progress-v1'' @ CHR 0x00 # x) = sha256 (''agent-loop-progress-v1'' @ CHR 0x00 # y)"
    using assms(1,2) by (auto simp: progress_fingerprint_def rbind_Inr_iff U_inject sha256_hex_eq_iff)
  obtain fs gs where fs: "sorted_findings (ps_blocking_findings p) = Inr fs" "x = json_dumps (progress_payload p fs)"
    and gs: "sorted_findings (ps_blocking_findings q) = Inr gs" "y = json_dumps (progress_payload q gs)"
    using x y by (auto simp: progress_canonical_bytes_def rbind_Inr_iff)
  show ?thesis
  proof (cases "x = y")
    case True
    have "sort_keys (progress_payload p fs) = sort_keys (progress_payload q gs)"
      using json_roundtrip [OF payload_wf [OF assms(3) fs(1)]] json_roundtrip [OF payload_wf [OF assms(4) gs(1)]]
        True fs(2) gs(2) by simp
    note e = payload_inject [OF this]
    have "mset (ps_validations p) = mset (ps_validations q)" using e(4) by (metis mset_sort)
    moreover have "mset (ps_blocking_findings p) = mset (ps_blocking_findings q)"
      using e(2) fs(1) gs(1) by (auto simp: sorted_findings_def split: if_splits) (metis mset_sort)
    ultimately show ?thesis using e by simp
  next
    case False
    with x y sha show ?thesis by blast
  qed
qed

definition sample_progress_state :: progress_state where
  "sample_progress_state =
     \<lparr>ps_subject_fingerprint = U ''f'', ps_validations = [], ps_verdict = U ''BLOCKED'',
      ps_blocking_findings = [], ps_blocked_reason = Some (U ''why'')\<rparr>"

theorem stall_means_same_state_witness:
  "\<exists>h. progress_fingerprint sample_progress_state = Inr h \<and>
     mset (ps_validations sample_progress_state) = mset (ps_validations sample_progress_state)"
proof -
  obtain h where h: "progress_fingerprint sample_progress_state = Inr h"
    by (simp add: progress_fingerprint_def progress_canonical_bytes_def sorted_findings_def sample_progress_state_def)
  have w: "wf_progress sample_progress_state"
    by (simp add: wf_progress_def sample_progress_state_def wf_str_U wf_opt_str_def)
  from stall_means_same_state [OF h h w w] h show ?thesis by blast
qed

section \<open>The validation batch\<close>

text \<open>A batch request the program may build is written within the protocol's bound and read back
  unchanged by the other side, and whatever bytes the reader accepts are such a request.\<close>

theorem batch_request_protocol:
  assumes "int (length (json_dumps (batch_request_json q) @ [CHR 0x0A])) \<le> DEFAULT_MAX_AGENT_OUTPUT_BYTES"
  shows "((\<exists>b. encode_validation_batch_request q = Inr b \<and> parse_validation_batch_request b = Inr q) \<longleftrightarrow>
    wf_batch_request q) \<and> (parse_validation_batch_request data = Inr r \<longrightarrow> wf_batch_request r)"
  using batch_request_round_trip [OF _ assms] parse_request_wf by blast

theorem batch_request_protocol_witness:
  "\<exists>b. encode_validation_batch_request sample_batch = Inr b \<and> parse_validation_batch_request b = Inr sample_batch"
  using batch_request_protocol [OF sample_batch_wf(2)] sample_batch_wf(1) by blast

text \<open>C39. The answer of the sandbox is parsed as hostile bytes. Whatever the bytes are, the reader returns
  exactly the answers that they state, as one closed JSON object within the byte bound with one
  closed object for each record, and that are within bounds: no more records than checks, numbered
  in order, each within its limits and without contradiction, no more output than allowed in total,
  and fewer records than checks only after a record that ends the batch. And the bytes that the
  writer makes of an answer within bounds are read back as that answer.\<close>

theorem batch_result_protocol:
  assumes "0 \<le> m" and "n \<le> MAX_VALIDATION_CHECKS"
  shows "(parse_validation_batch_result n m data = Inr rs \<longleftrightarrow> wf_batch_result n m rs \<and> states_result data rs) \<and>
    (encode_validation_batch_result rs = Inr data \<longrightarrow>
      (parse_validation_batch_result n m data = Inr rs \<longleftrightarrow> wf_batch_result n m rs))"
  using parse_result_Inr [OF assms(1)] batch_result_round_trip [OF _ assms(2)] by blast

theorem batch_result_protocol_witness:
  "\<exists>b. encode_validation_batch_result sample_records = Inr b \<and>
     parse_validation_batch_result 1 10 b = Inr sample_records \<and> states_result b sample_records"
proof -
  obtain b where b: "encode_validation_batch_result sample_records = Inr b" using sample_records_wf(2) by blast
  with sample_records_wf(1) batch_result_protocol [of 10 1 b sample_records] show ?thesis
    by (auto simp: MAX_VALIDATION_CHECKS_def)
qed

section \<open>The diagnostic patch\<close>

text \<open>C40. The diagnostic patch loses nothing: after the header there is one line for each change of the
  delta, in order, and each line is read back to the kind of its change and both its entries; the
  patch keeps its byte bound.\<close>

theorem patch_lossless:
  assumes "wf_manifest b" "wf_manifest c" "sized_manifest b" "sized_manifest c"
    and "render_diagnostic_patch read m b c = Inr data"
  shows "\<exists>ds header ls. diff_manifests b c = Inr ds \<and> int (length data) \<le> m \<and> m \<le> MAX_BUNDLE_BYTES \<and>
    split_on (CHR 0x0A) data = header # ls @ [[]] \<and>
    list_all2 (\<lambda>d l. \<exists>v. json_loads (U l) = Inr v \<and> shows_change d v) ds ls"
  by (rule render_lossless [OF assms]) blast

text \<open>Rendering the patch of two verified manifests returns or refuses by its byte bound; there is no
  other way for it to end.\<close>

theorem patch_total:
  assumes "wf_manifest b" "wf_manifest c"
    and "verify_manifest_blobs read b = Inr ()" "verify_manifest_blobs read c = Inr ()"
    and "0 < m" "m \<le> MAX_BUNDLE_BYTES" and "fingerprint b = Inr bf" "fingerprint c = Inr cf"
  shows "(\<exists>data. render_diagnostic_patch read m b c = Inr data) \<or>
    render_diagnostic_patch read m b c = Inl (fail DIAGNOSTIC_PATCH_FAILURE ''diagnostic patch exceeds max_bytes'')"
  using render_total [OF assms] .

theorem patch_total_witness:
  "(\<exists>data. render_diagnostic_patch (\<lambda>h. Inl (KeyError h)) 5 nothing nothing = Inr data) \<or>
    render_diagnostic_patch (\<lambda>h. Inl (KeyError h)) 5 nothing nothing =
      Inl (fail DIAGNOSTIC_PATCH_FAILURE ''diagnostic patch exceeds max_bytes'')"
  by (rule patch_total [OF _ _ _ _ _ _ nothing_fingerprint(1) nothing_fingerprint(1)])
    (simp_all add: nothing_def wf_manifest_def check_manifest_def manifest_paths_def verify_manifest_blobs_def MAX_BUNDLE_BYTES_def)

theorem patch_lossless_witness:
  "\<exists>data header. render_diagnostic_patch (\<lambda>h. Inl (KeyError h)) 100000 nothing nothing = Inr data \<and>
     split_on (CHR 0x0A) data = [header, []]"
proof -
  have "weight (patch_header nothing_hash nothing_hash 0) \<le> 10000"
    using nothing_fingerprint(2) by (simp add: patch_header_def jstr_def dec_int_def dec_nat_def digits_of.simps)
  with json_dumps_length [of "patch_header nothing_hash nothing_hash 0"]
  have "int (length (json_line (patch_header nothing_hash nothing_hash 0))) \<le> 100000"
    by (simp add: json_line_def)
  moreover have d: "diff_manifests nothing nothing = Inr []"
    by (simp add: diff_manifests_def nothing_def manifest_paths_def modified_changes_def added_by_identity_def Let_def)
  ultimately obtain data where r: "render_diagnostic_patch (\<lambda>h. Inl (KeyError h)) 100000 nothing nothing = Inr data"
    by (simp add: render_diagnostic_patch_def verify_manifest_blobs_def nothing_fingerprint Let_def MAX_BUNDLE_BYTES_def
        nothing_def [THEN arg_cong [where f = entries]] as_patch_failure_def)
  have s: "sized_manifest nothing" "wf_manifest nothing"
    by (simp_all add: sized_manifest_def nothing_def wf_manifest_def check_manifest_def manifest_paths_def)
  from patch_lossless [OF s(2,2,1,1) r] r show ?thesis unfolding d by auto
qed

section \<open>The review bundle\<close>

text \<open>C21. A bundle given to the critic is complete, safe and bounded. Its document has exactly the listed
  fields: the task, the fingerprints of the base and of the subject, which is the one that the
  validation evidence names, that evidence, the patterns, the ledger. It shows every semantic
  change, in order, with both sides in full: path, displayed path, kind, mode, size and digest, and
  the whole content, none of it on a sensitive path or containing a known secret; it shows every
  opaque change with path, mode and digests, and every configured context path or that it is
  missing. It rests on verified blobs of base and subject. The task, the changes and the ledger are within
  their limits; the encoded document is within the limit of bytes, the limit of estimated tokens
  and, with the reserved output, the context of the critic; and the recorded estimate and
  fingerprint are those of the encoded document.\<close>

theorem bundle_complete:
  assumes "build_review_bundle read l q = Inr b"
  shows "(\<exists>bf sf ds os cs ms. document_states q bf sf ds os cs ms (rb_document b) \<and>
      fingerprint (bq_base q) = Inr bf \<and> fingerprint (bq_subject q) = Inr sf \<and>
      ve_subject_fingerprint (bq_validation q) = sf \<and>
      list_all2 (change_shown read (bq_known_secrets q) (bq_sensitive_patterns q)) (bq_semantic_changes q) ds \<and>
      list_all2 opaque_shown (bq_opaque_changes q) os \<and> context_shown read q cs ms) \<and>
    verify_manifest_blobs read (bq_base q) = Inr () \<and> verify_manifest_blobs read (bq_subject q) = Inr () \<and>
    request_bounded l q \<and>
    rb_encoded b = json_dumps (rb_document b) \<and> rb_estimated_input_tokens b = int (length (rb_encoded b)) \<and>
    rb_fingerprint b = U (sha256_hex (''agent-loop-review-bundle-v1'' @ [CHR 0x00] @ rb_encoded b)) \<and>
    int (length (rb_encoded b)) \<le> max_bundle_bytes l \<and> int (length (rb_encoded b)) \<le> max_estimated_input_tokens l \<and>
    int (length (rb_encoded b)) + reserved_output_tokens l \<le> DEFAULT_REVIEW_CONTEXT_TOKENS"
  using assms
proof (rule build_review_bundle_Inr)
  fix bf sf ds os cs ms
  assume *: "document_states q bf sf ds os cs ms (rb_document b)" "fingerprint (bq_subject q) = Inr sf"
    "ve_subject_fingerprint (bq_validation q) = sf" "fingerprint (bq_base q) = Inr bf"
    "verify_manifest_blobs read (bq_base q) = Inr ()" "verify_manifest_blobs read (bq_subject q) = Inr ()"
    "list_all2 (change_shown read (bq_known_secrets q) (bq_sensitive_patterns q)) (bq_semantic_changes q) ds"
    "list_all2 opaque_shown (bq_opaque_changes q) os" "context_shown read q cs ms" "request_bounded l q"
    and s: "seal_bundle l (size_reason q) (rb_document b) = Inr b"
  show ?thesis using * seal_bundle_Inr [OF s] by blast
qed

theorem bundle_complete_witness:
  "\<exists>b. build_review_bundle (\<lambda>h. Inl (KeyError h)) default_limits sample_request = Inr b \<and>
     int (length (rb_encoded b)) \<le> max_estimated_input_tokens default_limits \<and>
     rb_estimated_input_tokens b = int (length (rb_encoded b))"
proof -
  obtain b where "build_review_bundle (\<lambda>h. Inl (KeyError h)) default_limits sample_request = Inr b"
    using sample_bundle by blast
  with bundle_complete [OF this] show ?thesis by blast
qed

section \<open>The configuration\<close>

text \<open>C27. What an accepted configuration can and cannot change. Its schema version is 1, the rounds and
  timeouts are positive, if not bounded by their defaults, and no timeout exceeds the total runtime. Every limit
  is positive and at most its default, the reserved output at least its default. The default
  protected patterns stay in the list of protected patterns, and an opt-in can lift one of them
  only for the exact path it names: in the policy that the workflow builds from the configuration a
  path with a \<open>.git\<close> component is protected in any case, and a path that a default pattern matches
  is protected unless it is itself one of the opt-ins. An opt-in has no wildcard and no \<open>.git\<close>
  component, every pattern of the five lists is a bounded relative path without \<open>..\<close>, and every
  mount is a normalised absolute path other than the root.\<close>

theorem config_sound:
  assumes "project_config_from_mapping raw = Inr c"
  shows "pc_schema_version c = 1 \<and> 0 < pc_max_rounds c \<and>
    (\<forall>t \<in> {pc_author_timeout_seconds c, pc_critic_timeout_seconds c, pc_validation_timeout_seconds c}.
       0 < t \<and> t \<le> pc_max_runtime_seconds c) \<and>
    limits_tight (pc_limits c) \<and> check_limits (pc_limits c) = Inr (pc_limits c) \<and>
    U ` set DEFAULT_PROTECTED_PATTERNS \<subseteq> set (pc_protected_paths c) \<and>
    (\<forall>pol p. config_policy c = Inr pol \<longrightarrow> valid_path p \<longrightarrow>
       (''.git'' \<in> set (split_on CHR ''/'' p) \<longrightarrow> classify pol p = Inr PROTECTED) \<and>
       (matches_any DEFAULT_PROTECTED_PATTERNS p \<longrightarrow> classify pol p = Inr PROTECTED \<or>
          (\<exists>x \<in> set (pc_protected_opt_in_paths c). utf8_encode x = Some p))) \<and>
    (\<forall>x \<in> set (pc_protected_opt_in_paths c). U ''.git'' \<notin> set (split_on 47 x) \<and> set (U ''*?['') \<inter> set x = {}) \<and>
    (\<forall>x \<in> set (pc_protected_paths c @ pc_protected_opt_in_paths c @ pc_discard_only_paths c @
       pc_opaque_nonsemantic_paths c @ pc_review_context_paths c). safe_pattern x) \<and>
    (\<forall>m \<in> set (pc_read_only_toolchain_mounts c).
       \<exists>ks. ks \<noteq> [] \<and> m = U ''/'' @ join_with [47] ks \<and> (\<forall>k \<in> set ks. plain_component k))"
proof -
  note P = config_parts [OF assms]
  obtain extra where e: "patterns ''protected_paths'' (raw_get raw ''protected_paths'' (PList [])) = Inr extra"
    "pc_protected_paths c = dedup (map U DEFAULT_PROTECTED_PATTERNS @ extra)" using P(1) by blast
  have d: "U ` set DEFAULT_PROTECTED_PATTERNS \<subseteq> set (pc_protected_paths c)" unfolding e(2) by auto
  have o: "\<forall>x \<in> set (pc_protected_opt_in_paths c). U ''.git'' \<notin> set (split_on 47 x) \<and> set (U ''*?['') \<inter> set x = {}"
    using P(3) opt_in_no_git unfolding protected_opt_ins_Inr by blast
  have "safe_pattern x" if "x \<in> set (pc_protected_paths c)" for x
    using that patterns_safe [OF e(1)] default_patterns_safe unfolding e(2) by auto
  then have s: "\<forall>x \<in> set (pc_protected_paths c @ pc_protected_opt_in_paths c @ pc_discard_only_paths c @
       pc_opaque_nonsemantic_paths c @ pc_review_context_paths c). safe_pattern x"
    using P(3-6) patterns_safe unfolding protected_opt_ins_Inr by auto
  have m: "\<forall>m \<in> set (pc_read_only_toolchain_mounts c).
       \<exists>ks. ks \<noteq> [] \<and> m = U ''/'' @ join_with [47] ks \<and> (\<forall>k \<in> set ks. plain_component k)"
    using P(2) check_mount_Inr by blast
  have g: "classify pol p = Inr PROTECTED" if "valid_path p" "''.git'' \<in> set (split_on CHR ''/'' p)" for pol p
    by (simp only: classify_valid [OF that(1)] disposition_def that(2) simp_thms if_True)
  have q: "\<forall>pol p. config_policy c = Inr pol \<longrightarrow> valid_path p \<longrightarrow>
       (''.git'' \<in> set (split_on CHR ''/'' p) \<longrightarrow> classify pol p = Inr PROTECTED) \<and>
       (matches_any DEFAULT_PROTECTED_PATTERNS p \<longrightarrow> classify pol p = Inr PROTECTED \<or>
          (\<exists>x \<in> set (pc_protected_opt_in_paths c). utf8_encode x = Some p))"
    using config_policy_protects [OF assms] g by meson
  have t: "pc_schema_version c = 1" "0 < pc_max_rounds c"
    "\<forall>t \<in> {pc_author_timeout_seconds c, pc_critic_timeout_seconds c, pc_validation_timeout_seconds c}.
       0 < t \<and> t \<le> pc_max_runtime_seconds c"
    using P(8) unfolding check_config_Inr by simp_all
  show ?thesis
    by (intro conjI t tightened_limits limits_of_Inr [OF P(7)] d q o s m)
qed

theorem config_sound_witness:
  "\<exists>c. project_config_from_mapping sample_config = Inr c \<and> U ''AGENTS.md'' \<in> set (pc_protected_paths c) \<and>
     limits_tight (pc_limits c)"
proof -
  obtain c where c: "project_config_from_mapping sample_config = Inr c" using sample_config_accepted by blast
  have "''AGENTS.md'' \<in> set DEFAULT_PROTECTED_PATTERNS" by (simp add: DEFAULT_PROTECTED_PATTERNS_def)
  with config_sound [OF c] have "U ''AGENTS.md'' \<in> set (pc_protected_paths c)" by blast
  with c config_sound [OF c] show ?thesis by blast
qed

section \<open>The author's turns\<close>

text \<open>C14. A resumed author turn that the client accepts came from a process that ended with status 0 and
  whose stream of events is an accepted turn: one start of exactly the thread that was resumed, one
  completion with its usage, no failure, no reroute and no command that ran without its sandbox,
  the last message as the answer, and every event that states the model or the effort states the
  same one.\<close>

theorem accepted_author_turn:
  assumes "resume_turn transport thread prompt timeout exe_path parent mb w = (Inr t, w')"
  shows "\<exists>call r. build_codex_resume_invocation thread prompt exe_path parent = Inr call \<and>
    transport call timeout mb w = (Inr r, w') \<and> pr_returncode r = 0 \<and> accepted_turn (Some thread) (pr_stdout r) t"
  using assms classify_accepted by (auto simp: resume_turn_def sbind_Inr_iff split: sum.splits)

theorem accepted_author_turn_witness: "accepted_turn (Some sample_thread) (doc_lines sample_stream) sample_turn"
  using accepted_author_turn [OF sample_resume] by (auto simp: sample_process_def)

text \<open>C17. The error of an author process that failed says nothing the process wrote: it is one of four
  reasons, and its text is fixed up to the exit status, whether there was output on the standard
  error, and one word each of three closed lists.\<close>

theorem author_failure_closed:
  assumes "build_codex_resume_invocation thread prompt exe_path parent = Inr call"
    and "transport call timeout mb w = (Inr r, w')" and "pr_returncode r \<noteq> 0" and "0 < mb"
  shows "\<exists>reason d. resume_turn transport thread prompt timeout exe_path parent mb w = (Inl (fail reason d), w') \<and>
    (reason = AUTHOR_PROCESS_FAILURE \<and> d \<in> failure_details (pr_returncode r) \<or>
     reason = AGENT_OUTPUT_LIMIT \<and> d = ''Codex output exceeded its byte limit'' \<or>
     reason = AUTHOR_TIMEOUT \<and> d = ''Codex exceeded the outer author timeout'' \<or>
     reason = CREDENTIAL_REFRESH_FAILURE \<and> d = CODEX_REAUTHENTICATION_FAILURE_DETAIL)"
proof -
  have "pred_option is_thread_id (Some thread)"
    using assms(1) by (auto simp: build_codex_resume_invocation_def build_codex_resume_argv_def validate_thread_id_def
        rbind_Inr_iff split: if_splits)
  from classify_failure [OF assms(3,4) this] assms(1,2) show ?thesis by (auto simp: resume_turn_def sbind_def)
qed

theorem author_failure_closed_witness:
  "\<exists>reason d. resume_turn (\<lambda>_ _ _. ret (sample_process\<lparr>pr_returncode := 2\<rparr>)) sample_thread (U ''task'') 30
    DEFAULT_CODEX_EXECUTABLE None 10000 () = (Inl (fail reason d), ())"
proof -
  obtain call where "build_codex_resume_invocation sample_thread (U ''task'') DEFAULT_CODEX_EXECUTABLE None = Inr call"
    using sample_invocation by blast
  from author_failure_closed [OF this, of "\<lambda>_ _ _. ret (sample_process\<lparr>pr_returncode := 2\<rparr>)" 30 10000 "()"]
  show ?thesis by auto
qed

text \<open>C13. Between two accepted turns the history of the thread only grows, by exactly one turn: the rollout
  read after the second is that of the first with one started and completed turn appended, the turn
  used the model and the effort that were asked for, and its ID is the only new one; or a prefix of
  the new rollout collides with the old one under SHA-256.\<close>

theorem rollout_advances:
  assumes "attach_codex_rollout_selection read0 r0 previous0 witness0 m0 e0 = Inr (r0', ids0, w0)"
    and "attach_codex_rollout_selection read1 r1 (Some ids0) (Some w0) m e = Inr (r1', ids1, w1)"
  shows "\<exists>k0 k1 data0 data1. read0 k0 MAX_ROLLOUT_BYTES = Inr data0 \<and> read1 k1 MAX_ROLLOUT_BYTES = Inr data1 \<and>
    ((\<exists>new i. data1 = data0 @ new \<and> appends_one_turn MAX_ROLLOUT_LINE_BYTES new i m e \<and> ids1 = ids0 @ [i]) \<or>
     (\<exists>x. prefix x data1 \<and> x \<noteq> data0 \<and> sha256 x = sha256 data0))"
proof -
  obtain k0 data0 ev0 where 0: "read0 k0 MAX_ROLLOUT_BYTES = Inr data0"
    "parse_codex_rollout_selection data0 (tr_thread_id r0) previous0 witness0 MAX_ROLLOUT_BYTES MAX_ROLLOUT_EVENTS
      MAX_ROLLOUT_LINE_BYTES = Inr ev0" "se_turn_ids ev0 = ids0" "se_rollout_prefix ev0 = w0"
    using attach_Inr [OF assms(1)] by blast
  obtain k1 data1 ev1 where 1: "read1 k1 MAX_ROLLOUT_BYTES = Inr data1"
    "parse_codex_rollout_selection data1 (tr_thread_id r1) (Some ids0) (Some w0) MAX_ROLLOUT_BYTES MAX_ROLLOUT_EVENTS
      MAX_ROLLOUT_LINE_BYTES = Inr ev1" "se_model ev1 = m" "se_effort ev1 = e" "se_turn_ids ev1 = ids1"
    using attach_Inr [OF assms(2)] by blast
  have "ids1 = ids0 @ [se_turn_id ev1]" using selection_evidence_sound [OF 1(2)] 1(5) by auto
  moreover have "(\<exists>new. data1 = data0 @ new \<and> appends_one_turn MAX_ROLLOUT_LINE_BYTES new (se_turn_id ev1) m e) \<or>
      (\<exists>x. prefix x data1 \<and> x \<noteq> data0 \<and> sha256 x = sha256 data0)"
    using resumed_history [OF 0(2) 1(2) [folded 0(3,4)]] unfolding 1(3,4) .
  ultimately have "(\<exists>new i. data1 = data0 @ new \<and> appends_one_turn MAX_ROLLOUT_LINE_BYTES new i m e \<and> ids1 = ids0 @ [i]) \<or>
      (\<exists>x. prefix x data1 \<and> x \<noteq> data0 \<and> sha256 x = sha256 data0)" by blast
  with 0(1) 1(1) show ?thesis by (intro exI conjI)
qed

theorem rollout_advances_witness:
  "(\<exists>new i. sample_rollout [turn_one, turn_two] = sample_rollout [turn_one] @ new \<and>
      appends_one_turn MAX_ROLLOUT_LINE_BYTES new i (U ''gpt'') (U ''high'') \<and> i = turn_two) \<or>
   (\<exists>x. prefix x (sample_rollout [turn_one, turn_two]) \<and> x \<noteq> sample_rollout [turn_one] \<and>
      sha256 x = sha256 (sample_rollout [turn_one]))"
proof -
  have one: "attach_codex_rollout_selection (sample_read [turn_one]) sample_turn None None (U ''gpt'') (U ''high'') =
    Inr (sample_turn\<lparr>tr_observed_model := Some (U ''gpt''), tr_observed_effort := Some (U ''high'')\<rparr>, [turn_one],
         se_rollout_prefix (sample_selection [turn_one]))"
    by (rule sample_attach) simp_all
  have two: "attach_codex_rollout_selection (sample_read [turn_one, turn_two]) sample_turn (Some [turn_one])
      (Some (se_rollout_prefix (sample_selection [turn_one]))) (U ''gpt'') (U ''high'') =
    Inr (sample_turn\<lparr>tr_observed_model := Some (U ''gpt''), tr_observed_effort := Some (U ''high'')\<rparr>, [turn_one, turn_two],
         se_rollout_prefix (sample_selection [turn_one, turn_two]))"
    by (rule sample_attach) (simp_all add: turn_ids_ok)
  show ?thesis using rollout_advances [OF one two] by (auto simp: sample_read_def)
qed

text \<open>C18. The rendered configuration of the author denies what it has to, in the tables where a deny
  counts. Directly under the header of the profile's filesystem table, with no other header before
  them, stand the denies of the two temporary roots, of the control directory and of every host path
  that was given; in the same way, in the table of the workspace roots, those of the Git patterns,
  whatever the opt-ins are, and of every other workspace pattern that is not one of the reserved
  mount points and does not cover an opt-in; and the network table disables the network. The root
  table, before any header, makes this profile the default one and never asks for approval.\<close>

theorem denies_rendered:
  assumes "render_lines c home = Inr ls"
  shows "(\<forall>p \<in> {U '':tmpdir'', U '':slash_tmp'', U ''/control''} \<union> set (cc_host_denies c).
      stands_in ls FILESYSTEM_TABLE (deny_text p)) \<and>
    (\<forall>p \<in> set (map U FIXED_GIT_DENIES). stands_in ls WORKSPACE_TABLE (deny_text p)) \<and>
    (\<forall>p \<in> set (map U FIXED_WORKSPACE_DENIES @ cc_workspace_denies c) - set (map U RESERVED_WORKSPACE_MOUNT_TARGETS).
      (\<forall>x \<in> set (cc_workspace_opt_ins c). deny_blocks_opt_in p x \<noteq> Inr True) \<longrightarrow> stands_in ls WORKSPACE_TABLE (deny_text p)) \<and>
    stands_in ls NETWORK_TABLE (U ''enabled = false'') \<and>
    stands_first ls (U (''default_permissions = '' @ dq ''agent_loop_author'')) \<and>
    stands_first ls (U (''approval_policy = '' @ dq ''never''))"
  using render_lines_deny [OF assms] by blast

theorem denies_rendered_witness:
  "\<exists>ls. render_lines sample_codex_config (U SANDBOX_CODEX_HOME) = Inr ls \<and>
     stands_in ls FILESYSTEM_TABLE (deny_text (U ''/home'')) \<and> stands_in ls WORKSPACE_TABLE (deny_text (U ''**/.git'')) \<and>
     stands_in ls WORKSPACE_TABLE (deny_text (U ''secrets/**''))"
proof -
  obtain ls where ls: "render_lines sample_codex_config (U SANDBOX_CODEX_HOME) = Inr ls"
    using sample_config_rendered by blast
  have "U ''/home'' \<in> set (cc_host_denies sample_codex_config)" "U ''**/.git'' \<in> set (map U FIXED_GIT_DENIES)"
    "U ''secrets/**'' \<in> set (cc_workspace_denies sample_codex_config) - set (map U RESERVED_WORKSPACE_MOUNT_TARGETS)"
    "cc_workspace_opt_ins sample_codex_config = []"
    by (simp_all add: sample_codex_config_def FIXED_GIT_DENIES_def RESERVED_WORKSPACE_MOUNT_TARGETS_def)
  with denies_rendered [OF ls] ls show ?thesis by (simp del: set_map)
qed

section \<open>The critic's reviews\<close>

text \<open>C15. A review that the critic's client accepts was asked for by the launch that \<open>critic_launch\<close>
  writes out in full: every argument of the command line (safe mode, no session, no permissions, no
  tools, two turns, the diagnostics, the schema of the output, the prompt), the bundle as the whole
  input, the private directory and every key and pinned value of the environment; it had more time
  than the vendor's own timeout; it came from a process
  that ended with status 0 within its bounds, whose output is one envelope without an error and with a
  well-formed review, an approval only if the local predicates grant it; and the API requests of that
  process, within the retry budget, all used one model and one effort, which are the ones that were
  asked for and the ones that are recorded.\<close>

theorem accepted_critic_review:
  assumes "claude_review transport bundle parent approval timeout exe_path model effort w = (Inr res, w')"
  shows "\<exists>call r. critic_launch bundle parent exe_path model effort call \<and> 300 < timeout \<and>
    transport call timeout DEFAULT_MAX_AGENT_OUTPUT_BYTES w = (Inr r, w') \<and> accepted_envelope r approval res \<and>
    requests_agree model effort (api_request_lines (pr_stderr r)) (cv_observed_model res, cv_observed_effort res)"
proof -
  have t: "300 < timeout"
    using assms by (auto simp: claude_review_def CLAUDE_API_TIMEOUT_MS_def split: if_splits)
  then obtain call r where
    "build_claude_invocation bundle parent exe_path (U ''/runtime/critic-cwd'') model effort = Inr call"
    "transport call timeout DEFAULT_MAX_AGENT_OUTPUT_BYTES w = (Inr r, w')"
    "critic_result_of r approval model effort = Inr res"
    using assms by (auto simp: claude_review_def CLAUDE_API_TIMEOUT_MS_def sbind_Inr_iff split: sum.splits if_splits)
  with t build_claude_invocation_Inr critic_result_accepted show ?thesis by blast
qed

theorem accepted_critic_review_witness:
  "requests_agree (Some (U ''claude-x'')) (Some (U ''high'')) [sample_request_line] (Some (U ''claude-x''), Some (U ''high''))"
proof -
  obtain res where r: "claude_review (\<lambda>_ _ _. ret sample_critic_process) sample_bundle sample_critic_environment
      sample_grant 400 (U ''/usr/local/bin/claude'') (Some (U ''claude-x'')) (Some (U ''high'')) (0::nat) = (Inr res, 0)"
    using sample_critic_review by blast
  have "requests_agree (Some (U ''claude-x'')) (Some (U ''high'')) [sample_request_line]
      (cv_observed_model res, cv_observed_effort res)"
    using accepted_critic_review [OF r] by (auto simp: sample_critic_process_def sample_request_lines)
  then show ?thesis
    by (cases "cv_observed_model res") (auto simp: requests_agree_def selection_agrees_def)
qed

text \<open>C16. The loop that collects the evidence of the critic's API requests computes its declarative
  reading: it returns a selection exactly if no request was recorded and none was asked for, or
  between one and the budget's number of requests were recorded, each in a well-formed diagnostic,
  all with that one model and effort, and with the requested ones where there were any.\<close>

theorem request_selection_exact:
  "parse_api_request_selection stderr model effort = Inr seen \<longleftrightarrow>
     requests_agree model effort (api_request_lines stderr) seen"
  by (rule parse_selection_Inr)

section \<open>The committed source\<close>

text \<open>C28. The reader of a tree listing accepts exactly the listings that a bounded, duplicate-free list of
  blobs with allowed modes and safe paths outside \<open>.git\<close> has, and returns that list.\<close>

theorem tree_listing_exact: "parse_ls_tree l data = Inr es \<longleftrightarrow> wf_tree l es \<and> data = render_tree es"
  by (rule parse_ls_tree_Inr)

text \<open>C12. The snapshot of the committed source holds exactly the committed tree: the tree of the commit
  that the repository named was listed in full, each object of the listing was read once, under its
  own name and within the limit, the manifest is well formed, within the limits and has exactly one
  entry for each entry of the listing with the bytes of its object. All of it ran in one unbroken
  chain of worlds from the call to the return: the lock was taken; the checkout, without a nested
  repository, was witnessed; the repository was checked, the tree listed, the objects read and the
  manifest built; then the same checkout was witnessed again and the lock given back. So a
  checkout that had changed in between is never extracted.\<close>

theorem committed_head_extracted:
  assumes "extract_committed_head host st put l n w = (Inr s, w')"
  shows "\<exists>es os w0 w1 w2 w3 w4 w5. gh_acquire host w = (Inr (), w0) \<and> witnessed_around host n w0 w1 w4 w5 \<and>
    verify_basic_shape host st w1 = (Inr (gss_revision s, gss_tree_object_id s), w2) \<and>
    committed_tree host st l (gss_tree_object_id s) es os w2 w3 \<and>
    build_manifest_from_scan l put (map (scan_of os) es) w3 = (Inr (gss_manifest s), w4) \<and>
    manifest_of l es os (gss_manifest s) \<and> gh_release host w5 = (Inr (), w')"
  using assms by (rule extract_committed_head_Inr)

theorem committed_head_extracted_witness:
  "\<exists>es os w0 w1 w2 w3 w4 w5. witnessed_around sample_host 10 w0 w1 w4 w5 \<and>
    committed_tree sample_host sample_settings default_limits (sample_oid CHR ''d'') es os w2 w3 \<and>
    manifest_of default_limits es os sample_tree_manifest \<and> gh_release sample_host w5 = (Inr (), 0)"
  using committed_head_extracted [OF sample_extracted, of 0] by (simp add: sample_snapshot_def) blast

section \<open>The pair of credentials\<close>

text \<open>C7. Whenever and however often the commit of a refreshed pair of credentials and the recoveries
  after it are cut off, no half-updated pair can be taken for a whole one: without a journal on the
  disk, the old pair is untouched or the new one complete; with a journal, it is the one of this
  transition, each file holds the old or the new login, and unless the new pair is already complete
  both candidates are still there to finish it.\<close>

theorem pair_survives_crashes:
  assumes "wf_plan env pl" and "pair_prepared pl d0" and "after_crashes env pl cleanup d0 d"
  shows "if dk_journal d = Missing then untouched pl d \<or> complete pl d
    else dk_journal d = Stored (plan_journal pl) \<and> on_pair pl d \<and> (complete pl d \<or> (\<forall>p. staged pl p d))"
  using after_crashes_ok [OF assms] by (auto simp: crash_ok_def journaled_def)

theorem pair_survives_crashes_witness:
  "on_pair sample_pair_plan journaled_disk \<and> (complete sample_pair_plan journaled_disk \<or> (\<forall>p. staged sample_pair_plan p journaled_disk))"
  using pair_survives_crashes [OF sample_pair_wf sample_pair_prepared sample_crash] by (simp add: journaled_disk_def)

text \<open>C8. After any such crashes, as long as each candidate is there whole or not at all and the evidence
  barriers do not object, the recovery returns; it leaves no journal, and either there was none and
  the pair is as it was, the old or the new one, or the new pair is complete and no transaction is
  left.\<close>

theorem recovery_completes:
  assumes "wf_plan env pl" and "pair_prepared pl d0" and "after_crashes env pl cleanup d0 d"
    and "barriers_pass env" and "intact pl d"
  shows "\<exists>s. run_on (recover_journal env) d w = (Inr (), s) \<and> dk_journal (ps_disk s) = Missing \<and>
    (ps_disk s = d \<and> (untouched pl d \<or> complete pl d) \<or>
     complete pl (ps_disk s) \<and> (\<forall>p. ac_transactions (account_of p (ps_disk s)) = []))"
proof -
  have c: "crash_ok pl d" by (rule after_crashes_ok [OF assms(1-3)])
  then obtain s where "run_on (recover_journal env) d w = (Inr (), s)" "recovered pl True d (ps_disk s)"
    using recovery_returns [OF assms(1) _ assms(4,5)] by blast
  with c show ?thesis by (auto simp: recovered_def finished_def crash_ok_def journaled_def)
qed

theorem recovery_completes_witness:
  "\<exists>s. run_on (recover_journal sample_pair_env) journaled_disk 0 = (Inr (), s) \<and> complete sample_pair_plan (ps_disk s)"
  using recovery_completes [OF sample_pair_wf sample_pair_prepared sample_crash sample_barriers sample_crash_intact, of 0]
  by (auto simp: journaled_disk_def)

text \<open>C25. The commit of a pair of valid logins that are staged in both accounts always returns, with the new
  pair complete under its marker, no journal, and the transactions removed or rebased on the new pair.\<close>

theorem staged_pair_commits:
  assumes "wf_plan env pl" and "pair_prepared pl d"
  shows "\<exists>s. run_on (commit_transition env (pl_transition pl) (pl_new pl ClaudeProvider) (pl_new pl CodexProvider) cleanup) d w =
      (Inr (), s) \<and> complete pl (ps_disk s) \<and> dk_journal (ps_disk s) = Missing \<and> finished pl cleanup (ps_disk s)"
  by (rule commit_returns [OF assms])

theorem staged_pair_commits_witness:
  "\<exists>s. run_on (commit_transition sample_pair_env (pl_transition sample_pair_plan) (sample_login ''new'') ''{ }'' True) sample_disk 0 =
      (Inr (), s) \<and> complete sample_pair_plan (ps_disk s) \<and> (\<forall>p. ac_transactions (account_of p (ps_disk s)) = [])"
  using staged_pair_commits [OF sample_pair_wf sample_pair_prepared, of True 0]
  unfolding sample_pair_logins finished_def if_True by blast

text \<open>C26. The reader of the journal accepts exactly what the writer writes, and returns the transition that
  was written.\<close>

theorem journal_read_back:
  "strict_pair_transition data = Inr t \<longleftrightarrow> pair_transition_bytes t = Inr data"
  by (rule strict_pair_transition_Inr)

end
